(* ===== verification/Mini32_Prelude.thy ===== *)
theory Mini32_Prelude
  imports Main "HOL-Library.Word"
begin

text \<open>
  What every component of the Mini32 development shares: the fixed-width integer types of the
  C++ sources, the result type of code that may throw or run into undefined behaviour, checked
  access to a \<^verbatim>\<open>std::array\<close>, the little-endian byte order used by both memories, and the
  generic lemmas on words and results that carry the component proofs.
\<close>

unbundle bit_operations_syntax

named_theorems result_simps \<open>rewriting of computations in the result type\<close>
named_theorems mask_simps \<open>the literal bit masks of the sources as truncations\<close>
named_theorems address_simps \<open>the address constants of the memory map\<close>

section \<open>Machine integers\<close>

text \<open>
  \<^verbatim>\<open>std::uint8_t\<close>, \<^verbatim>\<open>std::uint16_t\<close>, \<^verbatim>\<open>std::uint32_t\<close>, and \<^verbatim>\<open>std::size_t\<close> /
  \<^verbatim>\<open>unsigned long long\<close> of a 64-bit host.
\<close>

type_synonym u8 = "8 word"
type_synonym u16 = "16 word"
type_synonym u32 = "32 word"
type_synonym u64 = "64 word"

section \<open>Results of code that may fail\<close>

text \<open>
  A C++ function can leave by an exception, or reach undefined behaviour: an element of a
  \<^verbatim>\<open>std::array\<close> past its end, or a dereference of an empty \<^verbatim>\<open>std::optional\<close>, or the
  characters at a null pointer. Each is a value
  of \<open>cpp_error\<close>; a function that can fail returns \<open>Inl\<close> of it.
\<close>

datatype cpp_error =
    Throw_out_of_range string
  | Throw_invalid_argument string
  | Undefined_array_index
  | Undefined_empty_optional
  | Undefined_null_string

type_synonym 'a result = "cpp_error + 'a"

fun bindE :: "'a result \<Rightarrow> ('a \<Rightarrow> 'b result) \<Rightarrow> 'b result" where
  "bindE (Inl e) f = Inl e"
| "bindE (Inr x) f = f x"

declare bindE.simps [result_simps]

lemma bindE_Inr_iff [result_simps]:
  "bindE m f = Inr y \<longleftrightarrow> (\<exists>x. m = Inr x \<and> f x = Inr y)"
  by (cases m) simp_all

lemma bindE_cong [fundef_cong]:
  "m = m' \<Longrightarrow> (\<And>x. m' = Inr x \<Longrightarrow> f x = f' x) \<Longrightarrow> bindE m f = bindE m' f'"
  by (cases m') simp_all

lemma bindE_assoc: "bindE (bindE m f) g = bindE m (\<lambda>x. bindE (f x) g)"
  by (cases m) simp_all

text \<open>\<open>*o\<close> and \<open>o->\<close> on a \<^verbatim>\<open>std::optional\<close>.\<close>

definition deref :: "'a option \<Rightarrow> 'a result" where
  "deref v = (case v of None \<Rightarrow> Inl Undefined_empty_optional | Some x \<Rightarrow> Inr x)"

lemma deref_simps [simp, result_simps]:
  "deref (Some x) = Inr x" "deref None = Inl Undefined_empty_optional"
  by (simp_all add: deref_def)

text \<open>\<open>a[i]\<close> and \<open>a[i] = v\<close> on a \<^verbatim>\<open>std::array\<close>.\<close>

definition array_get :: "'a list \<Rightarrow> nat \<Rightarrow> 'a result" where
  "array_get xs i = (if i < length xs then Inr (xs ! i) else Inl Undefined_array_index)"

definition array_set :: "'a list \<Rightarrow> nat \<Rightarrow> 'a \<Rightarrow> 'a list result" where
  "array_set xs i v = (if i < length xs then Inr (xs[i := v]) else Inl Undefined_array_index)"

lemma array_get_ok [simp, result_simps]: "i < length xs \<Longrightarrow> array_get xs i = Inr (xs ! i)"
  by (simp add: array_get_def)

lemma array_set_ok [simp, result_simps]: "i < length xs \<Longrightarrow> array_set xs i v = Inr (xs[i := v])"
  by (simp add: array_set_def)

section \<open>Words\<close>

lemma and_literal_masks [mask_simps]:
  fixes x :: "'a :: len word"
  shows "x AND 0x3 = take_bit 2 x"
    and "x AND 0x1F = take_bit 5 x"
    and "x AND 0xFF = take_bit 8 x"
    and "x AND 0x7FF = take_bit 11 x"
    and "x AND 0xFFFF = take_bit 16 x"
    and "x AND 0x1FFFFF = take_bit 21 x"
    and "x AND 0x03FFFFFF = take_bit 26 x"
  by (simp_all add: take_bit_eq_mask mask_numeral mask_eq_exp_minus_1)

lemma aligned_iff_dvd: "(a :: u32) AND 0x3 = 0 \<longleftrightarrow> 4 dvd unat a"
proof -
  have "a AND 0x3 = a AND mask 2"
    by (simp add: mask_eq_exp_minus_1)
  then show ?thesis
    using and_mask_dvd_nat [of 2 a] by simp
qed

lemma take_bit_32_uint [simp]: "take_bit 32 (uint (x :: u32)) = uint x"
  using uint_lt2p [of x] by (simp add: take_bit_int_eq_self)

lemma take_bit_32_unat [simp]: "take_bit 32 (unat (x :: u32)) = unat x"
  using unsigned_less [of x, where ?'a = nat] by (simp add: take_bit_nat_eq_self)

lemma uint_u32_range: "0 \<le> uint (x :: u32)" "uint (x :: u32) < 2 ^ 32"
  using uint_lt2p [of x] by simp_all

lemma single_bit_mask_iff:
  "(x :: 'a :: len word) AND 2 ^ n \<noteq> 0 \<longleftrightarrow> n < LENGTH('a) \<and> bit x n"
proof
  assume "x AND 2 ^ n \<noteq> 0"
  then obtain m where "bit (x AND 2 ^ n) m"
    by (auto simp add: bit_eq_iff)
  then show "n < LENGTH('a) \<and> bit x n"
    by (auto simp add: bit_simps)
next
  assume "n < LENGTH('a) \<and> bit x n"
  then have "bit (x AND 2 ^ n) n"
    by (simp add: bit_simps)
  then show "x AND 2 ^ n \<noteq> 0"
    by auto
qed

lemma and_1_neq_0_iff: "((x :: u32) AND 1 \<noteq> 0) = odd x"
  using single_bit_mask_iff [of x 0] by (simp add: bit_0)

lemma sign_bit_u32: "((x :: u32) AND 0x80000000 \<noteq> 0) = bit x 31"
  using single_bit_mask_iff [of x 31] by simp

lemma sign_bit_u16: "((x :: u16) AND 0x8000 = 0) = (\<not> bit x 15)"
  using single_bit_mask_iff [of x 15] by auto

lemma unat_ucast_up:
  fixes x :: "'a :: len word"
  assumes "LENGTH('a) \<le> LENGTH('b :: len)"
  shows "unat (ucast x :: 'b word) = unat x"
proof -
  have "unat x < 2 ^ LENGTH('b)"
    using unsigned_less [of x, where ?'a = nat] assms
    by (meson less_le_trans one_le_numeral power_increasing)
  then show ?thesis
    by (simp add: unsigned_ucast_eq take_bit_nat_eq_self)
qed

lemma ucast_up_eq_iff:
  fixes x y :: "'a :: len word"
  assumes "LENGTH('a) \<le> LENGTH('b :: len)"
  shows "(ucast x :: 'b word) = ucast y \<longleftrightarrow> x = y"
  by (metis assms unat_ucast_up word_unat_eq_iff)

section \<open>Words of an address window\<close>

text \<open>
  The byte address of the \<open>i\<close>-th word of a window: a 64 KiB memory has 14-bit word indices, a
  16-byte device window 2-bit ones.
\<close>

definition word_address :: "u32 \<Rightarrow> 'n :: len word \<Rightarrow> u32" where
  "word_address base i = base + push_bit 2 (ucast i)"

definition window_ok :: "u32 \<Rightarrow> 'n :: len itself \<Rightarrow> bool" where
  "window_ok base _ \<longleftrightarrow> 4 dvd unat base \<and> unat base + 4 * 2 ^ LENGTH('n) \<le> 2 ^ 32"

lemma unat_word_address:
  fixes i :: "'n :: len word"
  assumes "window_ok base TYPE('n)"
  shows "unat (word_address base i) = unat base + 4 * unat i"
proof -
  have "unat i < 2 ^ LENGTH('n)"
    by (rule unsigned_less)
  then have lt: "unat base + 4 * unat i < 2 ^ 32"
    using assms unfolding window_ok_def by linarith
  have "push_bit 2 (ucast i) = (4 * of_nat (unat i) :: u32)"
    by (simp add: push_bit_eq_mult)
  then have "word_address base i = of_nat (unat base + 4 * unat i)"
    by (simp add: word_address_def)
  then show ?thesis
    using lt by (simp add: unsigned_of_nat take_bit_nat_eq_self del: of_nat_add of_nat_mult)
qed

lemma word_address_aligned:
  "window_ok base TYPE('n :: len) \<Longrightarrow> word_address base (i :: 'n word) AND 0x3 = 0"
  by (simp add: aligned_iff_dvd unat_word_address window_ok_def)

lemma unat_word_offset:
  "window_ok base TYPE('n :: len) \<Longrightarrow> unat (word_address base (i :: 'n word) - base) = 4 * unat i"
  using unat_word_address [of base i] by (simp add: word_le_nat_alt unat_sub)

lemma word_address_inject:
  "window_ok base TYPE('n :: len) \<Longrightarrow>
   word_address base (i :: 'n word) = word_address base j \<longleftrightarrow> i = j"
  by (auto simp: word_unat_eq_iff [of "word_address base i"] word_unat_eq_iff [of i] unat_word_address)

lemma word_address_surj:
  assumes w: "window_ok base TYPE('n :: len)"
    and a: "a AND 0x3 = 0" "base \<le> a" "unat a < unat base + 4 * 2 ^ LENGTH('n)"
  shows "\<exists>i :: 'n word. a = word_address base i"
proof -
  define k where "k = (unat a - unat base) div 4"
  have "4 dvd unat a" "4 dvd unat base" "unat base \<le> unat a"
    using w a by (simp_all add: aligned_iff_dvd window_ok_def word_le_nat_alt)
  then have k: "unat a = unat base + 4 * k" "k < 2 ^ LENGTH('n)"
    using a(3) by (auto simp: k_def elim!: dvdE)
  have "unat a = unat (word_address base (of_nat k :: 'n word))"
    using k by (simp add: unat_word_address [OF w] unsigned_of_nat take_bit_nat_eq_self)
  then show ?thesis
    by (blast intro: word_unat_eq_iff [THEN iffD2])
qed

section \<open>Little-endian words\<close>

text \<open>
  Both memories keep bytes and assemble a 32-bit word with the least significant byte at the
  lowest address.
\<close>

definition le_join :: "u8 \<Rightarrow> u8 \<Rightarrow> u8 \<Rightarrow> u8 \<Rightarrow> u32" where
  "le_join b0 b1 b2 b3 =
     ucast b0 OR push_bit 8 (ucast b1) OR push_bit 16 (ucast b2) OR push_bit 24 (ucast b3)"

definition le_byte :: "nat \<Rightarrow> u32 \<Rightarrow> u8" where
  "le_byte k w = ucast (drop_bit (8 * k) w AND 0xFF)"

definition le_bytes :: "u32 \<Rightarrow> u8 list" where
  "le_bytes w = [le_byte 0 w, le_byte 1 w, le_byte 2 w, le_byte 3 w]"

lemma length_le_bytes [simp]: "length (le_bytes w) = 4"
  by (simp add: le_bytes_def)

lemma ucast_low_byte: "(ucast ((w :: u32) AND 0xFF) :: u8) = ucast w"
  by (rule bit_word_eqI) (simp add: mask_simps bit_simps)

lemma bit_le_byte: "bit (le_byte k w) n \<longleftrightarrow> n < 8 \<and> bit w (8 * k + n)"
  by (auto simp add: le_byte_def mask_simps bit_simps)

lemma bit_le_join:
  "bit (le_join b0 b1 b2 b3) n \<longleftrightarrow>
     (if n < 8 then bit b0 n else if n < 16 then bit b1 (n - 8)
      else if n < 24 then bit b2 (n - 16) else n < 32 \<and> bit b3 (n - 24))"
  by (auto simp add: le_join_def bit_simps dest: bit_imp_le_length)

lemma le_join_le_byte: "le_join (le_byte 0 w) (le_byte 1 w) (le_byte 2 w) (le_byte 3 w) = w"
  by (rule bit_word_eqI) (auto simp add: bit_le_join bit_le_byte)

lemma le_byte_le_join:
  "le_byte 0 (le_join b0 b1 b2 b3) = b0" "le_byte 1 (le_join b0 b1 b2 b3) = b1"
  "le_byte 2 (le_join b0 b1 b2 b3) = b2" "le_byte 3 (le_join b0 b1 b2 b3) = b3"
  by (rule bit_word_eqI; auto simp add: bit_le_join bit_le_byte)+

text \<open>A loop that collects one result per element and stops at the first error.\<close>

primrec mapE :: "('a \<Rightarrow> 'b result) \<Rightarrow> 'a list \<Rightarrow> 'b list result" where
  "mapE f [] = Inr []"
| "mapE f (x # xs) = bindE (f x) (\<lambda>y. bindE (mapE f xs) (\<lambda>ys. Inr (y # ys)))"

lemma mapE_ok: "(\<And>x. x \<in> set xs \<Longrightarrow> f x = Inr (g x)) \<Longrightarrow> mapE f xs = Inr (map g xs)"
  by (induction xs) simp_all

section \<open>Machines\<close>

lemma upt_0_Suc: "[0..<Suc n] = 0 # map Suc [0..<n]"
  by (simp add: upt_conv_Cons map_Suc_upt del: upt_Suc)

text \<open>A number of steps of a machine in a row, up to the first error.\<close>

primrec iterateE :: "('s \<Rightarrow> 's result) \<Rightarrow> nat \<Rightarrow> 's \<Rightarrow> 's result" where
  "iterateE f 0 s = Inr s"
| "iterateE f (Suc n) s = bindE (f s) (iterateE f n)"

text \<open>A machine whose invariant excludes every error.\<close>

locale safe_machine =
  fixes inv :: "'s \<Rightarrow> bool" and advance :: "'s \<Rightarrow> 's result"
  assumes safe: "inv s \<Longrightarrow> \<exists>s'. advance s = Inr s' \<and> inv s'"
begin

lemma iterate_safe: "inv s \<Longrightarrow> \<exists>s'. iterateE advance n s = Inr s' \<and> inv s'"
proof (induction n arbitrary: s)
  case (Suc n)
  then show ?case using safe [of s] by auto
qed simp

end

text \<open>
  A safe machine driven by a loop that waits for \<open>stop\<close>: a rank that falls until then. The
  induction rule follows the iterations of the loop.
\<close>

locale stopping_machine = safe_machine inv advance
  for inv :: "'s \<Rightarrow> bool" and advance :: "'s \<Rightarrow> 's result" +
  fixes stop :: "'s \<Rightarrow> bool" and rank :: "'s \<Rightarrow> nat"
  assumes progress: "inv s \<Longrightarrow> \<not> stop s \<Longrightarrow> advance s = Inr s' \<Longrightarrow> stop s' \<or> rank s' < rank s"
    and running: "inv s \<Longrightarrow> \<not> stop s \<Longrightarrow> 0 < rank s"
begin

lemma loop_induct [consumes 1, case_names stopped tick]:
  assumes "inv s"
    and stopped: "\<And>s. inv s \<Longrightarrow> stop s \<Longrightarrow> P s"
    and tick: "\<And>s s'. inv s \<Longrightarrow> \<not> stop s \<Longrightarrow> advance s = Inr s' \<Longrightarrow> P s' \<Longrightarrow> P s"
  shows "P s"
  using assms(1)
proof (induction "rank s" arbitrary: s rule: less_induct)
  case less
  show ?case
  proof (cases "stop s")
    case False
    obtain s' where s': "advance s = Inr s'" "inv s'"
      using safe [OF less.prems] by blast
    then have "P s'"
      using progress [OF less.prems False] less.hyps stopped by blast
    with less.prems False s' show ?thesis by (blast intro: tick)
  qed (use less.prems in \<open>rule stopped\<close>)
qed

text \<open>The loop ends, in at most as many iterations as the rank it starts from.\<close>

lemma loop_ends:
  assumes "inv s"
  shows "\<exists>n \<le> rank s. \<exists>s'. iterateE advance n s = Inr s' \<and> inv s' \<and> stop s'"
  using assms
proof (induction "rank s" arbitrary: s rule: less_induct)
  case less
  show ?case
  proof (cases "stop s")
    case True
    with less.prems show ?thesis by (intro exI [of _ 0]) simp
  next
    case False
    obtain s1 where s1: "advance s = Inr s1" "inv s1"
      using safe [OF less.prems] by blast
    have "\<exists>n < rank s. \<exists>s'. iterateE advance n s1 = Inr s' \<and> inv s' \<and> stop s'"
    proof (cases "stop s1")
      case True
      with s1 running [OF less.prems False] show ?thesis by (intro exI [of _ 0]) simp
    next
      case stop1: False
      then have "rank s1 < rank s"
        using progress [OF less.prems False s1(1)] by blast
      with less.hyps [OF this s1(2)] show ?thesis by (meson order_le_less_trans)
    qed
    then obtain n s' where "n < rank s" "iterateE advance n s1 = Inr s'" "inv s'" "stop s'"
      by blast
    with s1 show ?thesis by (intro exI [of _ "Suc n"]) simp
  qed
qed

end

end
