(* ===== verification/Isa.thy ===== *)
theory Isa
  imports Mini32_Prelude
begin

text \<open>
  The constants and the opcode enumeration of \<^verbatim>\<open>simulator/include/mini32/isa.hpp\<close>. A value of the C++
  enumeration is any \<^verbatim>\<open>std::uint8_t\<close>; the ones that no enumerator names are \<open>Opcode_Unnamed\<close>,
  so that the \<^verbatim>\<open>default\<close> branches of the sources are branches of the model.
\<close>

definition kRegisterCount :: u8 where
  "kRegisterCount = 32"

definition kInstructionAlignment :: u32 where
  "kInstructionAlignment = 4"

datatype Opcode =
    Opcode_Nop | Opcode_Add | Opcode_Sub | Opcode_And | Opcode_Or | Opcode_Xor
  | Opcode_Slt | Opcode_Shl | Opcode_Shr | Opcode_Addi | Opcode_Andi | Opcode_Ori
  | Opcode_Xori | Opcode_Lui | Opcode_Lw | Opcode_Sw | Opcode_Beq | Opcode_Bne
  | Opcode_Blt | Opcode_Bge | Opcode_J | Opcode_Jal | Opcode_Jr | Opcode_Halt
  | Opcode_Unnamed u8

text \<open>\<^verbatim>\<open>static_cast<std::uint8_t>(opcode)\<close> and \<^verbatim>\<open>static_cast<Opcode>(raw)\<close>.\<close>

fun opcode_value :: "Opcode \<Rightarrow> u8" where
  "opcode_value Opcode_Nop = 0x00"
| "opcode_value Opcode_Add = 0x01"
| "opcode_value Opcode_Sub = 0x02"
| "opcode_value Opcode_And = 0x03"
| "opcode_value Opcode_Or = 0x04"
| "opcode_value Opcode_Xor = 0x05"
| "opcode_value Opcode_Slt = 0x06"
| "opcode_value Opcode_Shl = 0x07"
| "opcode_value Opcode_Shr = 0x08"
| "opcode_value Opcode_Addi = 0x09"
| "opcode_value Opcode_Andi = 0x0A"
| "opcode_value Opcode_Ori = 0x0B"
| "opcode_value Opcode_Xori = 0x0C"
| "opcode_value Opcode_Lui = 0x0D"
| "opcode_value Opcode_Lw = 0x0E"
| "opcode_value Opcode_Sw = 0x0F"
| "opcode_value Opcode_Beq = 0x10"
| "opcode_value Opcode_Bne = 0x11"
| "opcode_value Opcode_Blt = 0x12"
| "opcode_value Opcode_Bge = 0x13"
| "opcode_value Opcode_J = 0x14"
| "opcode_value Opcode_Jal = 0x15"
| "opcode_value Opcode_Jr = 0x16"
| "opcode_value Opcode_Halt = 0x17"
| "opcode_value (Opcode_Unnamed raw) = raw"

definition named_opcodes :: "Opcode list" where
  "named_opcodes =
     [Opcode_Nop, Opcode_Add, Opcode_Sub, Opcode_And, Opcode_Or, Opcode_Xor, Opcode_Slt,
      Opcode_Shl, Opcode_Shr, Opcode_Addi, Opcode_Andi, Opcode_Ori, Opcode_Xori, Opcode_Lui,
      Opcode_Lw, Opcode_Sw, Opcode_Beq, Opcode_Bne, Opcode_Blt, Opcode_Bge, Opcode_J,
      Opcode_Jal, Opcode_Jr, Opcode_Halt]"

definition opcode_cast :: "u8 \<Rightarrow> Opcode" where
  "opcode_cast raw = (if raw < 24 then named_opcodes ! unat raw else Opcode_Unnamed raw)"

section \<open>The enumerators are exactly the values up to Halt\<close>

lemma u8_below_24_cases:
  fixes raw :: u8
  assumes "raw < 24"
  shows "raw \<in> set [0, 1, 2, 3, 4, 5, 6, 7, 8, 9, 10, 11, 12, 13, 14, 15, 16, 17, 18, 19, 20,
                    21, 22, 23]"
proof -
  have lt: "unat raw < 24"
    using assms by (simp add: word_less_nat_alt)
  have "raw = of_nat (unat raw)"
    by simp
  also have "\<dots> \<in> of_nat ` set [0..<24]"
    using lt by (intro imageI) simp
  also have "of_nat ` set [0..<24] \<subseteq> set [0, 1, 2, 3, 4, 5, 6, 7, 8, 9, 10, 11, 12, 13, 14, 15,
      16, 17, 18, 19, 20, 21, 22, 23 :: u8]"
    by (simp add: upt_rec)
  finally show ?thesis .
qed

lemma opcode_value_cast [simp]: "opcode_value (opcode_cast raw) = raw"
proof (cases "raw < 24")
  case True
  from u8_below_24_cases [OF True] show ?thesis
    by (auto simp add: opcode_cast_def named_opcodes_def)
next
  case False
  then show ?thesis by (simp add: opcode_cast_def)
qed

lemma opcode_cast_named [simp]:
  "opcode_cast 0 = Opcode_Nop" "opcode_cast 1 = Opcode_Add" "opcode_cast 2 = Opcode_Sub"
  "opcode_cast 3 = Opcode_And" "opcode_cast 4 = Opcode_Or" "opcode_cast 5 = Opcode_Xor"
  "opcode_cast 6 = Opcode_Slt" "opcode_cast 7 = Opcode_Shl" "opcode_cast 8 = Opcode_Shr"
  "opcode_cast 9 = Opcode_Addi" "opcode_cast 10 = Opcode_Andi" "opcode_cast 11 = Opcode_Ori"
  "opcode_cast 12 = Opcode_Xori" "opcode_cast 13 = Opcode_Lui" "opcode_cast 14 = Opcode_Lw"
  "opcode_cast 15 = Opcode_Sw" "opcode_cast 16 = Opcode_Beq" "opcode_cast 17 = Opcode_Bne"
  "opcode_cast 18 = Opcode_Blt" "opcode_cast 19 = Opcode_Bge" "opcode_cast 20 = Opcode_J"
  "opcode_cast 21 = Opcode_Jal" "opcode_cast 22 = Opcode_Jr" "opcode_cast 23 = Opcode_Halt"
  by (simp_all add: opcode_cast_def named_opcodes_def)

end
