(* ===== verification/Alu.thy ===== *)
theory Alu
  imports Mini32_Prelude
begin

text \<open>
  The combinational ALU, \<^verbatim>\<open>simulator/include/mini32/alu.hpp\<close> and \<^verbatim>\<open>simulator/src/alu.cpp\<close>, with its equivalence to
  two's-complement arithmetic on integers.
\<close>

datatype AluOperation =
    AluOperation_Add | AluOperation_Sub | AluOperation_And | AluOperation_Or
  | AluOperation_Xor | AluOperation_Slt | AluOperation_ShiftLeft | AluOperation_ShiftRight

definition signed_less_than :: "u32 \<Rightarrow> u32 \<Rightarrow> bool" where
  "signed_less_than lhs rhs =
     (let lhs_negative = (lhs AND 0x80000000 \<noteq> 0);
          rhs_negative = (rhs AND 0x80000000 \<noteq> 0)
      in if lhs_negative \<noteq> rhs_negative then lhs_negative else lhs < rhs)"

fun Alu_execute :: "AluOperation \<Rightarrow> u32 \<Rightarrow> u32 \<Rightarrow> u32" where
  "Alu_execute AluOperation_Add lhs rhs = lhs + rhs"
| "Alu_execute AluOperation_Sub lhs rhs = lhs - rhs"
| "Alu_execute AluOperation_And lhs rhs = lhs AND rhs"
| "Alu_execute AluOperation_Or lhs rhs = lhs OR rhs"
| "Alu_execute AluOperation_Xor lhs rhs = lhs XOR rhs"
| "Alu_execute AluOperation_Slt lhs rhs = (if signed_less_than lhs rhs then 1 else 0)"
| "Alu_execute AluOperation_ShiftLeft lhs rhs = push_bit (unat (rhs AND 0x1F)) lhs"
| "Alu_execute AluOperation_ShiftRight lhs rhs = drop_bit (unat (rhs AND 0x1F)) lhs"

section \<open>Signed comparison\<close>

lemma sint_u32: "sint (x :: u32) = (if bit x 31 then uint x - 2 ^ 32 else uint x)"
  by (simp add: sint_uint signed_take_bit_eq_take_bit_minus bit_uint_iff)

lemma signed_less_than_sint: "signed_less_than lhs rhs \<longleftrightarrow> sint lhs < sint rhs"
proof (cases "bit lhs 31 = bit rhs 31")
  case True
  then show ?thesis
    by (simp add: signed_less_than_def sign_bit_u32 sint_u32 word_less_def)
next
  case False
  then show ?thesis
    using uint_u32_range [of lhs] uint_u32_range [of rhs]
    by (simp add: signed_less_than_def sign_bit_u32 sint_u32, linarith)
qed

section \<open>The ISA document's reading of each operation\<close>

text \<open>
  \<^verbatim>\<open>docs/isa.md\<close>: two's-complement 32-bit wrapping arithmetic, a signed \<^verbatim>\<open>SLT\<close>, and logical shifts by
  the low five bits of the second operand. The reference works on unbounded integers.
\<close>

fun alu_reference :: "AluOperation \<Rightarrow> u32 \<Rightarrow> u32 \<Rightarrow> int" where
  "alu_reference AluOperation_Add lhs rhs = (uint lhs + uint rhs) mod 2 ^ 32"
| "alu_reference AluOperation_Sub lhs rhs = (uint lhs - uint rhs) mod 2 ^ 32"
| "alu_reference AluOperation_And lhs rhs = uint lhs AND uint rhs"
| "alu_reference AluOperation_Or lhs rhs = uint lhs OR uint rhs"
| "alu_reference AluOperation_Xor lhs rhs = uint lhs XOR uint rhs"
| "alu_reference AluOperation_Slt lhs rhs = (if sint lhs < sint rhs then 1 else 0)"
| "alu_reference AluOperation_ShiftLeft lhs rhs =
     (uint lhs * 2 ^ (unat rhs mod 32)) mod 2 ^ 32"
| "alu_reference AluOperation_ShiftRight lhs rhs = uint lhs div 2 ^ (unat rhs mod 32)"

lemma shift_amount: "unat ((rhs :: u32) AND 0x1F) = unat rhs mod 32"
proof -
  have "unat (rhs AND 0x1F) = take_bit 5 (unat rhs)"
    by (simp only: mask_simps unsigned_take_bit_eq)
  then show ?thesis
    by (simp only: take_bit_eq_mod) simp
qed

lemma uint_push_bit: "uint (push_bit n (x :: u32)) = (uint x * 2 ^ n) mod 2 ^ 32"
proof -
  have "uint (push_bit n x) = take_bit 32 (push_bit n (uint x))"
    by (simp add: unsigned_push_bit_eq)
  then show ?thesis
    by (simp only: take_bit_eq_mod push_bit_eq_mult)
qed

lemma uint_drop_bit: "uint (drop_bit n (x :: u32)) = uint x div 2 ^ n"
proof -
  have "uint (drop_bit n x) = drop_bit n (uint x)"
    by (simp add: unsigned_drop_bit_eq)
  then show ?thesis
    by (simp only: drop_bit_eq_div)
qed

text \<open>
  C23: every ALU operation computes the value the ISA document gives it: addition and subtraction
  wrap modulo 2^32, SLT compares the operands as signed numbers, and both shifts use only the low
  five bits of the second operand.
\<close>

theorem Alu_execute_reference: "uint (Alu_execute operation lhs rhs) = alu_reference operation lhs rhs"
proof (cases operation)
  case AluOperation_ShiftLeft
  then show ?thesis
    by (simp only: Alu_execute.simps alu_reference.simps shift_amount uint_push_bit)
next
  case AluOperation_ShiftRight
  then show ?thesis
    by (simp only: Alu_execute.simps alu_reference.simps shift_amount uint_drop_bit)
qed (simp_all add: uint_word_ariths signed_less_than_sint
      unsigned_and_eq unsigned_or_eq unsigned_xor_eq)

end
