(* ===== verification/Decoder.thy ===== *)
theory Decoder
  imports Isa Alu
begin

text \<open>
  The combinational decoder, \<^verbatim>\<open>simulator/include/mini32/decoder.hpp\<close> and \<^verbatim>\<open>simulator/src/decoder.cpp\<close>: instruction
  words to decoded fields, opcodes to control signals, and the immediate generator.
\<close>

section \<open>Data\<close>

datatype DecodeError =
  DecodeError_None | DecodeError_IllegalOpcode | DecodeError_MalformedEncoding

record DecodedInstruction =
  di_opcode :: Opcode
  di_rd :: u8
  di_rs1 :: u8
  di_rs2 :: u8
  di_imm16 :: u16
  di_imm26 :: u32

record DecodeResult =
  dr_instruction :: "DecodedInstruction option"
  dr_error :: DecodeError

definition DecodeResult_ok :: "DecodeResult \<Rightarrow> bool" where
  "DecodeResult_ok r \<longleftrightarrow> dr_error r = DecodeError_None"

datatype WritebackSource = WritebackSource_Alu | WritebackSource_Memory | WritebackSource_PcPlus4

datatype RegisterDestination = RegisterDestination_DecodedRd | RegisterDestination_ReturnAddress

datatype ControlFlowKind =
    ControlFlowKind_Sequential | ControlFlowKind_ConditionalBranch
  | ControlFlowKind_RelativeJump | ControlFlowKind_RegisterJump

datatype BranchPredicate =
    BranchPredicate_None | BranchPredicate_Equal | BranchPredicate_NotEqual
  | BranchPredicate_SignedLessThan | BranchPredicate_SignedGreaterEqual

datatype ImmediateKind =
  ImmediateKind_None | ImmediateKind_Signed16 | ImmediateKind_ZeroExtended16 | ImmediateKind_Upper16

datatype MemoryOperation = MemoryOperation_None | MemoryOperation_Load | MemoryOperation_Store

record ControlSignals =
  reg_write :: bool
  alu_src_immediate :: bool
  alu_operation :: AluOperation
  writeback_source :: WritebackSource
  register_destination :: RegisterDestination
  immediate_kind :: ImmediateKind
  memory_operation :: MemoryOperation
  control_flow :: ControlFlowKind
  branch_predicate :: BranchPredicate
  halt :: bool

text \<open>\<^verbatim>\<open>ControlSignals{}\<close>: the default member initialisers.\<close>

definition ControlSignals_default :: ControlSignals where
  "ControlSignals_default =
     \<lparr>reg_write = False, alu_src_immediate = False, alu_operation = AluOperation_Add,
      writeback_source = WritebackSource_Alu,
      register_destination = RegisterDestination_DecodedRd,
      immediate_kind = ImmediateKind_None, memory_operation = MemoryOperation_None,
      control_flow = ControlFlowKind_Sequential, branch_predicate = BranchPredicate_None,
      halt = False\<rparr>"

definition DecodedInstruction_for :: "Opcode \<Rightarrow> DecodedInstruction" where
  "DecodedInstruction_for opcode =
     \<lparr>di_opcode = opcode, di_rd = 0, di_rs1 = 0, di_rs2 = 0, di_imm16 = 0, di_imm26 = 0\<rparr>"

section \<open>Formats\<close>

definition is_known_opcode :: "u8 \<Rightarrow> bool" where
  "is_known_opcode raw_opcode \<longleftrightarrow> raw_opcode \<le> opcode_value Opcode_Halt"

fun is_r_format :: "Opcode \<Rightarrow> bool" where
  "is_r_format Opcode_Nop = True"
| "is_r_format Opcode_Add = True"
| "is_r_format Opcode_Sub = True"
| "is_r_format Opcode_And = True"
| "is_r_format Opcode_Or = True"
| "is_r_format Opcode_Xor = True"
| "is_r_format Opcode_Slt = True"
| "is_r_format Opcode_Shl = True"
| "is_r_format Opcode_Shr = True"
| "is_r_format Opcode_Halt = True"
| "is_r_format _ = False"

datatype InstructionFormat = Format_R | Format_I | Format_S | Format_B | Format_J | Format_Jr

definition format_for :: "Opcode \<Rightarrow> InstructionFormat" where
  "format_for opcode =
     (if is_r_format opcode then Format_R
      else case opcode of
             Opcode_Addi \<Rightarrow> Format_I | Opcode_Andi \<Rightarrow> Format_I | Opcode_Ori \<Rightarrow> Format_I
           | Opcode_Xori \<Rightarrow> Format_I | Opcode_Lui \<Rightarrow> Format_I | Opcode_Lw \<Rightarrow> Format_I
           | Opcode_Sw \<Rightarrow> Format_S
           | Opcode_Beq \<Rightarrow> Format_B | Opcode_Bne \<Rightarrow> Format_B
           | Opcode_Blt \<Rightarrow> Format_B | Opcode_Bge \<Rightarrow> Format_B
           | Opcode_J \<Rightarrow> Format_J | Opcode_Jal \<Rightarrow> Format_J
           | Opcode_Jr \<Rightarrow> Format_Jr
           | _ \<Rightarrow> Format_R)"

section \<open>Decoder::decode\<close>

definition register_field :: "u32 \<Rightarrow> nat \<Rightarrow> u8" where
  "register_field instruction shift = ucast (drop_bit shift instruction AND 0x1F)"

definition decode_failure :: "DecodeError \<Rightarrow> DecodeResult" where
  "decode_failure e = \<lparr>dr_instruction = None, dr_error = e\<rparr>"

definition decoded_fields :: "Opcode \<Rightarrow> InstructionFormat \<Rightarrow> u32 \<Rightarrow> DecodedInstruction" where
  "decoded_fields opcode format instruction =
     (let decoded = DecodedInstruction_for opcode in
      case format of
        Format_R \<Rightarrow> decoded\<lparr>di_rd := register_field instruction 21,
                         di_rs1 := register_field instruction 16,
                         di_rs2 := register_field instruction 11\<rparr>
      | Format_I \<Rightarrow> decoded\<lparr>di_rd := register_field instruction 21,
                         di_rs1 := register_field instruction 16,
                         di_imm16 := ucast (instruction AND 0xFFFF)\<rparr>
      | Format_S \<Rightarrow> decoded\<lparr>di_rs2 := register_field instruction 21,
                         di_rs1 := register_field instruction 16,
                         di_imm16 := ucast (instruction AND 0xFFFF)\<rparr>
      | Format_B \<Rightarrow> decoded\<lparr>di_rs1 := register_field instruction 21,
                         di_rs2 := register_field instruction 16,
                         di_imm16 := ucast (instruction AND 0xFFFF)\<rparr>
      | Format_J \<Rightarrow> decoded\<lparr>di_imm26 := instruction AND 0x03FFFFFF\<rparr>
      | Format_Jr \<Rightarrow> decoded\<lparr>di_rs1 := register_field instruction 21\<rparr>)"

definition Decoder_decode :: "u32 \<Rightarrow> DecodeResult" where
  "Decoder_decode instruction =
     (let raw_opcode = ucast (drop_bit 26 instruction) in
      if \<not> is_known_opcode raw_opcode then decode_failure DecodeError_IllegalOpcode
      else
        let opcode = opcode_cast raw_opcode; format = format_for opcode in
        if (opcode = Opcode_Nop \<or> opcode = Opcode_Halt) \<and> instruction AND 0x03FFFFFF \<noteq> 0
        then decode_failure DecodeError_MalformedEncoding
        else if format = Format_R \<and> instruction AND 0x7FF \<noteq> 0
        then decode_failure DecodeError_MalformedEncoding
        else if format = Format_Jr \<and> instruction AND 0x1FFFFF \<noteq> 0
        then decode_failure DecodeError_MalformedEncoding
        else if opcode = Opcode_Lui \<and> drop_bit 16 instruction AND 0x1F \<noteq> 0
        then decode_failure DecodeError_MalformedEncoding
        else \<lparr>dr_instruction = Some (decoded_fields opcode format instruction),
              dr_error = DecodeError_None\<rparr>)"

section \<open>Decoder::control\_for\<close>

fun Decoder_control_for :: "Opcode \<Rightarrow> ControlSignals option" where
  "Decoder_control_for Opcode_Nop =
     Some (ControlSignals_default\<lparr>reg_write := False, alu_src_immediate := False,
             alu_operation := AluOperation_Add\<rparr>)"
| "Decoder_control_for Opcode_Add =
     Some (ControlSignals_default\<lparr>reg_write := True, alu_src_immediate := False,
             alu_operation := AluOperation_Add\<rparr>)"
| "Decoder_control_for Opcode_Sub =
     Some (ControlSignals_default\<lparr>reg_write := True, alu_src_immediate := False,
             alu_operation := AluOperation_Sub\<rparr>)"
| "Decoder_control_for Opcode_And =
     Some (ControlSignals_default\<lparr>reg_write := True, alu_operation := AluOperation_And\<rparr>)"
| "Decoder_control_for Opcode_Or =
     Some (ControlSignals_default\<lparr>reg_write := True, alu_operation := AluOperation_Or\<rparr>)"
| "Decoder_control_for Opcode_Xor =
     Some (ControlSignals_default\<lparr>reg_write := True, alu_operation := AluOperation_Xor\<rparr>)"
| "Decoder_control_for Opcode_Slt =
     Some (ControlSignals_default\<lparr>reg_write := True, alu_operation := AluOperation_Slt\<rparr>)"
| "Decoder_control_for Opcode_Shl =
     Some (ControlSignals_default\<lparr>reg_write := True, alu_operation := AluOperation_ShiftLeft\<rparr>)"
| "Decoder_control_for Opcode_Shr =
     Some (ControlSignals_default\<lparr>reg_write := True, alu_operation := AluOperation_ShiftRight\<rparr>)"
| "Decoder_control_for Opcode_Addi =
     Some (ControlSignals_default\<lparr>reg_write := True, alu_src_immediate := True,
             alu_operation := AluOperation_Add, immediate_kind := ImmediateKind_Signed16\<rparr>)"
| "Decoder_control_for Opcode_Andi =
     Some (ControlSignals_default\<lparr>reg_write := True, alu_src_immediate := True,
             alu_operation := AluOperation_And, immediate_kind := ImmediateKind_ZeroExtended16\<rparr>)"
| "Decoder_control_for Opcode_Ori =
     Some (ControlSignals_default\<lparr>reg_write := True, alu_src_immediate := True,
             alu_operation := AluOperation_Or, immediate_kind := ImmediateKind_ZeroExtended16\<rparr>)"
| "Decoder_control_for Opcode_Xori =
     Some (ControlSignals_default\<lparr>reg_write := True, alu_src_immediate := True,
             alu_operation := AluOperation_Xor, immediate_kind := ImmediateKind_ZeroExtended16\<rparr>)"
| "Decoder_control_for Opcode_Lui =
     Some (ControlSignals_default\<lparr>reg_write := True, alu_src_immediate := True,
             alu_operation := AluOperation_Add, immediate_kind := ImmediateKind_Upper16\<rparr>)"
| "Decoder_control_for Opcode_Lw =
     Some (ControlSignals_default\<lparr>reg_write := True, alu_src_immediate := True,
             alu_operation := AluOperation_Add, writeback_source := WritebackSource_Memory,
             immediate_kind := ImmediateKind_Signed16, memory_operation := MemoryOperation_Load\<rparr>)"
| "Decoder_control_for Opcode_Sw =
     Some (ControlSignals_default\<lparr>alu_src_immediate := True, alu_operation := AluOperation_Add,
             immediate_kind := ImmediateKind_Signed16, memory_operation := MemoryOperation_Store\<rparr>)"
| "Decoder_control_for Opcode_Beq =
     Some (ControlSignals_default\<lparr>control_flow := ControlFlowKind_ConditionalBranch,
             branch_predicate := BranchPredicate_Equal\<rparr>)"
| "Decoder_control_for Opcode_Bne =
     Some (ControlSignals_default\<lparr>control_flow := ControlFlowKind_ConditionalBranch,
             branch_predicate := BranchPredicate_NotEqual\<rparr>)"
| "Decoder_control_for Opcode_Blt =
     Some (ControlSignals_default\<lparr>control_flow := ControlFlowKind_ConditionalBranch,
             branch_predicate := BranchPredicate_SignedLessThan\<rparr>)"
| "Decoder_control_for Opcode_Bge =
     Some (ControlSignals_default\<lparr>control_flow := ControlFlowKind_ConditionalBranch,
             branch_predicate := BranchPredicate_SignedGreaterEqual\<rparr>)"
| "Decoder_control_for Opcode_J =
     Some (ControlSignals_default\<lparr>control_flow := ControlFlowKind_RelativeJump\<rparr>)"
| "Decoder_control_for Opcode_Jal =
     Some (ControlSignals_default\<lparr>reg_write := True, writeback_source := WritebackSource_PcPlus4,
             register_destination := RegisterDestination_ReturnAddress,
             control_flow := ControlFlowKind_RelativeJump\<rparr>)"
| "Decoder_control_for Opcode_Jr =
     Some (ControlSignals_default\<lparr>control_flow := ControlFlowKind_RegisterJump\<rparr>)"
| "Decoder_control_for Opcode_Halt = Some (ControlSignals_default\<lparr>halt := True\<rparr>)"
| "Decoder_control_for (Opcode_Unnamed raw) = None"

section \<open>Immediates\<close>

fun Decoder_immediate_value :: "ImmediateKind \<Rightarrow> u16 \<Rightarrow> u32" where
  "Decoder_immediate_value ImmediateKind_None immediate = 0"
| "Decoder_immediate_value ImmediateKind_Signed16 immediate =
     (if immediate AND 0x8000 = 0 then ucast immediate else 0xFFFF0000 OR ucast immediate)"
| "Decoder_immediate_value ImmediateKind_ZeroExtended16 immediate = ucast immediate"
| "Decoder_immediate_value ImmediateKind_Upper16 immediate = push_bit 16 (ucast immediate)"

definition Decoder_branch_displacement :: "u16 \<Rightarrow> u32" where
  "Decoder_branch_displacement immediate =
     Decoder_immediate_value ImmediateKind_Signed16 immediate * 4"

definition Decoder_jump_displacement :: "u32 \<Rightarrow> u32" where
  "Decoder_jump_displacement immediate =
     (let encoded = immediate AND 0x03FFFFFF;
          sign_extended = (if encoded AND 0x02000000 = 0 then encoded else encoded OR 0xFC000000)
      in sign_extended * 4)"

section \<open>Immediates are sign or zero extensions\<close>

lemma sext16_high: "(0xFFFF0000 :: u32) = push_bit 16 (mask 16)"
  by (simp add: mask_eq_exp_minus_1)

lemma sext26_high: "(0xFC000000 :: u32) = push_bit 26 (mask 6)"
  by (simp add: mask_eq_exp_minus_1)

lemma sext16_bits:
  "(if \<not> bit imm 15 then ucast imm else push_bit 16 (mask 16) OR ucast imm) =
     (scast (imm :: u16) :: u32)"
proof (rule bit_word_eqI)
  fix n assume "n < LENGTH(32)"
  then consider "n < 15" | "n = 15" | "16 \<le> n" "n < 32" by fastforce
  then show "bit (if \<not> bit imm 15 then ucast imm else push_bit 16 (mask 16) OR ucast imm :: u32) n =
      bit (scast imm :: u32) n"
    by cases (auto simp: bit_simps min_def dest: bit_imp_le_length)
qed

lemma sext26_bits:
  "(if \<not> bit (take_bit 26 imm) 25 then take_bit 26 imm
    else take_bit 26 imm OR push_bit 26 (mask 6)) = (scast (ucast (imm :: u32) :: 26 word) :: u32)"
proof (rule bit_word_eqI)
  fix n assume "n < LENGTH(32)"
  then consider "n < 25" | "n = 25" | "26 \<le> n" "n < 32" by fastforce
  then show "bit (if \<not> bit (take_bit 26 imm) 25 then take_bit 26 imm
      else take_bit 26 imm OR push_bit 26 (mask 6)) n =
      bit (scast (ucast imm :: 26 word) :: u32) n"
    by cases (auto simp: bit_simps min_def)
qed

lemma immediate_value_signed: "Decoder_immediate_value ImmediateKind_Signed16 imm = scast imm"
  by (simp only: Decoder_immediate_value.simps sign_bit_u16 sext16_high sext16_bits)

declare Decoder_immediate_value.simps(2) [simp del] immediate_value_signed [simp]

lemma jump_displacement_signed:
  "Decoder_jump_displacement imm = scast (ucast imm :: 26 word) * 4"
proof -
  have s: "(x AND 0x02000000 = 0) = (\<not> bit x 25)" for x :: u32
    using single_bit_mask_iff [of x 25] by auto
  show ?thesis
    by (simp only: Decoder_jump_displacement_def Let_def s mask_simps sext26_high sext26_bits)
qed

lemma branch_displacement_signed: "Decoder_branch_displacement imm = scast imm * 4"
  by (simp only: Decoder_branch_displacement_def immediate_value_signed)

lemma sint_range:
  "- (2 ^ 15) \<le> sint (x :: 16 word)" "sint (x :: 16 word) < 2 ^ 15"
  "- (2 ^ 25) \<le> sint (y :: 26 word)" "sint (y :: 26 word) < 2 ^ 25"
  using sint_ge [of x] sint_lt [of x] sint_ge [of y] sint_lt [of y] by simp_all

lemma sint_scaled:
  assumes "- (2 ^ 29) \<le> k" "k < 2 ^ 29"
  shows "sint (of_int k * 4 :: u32) = 4 * k"
proof -
  have "of_int k * 4 = (of_int (k * 4) :: u32)"
    by simp
  then have "sint (of_int k * 4 :: u32) = sint (of_int (k * 4) :: u32)"
    by (rule arg_cong)
  also have "\<dots> = signed_take_bit 31 (k * 4)"
    unfolding signed_of_int by simp
  also have "\<dots> = k * 4"
    using assms by (intro signed_take_bit_int_eq_self) simp_all
  finally show ?thesis by simp
qed

text \<open>
  C33: branch and jump displacements are four times the signed immediate, with no wrap-around: a branch reaches
  from 131072 bytes back to 131068 bytes ahead of the next instruction, a jump from 2^27 bytes back
  to 2^27 - 4 ahead.
\<close>

theorem displacement_ranges:
  "sint (Decoder_branch_displacement imm) = 4 * sint imm \<and>
   sint (Decoder_branch_displacement imm) \<in> {- 131072..131068} \<and>
   sint (Decoder_jump_displacement encoded) = 4 * sint (ucast encoded :: 26 word) \<and>
   sint (Decoder_jump_displacement encoded) \<in> {- (2 ^ 27)..2 ^ 27 - 4}"
proof -
  let ?y = "ucast encoded :: 26 word"
  have "sint (Decoder_branch_displacement imm) = 4 * sint imm"
    using sint_range(1,2) [of imm] unfolding branch_displacement_signed scast_eq
    by (intro sint_scaled) simp_all
  moreover have "sint (Decoder_jump_displacement encoded) = 4 * sint ?y"
    using sint_range(3,4) [of ?y] unfolding jump_displacement_signed scast_eq
    by (intro sint_scaled) simp_all
  ultimately show ?thesis
    using sint_range(1,2) [of imm] sint_range(3,4) [of ?y] by simp
qed

end
