(* ===== verification/Instruction_Set.thy ===== *)
theory Instruction_Set
  imports Decoder
begin

text \<open>
  The instruction set of \<^verbatim>\<open>docs/isa.md\<close> as a specification: one constructor per mnemonic with operands of
  exactly the width of their fields, the decoding table over bit slices, and the encoders of
  \<^verbatim>\<open>tests/instruction_encoding.hpp\<close>. Decoding and encoding are inverse, and the simulator's decoder
  implements the table, errors included.
\<close>

section \<open>Instructions\<close>

type_synonym reg = "5 word"
type_synonym imm16 = "16 word"
type_synonym imm26 = "26 word"

datatype instr =
    NOP
  | ADD reg reg reg
  | SUB reg reg reg
  | ANDR reg reg reg
  | ORR reg reg reg
  | XORR reg reg reg
  | SLT reg reg reg
  | SHL reg reg reg
  | SHR reg reg reg
  | ADDI reg reg imm16
  | ANDI reg reg imm16
  | ORI reg reg imm16
  | XORI reg reg imm16
  | LUI reg imm16
  | LW reg reg imm16
  | SW reg reg imm16
  | BEQ reg reg imm16
  | BNE reg reg imm16
  | BLT reg reg imm16
  | BGE reg reg imm16
  | J imm26
  | JAL imm26
  | JR reg
  | HALT

section \<open>Bit slices\<close>

definition field_op :: "u32 \<Rightarrow> 6 word" where
  "field_op w = ucast (drop_bit 26 w)"

definition field_a :: "u32 \<Rightarrow> reg" where
  "field_a w = ucast (drop_bit 21 w)"

definition field_b :: "u32 \<Rightarrow> reg" where
  "field_b w = ucast (drop_bit 16 w)"

definition field_c :: "u32 \<Rightarrow> reg" where
  "field_c w = ucast (drop_bit 11 w)"

definition field_imm16 :: "u32 \<Rightarrow> imm16" where
  "field_imm16 w = ucast w"

definition field_imm26 :: "u32 \<Rightarrow> imm26" where
  "field_imm26 w = ucast w"

lemmas field_defs = field_op_def field_a_def field_b_def field_c_def field_imm16_def field_imm26_def

section \<open>The decoding table\<close>

definition r_type :: "u32 \<Rightarrow> (reg \<Rightarrow> reg \<Rightarrow> reg \<Rightarrow> instr) \<Rightarrow> instr option" where
  "r_type w C = (if take_bit 11 w = 0 then Some (C (field_a w) (field_b w) (field_c w)) else None)"

definition i_type :: "u32 \<Rightarrow> (reg \<Rightarrow> reg \<Rightarrow> imm16 \<Rightarrow> instr) \<Rightarrow> instr option" where
  "i_type w C = Some (C (field_a w) (field_b w) (field_imm16 w))"

definition isa_decode :: "u32 \<Rightarrow> instr option" where
  "isa_decode w =
     (let op = field_op w in
      if op = 0x00 then (if field_imm26 w = 0 then Some NOP else None)
      else if op = 0x01 then r_type w ADD
      else if op = 0x02 then r_type w SUB
      else if op = 0x03 then r_type w ANDR
      else if op = 0x04 then r_type w ORR
      else if op = 0x05 then r_type w XORR
      else if op = 0x06 then r_type w SLT
      else if op = 0x07 then r_type w SHL
      else if op = 0x08 then r_type w SHR
      else if op = 0x09 then i_type w ADDI
      else if op = 0x0A then i_type w ANDI
      else if op = 0x0B then i_type w ORI
      else if op = 0x0C then i_type w XORI
      else if op = 0x0D then (if field_b w = 0 then Some (LUI (field_a w) (field_imm16 w)) else None)
      else if op = 0x0E then i_type w LW
      else if op = 0x0F then i_type w SW
      else if op = 0x10 then i_type w BEQ
      else if op = 0x11 then i_type w BNE
      else if op = 0x12 then i_type w BLT
      else if op = 0x13 then i_type w BGE
      else if op = 0x14 then Some (J (field_imm26 w))
      else if op = 0x15 then Some (JAL (field_imm26 w))
      else if op = 0x16 then (if take_bit 21 w = 0 then Some (JR (field_a w)) else None)
      else if op = 0x17 then (if field_imm26 w = 0 then Some HALT else None)
      else None)"

text \<open>A word with no meaning is illegal when its opcode is unallocated, else malformed.\<close>

definition isa_decode_error :: "u32 \<Rightarrow> DecodeError" where
  "isa_decode_error w =
     (if field_op w > 0x17 then DecodeError_IllegalOpcode else DecodeError_MalformedEncoding)"

section \<open>What the simulator's decoder makes of an instruction\<close>

definition di_r :: "Opcode \<Rightarrow> reg \<Rightarrow> reg \<Rightarrow> reg \<Rightarrow> DecodedInstruction" where
  "di_r op rd rs1 rs2 =
     \<lparr>di_opcode = op, di_rd = ucast rd, di_rs1 = ucast rs1, di_rs2 = ucast rs2, di_imm16 = 0,
      di_imm26 = 0\<rparr>"

definition di_i :: "Opcode \<Rightarrow> reg \<Rightarrow> reg \<Rightarrow> imm16 \<Rightarrow> DecodedInstruction" where
  "di_i op rd rs1 imm =
     \<lparr>di_opcode = op, di_rd = ucast rd, di_rs1 = ucast rs1, di_rs2 = 0, di_imm16 = imm, di_imm26 = 0\<rparr>"

definition di_sb :: "Opcode \<Rightarrow> reg \<Rightarrow> reg \<Rightarrow> imm16 \<Rightarrow> DecodedInstruction" where
  "di_sb op rs1 rs2 imm =
     \<lparr>di_opcode = op, di_rd = 0, di_rs1 = ucast rs1, di_rs2 = ucast rs2, di_imm16 = imm, di_imm26 = 0\<rparr>"

definition di_j :: "Opcode \<Rightarrow> imm26 \<Rightarrow> DecodedInstruction" where
  "di_j op imm =
     \<lparr>di_opcode = op, di_rd = 0, di_rs1 = 0, di_rs2 = 0, di_imm16 = 0, di_imm26 = ucast imm\<rparr>"

fun decoded_of :: "instr \<Rightarrow> DecodedInstruction" where
  "decoded_of NOP = di_r Opcode_Nop 0 0 0"
| "decoded_of (ADD rd rs1 rs2) = di_r Opcode_Add rd rs1 rs2"
| "decoded_of (SUB rd rs1 rs2) = di_r Opcode_Sub rd rs1 rs2"
| "decoded_of (ANDR rd rs1 rs2) = di_r Opcode_And rd rs1 rs2"
| "decoded_of (ORR rd rs1 rs2) = di_r Opcode_Or rd rs1 rs2"
| "decoded_of (XORR rd rs1 rs2) = di_r Opcode_Xor rd rs1 rs2"
| "decoded_of (SLT rd rs1 rs2) = di_r Opcode_Slt rd rs1 rs2"
| "decoded_of (SHL rd rs1 rs2) = di_r Opcode_Shl rd rs1 rs2"
| "decoded_of (SHR rd rs1 rs2) = di_r Opcode_Shr rd rs1 rs2"
| "decoded_of (ADDI rd rs1 imm) = di_i Opcode_Addi rd rs1 imm"
| "decoded_of (ANDI rd rs1 imm) = di_i Opcode_Andi rd rs1 imm"
| "decoded_of (ORI rd rs1 imm) = di_i Opcode_Ori rd rs1 imm"
| "decoded_of (XORI rd rs1 imm) = di_i Opcode_Xori rd rs1 imm"
| "decoded_of (LUI rd imm) = di_i Opcode_Lui rd 0 imm"
| "decoded_of (LW rd rs1 imm) = di_i Opcode_Lw rd rs1 imm"
| "decoded_of (SW rs2 rs1 imm) = di_sb Opcode_Sw rs1 rs2 imm"
| "decoded_of (BEQ rs1 rs2 imm) = di_sb Opcode_Beq rs1 rs2 imm"
| "decoded_of (BNE rs1 rs2 imm) = di_sb Opcode_Bne rs1 rs2 imm"
| "decoded_of (BLT rs1 rs2 imm) = di_sb Opcode_Blt rs1 rs2 imm"
| "decoded_of (BGE rs1 rs2 imm) = di_sb Opcode_Bge rs1 rs2 imm"
| "decoded_of (J imm) = di_j Opcode_J imm"
| "decoded_of (JAL imm) = di_j Opcode_Jal imm"
| "decoded_of (JR rs1) = di_sb Opcode_Jr rs1 0 0"
| "decoded_of HALT = di_r Opcode_Halt 0 0 0"

section \<open>The decoder implements the table\<close>

lemma register_field_slices:
  "register_field w 21 = ucast (field_a w)"
  "register_field w 16 = ucast (field_b w)"
  "register_field w 11 = ucast (field_c w)"
  unfolding register_field_def field_defs
  by (rule bit_word_eqI; simp add: mask_simps bit_simps)+

lemma raw_opcode_slice: "(ucast (drop_bit 26 w) :: u8) = ucast (field_op w)"
  unfolding field_defs
  by (rule bit_word_eqI) (auto simp: bit_simps dest: bit_imp_le_length)

lemma imm_slices:
  "(ucast (w AND 0xFFFF) :: u16) = field_imm16 w"
  "w AND 0x03FFFFFF = ucast (field_imm26 w)"
  unfolding field_defs
  by (rule bit_word_eqI; simp add: mask_simps bit_simps)+

lemma six_bit_range:
  fixes op :: "6 word"
  assumes "\<not> op > 0x17"
  shows "op \<in> {0, 1, 2, 3, 4, 5, 6, 7, 8, 9, 10, 11, 12, 13, 14, 15, 16, 17, 18, 19, 20, 21, 22, 23}"
proof -
  have lt: "unat op < 24"
    using assms by (simp add: word_less_nat_alt)
  have "op = of_nat (unat op)"
    by simp
  also have "\<dots> \<in> of_nat ` set [0..<24]"
    using lt by (intro imageI) simp
  also have "of_nat ` set [0..<24] \<subseteq> {0, 1, 2, 3, 4, 5, 6, 7, 8, 9, 10, 11, 12, 13, 14, 15,
      16, 17, 18, 19, 20, 21, 22, 23 :: 6 word}"
    by (simp add: upt_rec)
  finally show ?thesis .
qed

lemma imm26_zero:
  assumes "field_imm26 w = 0"
  shows "take_bit 11 w = 0" "field_a w = 0" "field_b w = 0" "field_c w = 0"
proof -
  have z: "\<not> bit w n" if "n < 26" for n
    using assms that by (auto simp: field_defs bit_eq_iff [of "ucast w :: 26 word"] bit_simps)
  show "take_bit 11 w = 0" "field_a w = 0" "field_b w = 0" "field_c w = 0"
    unfolding field_defs by (rule bit_word_eqI; simp add: bit_simps z)+
qed

lemma ucast_imm26_zero [simp]: "(ucast (i :: 26 word) :: u32) = 0 \<longleftrightarrow> i = 0"
  using ucast_up_eq_iff [of i 0, where ?'b = 32] by simp

lemma ucast_imm26_u32 [simp]: "(ucast (ucast (i :: 26 word) :: u32) :: 26 word) = i"
  by (rule bit_word_eqI) (auto simp: bit_simps)

lemma field_b_zero: "(drop_bit 16 w AND 0x1F = 0) = (field_b w = 0)"
proof -
  have "drop_bit 16 w AND 0x1F = (ucast (field_b w) :: u32)"
    unfolding field_defs by (rule bit_word_eqI) (simp add: mask_simps bit_simps)
  then show ?thesis
    using ucast_up_eq_iff [of "field_b w" 0, where ?'b = 32] by simp
qed

lemma isa_decode_illegal: "field_op w > 0x17 \<Longrightarrow> isa_decode w = None"
  by (auto simp: isa_decode_def Let_def)

lemmas decoder_table =
  Decoder_decode_def raw_opcode_slice is_known_opcode_def isa_decode_def isa_decode_error_def
  format_for_def decoded_fields_def register_field_slices imm_slices DecodedInstruction_for_def
  di_r_def di_i_def di_sb_def di_j_def r_type_def i_type_def imm26_zero field_b_zero
  and_literal_masks(4,6) Let_def

lemma decode_by_table:
  "Decoder_decode w =
     (case isa_decode w of
        Some i \<Rightarrow> \<lparr>dr_instruction = Some (decoded_of i), dr_error = DecodeError_None\<rparr>
      | None \<Rightarrow> decode_failure (isa_decode_error w))"
proof (cases "field_op w > 0x17")
  case True
  have "unat (ucast (field_op w) :: u8) = unat (field_op w)"
    by (simp add: unat_ucast_up)
  then have "\<not> is_known_opcode (ucast (drop_bit 26 w))"
    using True by (simp add: raw_opcode_slice is_known_opcode_def word_le_nat_alt word_less_nat_alt)
  moreover have "isa_decode w = None"
    using True by (rule isa_decode_illegal)
  ultimately show ?thesis
    using True by (simp add: Decoder_decode_def isa_decode_error_def)
next
  case False
  from six_bit_range [OF False] show ?thesis
    by (elim insertE emptyE; simp add: decoder_table)
qed

text \<open>
  C6: the simulator's decoder agrees with the ISA's table on every 32-bit word: it accepts exactly the words
  the table gives a meaning, returns that instruction's fields, and reports an unallocated opcode
  as illegal and every other rejected word as malformed.
\<close>

theorem Decoder_decode_isa:
  "Decoder_decode w =
     (case isa_decode w of
        Some i \<Rightarrow> \<lparr>dr_instruction = Some (decoded_of i), dr_error = DecodeError_None\<rparr>
      | None \<Rightarrow> decode_failure (isa_decode_error w))"
  by (rule decode_by_table)

end
