(* ===== verification/Encoding.thy ===== *)
theory Encoding
  imports Instruction_Set
begin

text \<open>
  The instruction encoders that the C++ tests build their programs with,
  \<^verbatim>\<open>tests/instruction_encoding.hpp\<close>, and the round trip with the decoder in both directions.
\<close>

definition encode_r :: "Opcode \<Rightarrow> u8 \<Rightarrow> u8 \<Rightarrow> u8 \<Rightarrow> u32" where
  "encode_r opcode rd rs1 rs2 =
     push_bit 26 (ucast (opcode_value opcode)) OR push_bit 21 (ucast rd) OR
     push_bit 16 (ucast rs1) OR push_bit 11 (ucast rs2)"

definition encode_i :: "Opcode \<Rightarrow> u8 \<Rightarrow> u8 \<Rightarrow> u16 \<Rightarrow> u32" where
  "encode_i opcode rd rs1 immediate =
     push_bit 26 (ucast (opcode_value opcode)) OR push_bit 21 (ucast rd) OR
     push_bit 16 (ucast rs1) OR ucast immediate"

definition encode_s :: "u8 \<Rightarrow> u8 \<Rightarrow> u16 \<Rightarrow> u32" where
  "encode_s rs2 rs1 immediate =
     push_bit 26 (ucast (opcode_value Opcode_Sw)) OR push_bit 21 (ucast rs2) OR
     push_bit 16 (ucast rs1) OR ucast immediate"

definition encode_b :: "Opcode \<Rightarrow> u8 \<Rightarrow> u8 \<Rightarrow> u16 \<Rightarrow> u32" where
  "encode_b opcode rs1 rs2 immediate =
     push_bit 26 (ucast (opcode_value opcode)) OR push_bit 21 (ucast rs1) OR
     push_bit 16 (ucast rs2) OR ucast immediate"

definition encode_j :: "Opcode \<Rightarrow> u32 \<Rightarrow> u32" where
  "encode_j opcode immediate =
     push_bit 26 (ucast (opcode_value opcode)) OR (immediate AND 0x03FFFFFF)"

definition encode_jr :: "u8 \<Rightarrow> u32" where
  "encode_jr rs1 = push_bit 26 (ucast (opcode_value Opcode_Jr)) OR push_bit 21 (ucast rs1)"

text \<open>The encoding of every instruction of the ISA.\<close>

fun encode :: "instr \<Rightarrow> u32" where
  "encode NOP = encode_r Opcode_Nop 0 0 0"
| "encode (ADD rd rs1 rs2) = encode_r Opcode_Add (ucast rd) (ucast rs1) (ucast rs2)"
| "encode (SUB rd rs1 rs2) = encode_r Opcode_Sub (ucast rd) (ucast rs1) (ucast rs2)"
| "encode (ANDR rd rs1 rs2) = encode_r Opcode_And (ucast rd) (ucast rs1) (ucast rs2)"
| "encode (ORR rd rs1 rs2) = encode_r Opcode_Or (ucast rd) (ucast rs1) (ucast rs2)"
| "encode (XORR rd rs1 rs2) = encode_r Opcode_Xor (ucast rd) (ucast rs1) (ucast rs2)"
| "encode (SLT rd rs1 rs2) = encode_r Opcode_Slt (ucast rd) (ucast rs1) (ucast rs2)"
| "encode (SHL rd rs1 rs2) = encode_r Opcode_Shl (ucast rd) (ucast rs1) (ucast rs2)"
| "encode (SHR rd rs1 rs2) = encode_r Opcode_Shr (ucast rd) (ucast rs1) (ucast rs2)"
| "encode (ADDI rd rs1 imm) = encode_i Opcode_Addi (ucast rd) (ucast rs1) imm"
| "encode (ANDI rd rs1 imm) = encode_i Opcode_Andi (ucast rd) (ucast rs1) imm"
| "encode (ORI rd rs1 imm) = encode_i Opcode_Ori (ucast rd) (ucast rs1) imm"
| "encode (XORI rd rs1 imm) = encode_i Opcode_Xori (ucast rd) (ucast rs1) imm"
| "encode (LUI rd imm) = encode_i Opcode_Lui (ucast rd) 0 imm"
| "encode (LW rd rs1 imm) = encode_i Opcode_Lw (ucast rd) (ucast rs1) imm"
| "encode (SW rs2 rs1 imm) = encode_s (ucast rs2) (ucast rs1) imm"
| "encode (BEQ rs1 rs2 imm) = encode_b Opcode_Beq (ucast rs1) (ucast rs2) imm"
| "encode (BNE rs1 rs2 imm) = encode_b Opcode_Bne (ucast rs1) (ucast rs2) imm"
| "encode (BLT rs1 rs2 imm) = encode_b Opcode_Blt (ucast rs1) (ucast rs2) imm"
| "encode (BGE rs1 rs2 imm) = encode_b Opcode_Bge (ucast rs1) (ucast rs2) imm"
| "encode (J imm) = encode_j Opcode_J (ucast imm)"
| "encode (JAL imm) = encode_j Opcode_Jal (ucast imm)"
| "encode (JR rs1) = encode_jr (ucast rs1)"
| "encode HALT = encode_r Opcode_Halt 0 0 0"

section \<open>Fields of an encoded word\<close>

text \<open>Every format is a 6-bit opcode above two 5-bit fields above 16 low bits.\<close>

definition assemble :: "6 word \<Rightarrow> reg \<Rightarrow> reg \<Rightarrow> imm16 \<Rightarrow> u32" where
  "assemble op a b lo = push_bit 26 (ucast op) OR push_bit 21 (ucast a) OR push_bit 16 (ucast b) OR ucast lo"

definition assemble_j :: "6 word \<Rightarrow> imm26 \<Rightarrow> u32" where
  "assemble_j op imm = push_bit 26 (ucast op) OR ucast imm"

lemma bit_assemble:
  "bit (assemble op a b lo) n \<longleftrightarrow>
     (if n < 16 then bit lo n else if n < 21 then bit b (n - 16)
      else if n < 26 then bit a (n - 21) else n < 32 \<and> bit op (n - 26))"
  by (auto simp: assemble_def bit_simps dest: bit_imp_le_length)

lemma bit_assemble_j:
  "bit (assemble_j op imm) n \<longleftrightarrow> (if n < 26 then bit imm n else n < 32 \<and> bit op (n - 26))"
  by (auto simp: assemble_j_def bit_simps dest: bit_imp_le_length)

lemma fields_assemble [simp]:
  "field_op (assemble op a b lo) = op" "field_a (assemble op a b lo) = a"
  "field_b (assemble op a b lo) = b" "field_imm16 (assemble op a b lo) = lo"
  unfolding field_defs by (rule bit_word_eqI; simp add: bit_simps bit_assemble)+

lemma fields_assemble_j [simp]:
  "field_op (assemble_j op imm) = op" "field_imm26 (assemble_j op imm) = imm"
  unfolding field_defs by (rule bit_word_eqI; simp add: bit_simps bit_assemble_j)+

lemma assemble_fields:
  "field_op w = op \<Longrightarrow> assemble op (field_a w) (field_b w) (field_imm16 w) = w"
  "field_op w = op \<Longrightarrow> assemble_j op (field_imm26 w) = w"
  unfolding field_defs
  by (rule bit_word_eqI; force simp: bit_simps bit_assemble bit_assemble_j)+

lemma assemble_zero: "assemble op 0 0 0 = assemble_j op 0"
  by (rule bit_word_eqI) (simp add: bit_assemble bit_assemble_j)

lemma reserved_low_bits:
  "take_bit 11 w = 0 \<Longrightarrow> push_bit 11 (ucast (field_c w)) = field_imm16 w"
  "take_bit 21 w = 0 \<Longrightarrow> field_b w = 0" "take_bit 21 w = 0 \<Longrightarrow> field_imm16 w = 0"
proof -
  have z: "\<not> bit w n" if "take_bit m w = 0" "n < m" for m n
    using that by (metis bit_take_bit_iff bit_0_eq bot_apply bot_bool_def)
  show "push_bit 11 (ucast (field_c w)) = field_imm16 w" if "take_bit 11 w = 0"
  proof (rule bit_word_eqI)
    fix n assume "n < LENGTH(16)"
    then show "bit (push_bit 11 (ucast (field_c w)) :: imm16) n = bit (field_imm16 w) n"
      by (cases "n < 11") (auto simp: field_defs bit_simps z [OF that])
  qed
  show "field_b w = 0" "field_imm16 w = 0" if "take_bit 21 w = 0"
    unfolding field_defs by (rule bit_word_eqI; simp add: bit_simps z [OF that])+
qed

lemma assemble_zero_fields:
  "field_op w = op \<Longrightarrow> field_b w = 0 \<Longrightarrow> assemble op (field_a w) 0 (field_imm16 w) = w"
  "field_op w = op \<Longrightarrow> take_bit 21 w = 0 \<Longrightarrow> assemble op (field_a w) 0 0 = w"
  "field_op w = op \<Longrightarrow> field_imm26 w = 0 \<Longrightarrow> assemble_j op 0 = w"
  using assemble_fields(1) [of w op] assemble_fields(2) [of w op] reserved_low_bits [of w]
  by simp_all

lemma low_bits_assemble [simp]:
  "take_bit 11 (assemble op a b (push_bit 11 (ucast (c :: reg)))) = 0"
  "field_c (assemble op a b (push_bit 11 (ucast (c :: reg)))) = c"
  "take_bit 21 (assemble op a 0 0) = 0"
  unfolding field_defs by (rule bit_word_eqI; auto simp: bit_simps bit_assemble)+

lemma encode_formats:
  "encode_r opcode (ucast (a :: reg)) (ucast (b :: reg)) (ucast (c :: reg)) =
     assemble (ucast (opcode_value opcode)) a b (push_bit 11 (ucast c))"
  "encode_i opcode (ucast a) (ucast b) imm = assemble (ucast (opcode_value opcode)) a b imm"
  "encode_b opcode (ucast a) (ucast b) imm = assemble (ucast (opcode_value opcode)) a b imm"
  "encode_s (ucast a) (ucast b) imm = assemble (ucast (opcode_value Opcode_Sw)) a b imm"
  "encode_j opcode (ucast (j :: imm26)) = assemble_j (ucast (opcode_value opcode)) j"
  "encode_jr (ucast a) = assemble (ucast (opcode_value Opcode_Jr)) a 0 0"
  unfolding encode_r_def encode_i_def encode_b_def encode_s_def encode_j_def encode_jr_def
  by (rule bit_word_eqI; force simp: bit_simps bit_assemble bit_assemble_j mask_simps
      simp del: opcode_value.simps dest: bit_imp_le_length)+

section \<open>Round trip\<close>

lemma encode_constant_words:
  "encode_r Opcode_Nop 0 0 0 = assemble_j 0x00 0" "encode_r Opcode_Halt 0 0 0 = assemble_j 0x17 0"
  using encode_formats(1) [of Opcode_Nop 0 0 0] encode_formats(1) [of Opcode_Halt 0 0 0]
  by (simp_all add: assemble_zero)

lemma encode_lui: "encode_i Opcode_Lui (ucast rd) 0 imm = assemble 0x0D rd 0 imm"
  using encode_formats(2) [of Opcode_Lui rd 0 imm] by simp

lemma isa_decode_encode: "isa_decode (encode i) = Some i"
  by (cases i)
    (simp_all add: encode_constant_words encode_lui encode_formats isa_decode_def r_type_def
      i_type_def)

lemma encode_isa_decode:
  assumes "isa_decode w = Some i"
  shows "encode i = w"
proof -
  have "\<not> field_op w > 0x17"
    using assms isa_decode_illegal [of w] by auto
  from six_bit_range [OF this] show ?thesis
    using assms
    by (elim insertE emptyE;
        simp add: isa_decode_def r_type_def i_type_def split: if_splits;
        hypsubst?;
        simp add: encode_constant_words encode_lui encode_formats assemble_fields
          assemble_zero_fields reserved_low_bits)
qed

text \<open>
  C7: encoding and decoding are inverse. The simulator decodes the encoding of any instruction to exactly
  that instruction's fields, and every word the decoder accepts is the encoding of exactly one
  instruction, so no two instructions share an encoding and no accepted word has dead bits.
\<close>

theorem encode_decode_round_trip:
  "Decoder_decode w = \<lparr>dr_instruction = Some d, dr_error = DecodeError_None\<rparr> \<longleftrightarrow>
     (\<exists>!i. encode i = w \<and> decoded_of i = d)"
proof -
  have enc: "encode i = w \<longleftrightarrow> isa_decode w = Some i" for i
    using isa_decode_encode encode_isa_decode by blast
  show ?thesis
    by (cases "isa_decode w") (auto simp: enc decode_by_table decode_failure_def isa_decode_error_def)
qed

end
