(* ===== verification/Host_Io.thy ===== *)
theory Host_Io
  imports Mini32_Prelude
begin

text \<open>
  What the two command-line programs use of the host and of the C++ standard library: text
  formatting of integers (\<^verbatim>\<open>std::hex\<close>, \<^verbatim>\<open>std::setw\<close>, \<^verbatim>\<open>std::setfill\<close>), \<^verbatim>\<open>std::from_chars\<close>, the argument
  vector and files opened for reading. Printing and parsing are inverse.
\<close>

section \<open>Digits\<close>

definition digit_char :: "nat \<Rightarrow> char" where
  "digit_char d = char_of (if d < 10 then 48 + d else 87 + d)"

definition digit_value :: "char \<Rightarrow> nat" where
  "digit_value c = (if of_char c \<le> (57 :: nat) then of_char c - 48 else of_char c - 87)"

text \<open>An unsigned integer in base \<open>b\<close>, lower case and without leading zeros.\<close>

fun radix_string :: "nat \<Rightarrow> nat \<Rightarrow> string" where
  "radix_string b n =
     (if b < 2 \<or> n < b then [digit_char n]
      else radix_string b (n div b) @ [digit_char (n mod b)])"

declare radix_string.simps [simp del]

definition radix_value :: "nat \<Rightarrow> string \<Rightarrow> nat" where
  "radix_value b s = foldl (\<lambda>v c. v * b + digit_value c) 0 s"

abbreviation dec_string :: "nat \<Rightarrow> string" where
  "dec_string \<equiv> radix_string 10"

text \<open>\<^verbatim>\<open>std::setw(w) << std::setfill('0')\<close>.\<close>

definition zero_fill :: "nat \<Rightarrow> string \<Rightarrow> string" where
  "zero_fill w s = replicate (w - length s) (CHR ''0'') @ s"

definition newline :: string where
  "newline = [CHR 0x0A]"

definition quoted :: "string \<Rightarrow> string" where
  "quoted s = CHR 0x22 # s @ [CHR 0x22]"

section \<open>std::from\_chars\<close>

text \<open>
  \<^verbatim>\<open>std::from_chars\<close> on an \<^verbatim>\<open>unsigned long long\<close> in base 10: the longest prefix of digits; no digit is
  \<^verbatim>\<open>invalid_argument\<close>, a value that does not fit in 64 bits \<^verbatim>\<open>result_out_of_range\<close>, and both leave the
  value alone. The result is the length of what was consumed, the error and the value.
\<close>

datatype errc = Errc_ok | Errc_invalid_argument | Errc_result_out_of_range

definition is_digit :: "char \<Rightarrow> bool" where
  "is_digit c \<longleftrightarrow> (48 :: nat) \<le> of_char c \<and> of_char c \<le> (57 :: nat)"

definition from_chars :: "string \<Rightarrow> u64 \<Rightarrow> nat \<times> errc \<times> u64" where
  "from_chars text value =
     (let digits = takeWhile is_digit text; n = radix_value 10 digits in
      if digits = [] then (0, Errc_invalid_argument, value)
      else if n \<ge> 2 ^ 64 then (length digits, Errc_result_out_of_range, value)
      else (length digits, Errc_ok, of_nat n))"

section \<open>Arguments and files\<close>

text \<open>
  \<^verbatim>\<open>argv[i]\<close> as a C string: \<^verbatim>\<open>argv[argc]\<close> is a null pointer, and past it there is no element.
\<close>

definition argv_at :: "string list \<Rightarrow> nat \<Rightarrow> string result" where
  "argv_at argv i =
     (if i < length argv then Inr (argv ! i)
      else if i = length argv then Inl Undefined_null_string
      else Inl Undefined_array_index)"

text \<open>
  A file that can be opened: the position \<^verbatim>\<open>tellg\<close> reports at its end (negative on failure), and the
  bytes a read from its start delivers, which may be fewer.
\<close>

record host_file =
  file_tellg :: int
  file_bytes :: "u8 list"

type_synonym file_system = "string \<Rightarrow> host_file option"

text \<open>\<^verbatim>\<open>seekg(0)\<close> and \<^verbatim>\<open>read(n)\<close>: \<open>None\<close> when fewer than \<open>n\<close> bytes arrive.\<close>

definition read_exactly :: "host_file \<Rightarrow> nat \<Rightarrow> u8 list option" where
  "read_exactly f n = (if n \<le> length (file_bytes f) then Some (take n (file_bytes f)) else None)"

section \<open>Printing and parsing are inverse\<close>

lemma of_char_digit: "d < 16 \<Longrightarrow> of_char (digit_char d) = (if d < 10 then 48 + d else 87 + d :: nat)"
  by (simp add: digit_char_def of_char_of)

lemma digit_value_char [simp]: "d < 16 \<Longrightarrow> digit_value (digit_char d) = d"
  by (simp add: digit_value_def of_char_digit)

lemma radix_value_snoc: "radix_value b (s @ [c]) = radix_value b s * b + digit_value c"
  by (simp add: radix_value_def)

lemma radix_value_string:
  assumes "2 \<le> b" "b \<le> 16"
  shows "radix_value b (radix_string b n) = n"
  using assms
proof (induction b n rule: radix_string.induct)
  case (1 b n)
  show ?case
  proof (cases "n < b")
    case True
    with 1 show ?thesis by (simp add: radix_string.simps [of b n] radix_value_def)
  next
    case False
    have "n mod b < 16"
      using 1(3) mod_less_divisor [of b n] 1(2) by linarith
    moreover have "radix_value b (radix_string b (n div b)) = n div b"
      using 1 False by simp
    ultimately show ?thesis
      using False 1(2) by (simp add: radix_string.simps [of b n] radix_value_snoc)
  qed
qed

lemma radix_string_digits: "set (radix_string 10 n) \<subseteq> Collect is_digit"
proof (induction "10 :: nat" n rule: radix_string.induct)
  case (1 n)
  then show ?case
    by (subst radix_string.simps) (auto simp: is_digit_def of_char_digit)
qed

lemma radix_string_neq_Nil [simp]: "radix_string b n \<noteq> []"
  by (subst radix_string.simps) simp

lemma radix_string_length:
  assumes "2 \<le> b" "n < b ^ k" "0 < k"
  shows "length (radix_string b n) \<le> k"
  using assms
proof (induction k arbitrary: n)
  case (Suc k)
  show ?case
  proof (cases "n < b")
    case True
    then show ?thesis by (subst radix_string.simps) simp
  next
    case False
    have "n div b < b ^ k"
      using Suc.prems by (simp add: less_mult_imp_div_less mult.commute)
    moreover from this False have "0 < k"
      using Suc.prems(1) by (cases k) (auto simp: div_eq_0_iff)
    ultimately have "length (radix_string b (n div b)) \<le> k"
      using Suc.IH Suc.prems(1) by blast
    with False Suc.prems(1) show ?thesis by (subst radix_string.simps) simp
  qed
qed simp

lemma radix_value_zeros: "radix_value b (replicate k (CHR ''0'') @ s) = radix_value b s"
  by (induction k) (simp_all add: radix_value_def digit_value_def)

lemma zero_fill_value [simp]: "radix_value b (zero_fill w s) = radix_value b s"
  by (simp add: zero_fill_def radix_value_zeros)

lemma length_zero_fill: "length s \<le> w \<Longrightarrow> length (zero_fill w s) = w"
  by (simp add: zero_fill_def)

section \<open>Hexadecimal digits\<close>

text \<open>
  \<open>digit_value\<close> gives every character a value, so a value alone does not show that a text consists of
  digits. The digits themselves: position \<open>k\<close> of a zero-filled hexadecimal numeral is the digit of the
  \<open>k\<close>-th group of four bits.
\<close>

definition hex_digits :: string where
  "hex_digits = ''0123456789abcdef''"

lemma digit_char_hex: "d < 16 \<Longrightarrow> digit_char d = hex_digits ! d"
proof -
  have "list_all (\<lambda>d. digit_char d = hex_digits ! d) [0..<16]"
    by code_simp
  then show "d < 16 \<Longrightarrow> digit_char d = hex_digits ! d"
    by (simp add: list_all_iff)
qed

lemma rev_upt_Suc: "rev [0..<Suc k] = map Suc (rev [0..<k]) @ [0]"
  by (simp only: upt_0_Suc rev.simps rev_map)

lemma zero_fill_digits:
  assumes "n < 16 ^ k" "0 < k"
  shows "zero_fill k (radix_string 16 n) = map (\<lambda>j. hex_digits ! (n div 16 ^ j mod 16)) (rev [0..<k])"
  using assms
proof (induction k arbitrary: n)
  case (Suc k)
  have last: "digit_char (n mod 16) = hex_digits ! (n mod 16)"
    by (rule digit_char_hex) simp
  show ?case
  proof (cases "k = 0")
    case True
    with Suc.prems(1) last show ?thesis
      by (simp add: radix_string.simps [of 16 n] zero_fill_def)
  next
    case False
    have "zero_fill (Suc k) (radix_string 16 n) = zero_fill k (radix_string 16 (n div 16)) @ [digit_char (n mod 16)]"
    proof (cases "n < 16")
      case True
      have "digit_char 0 = CHR ''0''"
        using digit_char_hex [of 0] by (simp add: hex_digits_def)
      with True False show ?thesis
        by (cases k) (simp_all add: radix_string.simps [of 16] zero_fill_def replicate_append_same)
    next
      case False
      then show ?thesis
        by (simp add: radix_string.simps [of 16 n] zero_fill_def)
    qed
    also have "zero_fill k (radix_string 16 (n div 16)) =
        map (\<lambda>j. hex_digits ! (n div 16 div 16 ^ j mod 16)) (rev [0..<k])"
      using Suc.prems(1) False by (intro Suc.IH) (simp_all add: less_mult_imp_div_less mult.commute)
    finally show ?thesis
      unfolding rev_upt_Suc last by (simp add: div_mult2_eq)
  qed
qed simp

lemma zero_fill_hex_digits:
  assumes "n < 16 ^ k" "0 < k"
  shows "set (zero_fill k (radix_string 16 n)) \<subseteq> set hex_digits"
proof -
  have "length hex_digits = 16"
    by (simp add: hex_digits_def)
  then show ?thesis
    unfolding zero_fill_digits [OF assms] by (auto intro!: nth_mem)
qed

end
