(* ===== verification/Memory_Interface.thy ===== *)
theory Memory_Interface
  imports Mini32_Prelude
begin

text \<open>
  The contract of a 64 KiB memory of 16384 little-endian words, as the bus and the CPU rely on it:
  an aligned word inside the region can always be read, and a write changes that word only. The
  lemmas proved here once are facts of every provider (\<^verbatim>\<open>Rom\<close> through its loader, \<^verbatim>\<open>Ram\<close> through its
  bus port).
\<close>

section \<open>Word memories\<close>

lemma word_index_lt: "unat (i :: 14 word) < 16384"
  using unsigned_less [of i, where ?'a = nat] by simp

text \<open>The word at an index of a byte array, and the array with that word replaced.\<close>

definition bytes_word :: "u8 list \<Rightarrow> 14 word \<Rightarrow> u32" where
  "bytes_word bytes i =
     le_join (bytes ! (4 * unat i)) (bytes ! (4 * unat i + 1))
       (bytes ! (4 * unat i + 2)) (bytes ! (4 * unat i + 3))"

definition bytes_update :: "u8 list \<Rightarrow> 14 word \<Rightarrow> u32 \<Rightarrow> u8 list" where
  "bytes_update bytes i w =
     bytes[4 * unat i := le_byte 0 w, 4 * unat i + 1 := le_byte 1 w,
       4 * unat i + 2 := le_byte 2 w, 4 * unat i + 3 := le_byte 3 w]"

lemma length_bytes_update [simp]: "length (bytes_update bytes i w) = length bytes"
  by (simp add: bytes_update_def)

lemma list_update_four:
  assumes "n + 3 < length xs"
  shows "xs[n := a, n + 1 := b, n + 2 := c, n + 3 := d] = take n xs @ [a, b, c, d] @ drop (n + 4) xs"
proof -
  have "xs = take n xs @ xs ! n # xs ! (n + 1) # xs ! (n + 2) # xs ! (n + 3) # drop (n + 4) xs"
    using assms by (simp add: Cons_nth_drop_Suc numeral_eq_Suc)
  then obtain ys p q r s zs where "xs = ys @ p # q # r # s # zs" "length ys = n" "drop (n + 4) xs = zs"
    using assms by (metis (no_types, lifting) add_lessD1 length_take less_imp_le min.absorb2)
  then show ?thesis
    by (simp add: list_update_append)
qed

lemma bytes_update_eq_copy:
  assumes "length bytes = 65536"
  shows "bytes_update bytes i w =
      take (4 * unat i) bytes @ le_bytes w @ drop (4 * unat i + 4) bytes"
  unfolding bytes_update_def le_bytes_def
  by (rule list_update_four) (use word_index_lt [of i] assms in simp)

lemma nth_bytes_update:
  assumes "length bytes = 65536" and k: "k < 4"
  shows "bytes_update bytes i w ! (4 * unat j + k) =
    (if j = i then le_byte k w else bytes ! (4 * unat j + k))"
proof (cases "j = i")
  case True
  have "4 * unat i + 3 < length bytes"
    using word_index_lt [of i] assms by simp
  moreover have "k = 0 \<or> k = 1 \<or> k = 2 \<or> k = 3"
    using k by linarith
  ultimately show ?thesis
    using True by (auto simp: bytes_update_def nth_list_update)
next
  case False
  then have "unat j \<noteq> unat i"
    by (simp add: word_unat_eq_iff)
  then have "4 * unat i + l \<noteq> 4 * unat j + k" if "l < 4" for l
    using k that by arith
  from this [of 0] this [of 1] this [of 2] this [of 3] False show ?thesis
    by (simp add: bytes_update_def)
qed

lemma bytes_word_update:
  assumes "length bytes = 65536"
  shows "bytes_word (bytes_update bytes i w) = (bytes_word bytes)(i := w)"
proof
  fix j
  show "bytes_word (bytes_update bytes i w) j = ((bytes_word bytes)(i := w)) j"
    using nth_bytes_update [OF assms, of 0 i w j] nth_bytes_update [OF assms, of 1 i w j]
      nth_bytes_update [OF assms, of 2 i w j] nth_bytes_update [OF assms, of 3 i w j]
    by (simp add: bytes_word_def le_join_le_byte [simplified])
qed

locale word_memory =
  fixes wf :: "'m \<Rightarrow> bool"
    and base :: u32
    and words :: "'m \<Rightarrow> 14 word \<Rightarrow> u32"
    and read32 :: "'m \<Rightarrow> u32 \<Rightarrow> 'r result"
    and read_ok :: "u32 \<Rightarrow> 'r"
    and write32 :: "'m \<Rightarrow> u32 \<Rightarrow> u32 \<Rightarrow> ('w \<times> 'm) result"
    and write_ok :: 'w
  assumes read_word: "wf m \<Longrightarrow> read32 m (word_address base i) = Inr (read_ok (words m i))"
    and write_word: "wf m \<Longrightarrow>
      \<exists>m'. write32 m (word_address base i) v = Inr (write_ok, m') \<and> wf m' \<and>
           words m' = (words m)(i := v)"
begin

primrec write_all :: "'m \<Rightarrow> (14 word \<times> u32) list \<Rightarrow> 'm result" where
  "write_all m [] = Inr m"
| "write_all m (x # xs) =
     bindE (write32 m (word_address base (fst x)) (snd x)) (\<lambda>(_, m'). write_all m' xs)"

lemma read_after_write:
  assumes "wf m" and "write32 m (word_address base i) v = Inr (r, m')"
  shows "r = write_ok \<and> wf m' \<and>
         read32 m' (word_address base j) = Inr (read_ok (if j = i then v else words m j))"
  using write_word [OF assms(1), of i v] assms(2) by (auto simp: read_word)

lemma write_all_words:
  "wf m \<Longrightarrow> \<exists>m'. write_all m xs = Inr m' \<and> wf m' \<and>
      words m' = foldl (\<lambda>f p. f(fst p := snd p)) (words m) xs"
proof (induction xs arbitrary: m)
  case Nil
  then show ?case by simp
next
  case (Cons x xs)
  obtain m1 where m1: "write32 m (word_address base (fst x)) (snd x) = Inr (write_ok, m1)"
      "wf m1" "words m1 = (words m)(fst x := snd x)"
    using write_word [OF Cons.prems] by blast
  obtain m' where "write_all m1 xs = Inr m'" "wf m'"
      "words m' = foldl (\<lambda>f p. f(fst p := snd p)) (words m1) xs"
    using Cons.IH [OF m1(2)] by blast
  then have "write_all m (x # xs) = Inr m' \<and> wf m' \<and>
      words m' = foldl (\<lambda>f p. f(fst p := snd p)) (words m) (x # xs)"
    using m1 by (simp only: write_all.simps bindE.simps case_prod_conv foldl_Cons)
  then show ?case by blast
qed

end

end
