(* ===== verification/Rom.thy ===== *)
theory Rom
  imports Memory_Interface
begin

text \<open>
  The 64 KiB program memory, \<^verbatim>\<open>simulator/include/mini32/rom.hpp\<close> and \<^verbatim>\<open>simulator/src/rom.cpp\<close>. The host loads it
  (\<open>Rom_load_bytes\<close>, \<open>Rom_load32\<close>); the guest can only read it.
\<close>

datatype RomFault = RomFault_None | RomFault_Misaligned | RomFault_OutOfRange

record RomReadResult =
  rom_data :: u32
  rom_fault :: RomFault

definition RomReadResult_ok :: "RomReadResult \<Rightarrow> bool" where
  "RomReadResult_ok r \<longleftrightarrow> rom_fault r = RomFault_None"

record Rom =
  rom_bytes :: "u8 list"

definition Rom_kBaseAddress :: u32 where
  "Rom_kBaseAddress = 0x00000000"

definition Rom_kSizeBytes :: nat where
  "Rom_kSizeBytes = 64 * 1024"

definition Rom_kLastAddress :: u32 where
  "Rom_kLastAddress = Rom_kBaseAddress + of_nat (Rom_kSizeBytes - 1)"

definition Rom_new :: Rom where
  "Rom_new = \<lparr>rom_bytes = replicate Rom_kSizeBytes 0\<rparr>"

text \<open>
  \<^verbatim>\<open>std::copy\<close> into an array: writing past its end is undefined behaviour. The subtraction
  \<^verbatim>\<open>kSizeBytes - address\<close> is evaluated only for an address inside the ROM, where it cannot wrap.
\<close>

definition copy_into :: "'a list \<Rightarrow> nat \<Rightarrow> 'a list \<Rightarrow> 'a list result" where
  "copy_into src offset xs =
     (if offset + length src \<le> length xs
      then Inr (take offset xs @ src @ drop (offset + length src) xs)
      else Inl Undefined_array_index)"

definition Rom_load_bytes :: "Rom \<Rightarrow> u32 \<Rightarrow> u8 list \<Rightarrow> Rom result" where
  "Rom_load_bytes rom address img =
     (if address > Rom_kLastAddress \<or> length img > Rom_kSizeBytes - unat address
      then Inl (Throw_out_of_range ''ROM image does not fit in the Mini32 ROM region'')
      else bindE (copy_into img (unat (address - Rom_kBaseAddress)) (rom_bytes rom)) (\<lambda>bytes.
           Inr (rom\<lparr>rom_bytes := bytes\<rparr>)))"

definition Rom_load32 :: "Rom \<Rightarrow> u32 \<Rightarrow> u32 \<Rightarrow> Rom result" where
  "Rom_load32 rom address word =
     (if address AND 0x3 \<noteq> 0
      then Inl (Throw_invalid_argument ''ROM word load requires a 4-byte-aligned address'')
      else Rom_load_bytes rom address (le_bytes word))"

definition Rom_read32 :: "Rom \<Rightarrow> u32 \<Rightarrow> RomReadResult result" where
  "Rom_read32 rom address =
     (if address AND 0x3 \<noteq> 0 then Inr \<lparr>rom_data = 0, rom_fault = RomFault_Misaligned\<rparr>
      else if address > Rom_kLastAddress \<or> address > Rom_kLastAddress - 3
      then Inr \<lparr>rom_data = 0, rom_fault = RomFault_OutOfRange\<rparr>
      else
        let offset = unat (address - Rom_kBaseAddress) in
        bindE (array_get (rom_bytes rom) offset) (\<lambda>b0.
        bindE (array_get (rom_bytes rom) (offset + 1)) (\<lambda>b1.
        bindE (array_get (rom_bytes rom) (offset + 2)) (\<lambda>b2.
        bindE (array_get (rom_bytes rom) (offset + 3)) (\<lambda>b3.
        Inr \<lparr>rom_data = le_join b0 b1 b2 b3, rom_fault = RomFault_None\<rparr>)))))"

section \<open>Well-formedness and the word view\<close>

definition Rom_wf :: "Rom \<Rightarrow> bool" where
  "Rom_wf rom \<longleftrightarrow> length (rom_bytes rom) = Rom_kSizeBytes"

definition Rom_words :: "Rom \<Rightarrow> 14 word \<Rightarrow> u32" where
  "Rom_words rom i = bytes_word (rom_bytes rom) i"

declare Rom_kBaseAddress_def [address_simps] Rom_kLastAddress_def [address_simps]
  Rom_kSizeBytes_def [address_simps]

lemma Rom_wf_new [simp]: "Rom_wf Rom_new"
  by (simp add: Rom_wf_def Rom_new_def)

lemma Rom_load_bytes_ok:
  assumes "Rom_wf rom" and "length img \<le> Rom_kSizeBytes"
  shows "Rom_load_bytes rom 0 img =
    Inr (rom\<lparr>rom_bytes := img @ drop (length img) (rom_bytes rom)\<rparr>)"
  using assms by (simp add: Rom_load_bytes_def Rom_wf_def copy_into_def address_simps not_less)

lemma Rom_load_bytes_wf:
  "Rom_wf rom \<Longrightarrow> Rom_load_bytes rom address img = Inr rom' \<Longrightarrow> Rom_wf rom'"
  by (auto simp: Rom_load_bytes_def Rom_wf_def copy_into_def result_simps split: if_splits)

lemma Rom_window [simp]: "window_ok Rom_kBaseAddress TYPE(14)"
  by (simp add: window_ok_def Rom_kBaseAddress_def)

lemma Rom_address_in_range:
  fixes i :: "14 word"
  shows "\<not> word_address Rom_kBaseAddress i > Rom_kLastAddress"
    and "\<not> word_address Rom_kBaseAddress i > Rom_kLastAddress - 3"
  using word_index_lt [of i] unat_word_address [OF Rom_window, of i]
  by (simp_all add: word_less_nat_alt address_simps)

lemma Rom_read32_word:
  assumes "Rom_wf rom"
  shows "Rom_read32 rom (word_address Rom_kBaseAddress i) =
     Inr \<lparr>rom_data = Rom_words rom i, rom_fault = RomFault_None\<rparr>"
  using assms word_index_lt [of i]
  by (simp add: Rom_read32_def Rom_address_in_range word_address_aligned unat_word_offset
      Rom_wf_def Rom_words_def bytes_word_def Rom_kSizeBytes_def Let_def)

lemma Rom_load32_word:
  assumes "Rom_wf rom"
  shows "Rom_load32 rom (word_address Rom_kBaseAddress i) v =
     Inr (rom\<lparr>rom_bytes := bytes_update (rom_bytes rom) i v\<rparr>)"
proof -
  have len: "length (rom_bytes rom) = 65536" and lt: "4 * unat i + 4 \<le> 65536"
    using assms word_index_lt [of i] by (simp_all add: Rom_wf_def Rom_kSizeBytes_def)
  then have fits: "\<not> 4 > Rom_kSizeBytes - unat (word_address Rom_kBaseAddress i)"
    using unat_word_address [OF Rom_window, of i]
    by (simp add: Rom_kSizeBytes_def Rom_kBaseAddress_def)
  show ?thesis
    using len lt fits
    by (simp add: Rom_load32_def Rom_load_bytes_def Rom_address_in_range word_address_aligned
      unat_word_offset copy_into_def bytes_update_eq_copy)
qed

interpretation rom_memory: word_memory Rom_wf Rom_kBaseAddress Rom_words
  Rom_read32 "\<lambda>w. \<lparr>rom_data = w, rom_fault = RomFault_None\<rparr>"
  "\<lambda>rom a v. bindE (Rom_load32 rom a v) (\<lambda>rom'. Inr ((), rom'))" "()"
proof
  fix rom i v
  assume wf: "Rom_wf rom"
  then show "Rom_read32 rom (word_address Rom_kBaseAddress i) =
      Inr \<lparr>rom_data = Rom_words rom i, rom_fault = RomFault_None\<rparr>"
    by (rule Rom_read32_word)
  show "\<exists>rom'. bindE (Rom_load32 rom (word_address Rom_kBaseAddress i) v) (\<lambda>rom'. Inr ((), rom')) =
      Inr ((), rom') \<and> Rom_wf rom' \<and> Rom_words rom' = (Rom_words rom)(i := v)"
    using wf bytes_word_update [of "rom_bytes rom" i v]
    by (simp add: Rom_load32_word Rom_wf_def Rom_words_def Rom_kSizeBytes_def fun_eq_iff)
qed

end
