(* ===== verification/Ram.thy ===== *)
theory Ram
  imports Memory_Interface
begin

text \<open>
  The 64 KiB data memory, \<^verbatim>\<open>simulator/include/mini32/ram.hpp\<close> and \<^verbatim>\<open>simulator/src/ram.cpp\<close>.
\<close>

datatype RamFault = RamFault_None | RamFault_Misaligned | RamFault_OutOfRange

record RamReadResult =
  ram_data :: u32
  ram_read_fault :: RamFault

definition RamReadResult_ok :: "RamReadResult \<Rightarrow> bool" where
  "RamReadResult_ok r \<longleftrightarrow> ram_read_fault r = RamFault_None"

record RamWriteResult =
  ram_write_fault :: RamFault

definition RamWriteResult_ok :: "RamWriteResult \<Rightarrow> bool" where
  "RamWriteResult_ok r \<longleftrightarrow> ram_write_fault r = RamFault_None"

record Ram =
  ram_bytes :: "u8 list"

definition Ram_kBaseAddress :: u32 where
  "Ram_kBaseAddress = 0x10000000"

definition Ram_kSizeBytes :: nat where
  "Ram_kSizeBytes = 64 * 1024"

definition Ram_kLastAddress :: u32 where
  "Ram_kLastAddress = Ram_kBaseAddress + of_nat (Ram_kSizeBytes - 1)"

definition Ram_new :: Ram where
  "Ram_new = \<lparr>ram_bytes = replicate Ram_kSizeBytes 0\<rparr>"

definition valid_word_address :: "u32 \<Rightarrow> bool" where
  "valid_word_address address \<longleftrightarrow>
     address \<ge> Ram_kBaseAddress \<and> address \<le> Ram_kLastAddress - 3"

definition Ram_read32 :: "Ram \<Rightarrow> u32 \<Rightarrow> RamReadResult result" where
  "Ram_read32 ram address =
     (if address AND 0x3 \<noteq> 0 then Inr \<lparr>ram_data = 0, ram_read_fault = RamFault_Misaligned\<rparr>
      else if \<not> valid_word_address address
      then Inr \<lparr>ram_data = 0, ram_read_fault = RamFault_OutOfRange\<rparr>
      else
        let offset = unat (address - Ram_kBaseAddress) in
        bindE (array_get (ram_bytes ram) offset) (\<lambda>b0.
        bindE (array_get (ram_bytes ram) (offset + 1)) (\<lambda>b1.
        bindE (array_get (ram_bytes ram) (offset + 2)) (\<lambda>b2.
        bindE (array_get (ram_bytes ram) (offset + 3)) (\<lambda>b3.
        Inr \<lparr>ram_data = le_join b0 b1 b2 b3, ram_read_fault = RamFault_None\<rparr>)))))"

definition Ram_write32 :: "Ram \<Rightarrow> u32 \<Rightarrow> u32 \<Rightarrow> (RamWriteResult \<times> Ram) result" where
  "Ram_write32 ram address value =
     (if address AND 0x3 \<noteq> 0 then Inr (\<lparr>ram_write_fault = RamFault_Misaligned\<rparr>, ram)
      else if \<not> valid_word_address address
      then Inr (\<lparr>ram_write_fault = RamFault_OutOfRange\<rparr>, ram)
      else
        let offset = unat (address - Ram_kBaseAddress) in
        bindE (array_set (ram_bytes ram) offset (le_byte 0 value)) (\<lambda>m0.
        bindE (array_set m0 (offset + 1) (le_byte 1 value)) (\<lambda>m1.
        bindE (array_set m1 (offset + 2) (le_byte 2 value)) (\<lambda>m2.
        bindE (array_set m2 (offset + 3) (le_byte 3 value)) (\<lambda>m3.
        Inr (\<lparr>ram_write_fault = RamFault_None\<rparr>, ram\<lparr>ram_bytes := m3\<rparr>))))))"

definition Ram_debug_read_byte :: "Ram \<Rightarrow> u32 \<Rightarrow> u8 result" where
  "Ram_debug_read_byte ram address =
     (if address < Ram_kBaseAddress \<or> address > Ram_kLastAddress
      then Inl (Throw_out_of_range ''RAM debug byte address is outside the Mini32 RAM region'')
      else array_get (ram_bytes ram) (unat (address - Ram_kBaseAddress)))"

section \<open>Well-formedness and the word view\<close>

definition Ram_wf :: "Ram \<Rightarrow> bool" where
  "Ram_wf ram \<longleftrightarrow> length (ram_bytes ram) = Ram_kSizeBytes"

definition Ram_words :: "Ram \<Rightarrow> 14 word \<Rightarrow> u32" where
  "Ram_words ram i = bytes_word (ram_bytes ram) i"

declare Ram_kBaseAddress_def [address_simps] Ram_kLastAddress_def [address_simps]
  Ram_kSizeBytes_def [address_simps]

lemma Ram_wf_new [simp]: "Ram_wf Ram_new"
  by (simp add: Ram_wf_def Ram_new_def)

lemma Ram_window [simp]: "window_ok Ram_kBaseAddress TYPE(14)"
  by (simp add: window_ok_def Ram_kBaseAddress_def)

lemma Ram_address_valid [simp]: "valid_word_address (word_address Ram_kBaseAddress (i :: 14 word))"
  using word_index_lt [of i] unat_word_address [OF Ram_window, of i]
  by (simp add: valid_word_address_def word_le_nat_alt address_simps)

lemma Ram_read32_word:
  assumes "Ram_wf ram"
  shows "Ram_read32 ram (word_address Ram_kBaseAddress i) =
     Inr \<lparr>ram_data = Ram_words ram i, ram_read_fault = RamFault_None\<rparr>"
  using assms word_index_lt [of i]
  by (simp add: Ram_read32_def word_address_aligned unat_word_offset
      Ram_wf_def Ram_words_def bytes_word_def Ram_kSizeBytes_def Let_def)

lemma Ram_write32_word:
  assumes "Ram_wf ram"
  shows "Ram_write32 ram (word_address Ram_kBaseAddress i) v =
     Inr (\<lparr>ram_write_fault = RamFault_None\<rparr>, ram\<lparr>ram_bytes := bytes_update (ram_bytes ram) i v\<rparr>)"
  using assms word_index_lt [of i]
  by (simp add: Ram_write32_def word_address_aligned unat_word_offset
      Ram_wf_def bytes_update_def Ram_kSizeBytes_def Let_def)

interpretation ram_memory: word_memory Ram_wf Ram_kBaseAddress Ram_words
  Ram_read32 "\<lambda>w. \<lparr>ram_data = w, ram_read_fault = RamFault_None\<rparr>"
  Ram_write32 "\<lparr>ram_write_fault = RamFault_None\<rparr>"
proof
  fix ram i v
  assume wf: "Ram_wf ram"
  then show "Ram_read32 ram (word_address Ram_kBaseAddress i) =
      Inr \<lparr>ram_data = Ram_words ram i, ram_read_fault = RamFault_None\<rparr>"
    by (rule Ram_read32_word)
  show "\<exists>ram'. Ram_write32 ram (word_address Ram_kBaseAddress i) v =
      Inr (\<lparr>ram_write_fault = RamFault_None\<rparr>, ram') \<and> Ram_wf ram' \<and>
      Ram_words ram' = (Ram_words ram)(i := v)"
    using wf bytes_word_update [of "ram_bytes ram" i v]
    by (simp add: Ram_write32_word Ram_wf_def Ram_words_def Ram_kSizeBytes_def fun_eq_iff)
qed

section \<open>Byte order\<close>

text \<open>
  C26: a word stored in RAM is laid out little-endian: byte k of the word (k from 0, least significant first)
  is what the host inspection port reads at the word's address plus k, and reading the word back
  returns the stored value.
\<close>

theorem Ram_write_little_endian:
  assumes "Ram_wf ram" and "k < 4"
  shows "\<exists>ram'. Ram_write32 ram (word_address Ram_kBaseAddress (i :: 14 word)) v =
                 Inr (\<lparr>ram_write_fault = RamFault_None\<rparr>, ram') \<and>
           Ram_debug_read_byte ram' (word_address Ram_kBaseAddress i + of_nat k) = Inr (le_byte k v) \<and>
           Ram_read32 ram' (word_address Ram_kBaseAddress i) =
             Inr \<lparr>ram_data = v, ram_read_fault = RamFault_None\<rparr>"
proof -
  let ?a = "word_address Ram_kBaseAddress i"
  have len: "length (ram_bytes ram) = 65536" and off: "4 * unat i + k < 65536"
    using assms word_index_lt [of i] by (simp_all add: Ram_wf_def Ram_kSizeBytes_def)
  have a: "unat (?a + of_nat k) = 0x10000000 + (4 * unat i + k)"
    using unat_word_address [OF Ram_window, of i] off assms(2)
    by (simp add: unat_word_ariths unsigned_of_nat take_bit_nat_eq_self Ram_kBaseAddress_def)
  then have in_ram: "\<not> ?a + of_nat k < Ram_kBaseAddress" "\<not> ?a + of_nat k > Ram_kLastAddress"
    and offset: "unat (?a + of_nat k - Ram_kBaseAddress) = 4 * unat i + k"
    using off by (simp_all add: word_less_nat_alt word_le_nat_alt unat_sub address_simps)
  let ?ram' = "ram\<lparr>ram_bytes := bytes_update (ram_bytes ram) i v\<rparr>"
  have "Ram_debug_read_byte ?ram' (?a + of_nat k) = Inr (le_byte k v)"
    using in_ram offset off len nth_bytes_update [OF len assms(2), of i v i]
    by (simp add: Ram_debug_read_byte_def)
  moreover have "Ram_read32 ?ram' ?a = Inr \<lparr>ram_data = v, ram_read_fault = RamFault_None\<rparr>"
    using ram_memory.read_after_write [OF assms(1) Ram_write32_word [OF assms(1)], of i] by simp
  ultimately show ?thesis
    using Ram_write32_word [OF assms(1), of i v] by blast
qed

lemma Ram_write_little_endian_witness:
  "Ram_wf Ram_new \<and> (2 :: nat) < 4 \<and>
   (\<exists>ram'. Ram_write32 Ram_new (word_address Ram_kBaseAddress (5 :: 14 word)) 0xA1B2C3D4 =
           Inr (\<lparr>ram_write_fault = RamFault_None\<rparr>, ram') \<and>
     Ram_debug_read_byte ram' (word_address Ram_kBaseAddress (5 :: 14 word) + of_nat 2) = Inr 0xB2 \<and>
     Ram_read32 ram' (word_address Ram_kBaseAddress (5 :: 14 word)) =
       Inr \<lparr>ram_data = 0xA1B2C3D4, ram_read_fault = RamFault_None\<rparr>)"
  using Ram_write_little_endian [of Ram_new 2 5 "0xA1B2C3D4"] by (simp add: le_byte_def)

end
