(* ===== verification/Mmio.thy ===== *)
theory Mmio
  imports Mini32_Prelude
begin

text \<open>
  The result types of \<^verbatim>\<open>simulator/include/mini32/mmio.hpp\<close> and the contract every memory-mapped device of the
  system keeps: a 16-byte window of four word registers that rejects every other address.
\<close>

section \<open>Results\<close>

datatype MmioFault = MmioFault_None | MmioFault_Misaligned | MmioFault_OutOfRange

record MmioReadResult =
  mmio_data :: u32
  mmio_read_fault :: MmioFault

definition MmioReadResult_ok :: "MmioReadResult \<Rightarrow> bool" where
  "MmioReadResult_ok r \<longleftrightarrow> mmio_read_fault r = MmioFault_None"

record MmioWriteResult =
  mmio_write_fault :: MmioFault

definition MmioWriteResult_ok :: "MmioWriteResult \<Rightarrow> bool" where
  "MmioWriteResult_ok r \<longleftrightarrow> mmio_write_fault r = MmioFault_None"

definition mmio_value :: "u32 \<Rightarrow> MmioReadResult" where
  "mmio_value v = \<lparr>mmio_data = v, mmio_read_fault = MmioFault_None\<rparr>"

definition mmio_read_failure :: "MmioFault \<Rightarrow> MmioReadResult" where
  "mmio_read_failure f = \<lparr>mmio_data = 0, mmio_read_fault = f\<rparr>"

text \<open>The check every device makes first.\<close>

definition validate_window :: "u32 \<Rightarrow> u32 \<Rightarrow> u32 \<Rightarrow> MmioFault" where
  "validate_window lo hi address =
     (if address AND 0x3 \<noteq> 0 then MmioFault_Misaligned
      else if address \<ge> lo \<and> address \<le> hi then MmioFault_None
      else MmioFault_OutOfRange)"

section \<open>The device contract\<close>

text \<open>The four word registers of a window have 2-bit indices.\<close>

lemma two_bit_cases [case_names 0 1 2 3]:
  fixes i :: "2 word"
  obtains "i = 0" | "i = 1" | "i = 2" | "i = 3"
proof -
  have "unat i < 4"
    using unsigned_less [of i, where ?'a = nat] by simp
  then consider "unat i = 0" | "unat i = 1" | "unat i = 2" | "unat i = 3"
    by linarith
  then show thesis
    by cases (use that in \<open>simp_all add: word_unat_eq_iff\<close>)
qed

lemma window_register_exists:
  assumes w: "window_ok base TYPE(2)" and ok: "validate_window base (base + 15) a = MmioFault_None"
  shows "\<exists>i :: 2 word. a = word_address base i"
proof (rule word_address_surj [OF w])
  have "unat (base + 15) \<le> unat base + 15"
    by (simp add: unat_word_ariths)
  then show "a AND 0x3 = 0" "base \<le> a" "unat a < unat base + 4 * 2 ^ LENGTH(2)"
    using ok by (auto simp: validate_window_def word_le_nat_alt split: if_splits)
qed

locale mmio_device =
  fixes base :: u32
    and registers :: "'d \<Rightarrow> 2 word \<Rightarrow> u32"
    and store :: "2 word \<Rightarrow> u32 \<Rightarrow> 'd \<Rightarrow> 'd"
    and read32 :: "'d \<Rightarrow> u32 \<Rightarrow> MmioReadResult"
    and write32 :: "'d \<Rightarrow> u32 \<Rightarrow> u32 \<Rightarrow> MmioWriteResult \<times> 'd"
  assumes base_window: "window_ok base TYPE(2)"
    and read_register: "read32 d (word_address base i) = mmio_value (registers d i)"
    and write_register:
      "write32 d (word_address base i) v = (\<lparr>mmio_write_fault = MmioFault_None\<rparr>, store i v d)"
    and read_fault: "validate_window base (base + 15) a \<noteq> MmioFault_None \<Longrightarrow>
      read32 d a = mmio_read_failure (validate_window base (base + 15) a)"
    and write_fault: "validate_window base (base + 15) a \<noteq> MmioFault_None \<Longrightarrow>
      write32 d a v = (\<lparr>mmio_write_fault = validate_window base (base + 15) a\<rparr>, d)"

begin

lemma read_ok_iff:
  "MmioReadResult_ok (read32 d a) \<longleftrightarrow> validate_window base (base + 15) a = MmioFault_None"
proof (cases "validate_window base (base + 15) a = MmioFault_None")
  case True
  then obtain i :: "2 word" where "a = word_address base i"
    using window_register_exists [OF base_window] by blast
  with True show ?thesis
    by (simp add: read_register MmioReadResult_ok_def mmio_value_def)
next
  case False
  then show ?thesis
    by (simp add: read_fault MmioReadResult_ok_def mmio_read_failure_def)
qed

lemma write_ok_iff:
  "MmioWriteResult_ok (fst (write32 d a v)) \<longleftrightarrow> validate_window base (base + 15) a = MmioFault_None"
proof (cases "validate_window base (base + 15) a = MmioFault_None")
  case True
  then obtain i :: "2 word" where "a = word_address base i"
    using window_register_exists [OF base_window] by blast
  with True show ?thesis
    by (simp add: write_register MmioWriteResult_ok_def)
next
  case False
  then show ?thesis
    by (simp add: write_fault MmioWriteResult_ok_def)
qed

lemma failed_write_keeps_state:
  "\<not> MmioWriteResult_ok (fst (write32 d a v)) \<Longrightarrow> snd (write32 d a v) = d"
  using write_fault [of a d v] write_ok_iff [of d a v] by simp

end

text \<open>How a device is shown to keep the contract: its four registers one by one, then the rejections.\<close>

lemma mmio_deviceI:
  assumes "window_ok base TYPE(2)"
    and "\<And>d v i. i = 0 \<or> i = 1 \<or> i = 2 \<or> i = 3 \<Longrightarrow>
      read32 d (word_address base i) = mmio_value (registers d i) \<and>
      write32 d (word_address base i) v = (\<lparr>mmio_write_fault = MmioFault_None\<rparr>, store i v d)"
    and "\<And>d a v f. validate_window base (base + 15) a = f \<Longrightarrow> f \<noteq> MmioFault_None \<Longrightarrow>
      read32 d a = mmio_read_failure f \<and> write32 d a v = (\<lparr>mmio_write_fault = f\<rparr>, d)"
  shows "mmio_device base registers store read32 write32"
proof
  fix d v and i :: "2 word"
  have "i = 0 \<or> i = 1 \<or> i = 2 \<or> i = 3"
    by (cases i rule: two_bit_cases) simp_all
  then show "read32 d (word_address base i) = mmio_value (registers d i)"
    and "write32 d (word_address base i) v = (\<lparr>mmio_write_fault = MmioFault_None\<rparr>, store i v d)"
    using assms(2) by blast+
qed (use assms in auto)

end
