(* ===== verification/Uart.thy ===== *)
theory Uart
  imports Mmio
begin

text \<open>
  The transmit-only UART, \<^verbatim>\<open>simulator/include/mini32/uart.hpp\<close> and \<^verbatim>\<open>simulator/src/uart.cpp\<close>. Its \<^verbatim>\<open>TxCallback\<close> is host code:
  the model takes any function on a host state, and the device carries the state the callback has
  produced so far.
\<close>

record 'h Uart =
  tx_callback :: "(u8 \<Rightarrow> 'h \<Rightarrow> 'h) option"
  tx_host :: 'h

definition Uart_new :: "(u8 \<Rightarrow> 'h \<Rightarrow> 'h) option \<Rightarrow> 'h \<Rightarrow> 'h Uart" where
  "Uart_new callback host = \<lparr>tx_callback = callback, tx_host = host\<rparr>"

definition Uart_kBaseAddress :: u32 where
  "Uart_kBaseAddress = 0x20000000"

definition Uart_kSizeBytes :: u32 where
  "Uart_kSizeBytes = 16"

definition Uart_kLastAddress :: u32 where
  "Uart_kLastAddress = Uart_kBaseAddress + Uart_kSizeBytes - 1"

definition Uart_validate_address :: "u32 \<Rightarrow> MmioFault" where
  "Uart_validate_address address = validate_window Uart_kBaseAddress Uart_kLastAddress address"

definition Uart_read32 :: "'h Uart \<Rightarrow> u32 \<Rightarrow> MmioReadResult" where
  "Uart_read32 uart address =
     (let fault = Uart_validate_address address in
      if fault \<noteq> MmioFault_None then mmio_read_failure fault
      else
        let offset = address - Uart_kBaseAddress in
        if offset = 0x04 then mmio_value 1
        else if offset = 0x00 \<or> offset = 0x08 \<or> offset = 0x0C then mmio_value 0
        else mmio_read_failure MmioFault_OutOfRange)"

definition Uart_transmit :: "'h Uart \<Rightarrow> u8 \<Rightarrow> 'h Uart" where
  "Uart_transmit uart byte =
     (case tx_callback uart of
        None \<Rightarrow> uart
      | Some callback \<Rightarrow> uart\<lparr>tx_host := callback byte (tx_host uart)\<rparr>)"

definition Uart_write32 :: "'h Uart \<Rightarrow> u32 \<Rightarrow> u32 \<Rightarrow> MmioWriteResult \<times> 'h Uart" where
  "Uart_write32 uart address value =
     (let fault = Uart_validate_address address in
      if fault \<noteq> MmioFault_None then (\<lparr>mmio_write_fault = fault\<rparr>, uart)
      else
        let offset = address - Uart_kBaseAddress in
        if offset = 0x00
        then (\<lparr>mmio_write_fault = MmioFault_None\<rparr>, Uart_transmit uart (ucast (value AND 0xFF)))
        else if offset = 0x04 \<or> offset = 0x08 \<or> offset = 0x0C
        then (\<lparr>mmio_write_fault = MmioFault_None\<rparr>, uart)
        else (\<lparr>mmio_write_fault = MmioFault_OutOfRange\<rparr>, uart))"

definition Uart_reset :: "'h Uart \<Rightarrow> 'h Uart" where
  "Uart_reset uart = uart"

section \<open>The register view\<close>

definition Uart_registers :: "'h Uart \<Rightarrow> 2 word \<Rightarrow> u32" where
  "Uart_registers uart i = (if i = 1 then 1 else 0)"

definition Uart_store :: "2 word \<Rightarrow> u32 \<Rightarrow> 'h Uart \<Rightarrow> 'h Uart" where
  "Uart_store i v uart = (if i = 0 then Uart_transmit uart (ucast v) else uart)"

declare Uart_kBaseAddress_def [address_simps] Uart_kLastAddress_def [address_simps]
  Uart_kSizeBytes_def [address_simps]

interpretation uart_device: mmio_device Uart_kBaseAddress Uart_registers Uart_store
  Uart_read32 Uart_write32
proof (rule mmio_deviceI)
  show "window_ok Uart_kBaseAddress TYPE(2)"
    by (simp add: window_ok_def address_simps)
qed (auto simp: Uart_read32_def Uart_write32_def Uart_validate_address_def validate_window_def
    address_simps word_address_def Uart_registers_def Uart_store_def ucast_low_byte Let_def)

end
