(* ===== verification/Timer.thy ===== *)
theory Timer
  imports Mmio
begin

text \<open>
  The retired-instruction timer, \<^verbatim>\<open>simulator/include/mini32/timer.hpp\<close> and \<^verbatim>\<open>simulator/src/timer.cpp\<close>.
\<close>

record Timer =
  timer_counter :: u32
  timer_compare :: u32
  timer_enabled :: bool

definition Timer_new :: Timer where
  "Timer_new = \<lparr>timer_counter = 0, timer_compare = 0, timer_enabled = False\<rparr>"

definition Timer_kBaseAddress :: u32 where
  "Timer_kBaseAddress = 0x20000100"

definition Timer_kSizeBytes :: u32 where
  "Timer_kSizeBytes = 16"

definition Timer_kLastAddress :: u32 where
  "Timer_kLastAddress = Timer_kBaseAddress + Timer_kSizeBytes - 1"

definition Timer_match :: "Timer \<Rightarrow> bool" where
  "Timer_match timer \<longleftrightarrow> timer_enabled timer \<and> timer_counter timer = timer_compare timer"

definition Timer_validate_address :: "u32 \<Rightarrow> MmioFault" where
  "Timer_validate_address address = validate_window Timer_kBaseAddress Timer_kLastAddress address"

definition Timer_read32 :: "Timer \<Rightarrow> u32 \<Rightarrow> MmioReadResult" where
  "Timer_read32 timer address =
     (let fault = Timer_validate_address address in
      if fault \<noteq> MmioFault_None then mmio_read_failure fault
      else
        let offset = address - Timer_kBaseAddress in
        if offset = 0x00 then mmio_value (timer_counter timer)
        else if offset = 0x04 then mmio_value (timer_compare timer)
        else if offset = 0x08 then mmio_value (if timer_enabled timer then 1 else 0)
        else if offset = 0x0C then mmio_value (if Timer_match timer then 1 else 0)
        else mmio_value 0)"

definition Timer_write32 :: "Timer \<Rightarrow> u32 \<Rightarrow> u32 \<Rightarrow> MmioWriteResult \<times> Timer" where
  "Timer_write32 timer address value =
     (let fault = Timer_validate_address address in
      if fault \<noteq> MmioFault_None then (\<lparr>mmio_write_fault = fault\<rparr>, timer)
      else
        let offset = address - Timer_kBaseAddress in
        (\<lparr>mmio_write_fault = MmioFault_None\<rparr>,
         if offset = 0x00 then timer\<lparr>timer_counter := value\<rparr>
         else if offset = 0x04 then timer\<lparr>timer_compare := value\<rparr>
         else if offset = 0x08 then timer\<lparr>timer_enabled := (value AND 1 \<noteq> 0)\<rparr>
         else timer))"

definition Timer_retire_tick :: "Timer \<Rightarrow> Timer" where
  "Timer_retire_tick timer =
     (if timer_enabled timer then timer\<lparr>timer_counter := timer_counter timer + 1\<rparr> else timer)"

definition Timer_reset :: "Timer \<Rightarrow> Timer" where
  "Timer_reset timer = timer\<lparr>timer_counter := 0, timer_compare := 0, timer_enabled := False\<rparr>"

section \<open>The register view\<close>

definition Timer_registers :: "Timer \<Rightarrow> 2 word \<Rightarrow> u32" where
  "Timer_registers timer i =
     (if i = 0 then timer_counter timer else if i = 1 then timer_compare timer
      else if i = 2 then (if timer_enabled timer then 1 else 0)
      else (if Timer_match timer then 1 else 0))"

definition Timer_store :: "2 word \<Rightarrow> u32 \<Rightarrow> Timer \<Rightarrow> Timer" where
  "Timer_store i v timer =
     (if i = 0 then timer\<lparr>timer_counter := v\<rparr> else if i = 1 then timer\<lparr>timer_compare := v\<rparr>
      else if i = 2 then timer\<lparr>timer_enabled := odd v\<rparr> else timer)"

declare Timer_kBaseAddress_def [address_simps] Timer_kLastAddress_def [address_simps]
  Timer_kSizeBytes_def [address_simps]

interpretation timer_device: mmio_device Timer_kBaseAddress Timer_registers Timer_store
  Timer_read32 Timer_write32
proof (rule mmio_deviceI)
  show "window_ok Timer_kBaseAddress TYPE(2)"
    by (simp add: window_ok_def address_simps)
qed (auto simp: Timer_read32_def Timer_write32_def Timer_validate_address_def validate_window_def
    address_simps word_address_def Timer_registers_def Timer_store_def and_1_neq_0_iff Let_def)

section \<open>Counting\<close>

lemma Timer_retire_ticks:
  "(Timer_retire_tick ^^ n) timer =
     (if timer_enabled timer then timer\<lparr>timer_counter := timer_counter timer + of_nat n\<rparr> else timer)"
  by (induction n) (simp_all add: Timer_retire_tick_def add_ac)

end
