(* ===== verification/Gpio.thy ===== *)
theory Gpio
  imports Mmio
begin

text \<open>
  The GPIO block, \<^verbatim>\<open>simulator/include/mini32/gpio.hpp\<close> and \<^verbatim>\<open>simulator/src/gpio.cpp\<close>. The host drives the input
  pins; the guest owns the output and direction latches.
\<close>

record Gpio =
  gpio_input :: u32
  gpio_output :: u32
  gpio_direction :: u32

definition Gpio_new :: Gpio where
  "Gpio_new = \<lparr>gpio_input = 0, gpio_output = 0, gpio_direction = 0\<rparr>"

definition Gpio_kBaseAddress :: u32 where
  "Gpio_kBaseAddress = 0x20000200"

definition Gpio_kSizeBytes :: u32 where
  "Gpio_kSizeBytes = 16"

definition Gpio_kLastAddress :: u32 where
  "Gpio_kLastAddress = Gpio_kBaseAddress + Gpio_kSizeBytes - 1"

definition Gpio_set_input :: "Gpio \<Rightarrow> u32 \<Rightarrow> Gpio" where
  "Gpio_set_input gpio value = gpio\<lparr>gpio_input := value\<rparr>"

definition Gpio_validate_address :: "u32 \<Rightarrow> MmioFault" where
  "Gpio_validate_address address = validate_window Gpio_kBaseAddress Gpio_kLastAddress address"

definition Gpio_read32 :: "Gpio \<Rightarrow> u32 \<Rightarrow> MmioReadResult" where
  "Gpio_read32 gpio address =
     (let fault = Gpio_validate_address address in
      if fault \<noteq> MmioFault_None then mmio_read_failure fault
      else
        let offset = address - Gpio_kBaseAddress in
        if offset = 0x00 then mmio_value (gpio_input gpio)
        else if offset = 0x04 then mmio_value (gpio_output gpio)
        else if offset = 0x08 then mmio_value (gpio_direction gpio)
        else mmio_value 0)"

definition Gpio_write32 :: "Gpio \<Rightarrow> u32 \<Rightarrow> u32 \<Rightarrow> MmioWriteResult \<times> Gpio" where
  "Gpio_write32 gpio address value =
     (let fault = Gpio_validate_address address in
      if fault \<noteq> MmioFault_None then (\<lparr>mmio_write_fault = fault\<rparr>, gpio)
      else
        let offset = address - Gpio_kBaseAddress in
        (\<lparr>mmio_write_fault = MmioFault_None\<rparr>,
         if offset = 0x04 then gpio\<lparr>gpio_output := value\<rparr>
         else if offset = 0x08 then gpio\<lparr>gpio_direction := value\<rparr>
         else gpio))"

definition Gpio_reset :: "Gpio \<Rightarrow> Gpio" where
  "Gpio_reset gpio = gpio\<lparr>gpio_output := 0, gpio_direction := 0\<rparr>"

section \<open>The register view\<close>

definition Gpio_registers :: "Gpio \<Rightarrow> 2 word \<Rightarrow> u32" where
  "Gpio_registers gpio i =
     (if i = 0 then gpio_input gpio else if i = 1 then gpio_output gpio
      else if i = 2 then gpio_direction gpio else 0)"

definition Gpio_store :: "2 word \<Rightarrow> u32 \<Rightarrow> Gpio \<Rightarrow> Gpio" where
  "Gpio_store i v gpio =
     (if i = 1 then gpio\<lparr>gpio_output := v\<rparr> else if i = 2 then gpio\<lparr>gpio_direction := v\<rparr> else gpio)"

declare Gpio_kBaseAddress_def [address_simps] Gpio_kLastAddress_def [address_simps]
  Gpio_kSizeBytes_def [address_simps]

interpretation gpio_device: mmio_device Gpio_kBaseAddress Gpio_registers Gpio_store
  Gpio_read32 Gpio_write32
proof (rule mmio_deviceI)
  show "window_ok Gpio_kBaseAddress TYPE(2)"
    by (simp add: window_ok_def address_simps)
qed (auto simp: Gpio_read32_def Gpio_write32_def Gpio_validate_address_def validate_window_def
    address_simps word_address_def Gpio_registers_def Gpio_store_def Let_def)

end
