(* ===== verification/Debug_Device.thy ===== *)
theory Debug_Device
  imports Mmio
begin

text \<open>
  The debug channel, \<^verbatim>\<open>simulator/include/mini32/debug_device.hpp\<close> and \<^verbatim>\<open>simulator/src/debug_device.cpp\<close>.
\<close>

record DebugDevice =
  debug_value :: u32

definition DebugDevice_new :: DebugDevice where
  "DebugDevice_new = \<lparr>debug_value = 0\<rparr>"

definition DebugDevice_kBaseAddress :: u32 where
  "DebugDevice_kBaseAddress = 0x20000300"

definition DebugDevice_kSizeBytes :: u32 where
  "DebugDevice_kSizeBytes = 16"

definition DebugDevice_kLastAddress :: u32 where
  "DebugDevice_kLastAddress = DebugDevice_kBaseAddress + DebugDevice_kSizeBytes - 1"

definition DebugDevice_validate_address :: "u32 \<Rightarrow> MmioFault" where
  "DebugDevice_validate_address address =
     validate_window DebugDevice_kBaseAddress DebugDevice_kLastAddress address"

definition DebugDevice_read32 :: "DebugDevice \<Rightarrow> u32 \<Rightarrow> MmioReadResult" where
  "DebugDevice_read32 debug address =
     (let fault = DebugDevice_validate_address address in
      if fault \<noteq> MmioFault_None then mmio_read_failure fault
      else if address - DebugDevice_kBaseAddress = 0 then mmio_value (debug_value debug)
      else mmio_value 0)"

definition DebugDevice_write32 :: "DebugDevice \<Rightarrow> u32 \<Rightarrow> u32 \<Rightarrow> MmioWriteResult \<times> DebugDevice" where
  "DebugDevice_write32 debug address value =
     (let fault = DebugDevice_validate_address address in
      if fault \<noteq> MmioFault_None then (\<lparr>mmio_write_fault = fault\<rparr>, debug)
      else
        (\<lparr>mmio_write_fault = MmioFault_None\<rparr>,
         if address - DebugDevice_kBaseAddress = 0 then debug\<lparr>debug_value := value\<rparr> else debug))"

definition DebugDevice_reset :: "DebugDevice \<Rightarrow> DebugDevice" where
  "DebugDevice_reset debug = debug\<lparr>debug_value := 0\<rparr>"

section \<open>The register view\<close>

definition DebugDevice_registers :: "DebugDevice \<Rightarrow> 2 word \<Rightarrow> u32" where
  "DebugDevice_registers debug i = (if i = 0 then debug_value debug else 0)"

definition DebugDevice_store :: "2 word \<Rightarrow> u32 \<Rightarrow> DebugDevice \<Rightarrow> DebugDevice" where
  "DebugDevice_store i v debug = (if i = 0 then debug\<lparr>debug_value := v\<rparr> else debug)"

declare DebugDevice_kBaseAddress_def [address_simps] DebugDevice_kLastAddress_def [address_simps]
  DebugDevice_kSizeBytes_def [address_simps]

interpretation debug_device: mmio_device DebugDevice_kBaseAddress DebugDevice_registers DebugDevice_store
  DebugDevice_read32 DebugDevice_write32
proof (rule mmio_deviceI)
  show "window_ok DebugDevice_kBaseAddress TYPE(2)"
    by (simp add: window_ok_def address_simps)
qed (auto simp: DebugDevice_read32_def DebugDevice_write32_def DebugDevice_validate_address_def validate_window_def
    address_simps word_address_def DebugDevice_registers_def DebugDevice_store_def Let_def)

end
