(* ===== verification/Bus.thy ===== *)
theory Bus
  imports Rom Ram Uart Timer Gpio Debug_Device
begin

text \<open>
  The system bus, \<^verbatim>\<open>simulator/include/mini32/bus.hpp\<close> and \<^verbatim>\<open>simulator/src/bus.cpp\<close>: the address decoder that
  routes aligned accesses to the memories and the devices. The C++ class holds references; in both
  programs of the repository one bus owns each object it refers to, and the model keeps the objects
  in the bus record. Buses that share objects are the subject of \<open>Shared_Bus\<close>.
\<close>

datatype BusFault =
  BusFault_None | BusFault_Misaligned | BusFault_Unmapped | BusFault_ReadOnly | BusFault_NonExecutable

record BusWriteResult =
  bus_write_fault :: BusFault

record BusReadResult =
  bus_data :: u32
  bus_read_fault :: BusFault

definition BusReadResult_ok :: "BusReadResult \<Rightarrow> bool" where
  "BusReadResult_ok r \<longleftrightarrow> bus_read_fault r = BusFault_None"

definition BusWriteResult_ok :: "BusWriteResult \<Rightarrow> bool" where
  "BusWriteResult_ok r \<longleftrightarrow> bus_write_fault r = BusFault_None"

record 'h Bus =
  bus_rom :: Rom
  bus_ram :: Ram
  bus_uart :: "'h Uart"
  bus_debug :: DebugDevice
  bus_timer :: Timer
  bus_gpio :: Gpio

definition Bus_new :: "Rom \<Rightarrow> Ram \<Rightarrow> 'h Uart \<Rightarrow> DebugDevice \<Rightarrow> Timer \<Rightarrow> Gpio \<Rightarrow> 'h Bus" where
  "Bus_new rom ram uart debug timer gpio =
     \<lparr>bus_rom = rom, bus_ram = ram, bus_uart = uart, bus_debug = debug, bus_timer = timer,
      bus_gpio = gpio\<rparr>"

definition bus_value :: "u32 \<Rightarrow> BusReadResult" where
  "bus_value v = \<lparr>bus_data = v, bus_read_fault = BusFault_None\<rparr>"

definition bus_read_failure :: "BusFault \<Rightarrow> BusReadResult" where
  "bus_read_failure f = \<lparr>bus_data = 0, bus_read_fault = f\<rparr>"

definition bus_fault :: "MmioFault \<Rightarrow> BusFault" where
  "bus_fault fault = (if fault = MmioFault_Misaligned then BusFault_Misaligned else BusFault_Unmapped)"

definition bus_read_of_mmio :: "MmioReadResult \<Rightarrow> BusReadResult" where
  "bus_read_of_mmio r =
     (if MmioReadResult_ok r then bus_value (mmio_data r)
      else bus_read_failure (bus_fault (mmio_read_fault r)))"

definition bus_write_of_mmio :: "MmioWriteResult \<Rightarrow> BusWriteResult" where
  "bus_write_of_mmio r =
     \<lparr>bus_write_fault = (if MmioWriteResult_ok r then BusFault_None
                        else bus_fault (mmio_write_fault r))\<rparr>"

section \<open>Address windows\<close>

definition in_rom :: "u32 \<Rightarrow> bool" where
  "in_rom address \<longleftrightarrow> address \<ge> Rom_kBaseAddress \<and> address \<le> Rom_kLastAddress"

definition in_ram :: "u32 \<Rightarrow> bool" where
  "in_ram address \<longleftrightarrow> address \<ge> Ram_kBaseAddress \<and> address \<le> Ram_kLastAddress"

definition in_uart :: "u32 \<Rightarrow> bool" where
  "in_uart address \<longleftrightarrow> address \<ge> Uart_kBaseAddress \<and> address \<le> Uart_kLastAddress"

definition in_timer :: "u32 \<Rightarrow> bool" where
  "in_timer address \<longleftrightarrow> address \<ge> Timer_kBaseAddress \<and> address \<le> Timer_kLastAddress"

definition in_gpio :: "u32 \<Rightarrow> bool" where
  "in_gpio address \<longleftrightarrow> address \<ge> Gpio_kBaseAddress \<and> address \<le> Gpio_kLastAddress"

definition in_debug :: "u32 \<Rightarrow> bool" where
  "in_debug address \<longleftrightarrow> address \<ge> DebugDevice_kBaseAddress \<and> address \<le> DebugDevice_kLastAddress"

section \<open>Operations\<close>

definition Bus_read32 :: "'h Bus \<Rightarrow> u32 \<Rightarrow> BusReadResult result" where
  "Bus_read32 bus address =
     (if address AND 0x3 \<noteq> 0 then Inr (bus_read_failure BusFault_Misaligned)
      else if in_rom address then
        bindE (Rom_read32 (bus_rom bus) address) (\<lambda>r.
        Inr (if RomReadResult_ok r then bus_value (rom_data r)
             else bus_read_failure (if rom_fault r = RomFault_Misaligned then BusFault_Misaligned
                                    else BusFault_Unmapped)))
      else if in_ram address then
        bindE (Ram_read32 (bus_ram bus) address) (\<lambda>r.
        Inr (if RamReadResult_ok r then bus_value (ram_data r)
             else bus_read_failure (if ram_read_fault r = RamFault_Misaligned then BusFault_Misaligned
                                    else BusFault_Unmapped)))
      else if in_uart address then Inr (bus_read_of_mmio (Uart_read32 (bus_uart bus) address))
      else if in_timer address then Inr (bus_read_of_mmio (Timer_read32 (bus_timer bus) address))
      else if in_gpio address then Inr (bus_read_of_mmio (Gpio_read32 (bus_gpio bus) address))
      else if in_debug address then
        Inr (bus_read_of_mmio (DebugDevice_read32 (bus_debug bus) address))
      else Inr (bus_read_failure BusFault_Unmapped))"

definition Bus_fetch32 :: "'h Bus \<Rightarrow> u32 \<Rightarrow> BusReadResult result" where
  "Bus_fetch32 bus address =
     (if address AND 0x3 \<noteq> 0 then Inr (bus_read_failure BusFault_Misaligned)
      else if in_rom address then
        bindE (Rom_read32 (bus_rom bus) address) (\<lambda>r.
        Inr (if RomReadResult_ok r then bus_value (rom_data r)
             else bus_read_failure BusFault_Unmapped))
      else if in_ram address then Inr (bus_read_failure BusFault_NonExecutable)
      else if in_uart address \<or> in_timer address \<or> in_gpio address \<or> in_debug address
      then Inr (bus_read_failure BusFault_NonExecutable)
      else Inr (bus_read_failure BusFault_Unmapped))"

definition Bus_write32 :: "'h Bus \<Rightarrow> u32 \<Rightarrow> u32 \<Rightarrow> (BusWriteResult \<times> 'h Bus) result" where
  "Bus_write32 bus address value =
     (if address AND 0x3 \<noteq> 0 then Inr (\<lparr>bus_write_fault = BusFault_Misaligned\<rparr>, bus)
      else if in_rom address then Inr (\<lparr>bus_write_fault = BusFault_ReadOnly\<rparr>, bus)
      else if in_ram address then
        bindE (Ram_write32 (bus_ram bus) address value) (\<lambda>(r, ram).
        Inr (\<lparr>bus_write_fault = (if ram_write_fault r = RamFault_None then BusFault_None
                                 else BusFault_Unmapped)\<rparr>, bus\<lparr>bus_ram := ram\<rparr>))
      else if in_uart address then
        (case Uart_write32 (bus_uart bus) address value of (r, uart) \<Rightarrow>
           Inr (bus_write_of_mmio r, bus\<lparr>bus_uart := uart\<rparr>))
      else if in_timer address then
        (case Timer_write32 (bus_timer bus) address value of (r, timer) \<Rightarrow>
           Inr (bus_write_of_mmio r, bus\<lparr>bus_timer := timer\<rparr>))
      else if in_gpio address then
        (case Gpio_write32 (bus_gpio bus) address value of (r, gpio) \<Rightarrow>
           Inr (bus_write_of_mmio r, bus\<lparr>bus_gpio := gpio\<rparr>))
      else if in_debug address then
        (case DebugDevice_write32 (bus_debug bus) address value of (r, debug) \<Rightarrow>
           Inr (bus_write_of_mmio r, bus\<lparr>bus_debug := debug\<rparr>))
      else Inr (\<lparr>bus_write_fault = BusFault_Unmapped\<rparr>, bus))"

definition Bus_retire_tick :: "'h Bus \<Rightarrow> 'h Bus" where
  "Bus_retire_tick bus = bus\<lparr>bus_timer := Timer_retire_tick (bus_timer bus)\<rparr>"

section \<open>Well-formedness\<close>

definition Bus_wf :: "'h Bus \<Rightarrow> bool" where
  "Bus_wf bus \<longleftrightarrow> Rom_wf (bus_rom bus) \<and> Ram_wf (bus_ram bus)"

lemma Bus_wf_new: "Bus_wf (Bus_new rom ram uart debug timer gpio) \<longleftrightarrow> Rom_wf rom \<and> Ram_wf ram"
  by (simp add: Bus_wf_def Bus_new_def)

lemma Bus_retire_tick_wf [simp]: "Bus_wf (Bus_retire_tick bus) = Bus_wf bus"
  by (simp add: Bus_wf_def Bus_retire_tick_def)

lemma Bus_write32_rom: "Bus_write32 bus a v = Inr (r, bus') \<Longrightarrow> bus_rom bus' = bus_rom bus"
  by (auto simp: Bus_write32_def result_simps split: if_splits prod.splits)

end
