(* ===== verification/Memory_Map.thy ===== *)
theory Memory_Map
  imports Bus
begin

text \<open>
  The memory map of \<^verbatim>\<open>docs/memory-map.md\<close> as a specification: an address is decoded by its high bits
  into a region and a word index, memories are functions from 14-bit word indices to words, and a
  device is its four word registers. The bus of the simulator, with its byte arrays, range
  comparisons and per-device validation, is shown to implement it; \<open>cpu_bus\<close> is the contract the
  CPU relies on, interpreted on the bus.
\<close>

section \<open>Specification\<close>

datatype region =
    Region_Misaligned
  | Region_Rom "14 word"
  | Region_Ram "14 word"
  | Region_Uart "2 word"
  | Region_Timer "2 word"
  | Region_Gpio "2 word"
  | Region_Debug "2 word"
  | Region_Unmapped

definition region_of :: "u32 \<Rightarrow> region" where
  "region_of a =
     (if take_bit 2 a \<noteq> 0 then Region_Misaligned
      else if drop_bit 16 a = 0x0000 then Region_Rom (ucast (drop_bit 2 a))
      else if drop_bit 16 a = 0x1000 then Region_Ram (ucast (drop_bit 2 a))
      else if drop_bit 4 a = 0x2000000 then Region_Uart (ucast (drop_bit 2 a))
      else if drop_bit 4 a = 0x2000010 then Region_Timer (ucast (drop_bit 2 a))
      else if drop_bit 4 a = 0x2000020 then Region_Gpio (ucast (drop_bit 2 a))
      else if drop_bit 4 a = 0x2000030 then Region_Debug (ucast (drop_bit 2 a))
      else Region_Unmapped)"

record 'h sys =
  sys_rom :: "14 word \<Rightarrow> u32"
  sys_ram :: "14 word \<Rightarrow> u32"
  sys_uart :: "'h Uart"
  sys_debug :: DebugDevice
  sys_timer :: Timer
  sys_gpio :: Gpio

fun region_read :: "'h sys \<Rightarrow> region \<Rightarrow> BusFault + u32" where
  "region_read s Region_Misaligned = Inl BusFault_Misaligned"
| "region_read s (Region_Rom i) = Inr (sys_rom s i)"
| "region_read s (Region_Ram i) = Inr (sys_ram s i)"
| "region_read s (Region_Uart i) = Inr (Uart_registers (sys_uart s) i)"
| "region_read s (Region_Timer i) = Inr (Timer_registers (sys_timer s) i)"
| "region_read s (Region_Gpio i) = Inr (Gpio_registers (sys_gpio s) i)"
| "region_read s (Region_Debug i) = Inr (DebugDevice_registers (sys_debug s) i)"
| "region_read s Region_Unmapped = Inl BusFault_Unmapped"

fun region_fetch :: "'h sys \<Rightarrow> region \<Rightarrow> BusFault + u32" where
  "region_fetch s Region_Misaligned = Inl BusFault_Misaligned"
| "region_fetch s (Region_Rom i) = Inr (sys_rom s i)"
| "region_fetch s Region_Unmapped = Inl BusFault_Unmapped"
| "region_fetch s _ = Inl BusFault_NonExecutable"

fun region_write :: "'h sys \<Rightarrow> region \<Rightarrow> u32 \<Rightarrow> BusFault + 'h sys" where
  "region_write s Region_Misaligned v = Inl BusFault_Misaligned"
| "region_write s (Region_Rom i) v = Inl BusFault_ReadOnly"
| "region_write s (Region_Ram i) v = Inr (s\<lparr>sys_ram := (sys_ram s)(i := v)\<rparr>)"
| "region_write s (Region_Uart i) v = Inr (s\<lparr>sys_uart := Uart_store i v (sys_uart s)\<rparr>)"
| "region_write s (Region_Timer i) v = Inr (s\<lparr>sys_timer := Timer_store i v (sys_timer s)\<rparr>)"
| "region_write s (Region_Gpio i) v = Inr (s\<lparr>sys_gpio := Gpio_store i v (sys_gpio s)\<rparr>)"
| "region_write s (Region_Debug i) v = Inr (s\<lparr>sys_debug := DebugDevice_store i v (sys_debug s)\<rparr>)"
| "region_write s Region_Unmapped v = Inl BusFault_Unmapped"

definition sys_read :: "'h sys \<Rightarrow> u32 \<Rightarrow> BusFault + u32" where
  "sys_read s a = region_read s (region_of a)"

definition sys_fetch :: "'h sys \<Rightarrow> u32 \<Rightarrow> BusFault + u32" where
  "sys_fetch s a = region_fetch s (region_of a)"

definition sys_write :: "'h sys \<Rightarrow> u32 \<Rightarrow> u32 \<Rightarrow> BusFault + 'h sys" where
  "sys_write s a v = region_write s (region_of a) v"

definition sys_tick :: "'h sys \<Rightarrow> 'h sys" where
  "sys_tick s = s\<lparr>sys_timer := Timer_retire_tick (sys_timer s)\<rparr>"

section \<open>Abstraction of the bus\<close>

definition sys_of_bus :: "'h Bus \<Rightarrow> 'h sys" where
  "sys_of_bus bus =
     \<lparr>sys_rom = Rom_words (bus_rom bus), sys_ram = Ram_words (bus_ram bus),
      sys_uart = bus_uart bus, sys_debug = bus_debug bus, sys_timer = bus_timer bus,
      sys_gpio = bus_gpio bus\<rparr>"

section \<open>Address decoding by high bits and by range agree\<close>

lemma unat_drop_bit: "unat (drop_bit n a) = unat a div 2 ^ n" for a :: "'a :: len word"
  using unsigned_less [of a, where ?'a = nat]
  by (simp add: unsigned_drop_bit_eq take_bit_nat_eq_self flip: drop_bit_eq_div)

lemma high_bits_iff:
  fixes a c :: u32
  shows "drop_bit n a = c \<longleftrightarrow> unat a div 2 ^ n = unat c"
  by (simp only: word_unat_eq_iff unat_drop_bit)

lemma in_windows:
  "drop_bit 16 a = 0x0000 \<longleftrightarrow> in_rom a"
  "drop_bit 16 a = 0x1000 \<longleftrightarrow> in_ram a"
  "drop_bit 4 a = 0x2000000 \<longleftrightarrow> in_uart a"
  "drop_bit 4 a = 0x2000010 \<longleftrightarrow> in_timer a"
  "drop_bit 4 a = 0x2000020 \<longleftrightarrow> in_gpio a"
  "drop_bit 4 a = 0x2000030 \<longleftrightarrow> in_debug a"
  unfolding in_rom_def in_ram_def in_uart_def in_timer_def in_gpio_def in_debug_def
    high_bits_iff word_le_nat_alt address_simps
  by (simp_all, linarith+)

lemma word_index_address:
  fixes a base :: u32
  assumes w: "window_ok base TYPE('n :: len)" and n: "4 * 2 ^ LENGTH('n) dvd unat base"
    and a: "take_bit 2 a = 0" "unat a div (4 * 2 ^ LENGTH('n)) = unat base div (4 * 2 ^ LENGTH('n))"
  shows "word_address base (ucast (drop_bit 2 a) :: 'n word) = a"
proof -
  let ?M = "2 ^ LENGTH('n) :: nat"
  have "a AND 0x3 = 0"
    using a(1) by (simp only: mask_simps)
  then have a4: "unat a mod 4 = 0"
    by (simp add: aligned_iff_dvd)
  have i: "unat (ucast (drop_bit 2 a) :: 'n word) = unat a div 4 mod ?M"
    by (simp add: unsigned_ucast_eq unat_drop_bit take_bit_eq_mod)
  have "unat base = 4 * ?M * (unat a div (4 * ?M))"
    using n a(2) by simp
  then have "unat base + unat a mod (4 * ?M) = unat a"
    by simp
  moreover have "unat a mod (4 * ?M) = 4 * (unat a div 4 mod ?M)"
    using a4 by (simp add: mod_mult2_eq)
  ultimately have "unat (word_address base (ucast (drop_bit 2 a) :: 'n word)) = unat a"
    by (simp add: unat_word_address [OF w] i)
  then show ?thesis
    by (rule word_unat_eq_iff [THEN iffD2])
qed

lemma decoded_word_address:
  assumes "take_bit 2 a = 0"
  shows "in_rom a \<Longrightarrow> word_address Rom_kBaseAddress (ucast (drop_bit 2 a) :: 14 word) = a"
    and "in_ram a \<Longrightarrow> word_address Ram_kBaseAddress (ucast (drop_bit 2 a) :: 14 word) = a"
    and "in_uart a \<Longrightarrow> word_address Uart_kBaseAddress (ucast (drop_bit 2 a) :: 2 word) = a"
    and "in_timer a \<Longrightarrow> word_address Timer_kBaseAddress (ucast (drop_bit 2 a) :: 2 word) = a"
    and "in_gpio a \<Longrightarrow> word_address Gpio_kBaseAddress (ucast (drop_bit 2 a) :: 2 word) = a"
    and "in_debug a \<Longrightarrow> word_address DebugDevice_kBaseAddress (ucast (drop_bit 2 a) :: 2 word) = a"
  by (rule word_index_address [OF _ _ assms];
      simp add: in_windows [symmetric] high_bits_iff address_simps window_ok_def)+

text \<open>The region of an address, as the range comparisons of the bus see it.\<close>

lemma region_of_ranges:
  "region_of a =
     (if a AND 0x3 \<noteq> 0 then Region_Misaligned
      else if in_rom a then Region_Rom (ucast (drop_bit 2 a))
      else if in_ram a then Region_Ram (ucast (drop_bit 2 a))
      else if in_uart a then Region_Uart (ucast (drop_bit 2 a))
      else if in_timer a then Region_Timer (ucast (drop_bit 2 a))
      else if in_gpio a then Region_Gpio (ucast (drop_bit 2 a))
      else if in_debug a then Region_Debug (ucast (drop_bit 2 a))
      else Region_Unmapped)"
  by (simp only: region_of_def in_windows and_literal_masks(1))

section \<open>The contract of the CPU with its bus\<close>

fun read_result :: "BusFault + u32 \<Rightarrow> BusReadResult" where
  "read_result (Inl f) = bus_read_failure f"
| "read_result (Inr v) = bus_value v"

lemma sys_fault_is_fault:
  "sys_read s a = Inl f \<Longrightarrow> f \<noteq> BusFault_None"
  "sys_fetch s a = Inl f \<Longrightarrow> f \<noteq> BusFault_None"
  "sys_write s a v = Inl f \<Longrightarrow> f \<noteq> BusFault_None"
  by (cases "region_of a"; auto simp: sys_read_def sys_fetch_def sys_write_def)+

lemma read_result_simps [simp]:
  "BusReadResult_ok (bus_read_failure f) \<longleftrightarrow> f = BusFault_None"
  "bus_read_fault (bus_read_failure f) = f"
  "BusReadResult_ok (bus_value v)"
  "bus_data (bus_value v) = v"
  by (simp_all add: BusReadResult_ok_def bus_read_failure_def bus_value_def)

locale cpu_bus =
  fixes wf :: "'b \<Rightarrow> bool"
    and sys_of :: "'b \<Rightarrow> 'h sys"
    and fetch32 :: "'b \<Rightarrow> u32 \<Rightarrow> BusReadResult result"
    and read32 :: "'b \<Rightarrow> u32 \<Rightarrow> BusReadResult result"
    and write32 :: "'b \<Rightarrow> u32 \<Rightarrow> u32 \<Rightarrow> (BusWriteResult \<times> 'b) result"
    and retire_tick :: "'b \<Rightarrow> 'b"
  assumes fetch_spec: "wf b \<Longrightarrow> fetch32 b a = Inr (read_result (sys_fetch (sys_of b) a))"
    and read_spec: "wf b \<Longrightarrow> read32 b a = Inr (read_result (sys_read (sys_of b) a))"
    and write_fails: "wf b \<Longrightarrow> sys_write (sys_of b) a v = Inl f \<Longrightarrow>
      write32 b a v = Inr (\<lparr>bus_write_fault = f\<rparr>, b)"
    and write_succeeds: "wf b \<Longrightarrow> sys_write (sys_of b) a v = Inr s \<Longrightarrow>
      \<exists>b'. write32 b a v = Inr (\<lparr>bus_write_fault = BusFault_None\<rparr>, b') \<and> wf b' \<and> sys_of b' = s"
    and tick_spec: "wf b \<Longrightarrow> wf (retire_tick b) \<and> sys_of (retire_tick b) = sys_tick (sys_of b)"
begin

lemma write_cases:
  assumes "wf b"
  obtains (fault) f where "sys_write (sys_of b) a v = Inl f" "f \<noteq> BusFault_None"
      "write32 b a v = Inr (\<lparr>bus_write_fault = f\<rparr>, b)"
  | (stored) b' where "sys_write (sys_of b) a v = Inr (sys_of b')" "wf b'"
      "write32 b a v = Inr (\<lparr>bus_write_fault = BusFault_None\<rparr>, b')"
proof (cases "sys_write (sys_of b) a v")
  case (Inl f)
  then show ?thesis
    using fault write_fails [OF assms Inl] sys_fault_is_fault(3) [OF Inl] by blast
next
  case (Inr s)
  then show ?thesis
    using stored write_succeeds [OF assms Inr] by blast
qed

text \<open>No store and no timer tick changes what is fetched: the program is immutable.\<close>

lemma write_keeps_program:
  assumes "wf b" and "write32 b a v = Inr (r, b')"
  shows "wf b' \<and> sys_rom (sys_of b') = sys_rom (sys_of b) \<and> fetch32 b' pc = fetch32 b pc"
proof -
  have rom: "sys_rom s' = sys_rom s" if "sys_write s a v = Inr s'" for s s' :: "'h sys"
    using that by (auto simp: sys_write_def elim: region_write.elims)
  have fetch: "sys_fetch s pc = sys_fetch s' pc" if "sys_rom s = sys_rom s'" for s s' :: "'h sys"
    using that by (cases "region_of pc") (simp_all add: sys_fetch_def)
  show ?thesis
    using assms(1)
  proof (cases rule: write_cases [where a = a and v = v])
    case (fault f)
    with assms show ?thesis by simp
  next
    case (stored b'')
    with assms(2) have "wf b'" "sys_rom (sys_of b') = sys_rom (sys_of b)"
      using rom [of "sys_of b" "sys_of b'"] by simp_all
    then show ?thesis
      using assms(1) fetch [of "sys_of b'" "sys_of b"] by (simp add: fetch_spec)
  qed
qed

text \<open>A word stored in RAM is read back, until it is overwritten.\<close>

lemma ram_read_after_write:
  assumes "wf b" and "region_of a = Region_Ram i"
  shows "\<exists>b'. write32 b a v = Inr (\<lparr>bus_write_fault = BusFault_None\<rparr>, b') \<and> wf b' \<and>
    (\<forall>a'. read32 b' a' = (if region_of a' = Region_Ram i then Inr (bus_value v) else read32 b a'))"
proof -
  let ?s = "(sys_of b)\<lparr>sys_ram := (sys_ram (sys_of b))(i := v)\<rparr>"
  have "sys_write (sys_of b) a v = Inr ?s"
    using assms(2) by (simp add: sys_write_def)
  then obtain b' where b': "write32 b a v = Inr (\<lparr>bus_write_fault = BusFault_None\<rparr>, b')" "wf b'"
      "sys_of b' = ?s"
    using write_succeeds [OF assms(1)] by blast
  have "read32 b' a' = (if region_of a' = Region_Ram i then Inr (bus_value v) else read32 b a')" for a'
    using assms(1) b'(2,3) by (cases "region_of a'") (simp_all add: read_spec sys_read_def)
  with b' show ?thesis by blast
qed

end

section \<open>The bus keeps the contract\<close>

lemma mmio_read_of_value [simp]: "bus_read_of_mmio (mmio_value v) = bus_value v"
  by (simp add: bus_read_of_mmio_def MmioReadResult_ok_def mmio_value_def)

lemma mmio_write_of_ok [simp]:
  "bus_write_of_mmio \<lparr>mmio_write_fault = MmioFault_None\<rparr> = \<lparr>bus_write_fault = BusFault_None\<rparr>"
  by (simp add: bus_write_of_mmio_def MmioWriteResult_ok_def)

lemmas device_registers =
  uart_device.read_register uart_device.write_register
  timer_device.read_register timer_device.write_register
  gpio_device.read_register gpio_device.write_register
  debug_device.read_register debug_device.write_register

text \<open>One case per branch of the bus: what the branch knows of the address.\<close>

lemma address_cases:
  obtains (misaligned) "a AND 0x3 \<noteq> 0" "region_of a = Region_Misaligned"
  | (rom) i where "a AND 0x3 = 0" "in_rom a" "a = word_address Rom_kBaseAddress i"
      "region_of a = Region_Rom i"
  | (ram) i where "a AND 0x3 = 0" "\<not> in_rom a" "in_ram a" "a = word_address Ram_kBaseAddress i"
      "region_of a = Region_Ram i"
  | (uart) i where "a AND 0x3 = 0" "\<not> in_rom a" "\<not> in_ram a" "in_uart a"
      "a = word_address Uart_kBaseAddress i" "region_of a = Region_Uart i"
  | (timer) i where "a AND 0x3 = 0" "\<not> in_rom a" "\<not> in_ram a" "\<not> in_uart a" "in_timer a"
      "a = word_address Timer_kBaseAddress i" "region_of a = Region_Timer i"
  | (gpio) i where "a AND 0x3 = 0" "\<not> in_rom a" "\<not> in_ram a" "\<not> in_uart a" "\<not> in_timer a"
      "in_gpio a" "a = word_address Gpio_kBaseAddress i" "region_of a = Region_Gpio i"
  | (debug) i where "a AND 0x3 = 0" "\<not> in_rom a" "\<not> in_ram a" "\<not> in_uart a" "\<not> in_timer a"
      "\<not> in_gpio a" "in_debug a" "a = word_address DebugDevice_kBaseAddress i"
      "region_of a = Region_Debug i"
  | (unmapped) "a AND 0x3 = 0" "\<not> in_rom a" "\<not> in_ram a" "\<not> in_uart a" "\<not> in_timer a"
      "\<not> in_gpio a" "\<not> in_debug a" "region_of a = Region_Unmapped"
proof (cases "a AND 0x3 = 0")
  case False
  then show ?thesis using misaligned by (simp add: region_of_ranges)
next
  case True
  then have "take_bit 2 a = 0"
    by (simp only: and_literal_masks(1))
  note addr = decoded_word_address [OF this, THEN sym] and chain = region_of_ranges [of a]
  consider "in_rom a" | "\<not> in_rom a" "in_ram a" | "\<not> in_rom a" "\<not> in_ram a" "in_uart a"
    | "\<not> in_rom a" "\<not> in_ram a" "\<not> in_uart a" "in_timer a"
    | "\<not> in_rom a" "\<not> in_ram a" "\<not> in_uart a" "\<not> in_timer a" "in_gpio a"
    | "\<not> in_rom a" "\<not> in_ram a" "\<not> in_uart a" "\<not> in_timer a" "\<not> in_gpio a" "in_debug a"
    | "\<not> in_rom a" "\<not> in_ram a" "\<not> in_uart a" "\<not> in_timer a" "\<not> in_gpio a" "\<not> in_debug a"
    by blast
  then show ?thesis
  proof cases
    case 1 with True chain show ?thesis by (intro rom [OF _ _ addr(1)]) simp_all
  next
    case 2 with True chain show ?thesis by (intro ram [OF _ _ _ addr(2)]) simp_all
  next
    case 3 with True chain show ?thesis by (intro uart [OF _ _ _ _ addr(3)]) simp_all
  next
    case 4 with True chain show ?thesis by (intro timer [OF _ _ _ _ _ addr(4)]) simp_all
  next
    case 5 with True chain show ?thesis by (intro gpio [OF _ _ _ _ _ _ addr(5)]) simp_all
  next
    case 6 with True chain show ?thesis by (intro debug [OF _ _ _ _ _ _ _ addr(6)]) simp_all
  next
    case 7 with True chain show ?thesis by (intro unmapped) simp_all
  qed
qed

lemma region_of_rom: "region_of (word_address Rom_kBaseAddress i) = Region_Rom i"
proof -
  have "word_address Rom_kBaseAddress i AND 0x3 = 0"
    by (rule word_address_aligned [OF Rom_window])
  moreover have "in_rom (word_address Rom_kBaseAddress i)"
    using Rom_address_in_range(1) [of i] by (simp add: in_rom_def Rom_kBaseAddress_def linorder_not_less)
  ultimately show ?thesis
    by (cases "word_address Rom_kBaseAddress i" rule: address_cases)
      (simp_all add: word_address_inject [OF Rom_window])
qed

lemmas sys_defs = sys_read_def sys_fetch_def sys_write_def sys_of_bus_def

lemma Bus_read32_sys:
  assumes "Bus_wf bus"
  shows "Bus_read32 bus a = Inr (read_result (sys_read (sys_of_bus bus) a))"
  using assms
  by (cases a rule: address_cases)
    (simp_all add: Bus_read32_def sys_defs Bus_wf_def Rom_read32_word Ram_read32_word
      RomReadResult_ok_def RamReadResult_ok_def device_registers)

lemma Bus_fetch32_sys:
  assumes "Bus_wf bus"
  shows "Bus_fetch32 bus a = Inr (read_result (sys_fetch (sys_of_bus bus) a))"
  using assms
  by (cases a rule: address_cases)
    (simp_all add: Bus_fetch32_def sys_defs Bus_wf_def Rom_read32_word RomReadResult_ok_def)

lemma Bus_write32_fault:
  assumes "sys_write (sys_of_bus bus) a v = Inl f"
  shows "Bus_write32 bus a v = Inr (\<lparr>bus_write_fault = f\<rparr>, bus)"
  using assms by (cases a rule: address_cases) (simp_all add: Bus_write32_def sys_defs)

lemma Bus_write32_stored:
  assumes "Bus_wf bus" and "sys_write (sys_of_bus bus) a v = Inr s"
  shows "\<exists>bus'. Bus_write32 bus a v = Inr (\<lparr>bus_write_fault = BusFault_None\<rparr>, bus') \<and>
    Bus_wf bus' \<and> sys_of_bus bus' = s"
proof (cases a rule: address_cases)
  case (ram i)
  then show ?thesis
    using assms ram_memory.write_word [of "bus_ram bus" i v]
    by (auto simp: Bus_write32_def sys_defs Bus_wf_def)
qed (use assms in \<open>simp_all add: Bus_write32_def sys_defs Bus_wf_def device_registers\<close>)

lemma Bus_retire_tick_sys: "sys_of_bus (Bus_retire_tick bus) = sys_tick (sys_of_bus bus)"
  by (simp add: Bus_retire_tick_def sys_tick_def sys_of_bus_def)

interpretation system_bus: cpu_bus Bus_wf sys_of_bus Bus_fetch32 Bus_read32 Bus_write32 Bus_retire_tick
  by unfold_locales
    (simp_all add: Bus_read32_sys Bus_fetch32_sys Bus_write32_fault Bus_write32_stored
      Bus_retire_tick_sys)

end
