(* ===== verification/Register_File.thy ===== *)
theory Register_File
  imports Isa
begin

text \<open>
  The 32 x 32 register file, \<^verbatim>\<open>simulator/include/mini32/register_file.hpp\<close> and
  \<^verbatim>\<open>simulator/src/register_file.cpp\<close>.
\<close>

record RegisterFile =
  register_array :: "u32 list"

text \<open>\<^verbatim>\<open>RegisterFile{}\<close>: the array is value-initialised.\<close>

definition RegisterFile_new :: RegisterFile where
  "RegisterFile_new = \<lparr>register_array = replicate (unat kRegisterCount) 0\<rparr>"

definition RegisterFile_reset :: "RegisterFile \<Rightarrow> RegisterFile" where
  "RegisterFile_reset rf =
     rf\<lparr>register_array := replicate (length (register_array rf)) 0\<rparr>"

definition RegisterFile_validate_index :: "u8 \<Rightarrow> unit result" where
  "RegisterFile_validate_index index =
     (if index \<ge> kRegisterCount
      then Inl (Throw_out_of_range ''Mini32 register index is outside r0-r31'')
      else Inr ())"

definition RegisterFile_read :: "RegisterFile \<Rightarrow> u8 \<Rightarrow> u32 result" where
  "RegisterFile_read rf index =
     bindE (RegisterFile_validate_index index) (\<lambda>_.
     if index = 0 then Inr 0 else array_get (register_array rf) (unat index))"

definition RegisterFile_write :: "RegisterFile \<Rightarrow> u8 \<Rightarrow> u32 \<Rightarrow> RegisterFile result" where
  "RegisterFile_write rf index value =
     bindE (RegisterFile_validate_index index) (\<lambda>_.
     if index \<noteq> 0
     then bindE (array_set (register_array rf) (unat index) value) (\<lambda>regs.
          Inr (rf\<lparr>register_array := regs\<rparr>))
     else Inr rf)"

section \<open>Well-formedness and the architectural view\<close>

text \<open>The type \<^verbatim>\<open>std::array<std::uint32_t, 32>\<close> fixes the number of registers.\<close>

definition RegisterFile_wf :: "RegisterFile \<Rightarrow> bool" where
  "RegisterFile_wf rf \<longleftrightarrow> length (register_array rf) = 32"

text \<open>What the guest sees: r0 is zero, every other register its stored value.\<close>

definition gpr :: "RegisterFile \<Rightarrow> 5 word \<Rightarrow> u32" where
  "gpr rf r = (if r = 0 then 0 else register_array rf ! unat r)"

lemma gpr_zero [simp]: "gpr rf 0 = 0"
  by (simp add: gpr_def)

lemma reg_index_lt: "unat (r :: 5 word) < 32"
  using unsigned_less [of r, where ?'a = nat] by simp

lemma reg_index_u8:
  fixes r :: "5 word"
  shows "unat (ucast r :: u8) = unat r" and "(ucast r :: u8) < 32" and "(ucast r :: u8) = 0 \<longleftrightarrow> r = 0"
proof -
  show u: "unat (ucast r :: u8) = unat r"
    by (simp add: unat_ucast_up)
  show "(ucast r :: u8) < 32"
    using reg_index_lt [of r] by (simp add: word_less_nat_alt u)
  show "(ucast r :: u8) = 0 \<longleftrightarrow> r = 0"
    by (metis u unat_0 unat_eq_zero)
qed

lemma RegisterFile_wf_new [simp]: "RegisterFile_wf RegisterFile_new"
  by (simp add: RegisterFile_wf_def RegisterFile_new_def kRegisterCount_def)

lemma RegisterFile_reset_wf: "RegisterFile_wf rf \<Longrightarrow> RegisterFile_reset rf = RegisterFile_new"
  by (simp add: RegisterFile_wf_def RegisterFile_new_def RegisterFile_reset_def kRegisterCount_def)

lemma gpr_new [simp]: "gpr RegisterFile_new r = 0"
  using reg_index_lt [of r] by (simp add: gpr_def RegisterFile_new_def kRegisterCount_def)

lemma validate_index_ok [simp]: "RegisterFile_validate_index (ucast (r :: 5 word)) = Inr ()"
  using reg_index_u8(2) [of r]
  by (simp add: RegisterFile_validate_index_def kRegisterCount_def linorder_not_le)

lemma RegisterFile_read_gpr [simp]:
  "RegisterFile_wf rf \<Longrightarrow> RegisterFile_read rf (ucast r) = Inr (gpr rf r)"
  by (simp add: RegisterFile_read_def reg_index_u8 reg_index_lt gpr_def RegisterFile_wf_def)

lemma RegisterFile_write_gpr:
  assumes "RegisterFile_wf rf"
  shows "\<exists>rf'. RegisterFile_write rf (ucast r) v = Inr rf' \<and> RegisterFile_wf rf' \<and>
               gpr rf' = (if r = 0 then gpr rf else (gpr rf)(r := v))"
  using assms reg_index_lt [of r]
  by (auto simp: RegisterFile_write_def reg_index_u8 RegisterFile_wf_def gpr_def fun_eq_iff
      nth_list_update word_unat_eq_iff)

lemma RegisterFile_read_below_32:
  assumes "RegisterFile_wf rf" and "index < 32"
  shows "RegisterFile_read rf index = Inr (gpr rf (ucast index))"
proof -
  have "unat index < 32"
    using assms(2) by (simp add: word_less_nat_alt)
  then have "unat (ucast (ucast index :: 5 word) :: u8) = unat index"
    by (simp add: reg_index_u8(1) unsigned_ucast_eq unsigned_take_bit_eq take_bit_nat_eq_self)
  then have "ucast (ucast index :: 5 word) = index"
    by (simp add: word_unat_eq_iff)
  then show ?thesis
    using RegisterFile_read_gpr [OF assms(1), of "ucast index"] by simp
qed

lemma ucast_reg_u8 [simp]: "(ucast (ucast (r :: 5 word) :: u8) :: 5 word) = r"
  using reg_index_lt [of r]
  by (simp add: word_unat_eq_iff unsigned_ucast_eq unsigned_take_bit_eq reg_index_u8(1)
      take_bit_nat_eq_self)

lemma RegisterFile_write_below_32:
  assumes "RegisterFile_wf rf" and "index < 32"
  shows "\<exists>rf'. RegisterFile_write rf index v = Inr rf' \<and> RegisterFile_wf rf'"
  using assms
  by (auto simp: RegisterFile_write_def RegisterFile_validate_index_def RegisterFile_wf_def
      kRegisterCount_def word_less_nat_alt word_le_nat_alt)

end
