(* ===== verification/Cpu_Core.thy ===== *)
theory Cpu_Core
  imports Bus Decoder Register_File
begin

text \<open>
  The multi-cycle CPU, \<^verbatim>\<open>simulator/include/mini32/cpu_core.hpp\<close> and \<^verbatim>\<open>simulator/src/cpu_core.cpp\<close>: the datapath
  registers, one control state per \<open>CpuCore_tick\<close>, and \<open>CpuCore_step\<close>, which ticks until an
  instruction retires, halts or faults.
\<close>

section \<open>Data\<close>

datatype Microstate =
    Microstate_Fetch | Microstate_Decode | Microstate_Execute | Microstate_Memory
  | Microstate_Writeback | Microstate_Halted | Microstate_Fault

datatype CpuFault =
    CpuFault_None | CpuFault_MisalignedInstructionFetch | CpuFault_UnmappedInstructionFetch
  | CpuFault_NonExecutableInstructionFetch | CpuFault_IllegalInstruction
  | CpuFault_MalformedInstruction | CpuFault_UnsupportedInstruction | CpuFault_MisalignedLoad
  | CpuFault_MisalignedStore | CpuFault_UnmappedLoad | CpuFault_UnmappedStore
  | CpuFault_ReadOnlyStore

record FaultInfo =
  fault_code :: CpuFault
  fault_pc :: u32
  fault_instruction :: u32
  fault_data_address :: "u32 option"

definition FaultInfo_default :: FaultInfo where
  "FaultInfo_default =
     \<lparr>fault_code = CpuFault_None, fault_pc = 0, fault_instruction = 0, fault_data_address = None\<rparr>"

datatype StepResult = StepResult_Retired | StepResult_Halted | StepResult_Faulted

record 'h CpuCore =
  core_bus :: "'h Bus"
  cpu_registers :: RegisterFile
  cpu_pc :: u32
  instruction_register :: u32
  operand_lhs :: u32
  operand_rhs :: u32
  alu_result :: u32
  store_data :: u32
  memory_data :: u32
  pc_plus_4 :: u32
  next_pc :: u32
  microstate :: Microstate
  decoded_instruction :: "DecodedInstruction option"
  control_signals :: "ControlSignals option"
  retired_instructions :: u64
  fault_info :: FaultInfo

section \<open>Construction and reset\<close>

definition CpuCore_reset :: "'h CpuCore \<Rightarrow> 'h CpuCore" where
  "CpuCore_reset cpu =
     cpu\<lparr>cpu_registers := RegisterFile_reset (cpu_registers cpu), cpu_pc := 0,
         instruction_register := 0, operand_lhs := 0, operand_rhs := 0, alu_result := 0,
         store_data := 0, memory_data := 0, pc_plus_4 := 0, next_pc := 0,
         microstate := Microstate_Fetch, decoded_instruction := None, control_signals := None,
         retired_instructions := 0, fault_info := FaultInfo_default\<rparr>"

definition CpuCore_new :: "'h Bus \<Rightarrow> 'h CpuCore" where
  "CpuCore_new bus =
     CpuCore_reset
       \<lparr>core_bus = bus, cpu_registers = RegisterFile_new, cpu_pc = 0, instruction_register = 0,
        operand_lhs = 0, operand_rhs = 0, alu_result = 0, store_data = 0, memory_data = 0,
        pc_plus_4 = 0, next_pc = 0, microstate = Microstate_Fetch, decoded_instruction = None,
        control_signals = None, retired_instructions = 0, fault_info = FaultInfo_default\<rparr>"

definition CpuCore_halted :: "'h CpuCore \<Rightarrow> bool" where
  "CpuCore_halted cpu \<longleftrightarrow> microstate cpu = Microstate_Halted"

definition CpuCore_faulted :: "'h CpuCore \<Rightarrow> bool" where
  "CpuCore_faulted cpu \<longleftrightarrow> microstate cpu = Microstate_Fault"

section \<open>Helpers of tick\<close>

definition CpuCore_enter_fault :: "CpuFault \<Rightarrow> u32 option \<Rightarrow> 'h CpuCore \<Rightarrow> 'h CpuCore" where
  "CpuCore_enter_fault code data_address cpu =
     cpu\<lparr>fault_info := \<lparr>fault_code = code, fault_pc = cpu_pc cpu,
                        fault_instruction = instruction_register cpu,
                        fault_data_address = data_address\<rparr>,
         microstate := Microstate_Fault\<rparr>"

definition CpuCore_retire_to :: "u32 \<Rightarrow> 'h CpuCore \<Rightarrow> 'h CpuCore" where
  "CpuCore_retire_to target cpu =
     cpu\<lparr>cpu_pc := target, retired_instructions := retired_instructions cpu + 1,
         core_bus := Bus_retire_tick (core_bus cpu), microstate := Microstate_Fetch\<rparr>"

text \<open>\<^verbatim>\<open>cpu_core.cpp\<close> has its own copy of the signed comparison of \<^verbatim>\<open>alu.cpp\<close>.\<close>

definition cpu_signed_less_than :: "u32 \<Rightarrow> u32 \<Rightarrow> bool" where
  "cpu_signed_less_than lhs rhs =
     (let lhs_negative = (lhs AND 0x80000000 \<noteq> 0);
          rhs_negative = (rhs AND 0x80000000 \<noteq> 0)
      in if lhs_negative \<noteq> rhs_negative then lhs_negative else lhs < rhs)"

lemma cpu_signed_less_than_sint: "cpu_signed_less_than lhs rhs \<longleftrightarrow> sint lhs < sint rhs"
  unfolding cpu_signed_less_than_def signed_less_than_def [symmetric] by (rule signed_less_than_sint)

fun predicate_holds :: "BranchPredicate \<Rightarrow> u32 \<Rightarrow> u32 \<Rightarrow> bool" where
  "predicate_holds BranchPredicate_Equal lhs rhs = (lhs = rhs)"
| "predicate_holds BranchPredicate_NotEqual lhs rhs = (lhs \<noteq> rhs)"
| "predicate_holds BranchPredicate_SignedLessThan lhs rhs = cpu_signed_less_than lhs rhs"
| "predicate_holds BranchPredicate_SignedGreaterEqual lhs rhs = (\<not> cpu_signed_less_than lhs rhs)"
| "predicate_holds BranchPredicate_None lhs rhs = False"

definition CpuCore_branch_taken :: "'h CpuCore \<Rightarrow> bool result" where
  "CpuCore_branch_taken cpu =
     bindE (deref (control_signals cpu)) (\<lambda>control.
     Inr (predicate_holds (branch_predicate control) (operand_lhs cpu) (operand_rhs cpu)))"

section \<open>One control state per tick\<close>

definition tick_fetch :: "'h CpuCore \<Rightarrow> 'h CpuCore result" where
  "tick_fetch cpu0 =
     (let cpu = cpu0\<lparr>instruction_register := 0,
                     pc_plus_4 := cpu_pc cpu0 + kInstructionAlignment,
                     next_pc := cpu_pc cpu0 + kInstructionAlignment\<rparr> in
      bindE (Bus_fetch32 (core_bus cpu) (cpu_pc cpu)) (\<lambda>result.
      if \<not> BusReadResult_ok result then
        Inr (CpuCore_enter_fault
          (if bus_read_fault result = BusFault_Misaligned
           then CpuFault_MisalignedInstructionFetch
           else if bus_read_fault result = BusFault_NonExecutable
           then CpuFault_NonExecutableInstructionFetch
           else CpuFault_UnmappedInstructionFetch) None cpu)
      else
        Inr (cpu\<lparr>instruction_register := bus_data result, microstate := Microstate_Decode\<rparr>)))"

definition tick_decode :: "'h CpuCore \<Rightarrow> 'h CpuCore result" where
  "tick_decode cpu0 =
     (let result = Decoder_decode (instruction_register cpu0) in
      if \<not> DecodeResult_ok result then
        Inr (CpuCore_enter_fault
          (if dr_error result = DecodeError_IllegalOpcode then CpuFault_IllegalInstruction
           else CpuFault_MalformedInstruction) None cpu0)
      else
        bindE (deref (dr_instruction result)) (\<lambda>decoded.
        let cpu = cpu0\<lparr>decoded_instruction := dr_instruction result,
                       control_signals := Decoder_control_for (di_opcode decoded)\<rparr> in
        case control_signals cpu of
          None \<Rightarrow> Inr (CpuCore_enter_fault CpuFault_UnsupportedInstruction None cpu)
        | Some control \<Rightarrow>
            bindE (RegisterFile_read (cpu_registers cpu) (di_rs1 decoded)) (\<lambda>lhs.
            bindE (if alu_src_immediate control
                   then Inr (Decoder_immediate_value (immediate_kind control) (di_imm16 decoded))
                   else RegisterFile_read (cpu_registers cpu) (di_rs2 decoded)) (\<lambda>rhs.
            bindE (RegisterFile_read (cpu_registers cpu) (di_rs2 decoded)) (\<lambda>store.
            Inr (cpu\<lparr>operand_lhs := lhs, operand_rhs := rhs, store_data := store,
                     microstate := Microstate_Execute\<rparr>))))))"

definition tick_execute :: "'h CpuCore \<Rightarrow> 'h CpuCore result" where
  "tick_execute cpu0 =
     bindE (deref (control_signals cpu0)) (\<lambda>control.
     let cpu = cpu0\<lparr>alu_result := Alu_execute (alu_operation control) (operand_lhs cpu0)
                                   (operand_rhs cpu0)\<rparr> in
     if control_flow control = ControlFlowKind_ConditionalBranch then
       bindE (deref (decoded_instruction cpu)) (\<lambda>decoded.
       let branch_target = pc_plus_4 cpu + Decoder_branch_displacement (di_imm16 decoded) in
       bindE (CpuCore_branch_taken cpu) (\<lambda>taken.
       Inr (CpuCore_retire_to (if taken then branch_target else pc_plus_4 cpu) cpu)))
     else
       bindE (if control_flow control = ControlFlowKind_RelativeJump
              then bindE (deref (decoded_instruction cpu)) (\<lambda>decoded.
                   Inr (cpu\<lparr>next_pc := pc_plus_4 cpu + Decoder_jump_displacement (di_imm26 decoded)\<rparr>))
              else Inr cpu) (\<lambda>cpu.
       if control_flow control = ControlFlowKind_RelativeJump \<and> \<not> reg_write control
       then Inr (CpuCore_retire_to (next_pc cpu) cpu)
       else if control_flow control = ControlFlowKind_RegisterJump
       then Inr (CpuCore_retire_to (operand_lhs cpu) cpu)
       else Inr (cpu\<lparr>microstate := (if memory_operation control = MemoryOperation_None
                                    then Microstate_Writeback else Microstate_Memory)\<rparr>)))"

definition tick_memory :: "'h CpuCore \<Rightarrow> 'h CpuCore result" where
  "tick_memory cpu =
     bindE (deref (control_signals cpu)) (\<lambda>control.
     if memory_operation control = MemoryOperation_Load then
       bindE (Bus_read32 (core_bus cpu) (alu_result cpu)) (\<lambda>result.
       if \<not> BusReadResult_ok result then
         Inr (CpuCore_enter_fault
           (if bus_read_fault result = BusFault_Misaligned then CpuFault_MisalignedLoad
            else CpuFault_UnmappedLoad) (Some (alu_result cpu)) cpu)
       else Inr (cpu\<lparr>memory_data := bus_data result, microstate := Microstate_Writeback\<rparr>))
     else if memory_operation control = MemoryOperation_Store then
       bindE (Bus_write32 (core_bus cpu) (alu_result cpu) (store_data cpu)) (\<lambda>(result, bus).
       let cpu = cpu\<lparr>core_bus := bus\<rparr> in
       if \<not> BusWriteResult_ok result then
         Inr (CpuCore_enter_fault
           (if bus_write_fault result = BusFault_Misaligned then CpuFault_MisalignedStore
            else if bus_write_fault result = BusFault_ReadOnly then CpuFault_ReadOnlyStore
            else CpuFault_UnmappedStore) (Some (alu_result cpu)) cpu)
       else Inr (CpuCore_retire_to (next_pc cpu) cpu))
     else Inr cpu)"

definition tick_writeback :: "'h CpuCore \<Rightarrow> 'h CpuCore result" where
  "tick_writeback cpu0 =
     bindE (deref (control_signals cpu0)) (\<lambda>control.
     bindE (if reg_write control then
              let writeback_value =
                    (if writeback_source control = WritebackSource_Memory then memory_data cpu0
                     else if writeback_source control = WritebackSource_PcPlus4 then pc_plus_4 cpu0
                     else alu_result cpu0) in
              bindE (if register_destination control = RegisterDestination_ReturnAddress then Inr 31
                     else bindE (deref (decoded_instruction cpu0)) (\<lambda>decoded. Inr (di_rd decoded)))
                (\<lambda>destination.
              bindE (RegisterFile_write (cpu_registers cpu0) destination writeback_value) (\<lambda>regs.
              Inr (cpu0\<lparr>cpu_registers := regs\<rparr>)))
            else Inr cpu0) (\<lambda>cpu.
     Inr (cpu\<lparr>cpu_pc := next_pc cpu, retired_instructions := retired_instructions cpu + 1,
              core_bus := Bus_retire_tick (core_bus cpu),
              microstate := (if halt control then Microstate_Halted else Microstate_Fetch)\<rparr>)))"

definition CpuCore_tick :: "'h CpuCore \<Rightarrow> 'h CpuCore result" where
  "CpuCore_tick cpu =
     (case microstate cpu of
        Microstate_Fetch \<Rightarrow> tick_fetch cpu
      | Microstate_Decode \<Rightarrow> tick_decode cpu
      | Microstate_Execute \<Rightarrow> tick_execute cpu
      | Microstate_Memory \<Rightarrow> tick_memory cpu
      | Microstate_Writeback \<Rightarrow> tick_writeback cpu
      | Microstate_Halted \<Rightarrow> Inr cpu
      | Microstate_Fault \<Rightarrow> Inr cpu)"

section \<open>step\<close>

text \<open>
  The loop of \<^verbatim>\<open>CpuCore::step\<close>. Nothing in its text bounds it, so it is a partial function: \<open>None\<close> is a
  loop that never ends. That it always ends is proved below.
\<close>

partial_function (option) step_loop :: "u64 \<Rightarrow> 'h CpuCore \<Rightarrow> 'h CpuCore result option" where
  "step_loop retired_before cpu =
     (if \<not> CpuCore_halted cpu \<and> \<not> CpuCore_faulted cpu \<and> retired_instructions cpu = retired_before
      then (case CpuCore_tick cpu of
              Inl e \<Rightarrow> Some (Inl e)
            | Inr cpu' \<Rightarrow> step_loop retired_before cpu')
      else Some (Inr cpu))"

definition step_result :: "'h CpuCore \<Rightarrow> StepResult" where
  "step_result cpu =
     (if CpuCore_faulted cpu then StepResult_Faulted
      else if CpuCore_halted cpu then StepResult_Halted else StepResult_Retired)"

definition CpuCore_step :: "'h CpuCore \<Rightarrow> (StepResult \<times> 'h CpuCore) result option" where
  "CpuCore_step cpu =
     (if CpuCore_halted cpu then Some (Inr (StepResult_Halted, cpu))
      else if CpuCore_faulted cpu then Some (Inr (StepResult_Faulted, cpu))
      else
        (case step_loop (retired_instructions cpu) cpu of
           None \<Rightarrow> None
         | Some (Inl e) \<Rightarrow> Some (Inl e)
         | Some (Inr cpu') \<Rightarrow> Some (Inr (step_result cpu', cpu'))))"

lemma step_loop_tick:
  assumes "\<not> CpuCore_halted cpu" "\<not> CpuCore_faulted cpu" "retired_instructions cpu = r"
    and "CpuCore_tick cpu = Inr cpu'"
  shows "step_loop r cpu = step_loop r cpu'"
  using assms by (subst step_loop.simps) simp

lemma step_loop_done:
  "CpuCore_halted cpu \<or> CpuCore_faulted cpu \<or> retired_instructions cpu \<noteq> r \<Longrightarrow>
   step_loop r cpu = Some (Inr cpu)"
  by (subst step_loop.simps) auto

end
