(* ===== verification/Isa_Semantics.thy ===== *)
theory Isa_Semantics
  imports Memory_Map Instruction_Set Cpu_Core
begin

text \<open>
  The architectural semantics of \<^verbatim>\<open>docs/isa.md\<close> and \<^verbatim>\<open>docs/architecture.md\<close>: one atomic transition per
  instruction on general registers, program counter, memory map, retirement count and run status,
  with no microstates, byte arrays or control signals. It is the contract that \<^verbatim>\<open>CpuCore::step\<close> is
  shown to implement.
\<close>

datatype status = Running | Halted | Faulted FaultInfo

record 'h arch =
  a_gpr :: "reg \<Rightarrow> u32"
  a_pc :: u32
  a_sys :: "'h sys"
  a_retired :: u64
  a_status :: status

section \<open>Effects\<close>

definition set_gpr :: "reg \<Rightarrow> u32 \<Rightarrow> (reg \<Rightarrow> u32) \<Rightarrow> reg \<Rightarrow> u32" where
  "set_gpr r v f = (if r = 0 then f else f(r := v))"

definition retire :: "u32 \<Rightarrow> 'h arch \<Rightarrow> 'h arch" where
  "retire target s =
     s\<lparr>a_pc := target, a_retired := a_retired s + 1, a_sys := sys_tick (a_sys s)\<rparr>"

definition raise_fault :: "CpuFault \<Rightarrow> u32 \<Rightarrow> u32 option \<Rightarrow> 'h arch \<Rightarrow> 'h arch" where
  "raise_fault code w address s =
     s\<lparr>a_status := Faulted \<lparr>fault_code = code, fault_pc = a_pc s, fault_instruction = w,
                            fault_data_address = address\<rparr>\<rparr>"

definition write_and_retire :: "reg \<Rightarrow> u32 \<Rightarrow> 'h arch \<Rightarrow> 'h arch" where
  "write_and_retire rd v s = retire (a_pc s + 4) (s\<lparr>a_gpr := set_gpr rd v (a_gpr s)\<rparr>)"

definition branch_if :: "bool \<Rightarrow> imm16 \<Rightarrow> 'h arch \<Rightarrow> 'h arch" where
  "branch_if taken imm s =
     retire (if taken then a_pc s + 4 + scast imm * 4 else a_pc s + 4) s"

definition load_fault :: "BusFault \<Rightarrow> CpuFault" where
  "load_fault f = (if f = BusFault_Misaligned then CpuFault_MisalignedLoad else CpuFault_UnmappedLoad)"

definition store_fault :: "BusFault \<Rightarrow> CpuFault" where
  "store_fault f =
     (if f = BusFault_Misaligned then CpuFault_MisalignedStore
      else if f = BusFault_ReadOnly then CpuFault_ReadOnlyStore else CpuFault_UnmappedStore)"

definition fetch_fault :: "BusFault \<Rightarrow> CpuFault" where
  "fetch_fault f =
     (if f = BusFault_Misaligned then CpuFault_MisalignedInstructionFetch
      else if f = BusFault_NonExecutable then CpuFault_NonExecutableInstructionFetch
      else CpuFault_UnmappedInstructionFetch)"

definition decode_fault :: "DecodeError \<Rightarrow> CpuFault" where
  "decode_fault e =
     (if e = DecodeError_IllegalOpcode then CpuFault_IllegalInstruction
      else CpuFault_MalformedInstruction)"

section \<open>Execution of an instruction\<close>

fun isa_exec :: "u32 \<Rightarrow> instr \<Rightarrow> 'h arch \<Rightarrow> 'h arch" where
  "isa_exec w NOP s = retire (a_pc s + 4) s"
| "isa_exec w (ADD rd rs1 rs2) s = write_and_retire rd (a_gpr s rs1 + a_gpr s rs2) s"
| "isa_exec w (SUB rd rs1 rs2) s = write_and_retire rd (a_gpr s rs1 - a_gpr s rs2) s"
| "isa_exec w (ANDR rd rs1 rs2) s = write_and_retire rd (a_gpr s rs1 AND a_gpr s rs2) s"
| "isa_exec w (ORR rd rs1 rs2) s = write_and_retire rd (a_gpr s rs1 OR a_gpr s rs2) s"
| "isa_exec w (XORR rd rs1 rs2) s = write_and_retire rd (a_gpr s rs1 XOR a_gpr s rs2) s"
| "isa_exec w (SLT rd rs1 rs2) s =
     write_and_retire rd (if sint (a_gpr s rs1) < sint (a_gpr s rs2) then 1 else 0) s"
| "isa_exec w (SHL rd rs1 rs2) s =
     write_and_retire rd (push_bit (unat (a_gpr s rs2) mod 32) (a_gpr s rs1)) s"
| "isa_exec w (SHR rd rs1 rs2) s =
     write_and_retire rd (drop_bit (unat (a_gpr s rs2) mod 32) (a_gpr s rs1)) s"
| "isa_exec w (ADDI rd rs1 imm) s = write_and_retire rd (a_gpr s rs1 + scast imm) s"
| "isa_exec w (ANDI rd rs1 imm) s = write_and_retire rd (a_gpr s rs1 AND ucast imm) s"
| "isa_exec w (ORI rd rs1 imm) s = write_and_retire rd (a_gpr s rs1 OR ucast imm) s"
| "isa_exec w (XORI rd rs1 imm) s = write_and_retire rd (a_gpr s rs1 XOR ucast imm) s"
| "isa_exec w (LUI rd imm) s = write_and_retire rd (push_bit 16 (ucast imm)) s"
| "isa_exec w (LW rd rs1 imm) s =
     (let address = a_gpr s rs1 + scast imm in
      case sys_read (a_sys s) address of
        Inl f \<Rightarrow> raise_fault (load_fault f) w (Some address) s
      | Inr v \<Rightarrow> write_and_retire rd v s)"
| "isa_exec w (SW rs2 rs1 imm) s =
     (let address = a_gpr s rs1 + scast imm in
      case sys_write (a_sys s) address (a_gpr s rs2) of
        Inl f \<Rightarrow> raise_fault (store_fault f) w (Some address) s
      | Inr sys' \<Rightarrow> retire (a_pc s + 4) (s\<lparr>a_sys := sys'\<rparr>))"
| "isa_exec w (BEQ rs1 rs2 imm) s = branch_if (a_gpr s rs1 = a_gpr s rs2) imm s"
| "isa_exec w (BNE rs1 rs2 imm) s = branch_if (a_gpr s rs1 \<noteq> a_gpr s rs2) imm s"
| "isa_exec w (BLT rs1 rs2 imm) s = branch_if (sint (a_gpr s rs1) < sint (a_gpr s rs2)) imm s"
| "isa_exec w (BGE rs1 rs2 imm) s = branch_if (sint (a_gpr s rs1) \<ge> sint (a_gpr s rs2)) imm s"
| "isa_exec w (J imm) s = retire (a_pc s + 4 + scast imm * 4) s"
| "isa_exec w (JAL imm) s =
     retire (a_pc s + 4 + scast imm * 4) (s\<lparr>a_gpr := set_gpr 31 (a_pc s + 4) (a_gpr s)\<rparr>)"
| "isa_exec w (JR rs1) s = retire (a_gpr s rs1) s"
| "isa_exec w HALT s = (retire (a_pc s + 4) s)\<lparr>a_status := Halted\<rparr>"

definition isa_step :: "'h arch \<Rightarrow> 'h arch" where
  "isa_step s =
     (if a_status s \<noteq> Running then s
      else case sys_fetch (a_sys s) (a_pc s) of
             Inl f \<Rightarrow> raise_fault (fetch_fault f) 0 None s
           | Inr w \<Rightarrow>
               (case isa_decode w of
                  None \<Rightarrow> raise_fault (decode_fault (isa_decode_error w)) w None s
                | Some i \<Rightarrow> isa_exec w i s))"

section \<open>The architectural view of the simulator's CPU\<close>

definition status_of :: "'h CpuCore \<Rightarrow> status" where
  "status_of cpu =
     (if microstate cpu = Microstate_Halted then Halted
      else if microstate cpu = Microstate_Fault then Faulted (fault_info cpu) else Running)"

definition arch_of :: "'h CpuCore \<Rightarrow> 'h arch" where
  "arch_of cpu =
     \<lparr>a_gpr = gpr (cpu_registers cpu), a_pc = cpu_pc cpu, a_sys = sys_of_bus (core_bus cpu),
      a_retired = retired_instructions cpu, a_status = status_of cpu\<rparr>"

lemma arch_of_simps:
  "a_gpr (arch_of cpu) = gpr (cpu_registers cpu)" "a_pc (arch_of cpu) = cpu_pc cpu"
  "a_sys (arch_of cpu) = sys_of_bus (core_bus cpu)"
  "a_retired (arch_of cpu) = retired_instructions cpu" "a_status (arch_of cpu) = status_of cpu"
  by (simp_all add: arch_of_def)

section \<open>What an instruction can change\<close>

text \<open>The register an instruction writes.\<close>

fun alu_rd :: "instr \<Rightarrow> reg option" where
  "alu_rd (ADD rd rs1 rs2) = Some rd"
| "alu_rd (SUB rd rs1 rs2) = Some rd"
| "alu_rd (ANDR rd rs1 rs2) = Some rd"
| "alu_rd (ORR rd rs1 rs2) = Some rd"
| "alu_rd (XORR rd rs1 rs2) = Some rd"
| "alu_rd (SLT rd rs1 rs2) = Some rd"
| "alu_rd (SHL rd rs1 rs2) = Some rd"
| "alu_rd (SHR rd rs1 rs2) = Some rd"
| "alu_rd (ADDI rd rs1 imm) = Some rd"
| "alu_rd (ANDI rd rs1 imm) = Some rd"
| "alu_rd (ORI rd rs1 imm) = Some rd"
| "alu_rd (XORI rd rs1 imm) = Some rd"
| "alu_rd (LUI rd imm) = Some rd"
| "alu_rd _ = None"

fun instr_dest :: "instr \<Rightarrow> reg option" where
  "instr_dest (LW rd rs1 imm) = Some rd"
| "instr_dest (JAL imm) = Some 31"
| "instr_dest i = alu_rd i"

lemmas effect_defs =
  retire_def raise_fault_def write_and_retire_def branch_if_def set_gpr_def Let_def

lemma isa_exec_gpr:
  assumes "instr_dest i \<noteq> Some r"
  shows "a_gpr (isa_exec w i s) r = a_gpr s r"
  using assms by (cases i) (auto simp: effect_defs split: sum.split)

text \<open>An instruction either faults, with no effect, or retires: it is counted and the timer ticks.\<close>

definition retires :: "'h arch \<Rightarrow> 'h arch \<Rightarrow> bool" where
  "retires s s' \<longleftrightarrow>
     a_retired s' = a_retired s + 1 \<and> a_status s' \<in> {Running, Halted} \<and>
     sys_rom (a_sys s') = sys_rom (a_sys s) \<and>
     (\<exists>i. sys_fetch (a_sys s) (a_pc s) \<in> Inr ` {w. isa_decode w = Some i} \<and>
          (\<forall>r. instr_dest i \<noteq> Some r \<longrightarrow> a_gpr s' r = a_gpr s r))"

definition faults :: "'h arch \<Rightarrow> 'h arch \<Rightarrow> bool" where
  "faults s s' \<longleftrightarrow> (\<exists>f. s' = s\<lparr>a_status := Faulted f\<rparr>)"

lemma region_write_rom: "region_write s r v = Inr s' \<Longrightarrow> sys_rom s' = sys_rom s"
  by (cases r) auto

lemma isa_exec_rom: "sys_rom (a_sys (isa_exec w i s)) = sys_rom (a_sys s)"
  by (cases i) (auto simp: effect_defs sys_tick_def sys_write_def split: sum.split dest: region_write_rom)

lemma isa_exec_cases:
  assumes "a_status s = Running"
  shows "faults s (isa_exec w i s) \<or>
    a_retired (isa_exec w i s) = a_retired s + 1 \<and> a_status (isa_exec w i s) \<in> {Running, Halted}"
  using assms by (cases i) (auto simp: effect_defs faults_def split: sum.split)

lemma isa_step_cases:
  assumes "a_status s = Running"
  shows "faults s (isa_step s) \<or> retires s (isa_step s)"
proof (cases "sys_fetch (a_sys s) (a_pc s)")
  case (Inl f)
  with assms show ?thesis by (auto simp: isa_step_def faults_def raise_fault_def)
next
  case (Inr w)
  show ?thesis
  proof (cases "isa_decode w")
    case None
    with assms Inr show ?thesis by (auto simp: isa_step_def faults_def raise_fault_def)
  next
    case (Some i)
    with assms Inr have "isa_step s = isa_exec w i s" by (simp add: isa_step_def)
    with isa_exec_cases [OF assms, of w i] isa_exec_rom [of w i s] isa_exec_gpr [of i _ w s] Some Inr
    show ?thesis by (auto simp: retires_def)
  qed
qed

lemma isa_step_stopped: "a_status s \<noteq> Running \<Longrightarrow> isa_step s = s"
  by (simp add: isa_step_def)

section \<open>The causes of faults\<close>

text \<open>
  The faults of \<^verbatim>\<open>docs/isa.md\<close> and \<^verbatim>\<open>docs/memory-map.md\<close> one by one: what has to hold of the state for
  an instruction to fault, and what is then reported.
\<close>

definition fault_at :: "'h arch \<Rightarrow> CpuFault \<Rightarrow> u32 \<Rightarrow> u32 option \<Rightarrow> FaultInfo" where
  "fault_at s code w address =
     \<lparr>fault_code = code, fault_pc = a_pc s, fault_instruction = w, fault_data_address = address\<rparr>"

definition program_word :: "'h arch \<Rightarrow> u32 \<Rightarrow> bool" where
  "program_word s w \<longleftrightarrow> (\<exists>i. region_of (a_pc s) = Region_Rom i \<and> w = sys_rom (a_sys s) i)"

definition loads_from :: "'h arch \<Rightarrow> u32 \<Rightarrow> u32 \<Rightarrow> bool" where
  "loads_from s w a \<longleftrightarrow>
     program_word s w \<and> (\<exists>rd rs1 imm. isa_decode w = Some (LW rd rs1 imm) \<and> a = a_gpr s rs1 + scast imm)"

definition stores_to :: "'h arch \<Rightarrow> u32 \<Rightarrow> u32 \<Rightarrow> bool" where
  "stores_to s w a \<longleftrightarrow>
     program_word s w \<and> (\<exists>rs2 rs1 imm. isa_decode w = Some (SW rs2 rs1 imm) \<and> a = a_gpr s rs1 + scast imm)"

inductive fault_cause :: "'h arch \<Rightarrow> FaultInfo \<Rightarrow> bool" for s where
  misaligned_fetch: "region_of (a_pc s) = Region_Misaligned \<Longrightarrow>
    fault_cause s (fault_at s CpuFault_MisalignedInstructionFetch 0 None)"
| unmapped_fetch: "region_of (a_pc s) = Region_Unmapped \<Longrightarrow>
    fault_cause s (fault_at s CpuFault_UnmappedInstructionFetch 0 None)"
| non_executable_fetch: "region_of (a_pc s) \<notin> {Region_Misaligned, Region_Unmapped} \<union> range Region_Rom \<Longrightarrow>
    fault_cause s (fault_at s CpuFault_NonExecutableInstructionFetch 0 None)"
| illegal: "program_word s w \<Longrightarrow> field_op w > 0x17 \<Longrightarrow>
    fault_cause s (fault_at s CpuFault_IllegalInstruction w None)"
| malformed: "program_word s w \<Longrightarrow> field_op w \<le> 0x17 \<Longrightarrow> isa_decode w = None \<Longrightarrow>
    fault_cause s (fault_at s CpuFault_MalformedInstruction w None)"
| misaligned_load: "loads_from s w a \<Longrightarrow> region_of a = Region_Misaligned \<Longrightarrow>
    fault_cause s (fault_at s CpuFault_MisalignedLoad w (Some a))"
| unmapped_load: "loads_from s w a \<Longrightarrow> region_of a = Region_Unmapped \<Longrightarrow>
    fault_cause s (fault_at s CpuFault_UnmappedLoad w (Some a))"
| misaligned_store: "stores_to s w a \<Longrightarrow> region_of a = Region_Misaligned \<Longrightarrow>
    fault_cause s (fault_at s CpuFault_MisalignedStore w (Some a))"
| unmapped_store: "stores_to s w a \<Longrightarrow> region_of a = Region_Unmapped \<Longrightarrow>
    fault_cause s (fault_at s CpuFault_UnmappedStore w (Some a))"
| read_only_store: "stores_to s w a \<Longrightarrow> region_of a = Region_Rom i \<Longrightarrow>
    fault_cause s (fault_at s CpuFault_ReadOnlyStore w (Some a))"

lemma isa_exec_fault_cause:
  assumes "a_status s = Running" and "isa_decode w = Some i" and "program_word s w"
    and "a_status (isa_exec w i s) = Faulted f"
  shows "fault_cause s f"
proof (cases i)
  case (LW rd rs1 imm)
  let ?a = "a_gpr s rs1 + scast imm"
  have "loads_from s w ?a"
    using assms(2,3) LW by (auto simp: loads_from_def)
  with assms(1,4) LW show ?thesis
    by (cases "region_of ?a") (auto simp: sys_read_def load_fault_def effect_defs fault_at_def [symmetric]
        intro: fault_cause.intros)
next
  case (SW rs2 rs1 imm)
  let ?a = "a_gpr s rs1 + scast imm"
  have "stores_to s w ?a"
    using assms(2,3) SW by (auto simp: stores_to_def)
  with assms(1,4) SW show ?thesis
    by (cases "region_of ?a") (auto simp: sys_write_def store_fault_def effect_defs fault_at_def [symmetric]
        intro: fault_cause.intros)
qed (use assms in \<open>simp_all add: effect_defs\<close>)

lemma isa_step_fault_cause:
  assumes "a_status s = Running" and "a_status (isa_step s) = Faulted f"
  shows "fault_cause s f"
proof -
  have raised: "f = fault_at s code w a" if "a_status (raise_fault code w a s) = Faulted f" for code w a
    using that by (simp add: raise_fault_def fault_at_def)
  show ?thesis
  proof (cases "sys_fetch (a_sys s) (a_pc s)")
    case (Inl b)
    with assms raised have "f = fault_at s (fetch_fault b) 0 None"
      by (simp add: isa_step_def)
    with Inl show ?thesis
      by (cases "region_of (a_pc s)") (auto simp: sys_fetch_def fetch_fault_def intro: fault_cause.intros)
  next
    case (Inr w)
    then have w: "program_word s w"
      by (cases "region_of (a_pc s)") (auto simp: sys_fetch_def program_word_def)
    show ?thesis
    proof (cases "isa_decode w")
      case None
      with assms Inr raised have "f = fault_at s (decode_fault (isa_decode_error w)) w None"
        by (simp add: isa_step_def)
      with None w show ?thesis
        by (auto simp: decode_fault_def isa_decode_error_def not_less intro: fault_cause.intros)
    next
      case (Some i)
      with assms Inr have "a_status (isa_exec w i s) = Faulted f"
        by (simp add: isa_step_def)
      with assms(1) Some w show ?thesis
        by (rule isa_exec_fault_cause)
    qed
  qed
qed

lemmas fault_step_defs =
  isa_step_def sys_fetch_def sys_read_def sys_write_def program_word_def loads_from_def stores_to_def
  raise_fault_def fault_at_def fetch_fault_def load_fault_def store_fault_def decode_fault_def
  isa_decode_error_def isa_decode_illegal Let_def

lemma fault_cause_isa_step:
  assumes "a_status s = Running" and "fault_cause s f"
  shows "a_status (isa_step s) = Faulted f"
  using assms(2)
proof cases
  case non_executable_fetch
  with assms(1) show ?thesis
    by (cases "region_of (a_pc s)") (simp_all add: fault_step_defs)
qed (use assms(1) in \<open>auto simp: fault_step_defs\<close>)

end
