(* ===== verification/Cpu_Refinement.thy ===== *)
theory Cpu_Refinement
  imports Isa_Semantics
begin

text \<open>
  \<^verbatim>\<open>CpuCore::step\<close> implements the architectural semantics: from an instruction boundary it always
  returns, after the number of ticks that the multi-cycle control prescribes, in the state the
  ISA gives. The lemmas follow one instruction through its microstates, one lemma per class of
  control signals.
\<close>

section \<open>Instruction boundaries\<close>

definition CpuCore_wf :: "'h CpuCore \<Rightarrow> bool" where
  "CpuCore_wf cpu \<longleftrightarrow> RegisterFile_wf (cpu_registers cpu) \<and> Bus_wf (core_bus cpu)"

definition at_boundary :: "'h CpuCore \<Rightarrow> bool" where
  "at_boundary cpu \<longleftrightarrow> microstate cpu \<in> {Microstate_Fetch, Microstate_Halted, Microstate_Fault}"

text \<open>A number of ticks in a row.\<close>

abbreviation tick_many :: "nat \<Rightarrow> 'h CpuCore \<Rightarrow> 'h CpuCore result" where
  "tick_many \<equiv> iterateE CpuCore_tick"

text \<open>
  How many control states an instruction passes through, up to its retirement or fault, in the
  multi-cycle control of \<^verbatim>\<open>cpu_core.cpp\<close>; \<^verbatim>\<open>tests/test_cpu_control_flow.cpp\<close> counts the same. JAL takes
  four, since it commits the program counter in WRITEBACK, where \<^verbatim>\<open>docs/architecture.md\<close> lets every
  jump commit it in EXECUTE.
\<close>

fun instr_cycles :: "instr \<Rightarrow> 'h arch \<Rightarrow> nat" where
  "instr_cycles (LW rd rs1 imm) s =
     (case sys_read (a_sys s) (a_gpr s rs1 + scast imm) of Inl f \<Rightarrow> 4 | Inr v \<Rightarrow> 5)"
| "instr_cycles (BEQ rs1 rs2 imm) s = 3"
| "instr_cycles (BNE rs1 rs2 imm) s = 3"
| "instr_cycles (BLT rs1 rs2 imm) s = 3"
| "instr_cycles (BGE rs1 rs2 imm) s = 3"
| "instr_cycles (J imm) s = 3"
| "instr_cycles (JR rs1) s = 3"
| "instr_cycles _ s = 4"

definition isa_cycles :: "'h arch \<Rightarrow> nat" where
  "isa_cycles s =
     (if a_status s \<noteq> Running then 0
      else case sys_fetch (a_sys s) (a_pc s) of
             Inl f \<Rightarrow> 1
           | Inr w \<Rightarrow> (case isa_decode w of None \<Rightarrow> 2 | Some i \<Rightarrow> instr_cycles i s))"

section \<open>Chaining ticks\<close>

text \<open>The exit condition of the loop of \<^verbatim>\<open>step\<close>, which was called with \<open>r\<close> instructions retired.\<close>

definition step_stops :: "u64 \<Rightarrow> 'h CpuCore \<Rightarrow> bool" where
  "step_stops r cpu \<longleftrightarrow> CpuCore_halted cpu \<or> CpuCore_faulted cpu \<or> retired_instructions cpu \<noteq> r"

text \<open>
  The loop of \<^verbatim>\<open>step\<close>, started in \<open>cpu\<close>, ends after \<open>n\<close> ticks, and after no fewer, at an instruction
  boundary whose architectural view is \<open>s\<close>.
\<close>

definition still_running :: "nat \<Rightarrow> 'h CpuCore \<Rightarrow> bool" where
  "still_running n cpu \<longleftrightarrow>
     (\<forall>k < n. \<exists>c. tick_many k cpu = Inr c \<and> \<not> step_stops (retired_instructions cpu) c)"

lemma still_running_Suc:
  assumes "CpuCore_tick cpu = Inr cpu1" and "\<not> CpuCore_halted cpu" "\<not> CpuCore_faulted cpu"
    and "n = 0 \<or> retired_instructions cpu1 = retired_instructions cpu \<and> still_running n cpu1"
  shows "still_running (Suc n) cpu"
  using assms by (auto simp: still_running_def step_stops_def less_Suc_eq_0_disj)

definition reaches :: "nat \<Rightarrow> 'h CpuCore \<Rightarrow> 'h arch \<Rightarrow> bool" where
  "reaches n cpu s \<longleftrightarrow>
     (\<exists>cpu'. step_loop (retired_instructions cpu) cpu = Some (Inr cpu') \<and>
             tick_many n cpu = Inr cpu' \<and> still_running n cpu \<and>
             step_stops (retired_instructions cpu) cpu' \<and>
             CpuCore_wf cpu' \<and> at_boundary cpu' \<and> arch_of cpu' = s)"

lemma reaches_tick:
  assumes "CpuCore_tick cpu = Inr cpu1" and "\<not> CpuCore_halted cpu" "\<not> CpuCore_faulted cpu"
    and "retired_instructions cpu1 = retired_instructions cpu" and "reaches n cpu1 s"
  shows "reaches (Suc n) cpu s"
  using assms step_loop_tick [of cpu "retired_instructions cpu" cpu1]
    still_running_Suc [OF assms(1-3), of n]
  by (auto simp: reaches_def)

lemma reaches_last:
  assumes "CpuCore_tick cpu = Inr cpu1" and "\<not> CpuCore_halted cpu" "\<not> CpuCore_faulted cpu"
    and "retired_instructions cpu1 \<noteq> retired_instructions cpu \<or> CpuCore_halted cpu1 \<or> CpuCore_faulted cpu1"
    and "CpuCore_wf cpu1" "at_boundary cpu1" "arch_of cpu1 = s"
  shows "reaches (Suc 0) cpu s"
  using assms step_loop_tick [of cpu "retired_instructions cpu" cpu1]
    step_loop_done [of cpu1 "retired_instructions cpu"] still_running_Suc [OF assms(1-3), of 0]
  by (auto simp: reaches_def step_stops_def)

lemmas state_defs =
  CpuCore_halted_def CpuCore_faulted_def at_boundary_def CpuCore_wf_def arch_of_def status_of_def

section \<open>The ticks of a retirement\<close>

lemma retire_to_reaches:
  assumes "CpuCore_tick cpu = Inr (CpuCore_retire_to target cpu1)"
    and "microstate cpu \<notin> {Microstate_Halted, Microstate_Fault}" "CpuCore_wf cpu1"
    and "retired_instructions cpu1 = retired_instructions cpu"
    and "s = retire target ((arch_of cpu1)\<lparr>a_status := Running\<rparr>)"
  shows "reaches (Suc 0) cpu s"
  using assms
  by (intro reaches_last [OF assms(1)])
    (simp_all add: state_defs CpuCore_retire_to_def retire_def Bus_retire_tick_sys)

lemma writeback_reaches:
  assumes wf: "CpuCore_wf cpu" and m: "microstate cpu = Microstate_Writeback"
    and c: "control_signals cpu = Some c" and h: "\<not> halt c" and w: "reg_write c"
    and dest: "register_destination c = RegisterDestination_ReturnAddress \<and> rd = 31 \<or>
      register_destination c = RegisterDestination_DecodedRd \<and>
      (\<exists>d. decoded_instruction cpu = Some d \<and> di_rd d = ucast rd)"
    and v: "v = (if writeback_source c = WritebackSource_Memory then memory_data cpu
                 else if writeback_source c = WritebackSource_PcPlus4 then pc_plus_4 cpu
                 else alu_result cpu)"
  shows "reaches (Suc 0) cpu
    (retire (next_pc cpu) ((arch_of cpu)\<lparr>a_gpr := set_gpr rd v (a_gpr (arch_of cpu))\<rparr>))"
proof -
  obtain rf where rf: "RegisterFile_write (cpu_registers cpu) (ucast rd) v = Inr rf"
      "RegisterFile_wf rf" "gpr rf = set_gpr rd v (gpr (cpu_registers cpu))"
    using RegisterFile_write_gpr [of "cpu_registers cpu" rd v] wf
    by (auto simp: CpuCore_wf_def set_gpr_def)
  have d: "(if register_destination c = RegisterDestination_ReturnAddress then Inr 31
      else bindE (deref (decoded_instruction cpu)) (\<lambda>decoded. Inr (di_rd decoded))) = Inr (ucast rd)"
    using dest by auto
  have "CpuCore_tick cpu =
      Inr (cpu\<lparr>cpu_registers := rf, cpu_pc := next_pc cpu,
        retired_instructions := retired_instructions cpu + 1,
        core_bus := Bus_retire_tick (core_bus cpu), microstate := Microstate_Fetch\<rparr>)"
    by (simp add: CpuCore_tick_def m tick_writeback_def c w h d rf(1) v [symmetric] Let_def)
  then show ?thesis
    by (rule reaches_last)
      (use wf rf m in \<open>simp_all add: state_defs retire_def Bus_retire_tick_sys\<close>)
qed

section \<open>From EXECUTE to the boundary, by class of control signals\<close>

lemma exec_alu:
  assumes "CpuCore_wf cpu" "microstate cpu = Microstate_Execute"
    and "control_signals cpu = Some c" "decoded_instruction cpu = Some d"
    and "control_flow c = ControlFlowKind_Sequential" "memory_operation c = MemoryOperation_None"
    and "reg_write c" "writeback_source c = WritebackSource_Alu" "\<not> halt c"
    and "register_destination c = RegisterDestination_DecodedRd" "di_rd d = ucast rd"
    and "v = Alu_execute (alu_operation c) (operand_lhs cpu) (operand_rhs cpu)"
    and "s = retire (next_pc cpu) ((arch_of cpu)\<lparr>a_gpr := set_gpr rd v (a_gpr (arch_of cpu))\<rparr>)"
  shows "reaches 2 cpu s"
proof -
  let ?cpu = "cpu\<lparr>alu_result := v, microstate := Microstate_Writeback\<rparr>"
  have "CpuCore_tick cpu = Inr ?cpu"
    using assms by (simp add: CpuCore_tick_def tick_execute_def Let_def)
  moreover have "reaches (Suc 0) ?cpu s"
    using writeback_reaches [of ?cpu c rd v] assms by (simp add: state_defs)
  ultimately have "reaches (Suc (Suc 0)) cpu s"
    using assms by (intro reaches_tick [of cpu ?cpu]) (simp_all add: state_defs)
  then show ?thesis by (simp add: numeral_2_eq_2)
qed

lemma exec_plain:
  assumes "CpuCore_wf cpu" "microstate cpu = Microstate_Execute"
    and "control_signals cpu = Some c"
    and "control_flow c = ControlFlowKind_Sequential" "memory_operation c = MemoryOperation_None"
    and "\<not> reg_write c"
    and "s = (retire (next_pc cpu) (arch_of cpu))\<lparr>a_status := (if halt c then Halted else Running)\<rparr>"
  shows "reaches 2 cpu s"
proof -
  let ?v = "Alu_execute (alu_operation c) (operand_lhs cpu) (operand_rhs cpu)"
  let ?cpu = "cpu\<lparr>alu_result := ?v, microstate := Microstate_Writeback\<rparr>"
  have "CpuCore_tick cpu = Inr ?cpu"
    using assms by (simp add: CpuCore_tick_def tick_execute_def Let_def)
  moreover have "reaches (Suc 0) ?cpu s"
  proof (rule reaches_last)
    show "CpuCore_tick ?cpu =
        Inr (?cpu\<lparr>cpu_pc := next_pc cpu, retired_instructions := retired_instructions cpu + 1,
          core_bus := Bus_retire_tick (core_bus cpu),
          microstate := (if halt c then Microstate_Halted else Microstate_Fetch)\<rparr>)"
      using assms by (simp add: CpuCore_tick_def tick_writeback_def)
  qed (use assms in \<open>simp_all add: state_defs retire_def Bus_retire_tick_sys\<close>)
  ultimately have "reaches (Suc (Suc 0)) cpu s"
    using assms by (intro reaches_tick [of cpu ?cpu]) (simp_all add: state_defs)
  then show ?thesis by (simp add: numeral_2_eq_2)
qed

lemma exec_branch:
  assumes "CpuCore_wf cpu" "microstate cpu = Microstate_Execute"
    and "control_signals cpu = Some c" "decoded_instruction cpu = Some d"
    and "control_flow c = ControlFlowKind_ConditionalBranch"
    and "taken = predicate_holds (branch_predicate c) (operand_lhs cpu) (operand_rhs cpu)"
    and "s = retire (if taken then pc_plus_4 cpu + scast (di_imm16 d) * 4 else pc_plus_4 cpu) (arch_of cpu)"
  shows "reaches 1 cpu s"
proof -
  let ?v = "Alu_execute (alu_operation c) (operand_lhs cpu) (operand_rhs cpu)"
  have "CpuCore_tick cpu = Inr (CpuCore_retire_to
      (if taken then pc_plus_4 cpu + scast (di_imm16 d) * 4 else pc_plus_4 cpu) (cpu\<lparr>alu_result := ?v\<rparr>))"
    using assms
    by (simp add: CpuCore_tick_def tick_execute_def CpuCore_branch_taken_def
        branch_displacement_signed Let_def)
  then have "reaches (Suc 0) cpu s"
    by (rule retire_to_reaches) (use assms in \<open>simp_all add: state_defs\<close>)
  then show ?thesis by simp
qed

lemma exec_jump:
  assumes "CpuCore_wf cpu" "microstate cpu = Microstate_Execute"
    and "control_signals cpu = Some c" "decoded_instruction cpu = Some d"
    and "control_flow c = ControlFlowKind_RelativeJump" "\<not> reg_write c"
    and "s = retire (pc_plus_4 cpu + Decoder_jump_displacement (di_imm26 d)) (arch_of cpu)"
  shows "reaches 1 cpu s"
proof -
  let ?v = "Alu_execute (alu_operation c) (operand_lhs cpu) (operand_rhs cpu)"
  let ?t = "pc_plus_4 cpu + Decoder_jump_displacement (di_imm26 d)"
  have "CpuCore_tick cpu = Inr (CpuCore_retire_to ?t (cpu\<lparr>alu_result := ?v, next_pc := ?t\<rparr>))"
    using assms by (simp add: CpuCore_tick_def tick_execute_def Let_def)
  then have "reaches (Suc 0) cpu s"
    by (rule retire_to_reaches) (use assms in \<open>simp_all add: state_defs\<close>)
  then show ?thesis by simp
qed

lemma exec_jal:
  assumes "CpuCore_wf cpu" "microstate cpu = Microstate_Execute"
    and "control_signals cpu = Some c" "decoded_instruction cpu = Some d"
    and "control_flow c = ControlFlowKind_RelativeJump" "reg_write c" "\<not> halt c"
    and "memory_operation c = MemoryOperation_None"
    and "writeback_source c = WritebackSource_PcPlus4"
    and "register_destination c = RegisterDestination_ReturnAddress"
    and "s = retire (pc_plus_4 cpu + Decoder_jump_displacement (di_imm26 d))
      ((arch_of cpu)\<lparr>a_gpr := set_gpr 31 (pc_plus_4 cpu) (a_gpr (arch_of cpu))\<rparr>)"
  shows "reaches 2 cpu s"
proof -
  let ?v = "Alu_execute (alu_operation c) (operand_lhs cpu) (operand_rhs cpu)"
  let ?t = "pc_plus_4 cpu + Decoder_jump_displacement (di_imm26 d)"
  let ?cpu = "cpu\<lparr>alu_result := ?v, next_pc := ?t, microstate := Microstate_Writeback\<rparr>"
  have "CpuCore_tick cpu = Inr ?cpu"
    using assms by (simp add: CpuCore_tick_def tick_execute_def Let_def)
  moreover have "reaches (Suc 0) ?cpu s"
    using writeback_reaches [of ?cpu c 31 "pc_plus_4 cpu"] assms by (simp add: state_defs)
  ultimately have "reaches (Suc (Suc 0)) cpu s"
    using assms by (intro reaches_tick [of cpu ?cpu]) (simp_all add: state_defs)
  then show ?thesis by (simp add: numeral_2_eq_2)
qed

lemma exec_jr:
  assumes "CpuCore_wf cpu" "microstate cpu = Microstate_Execute"
    and "control_signals cpu = Some c"
    and "control_flow c = ControlFlowKind_RegisterJump"
    and "s = retire (operand_lhs cpu) (arch_of cpu)"
  shows "reaches 1 cpu s"
proof -
  let ?v = "Alu_execute (alu_operation c) (operand_lhs cpu) (operand_rhs cpu)"
  have "CpuCore_tick cpu = Inr (CpuCore_retire_to (operand_lhs cpu) (cpu\<lparr>alu_result := ?v\<rparr>))"
    using assms by (simp add: CpuCore_tick_def tick_execute_def Let_def)
  then have "reaches (Suc 0) cpu s"
    by (rule retire_to_reaches) (use assms in \<open>simp_all add: state_defs\<close>)
  then show ?thesis by simp
qed

lemma exec_load:
  assumes "CpuCore_wf cpu" "microstate cpu = Microstate_Execute"
    and "control_signals cpu = Some c" "decoded_instruction cpu = Some d"
    and "control_flow c = ControlFlowKind_Sequential" "memory_operation c = MemoryOperation_Load"
    and "reg_write c" "writeback_source c = WritebackSource_Memory" "\<not> halt c"
    and "register_destination c = RegisterDestination_DecodedRd" "di_rd d = ucast rd"
    and a: "a = Alu_execute (alu_operation c) (operand_lhs cpu) (operand_rhs cpu)"
  shows "case sys_read (sys_of_bus (core_bus cpu)) a of
      Inl f \<Rightarrow> reaches 2 cpu
        (raise_fault (load_fault f) (instruction_register cpu) (Some a) (arch_of cpu))
    | Inr v \<Rightarrow> reaches 3 cpu
        (retire (next_pc cpu) ((arch_of cpu)\<lparr>a_gpr := set_gpr rd v (a_gpr (arch_of cpu))\<rparr>))"
proof -
  let ?cpu = "cpu\<lparr>alu_result := a, microstate := Microstate_Memory\<rparr>"
  have t1: "CpuCore_tick cpu = Inr ?cpu"
    using assms by (simp add: CpuCore_tick_def tick_execute_def Let_def)
  show ?thesis
  proof (cases "sys_read (sys_of_bus (core_bus cpu)) a")
    case (Inl f)
    have "CpuCore_tick ?cpu = Inr (CpuCore_enter_fault (load_fault f) (Some a) ?cpu)"
      using assms Inl sys_fault_is_fault(1) [OF Inl]
      by (simp add: CpuCore_tick_def tick_memory_def state_defs Bus_read32_sys load_fault_def)
    then have "reaches (Suc 0) ?cpu
        (raise_fault (load_fault f) (instruction_register cpu) (Some a) (arch_of cpu))"
      by (rule reaches_last) (use assms in \<open>simp_all add: state_defs CpuCore_enter_fault_def raise_fault_def\<close>)
    then have "reaches (Suc (Suc 0)) cpu
        (raise_fault (load_fault f) (instruction_register cpu) (Some a) (arch_of cpu))"
      by (rule reaches_tick [OF t1, rotated -1]) (use assms in \<open>simp_all add: state_defs\<close>)
    with Inl show ?thesis by (simp add: numeral_2_eq_2)
  next
    case (Inr v)
    let ?cpu2 = "?cpu\<lparr>memory_data := v, microstate := Microstate_Writeback\<rparr>"
    let ?s = "retire (next_pc cpu) ((arch_of cpu)\<lparr>a_gpr := set_gpr rd v (a_gpr (arch_of cpu))\<rparr>)"
    have t2: "CpuCore_tick ?cpu = Inr ?cpu2"
      using assms Inr
      by (simp add: CpuCore_tick_def tick_memory_def state_defs Bus_read32_sys)
    have "reaches (Suc 0) ?cpu2 ?s"
      using writeback_reaches [of ?cpu2 c rd v] assms by (simp add: state_defs)
    then have "reaches (Suc (Suc 0)) ?cpu ?s"
      by (rule reaches_tick [OF t2, rotated -1]) (use assms in \<open>simp_all add: state_defs\<close>)
    then have "reaches (Suc (Suc (Suc 0))) cpu ?s"
      by (rule reaches_tick [OF t1, rotated -1]) (use assms in \<open>simp_all add: state_defs\<close>)
    with Inr show ?thesis by (simp add: numeral_3_eq_3)
  qed
qed

lemma exec_store:
  assumes "CpuCore_wf cpu" "microstate cpu = Microstate_Execute"
    and "control_signals cpu = Some c"
    and "control_flow c = ControlFlowKind_Sequential" "memory_operation c = MemoryOperation_Store"
    and a: "a = Alu_execute (alu_operation c) (operand_lhs cpu) (operand_rhs cpu)"
  shows "reaches 2 cpu
    (case sys_write (sys_of_bus (core_bus cpu)) a (store_data cpu) of
       Inl f \<Rightarrow> raise_fault (store_fault f) (instruction_register cpu) (Some a) (arch_of cpu)
     | Inr sys' \<Rightarrow> retire (next_pc cpu) ((arch_of cpu)\<lparr>a_sys := sys'\<rparr>))" (is "reaches 2 cpu ?s")
proof -
  let ?cpu = "cpu\<lparr>alu_result := a, microstate := Microstate_Memory\<rparr>"
  have t1: "CpuCore_tick cpu = Inr ?cpu"
    using assms by (simp add: CpuCore_tick_def tick_execute_def Let_def)
  have "Bus_wf (core_bus cpu)"
    using assms by (simp add: state_defs)
  then have "reaches (Suc 0) ?cpu ?s"
  proof (cases rule: system_bus.write_cases [where a = a and v = "store_data cpu"])
    case (fault f)
    have "CpuCore_tick ?cpu = Inr (CpuCore_enter_fault (store_fault f) (Some a) ?cpu)"
      using assms fault
      by (simp add: CpuCore_tick_def tick_memory_def BusWriteResult_ok_def store_fault_def)
    then show ?thesis
      by (rule reaches_last)
        (use assms fault in \<open>simp_all add: state_defs CpuCore_enter_fault_def raise_fault_def\<close>)
  next
    case (stored bus')
    have "CpuCore_tick ?cpu = Inr (CpuCore_retire_to (next_pc cpu) (?cpu\<lparr>core_bus := bus'\<rparr>))"
      using assms stored by (simp add: CpuCore_tick_def tick_memory_def BusWriteResult_ok_def)
    then show ?thesis
      by (rule retire_to_reaches) (use assms stored in \<open>simp_all add: state_defs\<close>)
  qed
  then have "reaches (Suc (Suc 0)) cpu ?s"
    by (rule reaches_tick [OF t1, rotated -1]) (use assms in \<open>simp_all add: state_defs\<close>)
  then show ?thesis by (simp add: numeral_2_eq_2)
qed

section \<open>FETCH and DECODE\<close>

definition fetched :: "u32 \<Rightarrow> 'h CpuCore \<Rightarrow> 'h CpuCore" where
  "fetched w cpu =
     cpu\<lparr>instruction_register := w, pc_plus_4 := cpu_pc cpu + 4, next_pc := cpu_pc cpu + 4\<rparr>"

lemma tick_fetch_spec:
  assumes "CpuCore_wf cpu" "microstate cpu = Microstate_Fetch"
  shows "CpuCore_tick cpu = Inr
    (case sys_fetch (sys_of_bus (core_bus cpu)) (cpu_pc cpu) of
       Inl f \<Rightarrow> CpuCore_enter_fault (fetch_fault f) None (fetched 0 cpu)
     | Inr w \<Rightarrow> (fetched w cpu)\<lparr>microstate := Microstate_Decode\<rparr>)"
  using assms sys_fault_is_fault(2) [of "sys_of_bus (core_bus cpu)" "cpu_pc cpu"]
  by (auto simp: CpuCore_tick_def tick_fetch_def state_defs Bus_fetch32_sys kInstructionAlignment_def
      fetched_def fetch_fault_def Let_def split: sum.splits)

lemma decode_fault_tick:
  assumes "microstate cpu = Microstate_Decode" "isa_decode (instruction_register cpu) = None"
  shows "CpuCore_tick cpu =
    Inr (CpuCore_enter_fault (decode_fault (isa_decode_error (instruction_register cpu))) None cpu)"
  using assms
  by (simp add: CpuCore_tick_def tick_decode_def decode_by_table DecodeResult_ok_def
      decode_failure_def decode_fault_def isa_decode_error_def Let_def)

text \<open>The register fields of a decoded instruction are below 32, so no read throws.\<close>

lemma decoded_registers:
  "\<exists>r1 r2. di_rs1 (decoded_of i) = ucast (r1 :: reg) \<and> di_rs2 (decoded_of i) = ucast (r2 :: reg)"
  by (cases i) (auto simp: di_r_def di_i_def di_sb_def di_j_def intro: exI [of _ 0])

lemma control_for_total: "\<exists>c. Decoder_control_for (di_opcode (decoded_of i)) = Some c"
  by (cases i) (simp_all add: di_r_def di_i_def di_sb_def di_j_def)

definition decoded_state :: "instr \<Rightarrow> ControlSignals \<Rightarrow> 'h CpuCore \<Rightarrow> 'h CpuCore" where
  "decoded_state i c cpu =
     (let d = decoded_of i; g = \<lambda>r. gpr (cpu_registers cpu) (ucast r) in
      cpu\<lparr>decoded_instruction := Some d, control_signals := Some c,
          operand_lhs := g (di_rs1 d),
          operand_rhs := (if alu_src_immediate c
                          then Decoder_immediate_value (immediate_kind c) (di_imm16 d)
                          else g (di_rs2 d)),
          store_data := g (di_rs2 d), microstate := Microstate_Execute\<rparr>)"

lemma decode_tick:
  assumes "CpuCore_wf cpu" "microstate cpu = Microstate_Decode"
    and "isa_decode (instruction_register cpu) = Some i"
    and "Decoder_control_for (di_opcode (decoded_of i)) = Some c"
  shows "CpuCore_tick cpu = Inr (decoded_state i c cpu)"
proof -
  obtain r1 r2 :: reg where "di_rs1 (decoded_of i) = ucast r1" "di_rs2 (decoded_of i) = ucast r2"
    using decoded_registers [of i] by blast
  with assms show ?thesis
    by (simp add: CpuCore_tick_def tick_decode_def decode_by_table DecodeResult_ok_def
        decoded_state_def CpuCore_wf_def Let_def)
qed

section \<open>From EXECUTE to the boundary, by instruction\<close>

definition executing :: "u32 \<Rightarrow> instr \<Rightarrow> ControlSignals \<Rightarrow> 'h CpuCore \<Rightarrow> bool" where
  "executing w i c cpu \<longleftrightarrow>
     CpuCore_wf cpu \<and> microstate cpu = Microstate_Execute \<and> instruction_register cpu = w \<and>
     control_signals cpu = Some c \<and> decoded_instruction cpu = Some (decoded_of i) \<and>
     c = the (Decoder_control_for (di_opcode (decoded_of i))) \<and>
     pc_plus_4 cpu = cpu_pc cpu + 4 \<and> next_pc cpu = cpu_pc cpu + 4 \<and>
     operand_lhs cpu = gpr (cpu_registers cpu) (ucast (di_rs1 (decoded_of i))) \<and>
     operand_rhs cpu = (if alu_src_immediate c
       then Decoder_immediate_value (immediate_kind c) (di_imm16 (decoded_of i))
       else gpr (cpu_registers cpu) (ucast (di_rs2 (decoded_of i)))) \<and>
     store_data cpu = gpr (cpu_registers cpu) (ucast (di_rs2 (decoded_of i)))"

lemmas instr_simps =
  di_r_def di_i_def di_sb_def di_j_def ControlSignals_default_def signed_less_than_sint
  cpu_signed_less_than_sint shift_amount
  jump_displacement_signed write_and_retire_def branch_if_def arch_of_def

lemma executing_arch [simp]:
  "executing w i c cpu \<Longrightarrow> status_of cpu = Running"
  by (simp add: executing_def status_of_def)

lemma executing_alu:
  assumes "executing w i c cpu" and "control_flow c = ControlFlowKind_Sequential"
    and "memory_operation c = MemoryOperation_None" "reg_write c" "\<not> halt c"
    and "writeback_source c = WritebackSource_Alu"
    and "register_destination c = RegisterDestination_DecodedRd" "di_rd (decoded_of i) = ucast rd"
    and "v = Alu_execute (alu_operation c) (operand_lhs cpu) (operand_rhs cpu)"
  shows "reaches 2 cpu (write_and_retire rd v (arch_of cpu))"
  using assms exec_alu [of cpu c "decoded_of i" rd v]
  by (simp add: executing_def write_and_retire_def arch_of_def)

lemma executing_alu_instr:
  assumes "executing w i c cpu" and "alu_rd i = Some rd"
  shows "reaches (instr_cycles i (arch_of cpu) - 2) cpu (isa_exec w i (arch_of cpu))"
  using assms executing_alu [OF assms(1), of rd]
  by (cases i) (simp_all add: executing_def instr_simps)

lemma executing_cond:
  assumes "executing w i c cpu" and "control_flow c = ControlFlowKind_ConditionalBranch"
    and "di_imm16 (decoded_of i) = imm"
    and "taken = predicate_holds (branch_predicate c) (operand_lhs cpu) (operand_rhs cpu)"
  shows "reaches 1 cpu (branch_if taken imm (arch_of cpu))"
  unfolding branch_if_def
  by (rule exec_branch [of cpu c "decoded_of i" taken])
    (use assms in \<open>simp_all only: executing_def arch_of_def arch.simps\<close>)

lemma executing_branch:
  assumes "executing w i c cpu"
    and "i \<in> {BEQ rs1 rs2 imm, BNE rs1 rs2 imm, BLT rs1 rs2 imm, BGE rs1 rs2 imm}"
  shows "reaches (instr_cycles i (arch_of cpu) - 2) cpu (isa_exec w i (arch_of cpu))"
proof -
  have "instr_cycles i (arch_of cpu) - 2 = 1"
    using assms(2) by (elim insertE emptyE; simp)
  moreover have "reaches 1 cpu (isa_exec w i (arch_of cpu))"
    using assms
    by (elim insertE emptyE; simp only: isa_exec.simps;
        intro executing_cond [OF assms(1)]; simp add: executing_def instr_simps linorder_not_less)
  ultimately show ?thesis by simp
qed

lemma executing_reaches:
  assumes "executing w i c cpu"
  shows "reaches (instr_cycles i (arch_of cpu) - 2) cpu (isa_exec w i (arch_of cpu))"
proof (cases i)
  case NOP
  with assms show ?thesis
    using exec_plain [of cpu c] by (simp add: executing_def instr_simps retire_def status_of_def)
next
  case HALT
  with assms show ?thesis
    using exec_plain [of cpu c] by (simp add: executing_def instr_simps)
next
  case (LW rd rs1 imm)
  with assms show ?thesis
    using exec_load [of cpu c "decoded_of i" rd]
    by (auto simp: executing_def instr_simps Let_def split: sum.splits)
next
  case (SW rs2 rs1 imm)
  with assms show ?thesis
    using exec_store [of cpu c]
    by (auto simp: executing_def instr_simps Let_def split: sum.splits)
next
  case (J imm)
  with assms show ?thesis
    using exec_jump [of cpu c "decoded_of i"] by (simp add: executing_def instr_simps)
next
  case (JAL imm)
  with assms show ?thesis
    using exec_jal [of cpu c "decoded_of i"] by (simp add: executing_def instr_simps)
next
  case (JR rs1)
  with assms show ?thesis
    using exec_jr [of cpu c] by (simp add: executing_def instr_simps)
qed ((rule executing_alu_instr [OF assms], simp; fail) | (rule executing_branch [OF assms], blast))+

section \<open>One step is one instruction\<close>

lemma fetch_fault_reaches:
  assumes "CpuCore_wf cpu" "microstate cpu = Microstate_Fetch"
    and "sys_fetch (sys_of_bus (core_bus cpu)) (cpu_pc cpu) = Inl f"
  shows "reaches (Suc 0) cpu (raise_fault (fetch_fault f) 0 None (arch_of cpu))"
proof -
  have "CpuCore_tick cpu = Inr (CpuCore_enter_fault (fetch_fault f) None (fetched 0 cpu))"
    using tick_fetch_spec [OF assms(1,2)] assms(3) by simp
  then show ?thesis
    by (rule reaches_last)
      (use assms in \<open>simp_all add: state_defs CpuCore_enter_fault_def fetched_def raise_fault_def\<close>)
qed

lemma decode_fault_reaches:
  assumes "CpuCore_wf cpu" "microstate cpu = Microstate_Decode"
    and "instruction_register cpu = w" "isa_decode w = None"
  shows "reaches (Suc 0) cpu (raise_fault (decode_fault (isa_decode_error w)) w None (arch_of cpu))"
proof -
  have "CpuCore_tick cpu = Inr (CpuCore_enter_fault (decode_fault (isa_decode_error w)) None cpu)"
    using decode_fault_tick [of cpu] assms(2-4) by simp
  then show ?thesis
    by (rule reaches_last)
      (use assms in \<open>simp_all add: state_defs CpuCore_enter_fault_def raise_fault_def\<close>)
qed

lemma decode_reaches:
  assumes "CpuCore_wf cpu" "microstate cpu = Microstate_Decode"
    and "instruction_register cpu = w" "isa_decode w = Some i"
    and "pc_plus_4 cpu = cpu_pc cpu + 4" "next_pc cpu = cpu_pc cpu + 4"
  shows "reaches (instr_cycles i (arch_of cpu) - 1) cpu (isa_exec w i (arch_of cpu))"
proof -
  obtain c where c: "Decoder_control_for (di_opcode (decoded_of i)) = Some c"
    using control_for_total by blast
  let ?cpu = "decoded_state i c cpu"
  have t: "CpuCore_tick cpu = Inr ?cpu"
    using decode_tick [OF assms(1,2), of i c] assms(3,4) c by simp
  have same: "arch_of ?cpu = arch_of cpu"
    using assms(2) by (simp add: arch_of_def status_of_def decoded_state_def Let_def)
  have "executing w i c ?cpu"
    using assms c by (simp add: executing_def decoded_state_def CpuCore_wf_def Let_def)
  then have "reaches (instr_cycles i (arch_of cpu) - 2) ?cpu (isa_exec w i (arch_of cpu))"
    using executing_reaches same by metis
  then have "reaches (Suc (instr_cycles i (arch_of cpu) - 2)) cpu (isa_exec w i (arch_of cpu))"
    by (rule reaches_tick [OF t, rotated -1])
      (use assms in \<open>simp_all add: state_defs decoded_state_def Let_def\<close>)
  moreover have "Suc (instr_cycles i (arch_of cpu) - 2) = instr_cycles i (arch_of cpu) - 1"
    by (cases i) (simp_all split: sum.splits)
  ultimately show ?thesis by simp
qed

lemma running_reaches:
  assumes wf: "CpuCore_wf cpu" and m: "microstate cpu = Microstate_Fetch"
  shows "reaches (isa_cycles (arch_of cpu)) cpu (isa_step (arch_of cpu))"
proof (cases "sys_fetch (sys_of_bus (core_bus cpu)) (cpu_pc cpu)")
  case (Inl f)
  with fetch_fault_reaches [OF wf m Inl] m show ?thesis
    by (simp add: isa_cycles_def isa_step_def arch_of_def status_of_def)
next
  case (Inr w)
  let ?cpu = "(fetched w cpu)\<lparr>microstate := Microstate_Decode\<rparr>"
  have t: "CpuCore_tick cpu = Inr ?cpu"
    using Inr tick_fetch_spec [OF wf m] by simp
  have wf1: "CpuCore_wf ?cpu" "microstate ?cpu = Microstate_Decode" "instruction_register ?cpu = w"
    and same: "arch_of ?cpu = arch_of cpu"
    using wf m by (simp_all add: CpuCore_wf_def fetched_def arch_of_def status_of_def)
  have step: "reaches (Suc n) cpu s" if "reaches n ?cpu s" for n s
    using that by (rule reaches_tick [OF t, rotated -1])
      (use m in \<open>simp_all add: state_defs fetched_def\<close>)
  show ?thesis
  proof (cases "isa_decode w")
    case None
    with step [OF decode_fault_reaches [OF wf1 None]] Inr m show ?thesis
      unfolding same by (simp add: isa_cycles_def isa_step_def arch_of_def status_of_def numeral_2_eq_2)
  next
    case (Some i)
    have "reaches (instr_cycles i (arch_of cpu) - 1) ?cpu (isa_exec w i (arch_of cpu))"
      using decode_reaches [OF wf1 Some] unfolding same by (simp add: fetched_def)
    then have "reaches (Suc (instr_cycles i (arch_of cpu) - 1)) cpu (isa_exec w i (arch_of cpu))"
      by (rule step)
    moreover have "Suc (instr_cycles i (arch_of cpu) - 1) = instr_cycles i (arch_of cpu)"
      by (cases i) (simp_all split: sum.splits)
    ultimately show ?thesis
      using Inr Some m by (simp add: isa_cycles_def isa_step_def arch_of_def status_of_def)
  qed
qed

lemma step_reaches:
  assumes "CpuCore_wf cpu" "at_boundary cpu"
  shows "\<exists>cpu'. CpuCore_step cpu = Some (Inr (step_result cpu', cpu')) \<and>
    tick_many (isa_cycles (arch_of cpu)) cpu = Inr cpu' \<and> still_running (isa_cycles (arch_of cpu)) cpu \<and>
    step_stops (retired_instructions cpu) cpu' \<and> CpuCore_wf cpu' \<and> at_boundary cpu' \<and> arch_of cpu' = isa_step (arch_of cpu)"
proof (cases "microstate cpu = Microstate_Fetch")
  case True
  with running_reaches [OF assms(1)] show ?thesis
    by (auto simp: reaches_def CpuCore_step_def CpuCore_halted_def CpuCore_faulted_def)
next
  case False
  with assms show ?thesis
    by (auto simp: CpuCore_step_def state_defs step_result_def isa_cycles_def isa_step_def
        still_running_def step_stops_def)
qed

text \<open>A step faults with a report exactly when the cause of that report holds.\<close>

lemma step_fault_cause:
  assumes "CpuCore_wf cpu" and "microstate cpu = Microstate_Fetch"
  shows "\<exists>result cpu'. CpuCore_step cpu = Some (Inr (result, cpu')) \<and>
    (\<forall>report. CpuCore_faulted cpu' \<and> fault_info cpu' = report \<longleftrightarrow> fault_cause (arch_of cpu) report)"
proof -
  have run: "a_status (arch_of cpu) = Running" and "at_boundary cpu"
    using assms(2) by (simp_all add: arch_of_def status_of_def at_boundary_def)
  then obtain cpu' where cpu': "CpuCore_step cpu = Some (Inr (step_result cpu', cpu'))"
      "arch_of cpu' = isa_step (arch_of cpu)"
    using step_reaches [OF assms(1)] by blast
  have "CpuCore_faulted cpu' \<and> fault_info cpu' = report \<longleftrightarrow> a_status (arch_of cpu') = Faulted report" for report
    by (auto simp: arch_of_def status_of_def CpuCore_faulted_def)
  moreover have "a_status (isa_step (arch_of cpu)) = Faulted report \<longleftrightarrow> fault_cause (arch_of cpu) report" for report
    using isa_step_fault_cause [OF run] fault_cause_isa_step [OF run] by blast
  ultimately show ?thesis
    using cpu' by (intro exI conjI allI) simp_all
qed

end
