(* ===== verification/Cpu_Safety.thy ===== *)
theory Cpu_Safety
  imports Cpu_Refinement
begin

text \<open>
  The state machine of \<^verbatim>\<open>CpuCore\<close> at the level of single ticks: the invariant of the latched
  instruction and control signals, that it excludes every exception and every undefined behaviour
  of the C++ code in every reachable state, and that the loop of \<^verbatim>\<open>step\<close> ends from every
  reachable state, also when it is called between the ticks of an instruction.
\<close>

section \<open>The invariant\<close>

text \<open>
  From EXECUTE on, the latched instruction has a destination register that exists and the latched
  control signals are those of its opcode; MEMORY is entered only for a load or a store.
\<close>

definition latched :: "'h CpuCore \<Rightarrow> bool" where
  "latched cpu \<longleftrightarrow>
     (case (decoded_instruction cpu, control_signals cpu) of
        (Some d, Some c) \<Rightarrow>
          di_rd d < 32 \<and> Decoder_control_for (di_opcode d) = Some c \<and>
          (microstate cpu = Microstate_Memory \<longrightarrow> memory_operation c \<noteq> MemoryOperation_None)
      | _ \<Rightarrow> False)"

text \<open>
  The fault report is empty until a fault, and then describes the instruction at the program
  counter: which of the eleven faults it is (one of them, an opcode without control signals, never
  happens), its word, and the address of a faulting load or store.
\<close>

definition data_fault :: "CpuFault \<Rightarrow> bool" where
  "data_fault code \<longleftrightarrow>
     code \<in> {CpuFault_MisalignedLoad, CpuFault_MisalignedStore, CpuFault_UnmappedLoad,
             CpuFault_UnmappedStore, CpuFault_ReadOnlyStore}"

definition fault_reported :: "'h CpuCore \<Rightarrow> bool" where
  "fault_reported cpu \<longleftrightarrow>
     (let info = fault_info cpu in
      if CpuCore_faulted cpu
      then fault_code info \<notin> {CpuFault_None, CpuFault_UnsupportedInstruction} \<and>
           fault_pc info = cpu_pc cpu \<and> fault_instruction info = instruction_register cpu \<and>
           (fault_data_address info \<noteq> None \<longleftrightarrow> data_fault (fault_code info))
      else info = FaultInfo_default)"

definition CpuCore_inv :: "'h CpuCore \<Rightarrow> bool" where
  "CpuCore_inv cpu \<longleftrightarrow>
     CpuCore_wf cpu \<and> fault_reported cpu \<and>
     (microstate cpu \<in> {Microstate_Execute, Microstate_Memory, Microstate_Writeback} \<longrightarrow> latched cpu)"

fun microstate_rank :: "Microstate \<Rightarrow> nat" where
  "microstate_rank Microstate_Fetch = 5"
| "microstate_rank Microstate_Decode = 4"
| "microstate_rank Microstate_Execute = 3"
| "microstate_rank Microstate_Memory = 2"
| "microstate_rank Microstate_Writeback = 1"
| "microstate_rank Microstate_Halted = 0"
| "microstate_rank Microstate_Fault = 0"

text \<open>What one tick does from a state of the invariant.\<close>

definition tick_good :: "'h CpuCore \<Rightarrow> 'h CpuCore \<Rightarrow> bool" where
  "tick_good cpu cpu' \<longleftrightarrow>
     CpuCore_inv cpu' \<and>
     (retired_instructions cpu' = retired_instructions cpu + 1 \<or> CpuCore_faulted cpu' \<or>
      retired_instructions cpu' = retired_instructions cpu \<and>
      microstate_rank (microstate cpu') < microstate_rank (microstate cpu))"

lemmas good_defs =
  tick_good_def CpuCore_inv_def CpuCore_faulted_def CpuCore_wf_def fault_reported_def data_fault_def
  fetch_fault_def decode_fault_def Let_def

lemma tick_fetch_good:
  assumes "CpuCore_inv cpu" "microstate cpu = Microstate_Fetch"
  shows "\<exists>cpu'. CpuCore_tick cpu = Inr cpu' \<and> tick_good cpu cpu'"
  using assms tick_fetch_spec [of cpu]
  by (auto simp: good_defs fetched_def CpuCore_enter_fault_def split: sum.splits)

lemma decoded_rd: "di_rd (decoded_of i) < 32"
proof -
  have "(ucast r :: u8) < 32" for r :: reg
    using reg_index_lt [of r] by (simp add: word_less_nat_alt reg_index_u8(1))
  then show ?thesis
    by (cases i) (simp_all add: di_r_def di_i_def di_sb_def di_j_def)
qed

lemma tick_decode_good:
  assumes "CpuCore_inv cpu" "microstate cpu = Microstate_Decode"
  shows "\<exists>cpu'. CpuCore_tick cpu = Inr cpu' \<and> tick_good cpu cpu'"
proof (cases "isa_decode (instruction_register cpu)")
  case None
  with assms show ?thesis
    by (simp add: decode_fault_tick good_defs CpuCore_enter_fault_def)
next
  case (Some i)
  obtain c where "Decoder_control_for (di_opcode (decoded_of i)) = Some c"
    using control_for_total by blast
  with assms Some show ?thesis
    by (simp add: decode_tick [of cpu i c] good_defs decoded_state_def latched_def decoded_rd Let_def)
qed

text \<open>What the invariant gives a running CPU that has decoded its instruction.\<close>

lemma latched_cases:
  assumes "CpuCore_inv cpu"
    and "microstate cpu \<in> {Microstate_Execute, Microstate_Memory, Microstate_Writeback}"
  obtains d c where "decoded_instruction cpu = Some d" "control_signals cpu = Some c"
    "di_rd d < 32" "Decoder_control_for (di_opcode d) = Some c"
    "microstate cpu = Microstate_Memory \<longrightarrow> memory_operation c \<noteq> MemoryOperation_None"
    "RegisterFile_wf (cpu_registers cpu)" "Bus_wf (core_bus cpu)" "fault_info cpu = FaultInfo_default"
  using assms
  by (auto simp: CpuCore_inv_def latched_def CpuCore_wf_def fault_reported_def CpuCore_faulted_def
      Let_def split: option.splits)

lemma tick_execute_good:
  assumes "CpuCore_inv cpu" "microstate cpu = Microstate_Execute"
  shows "\<exists>cpu'. CpuCore_tick cpu = Inr cpu' \<and> tick_good cpu cpu'"
proof -
  obtain d c where dc: "decoded_instruction cpu = Some d" "control_signals cpu = Some c"
      "di_rd d < 32" "Decoder_control_for (di_opcode d) = Some c"
      "RegisterFile_wf (cpu_registers cpu)" "Bus_wf (core_bus cpu)" "fault_info cpu = FaultInfo_default"
    using latched_cases [OF assms(1)] assms(2) by blast
  show ?thesis
    by (cases "control_flow c"; cases "reg_write c"; cases "memory_operation c = MemoryOperation_None")
      (simp_all add: CpuCore_tick_def assms(2) tick_execute_def CpuCore_branch_taken_def
        CpuCore_retire_to_def good_defs latched_def dc)
qed

lemma tick_memory_good:
  assumes "CpuCore_inv cpu" "microstate cpu = Microstate_Memory"
  shows "\<exists>cpu'. CpuCore_tick cpu = Inr cpu' \<and> tick_good cpu cpu'"
proof -
  obtain d c where dc: "decoded_instruction cpu = Some d" "control_signals cpu = Some c"
      "memory_operation c \<noteq> MemoryOperation_None" "di_rd d < 32"
      "Decoder_control_for (di_opcode d) = Some c" "fault_info cpu = FaultInfo_default"
    and wf: "Bus_wf (core_bus cpu)" "RegisterFile_wf (cpu_registers cpu)"
    using latched_cases [OF assms(1)] assms(2) by blast
  show ?thesis
  proof (cases "memory_operation c")
    case MemoryOperation_Load
    with assms(2) dc wf show ?thesis
      by (simp add: CpuCore_tick_def tick_memory_def Bus_read32_sys CpuCore_enter_fault_def good_defs
          latched_def)
  next
    case MemoryOperation_Store
    from wf(1) show ?thesis
      by (cases rule: system_bus.write_cases [where a = "alu_result cpu" and v = "store_data cpu"])
        (use assms(2) dc wf MemoryOperation_Store in \<open>simp_all add: CpuCore_tick_def tick_memory_def
          BusWriteResult_ok_def CpuCore_enter_fault_def CpuCore_retire_to_def good_defs\<close>)
  qed (use dc in simp)
qed

lemma tick_writeback_good:
  assumes "CpuCore_inv cpu" "microstate cpu = Microstate_Writeback"
  shows "\<exists>cpu'. CpuCore_tick cpu = Inr cpu' \<and> tick_good cpu cpu'"
proof -
  obtain d c where dc: "decoded_instruction cpu = Some d" "control_signals cpu = Some c" "di_rd d < 32"
    using assms by (auto simp: CpuCore_inv_def latched_def split: option.splits)
  obtain v where v: "v = (if writeback_source c = WritebackSource_Memory then memory_data cpu
    else if writeback_source c = WritebackSource_PcPlus4 then pc_plus_4 cpu else alu_result cpu)"
    by blast
  obtain dest where dest: "(if register_destination c = RegisterDestination_ReturnAddress then Inr 31
      else bindE (deref (decoded_instruction cpu)) (\<lambda>decoded. Inr (di_rd decoded))) = Inr dest"
      "dest < 32"
    using dc by (cases "register_destination c = RegisterDestination_ReturnAddress") auto
  then obtain rf where rf: "RegisterFile_write (cpu_registers cpu) dest v = Inr rf" "RegisterFile_wf rf"
    using RegisterFile_write_below_32 assms(1) unfolding CpuCore_inv_def CpuCore_wf_def by blast
  have "CpuCore_tick cpu =
      (let cpu' = (if reg_write c then cpu\<lparr>cpu_registers := rf\<rparr> else cpu) in
       Inr (cpu'\<lparr>cpu_pc := next_pc cpu, retired_instructions := retired_instructions cpu + 1,
         core_bus := Bus_retire_tick (core_bus cpu),
         microstate := (if halt c then Microstate_Halted else Microstate_Fetch)\<rparr>))"
    using assms(2) by (simp add: CpuCore_tick_def tick_writeback_def dc(2) dest(1) rf(1) v [symmetric] Let_def)
  with assms rf(2) show ?thesis
    by (simp add: good_defs Let_def)
qed

lemma tick_good_exists:
  assumes "CpuCore_inv cpu" "\<not> CpuCore_halted cpu" "\<not> CpuCore_faulted cpu"
  shows "\<exists>cpu'. CpuCore_tick cpu = Inr cpu' \<and> tick_good cpu cpu'"
  using assms tick_fetch_good tick_decode_good tick_execute_good tick_memory_good tick_writeback_good
  by (cases "microstate cpu") (auto simp: CpuCore_halted_def CpuCore_faulted_def)

section \<open>The machine never fails, and its loop ends\<close>

lemma tick_keeps_inv:
  assumes "CpuCore_inv cpu"
  shows "\<exists>cpu'. CpuCore_tick cpu = Inr cpu' \<and> CpuCore_inv cpu'"
proof (cases "CpuCore_halted cpu \<or> CpuCore_faulted cpu")
  case True
  with assms show ?thesis
    by (auto simp: CpuCore_tick_def CpuCore_halted_def CpuCore_faulted_def)
next
  case False
  with tick_good_exists [OF assms] show ?thesis by (auto simp: tick_good_def)
qed

interpretation step_machine: stopping_machine CpuCore_inv CpuCore_tick "step_stops r"
  "\<lambda>cpu. microstate_rank (microstate cpu)" for r
proof
  fix cpu cpu' :: "'h CpuCore"
  assume inv: "CpuCore_inv cpu"
  then show "\<exists>cpu'. CpuCore_tick cpu = Inr cpu' \<and> CpuCore_inv cpu'"
    by (rule tick_keeps_inv)
  assume run: "\<not> step_stops r cpu"
  then show "0 < microstate_rank (microstate cpu)"
    by (cases "microstate cpu") (simp_all add: step_stops_def CpuCore_halted_def CpuCore_faulted_def)
  assume "CpuCore_tick cpu = Inr cpu'"
  then show "step_stops r cpu' \<or> microstate_rank (microstate cpu') < microstate_rank (microstate cpu)"
    using tick_good_exists [OF inv] run by (auto simp: step_stops_def tick_good_def)
qed

lemma step_loop_ends:
  assumes "CpuCore_inv cpu"
  shows "\<exists>cpu'. step_loop r cpu = Some (Inr cpu') \<and> CpuCore_inv cpu' \<and> step_stops r cpu'"
  using assms
proof (induction rule: step_machine.loop_induct [where r = r])
  case (stopped cpu)
  then show ?case by (auto simp: step_stops_def intro!: step_loop_done)
next
  case (tick cpu cpu')
  then show ?case using step_loop_tick [of cpu r cpu'] by (auto simp: step_stops_def)
qed

lemma step_keeps_inv:
  assumes "CpuCore_inv cpu"
  shows "\<exists>cpu'. CpuCore_step cpu = Some (Inr (step_result cpu', cpu')) \<and> CpuCore_inv cpu'"
proof -
  obtain cpu' where "step_loop (retired_instructions cpu) cpu = Some (Inr cpu')" "CpuCore_inv cpu'"
    using step_loop_ends [OF assms] by blast
  with assms show ?thesis
    by (cases "microstate cpu = Microstate_Halted"; cases "microstate cpu = Microstate_Fault")
      (simp_all add: CpuCore_step_def step_result_def CpuCore_halted_def CpuCore_faulted_def)
qed

section \<open>Reachable states\<close>

text \<open>
  The states of a \<^verbatim>\<open>CpuCore\<close> under every interleaving of calls of \<^verbatim>\<open>tick\<close>, \<^verbatim>\<open>step\<close> and \<^verbatim>\<open>reset\<close>,
  with a host that changes memory and devices at will in between (\<^verbatim>\<open>Gpio::set_input\<close>, the
  \<^verbatim>\<open>reset\<close> of a device, a new ROM image).
\<close>

inductive cpu_reachable :: "'h Bus \<Rightarrow> 'h CpuCore \<Rightarrow> bool" for bus where
  new: "cpu_reachable bus (CpuCore_new bus)"
| tick: "cpu_reachable bus cpu \<Longrightarrow> CpuCore_tick cpu = Inr cpu' \<Longrightarrow> cpu_reachable bus cpu'"
| step: "cpu_reachable bus cpu \<Longrightarrow> CpuCore_step cpu = Some (Inr (result, cpu')) \<Longrightarrow>
    cpu_reachable bus cpu'"
| reset: "cpu_reachable bus cpu \<Longrightarrow> cpu_reachable bus (CpuCore_reset cpu)"
| host: "cpu_reachable bus cpu \<Longrightarrow> Bus_wf bus' \<Longrightarrow> cpu_reachable bus (cpu\<lparr>core_bus := bus'\<rparr>)"

lemma CpuCore_reset_inv:
  "CpuCore_wf cpu \<Longrightarrow> CpuCore_inv (CpuCore_reset cpu)"
  by (simp add: CpuCore_reset_def good_defs RegisterFile_reset_wf)

lemma CpuCore_new_inv: "Bus_wf bus \<Longrightarrow> CpuCore_inv (CpuCore_new bus)"
  unfolding CpuCore_new_def by (rule CpuCore_reset_inv) (simp add: CpuCore_wf_def)

lemma host_keeps_inv:
  assumes "CpuCore_inv cpu" and "Bus_wf bus'"
  shows "CpuCore_inv (cpu\<lparr>core_bus := bus'\<rparr>)"
proof -
  have "latched (cpu\<lparr>core_bus := bus'\<rparr>) = latched cpu"
    by (simp add: latched_def split: option.split)
  moreover have "fault_reported (cpu\<lparr>core_bus := bus'\<rparr>) = fault_reported cpu"
    by (simp add: fault_reported_def CpuCore_faulted_def Let_def)
  ultimately show ?thesis
    using assms by (simp add: CpuCore_inv_def CpuCore_wf_def)
qed

lemma reachable_inv:
  assumes "cpu_reachable bus cpu" and "Bus_wf bus"
  shows "CpuCore_inv cpu"
  using assms
proof induction
  case new
  then show ?case by (rule CpuCore_new_inv)
next
  case (tick cpu cpu')
  then show ?case using tick_keeps_inv [of cpu] by auto
next
  case (step cpu result cpu')
  then show ?case using step_keeps_inv [of cpu] by auto
next
  case (reset cpu)
  then show ?case by (intro CpuCore_reset_inv) (simp add: CpuCore_inv_def)
next
  case (host cpu bus')
  then show ?case by (simp add: host_keeps_inv)
qed

section \<open>The program is immutable\<close>

lemma Bus_retire_tick_rom [simp]: "bus_rom (Bus_retire_tick bus) = bus_rom bus"
  by (simp add: Bus_retire_tick_def)

lemma core_bus_simps [simp]:
  "core_bus (CpuCore_enter_fault code address cpu) = core_bus cpu"
  "core_bus (CpuCore_retire_to target cpu) = Bus_retire_tick (core_bus cpu)"
  by (simp_all add: CpuCore_enter_fault_def CpuCore_retire_to_def)

lemma tick_memory_rom:
  assumes "tick_memory cpu = Inr cpu'"
  shows "bus_rom (core_bus cpu') = bus_rom (core_bus cpu)"
proof -
  obtain c where c: "control_signals cpu = Some c"
    using assms by (cases "control_signals cpu") (simp_all add: tick_memory_def)
  show ?thesis
  proof (cases "memory_operation c")
    case MemoryOperation_Load
    with assms c obtain r where "Bus_read32 (core_bus cpu) (alu_result cpu) = Inr r"
      by (cases "Bus_read32 (core_bus cpu) (alu_result cpu)") (simp_all add: tick_memory_def)
    with assms c MemoryOperation_Load show ?thesis
      by (cases "BusReadResult_ok r") (simp_all add: tick_memory_def, auto)
  next
    case MemoryOperation_Store
    with assms c obtain r bus where w: "Bus_write32 (core_bus cpu) (alu_result cpu) (store_data cpu) =
        Inr (r, bus)"
      by (cases "Bus_write32 (core_bus cpu) (alu_result cpu) (store_data cpu)")
        (auto simp: tick_memory_def)
    show ?thesis
      using assms c MemoryOperation_Store Bus_write32_rom [OF w]
      by (cases "BusWriteResult_ok r") (simp_all add: tick_memory_def w Let_def, auto)
  qed (use assms c in \<open>simp add: tick_memory_def\<close>)
qed

lemma tick_rom:
  assumes "CpuCore_tick cpu = Inr cpu'"
  shows "bus_rom (core_bus cpu') = bus_rom (core_bus cpu)"
proof (cases "microstate cpu")
  case Microstate_Fetch
  with assms show ?thesis
    by (auto simp: CpuCore_tick_def tick_fetch_def result_simps Let_def split: if_splits)
next
  case Microstate_Decode
  with assms show ?thesis
    by (auto simp: CpuCore_tick_def tick_decode_def result_simps Let_def
        split: if_splits option.splits)
next
  case Microstate_Execute
  with assms show ?thesis
    by (auto simp: CpuCore_tick_def tick_execute_def result_simps Let_def split: if_splits)
next
  case Microstate_Memory
  with assms show ?thesis
    by (simp add: CpuCore_tick_def tick_memory_rom)
next
  case Microstate_Writeback
  with assms show ?thesis
    by (auto simp: CpuCore_tick_def tick_writeback_def result_simps Let_def split: if_splits)
qed (use assms in \<open>simp_all add: CpuCore_tick_def\<close>)

lemma ticks_rom:
  "iterateE CpuCore_tick n cpu = Inr cpu' \<Longrightarrow> bus_rom (core_bus cpu') = bus_rom (core_bus cpu)"
  by (induction n arbitrary: cpu) (auto simp: result_simps dest: tick_rom)

end
