(* ===== verification/Isa_Run.thy ===== *)
theory Isa_Run
  imports Isa_Semantics
begin

text \<open>
  Runs of the instruction set: sequences of instructions from an architectural state, how many of
  them retire, and what a whole run leaves in memory and in the devices, told from the stores it
  performed. Nothing here mentions the simulator's CPU; the properties of programs combine these
  facts with the refinement of \<^verbatim>\<open>CpuCore::step\<close>.
\<close>

section \<open>Runs\<close>

text \<open>The state after \<open>n\<close> instructions, and the first \<open>n\<close> that leave the machine running.\<close>

abbreviation isa_run :: "nat \<Rightarrow> 'h arch \<Rightarrow> 'h arch" where
  "isa_run n \<equiv> isa_step ^^ n"

definition runs_for :: "nat \<Rightarrow> 'h arch \<Rightarrow> bool" where
  "runs_for n s \<longleftrightarrow> (\<forall>k < n. a_status (isa_run k s) = Running)"

lemma isa_run_2: "isa_run 2 s = isa_step (isa_step s)"
  by (simp add: numeral_2_eq_2)

lemma runs_for_Suc: "runs_for (Suc n) s \<longleftrightarrow> a_status s = Running \<and> runs_for n (isa_step s)"
  by (auto simp: runs_for_def less_Suc_eq_0_disj funpow_swap1)

lemma isa_run_retired:
  assumes "runs_for n s" and "\<And>f. a_status (isa_run n s) \<noteq> Faulted f"
  shows "a_retired (isa_run n s) = a_retired s + of_nat n"
  using assms
proof (induction n arbitrary: s)
  case (Suc n)
  then have run: "a_status s = Running" "runs_for n (isa_step s)"
    and ok: "\<And>f. a_status (isa_run n (isa_step s)) \<noteq> Faulted f"
    by (simp_all add: runs_for_Suc funpow_swap1)
  have "a_retired (isa_run n (isa_step s)) = a_retired (isa_step s) + of_nat n"
    using Suc.IH [OF run(2) ok] by blast
  moreover have "a_retired (isa_step s) = a_retired s + 1"
  proof (rule disjE [OF isa_step_cases [OF run(1)]])
    assume "faults s (isa_step s)"
    then obtain f where f: "a_status (isa_step s) = Faulted f" by (auto simp: faults_def)
    then have "isa_run n (isa_step s) = isa_step s"
      by (induction n) (simp_all add: isa_step_stopped)
    with f ok show ?thesis by auto
  qed (simp add: retires_def)
  ultimately show ?case by (simp add: funpow_swap1)
qed simp

text \<open>The state after reset on a given memory and devices.\<close>

definition isa_reset :: "'h sys \<Rightarrow> 'h arch" where
  "isa_reset sys = \<lparr>a_gpr = \<lambda>_. 0, a_pc = 0, a_sys = sys, a_retired = 0, a_status = Running\<rparr>"

lemma sys_tick_fetch [simp]: "sys_fetch (sys_tick s) a = sys_fetch s a"
  by (cases "region_of a") (simp_all add: sys_fetch_def sys_tick_def)

section \<open>The stores of a run\<close>

text \<open>The store the next instruction performs, if it is a store that does not fault.\<close>

definition isa_store :: "'h arch \<Rightarrow> (region \<times> u32) option" where
  "isa_store s =
     (if a_status s \<noteq> Running then None
      else case sys_fetch (a_sys s) (a_pc s) of
             Inl f \<Rightarrow> None
           | Inr w \<Rightarrow>
               (case isa_decode w of
                  Some (SW rs2 rs1 imm) \<Rightarrow>
                    (case sys_write (a_sys s) (a_gpr s rs1 + scast imm) (a_gpr s rs2) of
                       Inl f \<Rightarrow> None
                     | Inr sys' \<Rightarrow> Some (region_of (a_gpr s rs1 + scast imm), a_gpr s rs2))
                | _ \<Rightarrow> None))"

definition store_effect :: "(region \<times> u32) option \<Rightarrow> 'h sys \<Rightarrow> 'h sys" where
  "store_effect st sys =
     (case st of
        None \<Rightarrow> sys
      | Some (r, v) \<Rightarrow> (case region_write sys r v of Inl f \<Rightarrow> sys | Inr sys' \<Rightarrow> sys'))"

lemma isa_step_sys:
  assumes "a_status s = Running"
  shows "a_sys (isa_step s) =
    (if a_retired (isa_step s) = a_retired s then a_sys s
     else sys_tick (store_effect (isa_store s) (a_sys s)))"
proof (cases "sys_fetch (a_sys s) (a_pc s)")
  case (Inl f)
  with assms show ?thesis by (simp add: isa_step_def raise_fault_def)
next
  case (Inr w)
  show ?thesis
  proof (cases "isa_decode w")
    case None
    with assms Inr show ?thesis by (simp add: isa_step_def raise_fault_def)
  next
    case (Some i)
    with assms Inr show ?thesis
      by (cases i) (auto simp: isa_step_def isa_store_def store_effect_def effect_defs sys_write_def
          split: sum.splits)
  qed
qed

lemma faulting_no_store:
  assumes "a_retired (isa_step s) = a_retired s"
  shows "isa_store s = None"
proof (cases "a_status s = Running")
  case True
  show ?thesis
  proof (cases "sys_fetch (a_sys s) (a_pc s)")
    case (Inr w)
    show ?thesis
    proof (cases "isa_decode w")
      case (Some i)
      with True Inr assms show ?thesis
        by (cases i) (auto simp: isa_step_def isa_store_def effect_defs split: sum.splits)
    qed (use True Inr in \<open>simp add: isa_store_def\<close>)
  qed (use True in \<open>simp add: isa_store_def\<close>)
qed (simp add: isa_store_def)

text \<open>Memory and the devices other than the timer change by the store alone.\<close>

lemma isa_step_store:
  "sys_rom (a_sys (isa_step s)) = sys_rom (store_effect (isa_store s) (a_sys s))"
  "sys_ram (a_sys (isa_step s)) = sys_ram (store_effect (isa_store s) (a_sys s))"
  "sys_uart (a_sys (isa_step s)) = sys_uart (store_effect (isa_store s) (a_sys s))"
  "sys_gpio (a_sys (isa_step s)) = sys_gpio (store_effect (isa_store s) (a_sys s))"
  "sys_debug (a_sys (isa_step s)) = sys_debug (store_effect (isa_store s) (a_sys s))"
proof -
  have "a_sys (isa_step s) = store_effect (isa_store s) (a_sys s) \<or>
      a_sys (isa_step s) = sys_tick (store_effect (isa_store s) (a_sys s))"
  proof (cases "a_status s = Running")
    case True
    then show ?thesis
      using isa_step_sys [OF True] faulting_no_store [of s]
      by (cases "a_retired (isa_step s) = a_retired s") (simp_all add: store_effect_def)
  next
    case False
    then show ?thesis by (simp add: isa_step_stopped isa_store_def store_effect_def)
  qed
  then show
    "sys_rom (a_sys (isa_step s)) = sys_rom (store_effect (isa_store s) (a_sys s))"
    "sys_ram (a_sys (isa_step s)) = sys_ram (store_effect (isa_store s) (a_sys s))"
    "sys_uart (a_sys (isa_step s)) = sys_uart (store_effect (isa_store s) (a_sys s))"
    "sys_gpio (a_sys (isa_step s)) = sys_gpio (store_effect (isa_store s) (a_sys s))"
    "sys_debug (a_sys (isa_step s)) = sys_debug (store_effect (isa_store s) (a_sys s))"
    by (auto simp: sys_tick_def)
qed

definition isa_stores :: "nat \<Rightarrow> 'h arch \<Rightarrow> (region \<times> u32) option list" where
  "isa_stores n s = map (\<lambda>k. isa_store (isa_run k s)) [0..<n]"

lemma isa_stores_Suc: "isa_stores (Suc n) s = isa_stores n s @ [isa_store (isa_run n s)]"
  by (simp add: isa_stores_def)

section \<open>RAM after a run\<close>

fun ram_store :: "(14 word \<Rightarrow> u32) \<Rightarrow> (region \<times> u32) option \<Rightarrow> 14 word \<Rightarrow> u32" where
  "ram_store f (Some (Region_Ram i, v)) = f(i := v)"
| "ram_store f _ = f"

lemma store_effect_ram: "sys_ram (store_effect st sys) = ram_store (sys_ram sys) st"
  by (cases "(sys_ram sys, st)" rule: ram_store.cases) (simp_all add: store_effect_def)

lemma isa_run_ram:
  "sys_ram (a_sys (isa_run n s)) = foldl ram_store (sys_ram (a_sys s)) (isa_stores n s)"
proof (induction n)
  case (Suc n)
  then show ?case by (simp add: isa_stores_Suc isa_step_store(2) store_effect_ram)
qed (simp add: isa_stores_def)

section \<open>The UART after a run\<close>

fun transmitted :: "(region \<times> u32) option \<Rightarrow> u8 list" where
  "transmitted (Some (Region_Uart i, v)) = (if i = 0 then [ucast v] else [])"
| "transmitted _ = []"

lemma store_effect_uart: "sys_uart (store_effect st sys) = foldl Uart_transmit (sys_uart sys) (transmitted st)"
  by (cases st rule: transmitted.cases) (simp_all add: store_effect_def Uart_store_def)

lemma isa_run_uart:
  "sys_uart (a_sys (isa_run n s)) =
     foldl Uart_transmit (sys_uart (a_sys s)) (concat (map transmitted (isa_stores n s)))"
proof (induction n)
  case (Suc n)
  then show ?case by (simp add: isa_stores_Suc isa_step_store(3) store_effect_uart)
qed (simp add: isa_stores_def)

section \<open>The timer after a run\<close>

fun stores_to_timer :: "(region \<times> u32) option \<Rightarrow> bool" where
  "stores_to_timer (Some (Region_Timer i, v)) = True"
| "stores_to_timer _ = False"

lemma store_effect_timer: "\<not> stores_to_timer st \<Longrightarrow> sys_timer (store_effect st sys) = sys_timer sys"
  by (cases st rule: stores_to_timer.cases) (simp_all add: store_effect_def)

lemma isa_run_Suc_not_faulted:
  assumes "runs_for (Suc n) s" and "\<And>f. a_status (isa_run (Suc n) s) \<noteq> Faulted f"
  shows "a_status (isa_run n s) = Running" "retires (isa_run n s) (isa_run (Suc n) s)"
proof -
  show run: "a_status (isa_run n s) = Running"
    using assms(1) by (simp add: runs_for_def)
  show "retires (isa_run n s) (isa_run (Suc n) s)"
  proof (rule disjE [OF isa_step_cases [OF run]])
    assume "faults (isa_run n s) (isa_step (isa_run n s))"
    then obtain f where "a_status (isa_run (Suc n) s) = Faulted f"
      by (auto simp: faults_def)
    with assms(2) show ?thesis by blast
  qed simp
qed

lemma isa_run_timer:
  assumes "runs_for n s" and "\<And>f. a_status (isa_run n s) \<noteq> Faulted f"
    and "list_all (Not \<circ> stores_to_timer) (isa_stores n s)"
  shows "sys_timer (a_sys (isa_run n s)) = (Timer_retire_tick ^^ n) (sys_timer (a_sys s))"
  using assms
proof (induction n)
  case (Suc n)
  note final = isa_run_Suc_not_faulted [OF Suc.prems(1,2)]
  have "a_retired (isa_step (isa_run n s)) \<noteq> a_retired (isa_run n s)"
    using final(2) by (simp add: retires_def)
  then have "sys_timer (a_sys (isa_run (Suc n) s)) =
      Timer_retire_tick (sys_timer (store_effect (isa_store (isa_run n s)) (a_sys (isa_run n s))))"
    using isa_step_sys [OF final(1)] by (simp add: sys_tick_def)
  also have "\<dots> = Timer_retire_tick (sys_timer (a_sys (isa_run n s)))"
    using Suc.prems(3) by (simp add: isa_stores_Suc store_effect_timer)
  also have "sys_timer (a_sys (isa_run n s)) = (Timer_retire_tick ^^ n) (sys_timer (a_sys s))"
    using Suc.IH Suc.prems final(1) by (simp add: isa_stores_Suc runs_for_def)
  finally show ?case by simp
qed simp

section \<open>The GPIO block and the debug device after a run\<close>

fun gpio_effect :: "Gpio \<Rightarrow> (region \<times> u32) option \<Rightarrow> Gpio" where
  "gpio_effect gpio (Some (Region_Gpio i, v)) = Gpio_store i v gpio"
| "gpio_effect gpio _ = gpio"

fun debug_effect :: "DebugDevice \<Rightarrow> (region \<times> u32) option \<Rightarrow> DebugDevice" where
  "debug_effect debug (Some (Region_Debug i, v)) = DebugDevice_store i v debug"
| "debug_effect debug _ = debug"

lemma store_effect_gpio: "sys_gpio (store_effect st sys) = gpio_effect (sys_gpio sys) st"
  by (cases "(sys_gpio sys, st)" rule: gpio_effect.cases) (simp_all add: store_effect_def)

lemma store_effect_debug: "sys_debug (store_effect st sys) = debug_effect (sys_debug sys) st"
  by (cases "(sys_debug sys, st)" rule: debug_effect.cases) (simp_all add: store_effect_def)

lemma isa_run_gpio:
  "sys_gpio (a_sys (isa_run n s)) = foldl gpio_effect (sys_gpio (a_sys s)) (isa_stores n s)"
proof (induction n)
  case (Suc n)
  then show ?case by (simp add: isa_stores_Suc isa_step_store(4) store_effect_gpio)
qed (simp add: isa_stores_def)

lemma isa_run_debug:
  "sys_debug (a_sys (isa_run n s)) = foldl debug_effect (sys_debug (a_sys s)) (isa_stores n s)"
proof (induction n)
  case (Suc n)
  then show ?case by (simp add: isa_stores_Suc isa_step_store(5) store_effect_debug)
qed (simp add: isa_stores_def)

lemma gpio_input_effect: "gpio_input (foldl gpio_effect gpio sts) = gpio_input gpio"
proof (induction sts arbitrary: gpio)
  case (Cons st sts)
  have "gpio_input (gpio_effect gpio st) = gpio_input gpio"
    by (cases "(gpio, st)" rule: gpio_effect.cases) (simp_all add: Gpio_store_def)
  with Cons show ?case by simp
qed simp

section \<open>The host's side of the UART is invisible to the guest\<close>

text \<open>The machine without its host: a UART with no callback.\<close>

definition sys_erase :: "'h sys \<Rightarrow> unit sys" where
  "sys_erase s =
     \<lparr>sys_rom = sys_rom s, sys_ram = sys_ram s, sys_uart = Uart_new None (), sys_debug = sys_debug s,
      sys_timer = sys_timer s, sys_gpio = sys_gpio s\<rparr>"

definition arch_erase :: "'h arch \<Rightarrow> unit arch" where
  "arch_erase s =
     \<lparr>a_gpr = a_gpr s, a_pc = a_pc s, a_sys = sys_erase (a_sys s), a_retired = a_retired s,
      a_status = a_status s\<rparr>"

lemma arch_erase_simps [simp]:
  "a_gpr (arch_erase s) = a_gpr s" "a_pc (arch_erase s) = a_pc s"
  "a_sys (arch_erase s) = sys_erase (a_sys s)" "a_retired (arch_erase s) = a_retired s"
  "a_status (arch_erase s) = a_status s"
  by (simp_all add: arch_erase_def)

lemma sys_erase_access [simp]:
  "sys_read (sys_erase s) a = sys_read s a"
  "sys_fetch (sys_erase s) a = sys_fetch s a"
  "sys_write (sys_erase s) a v = map_sum id sys_erase (sys_write s a v)"
  "sys_tick (sys_erase s) = sys_erase (sys_tick s)"
  by (cases "region_of a"; simp add: sys_read_def sys_fetch_def sys_write_def sys_tick_def
      sys_erase_def Uart_registers_def Uart_store_def Uart_transmit_def Uart_new_def)+

lemma arch_erase_updates [simp]:
  "arch_erase (s\<lparr>a_gpr := g\<rparr>) = (arch_erase s)\<lparr>a_gpr := g\<rparr>"
  "arch_erase (s\<lparr>a_sys := y\<rparr>) = (arch_erase s)\<lparr>a_sys := sys_erase y\<rparr>"
  "arch_erase (s\<lparr>a_status := st\<rparr>) = (arch_erase s)\<lparr>a_status := st\<rparr>"
  "arch_erase (retire target s) = retire target (arch_erase s)"
  by (simp_all add: arch_erase_def retire_def)

lemma isa_exec_erase: "isa_exec w i (arch_erase s) = arch_erase (isa_exec w i s)"
  by (cases i) (simp_all add: write_and_retire_def branch_if_def raise_fault_def Let_def
      split: sum.split)

lemma isa_step_erase: "isa_step (arch_erase s) = arch_erase (isa_step s)"
  by (simp add: isa_step_def isa_exec_erase raise_fault_def split: sum.split option.split)

lemma isa_run_erase: "isa_run n (arch_erase s) = arch_erase (isa_run n s)"
  by (induction n) (simp_all add: isa_step_erase)

end
