(* ===== verification/Simulator.thy ===== *)
theory Simulator
  imports Host_Io Cpu_Safety Isa_Run
begin

text \<open>
  The simulator program, \<^verbatim>\<open>simulator/app/main.cpp\<close>: argument parsing, loading of the ROM image, the run
  loop with its instruction limit, and the report on the standard error stream. The bytes the guest
  sends to the UART are the standard output. The Windows-only \<^verbatim>\<open>_setmode\<close> call is not part of the
  modelled build.
\<close>

section \<open>Helpers\<close>

definition kDefaultInstructionLimit :: u64 where
  "kDefaultInstructionLimit = 1000000"

definition print_usage :: "string \<Rightarrow> string" where
  "print_usage executable =
     ''Usage: '' @ executable @ '' <rom-image> [--max-instructions N]'' @ newline"

definition parse_limit :: "string \<Rightarrow> u64 option" where
  "parse_limit text =
     (case from_chars text 0 of (consumed, error, parsed) \<Rightarrow>
        if error \<noteq> Errc_ok \<or> consumed \<noteq> length text \<or> parsed > - 1 then None else Some parsed)"

fun fault_name :: "CpuFault \<Rightarrow> string" where
  "fault_name CpuFault_None = ''None''"
| "fault_name CpuFault_MisalignedInstructionFetch = ''MisalignedInstructionFetch''"
| "fault_name CpuFault_UnmappedInstructionFetch = ''UnmappedInstructionFetch''"
| "fault_name CpuFault_NonExecutableInstructionFetch = ''NonExecutableInstructionFetch''"
| "fault_name CpuFault_IllegalInstruction = ''IllegalInstruction''"
| "fault_name CpuFault_MalformedInstruction = ''MalformedInstruction''"
| "fault_name CpuFault_UnsupportedInstruction = ''UnsupportedInstruction''"
| "fault_name CpuFault_MisalignedLoad = ''MisalignedLoad''"
| "fault_name CpuFault_MisalignedStore = ''MisalignedStore''"
| "fault_name CpuFault_UnmappedLoad = ''UnmappedLoad''"
| "fault_name CpuFault_UnmappedStore = ''UnmappedStore''"
| "fault_name CpuFault_ReadOnlyStore = ''ReadOnlyStore''"

definition print_hex :: "string \<Rightarrow> u32 \<Rightarrow> string" where
  "print_hex label value = label @ ''0x'' @ zero_fill 8 (radix_string 16 (unat value)) @ newline"

section \<open>The machine main builds\<close>

text \<open>The callback of main's UART: \<^verbatim>\<open>std::cout.put\<close>.\<close>

definition put_stdout :: "u8 \<Rightarrow> u8 list \<Rightarrow> u8 list" where
  "put_stdout byte out = out @ [byte]"

definition boot :: "u8 list \<Rightarrow> u8 list CpuCore result" where
  "boot img =
     bindE (Rom_load_bytes Rom_new 0 img) (\<lambda>rom.
     Inr (CpuCore_new (Bus_new rom Ram_new (Uart_new (Some put_stdout) []) DebugDevice_new
       Timer_new Gpio_new)))"

section \<open>The run loop\<close>

datatype run_exit = Limit_exceeded | Cpu_halted | Loop_exit

partial_function (option) run_loop ::
  "u64 \<Rightarrow> 'h CpuCore \<Rightarrow> (run_exit \<times> 'h CpuCore) result option" where
  "run_loop instruction_limit cpu =
     (if \<not> CpuCore_halted cpu \<and> \<not> CpuCore_faulted cpu then
        if retired_instructions cpu \<ge> instruction_limit then Some (Inr (Limit_exceeded, cpu))
        else
          (case CpuCore_step cpu of
             None \<Rightarrow> None
           | Some (Inl e) \<Rightarrow> Some (Inl e)
           | Some (Inr (result, cpu')) \<Rightarrow>
               if result = StepResult_Halted then Some (Inr (Cpu_halted, cpu'))
               else run_loop instruction_limit cpu')
      else Some (Inr (Loop_exit, cpu)))"

record outcome =
  exit_code :: int
  out_bytes :: "u8 list"
  err_text :: string

definition rejected :: "string \<Rightarrow> outcome" where
  "rejected message = \<lparr>exit_code = 2, out_bytes = [], err_text = message\<rparr>"

definition fault_report :: "FaultInfo \<Rightarrow> string" where
  "fault_report fault =
     ''Mini32 fault: '' @ fault_name (fault_code fault) @ newline @
     print_hex ''PC: '' (fault_pc fault) @ print_hex ''instruction: '' (fault_instruction fault) @
     (case fault_data_address fault of None \<Rightarrow> [] | Some a \<Rightarrow> print_hex ''data address: '' a)"

definition run_report :: "run_exit \<times> u8 list CpuCore \<Rightarrow> outcome" where
  "run_report r =
     (case r of (how, cpu) \<Rightarrow>
        let out = tx_host (bus_uart (core_bus cpu)); n = dec_string (unat (retired_instructions cpu)) in
        case how of
          Limit_exceeded \<Rightarrow> \<lparr>exit_code = 1, out_bytes = out,
            err_text = ''instruction limit exceeded after '' @ n @ '' instructions'' @ newline\<rparr>
        | Cpu_halted \<Rightarrow> \<lparr>exit_code = 0, out_bytes = out,
            err_text = ''CPU halted after '' @ n @ '' instructions'' @ newline\<rparr>
        | Loop_exit \<Rightarrow> \<lparr>exit_code = 1, out_bytes = out, err_text = fault_report (fault_info cpu)\<rparr>)"

section \<open>main\<close>

definition run_image :: "u64 \<Rightarrow> u8 list \<Rightarrow> outcome result option" where
  "run_image limit img =
     (case boot img of
        Inl e \<Rightarrow> Some (Inl e)
      | Inr cpu \<Rightarrow>
          (case run_loop limit cpu of
             None \<Rightarrow> None
           | Some (Inl e) \<Rightarrow> Some (Inl e)
           | Some (Inr r) \<Rightarrow> Some (Inr (run_report r))))"

definition load_rom_image :: "file_system \<Rightarrow> string \<Rightarrow> string + u8 list" where
  "load_rom_image fs path =
     (case fs path of
        None \<Rightarrow> Inl (''unable to open ROM image: '' @ path @ newline)
      | Some input \<Rightarrow>
          let image_size = file_tellg input in
          if image_size < 0 \<or> image_size > int Rom_kSizeBytes
          then Inl (''ROM image must be at most '' @ dec_string Rom_kSizeBytes @ '' bytes'' @ newline)
          else if image_size mod 4 \<noteq> 0
          then Inl (''ROM image size must be divisible by 4 bytes'' @ newline)
          else if image_size = 0 then Inr []
          else
            (case read_exactly input (nat image_size) of
               None \<Rightarrow> Inl (''unable to read ROM image: '' @ path @ newline)
             | Some img \<Rightarrow> Inr img))"

definition parse_arguments :: "string list \<Rightarrow> (string + string \<times> u64) result" where
  "parse_arguments argv =
     (if length argv \<noteq> 2 \<and> length argv \<noteq> 4
      then bindE (argv_at argv 0) (\<lambda>exe. Inr (Inl (print_usage exe)))
      else if length argv = 4 then
        (case (if argv ! 2 \<noteq> ''--max-instructions'' then None else parse_limit (argv ! 3)) of
           None \<Rightarrow> bindE (argv_at argv 0) (\<lambda>exe. Inr (Inl (print_usage exe)))
         | Some limit \<Rightarrow> bindE (argv_at argv 1) (\<lambda>path. Inr (Inr (path, limit))))
      else bindE (argv_at argv 1) (\<lambda>path. Inr (Inr (path, kDefaultInstructionLimit))))"

definition simulator_main :: "file_system \<Rightarrow> string list \<Rightarrow> outcome result option" where
  "simulator_main fs argv =
     (case parse_arguments argv of
        Inl e \<Rightarrow> Some (Inl e)
      | Inr (Inl message) \<Rightarrow> Some (Inr (rejected message))
      | Inr (Inr (path, limit)) \<Rightarrow>
          (case load_rom_image fs path of
             Inl message \<Rightarrow> Some (Inr (rejected message))
           | Inr img \<Rightarrow> run_image limit img))"

section \<open>Numeric arguments\<close>

lemma parse_limit_iff:
  "parse_limit text = Some v \<longleftrightarrow>
     text \<noteq> [] \<and> (\<forall>c \<in> set text. is_digit c) \<and> radix_value 10 text < 2 ^ 64 \<and>
     v = of_nat (radix_value 10 text)"
proof -
  have all: "length (takeWhile is_digit text) = length text \<longleftrightarrow> (\<forall>c \<in> set text. is_digit c)"
    using takeWhile_eq_take [of is_digit "text"] by (metis take_all order_refl takeWhile_eq_all_conv)
  have max: "\<not> x > (- 1 :: u64)" for x
    by (simp add: word_not_simps)
  show ?thesis
  proof (cases "\<forall>c \<in> set text. is_digit c")
    case True
    then have tw: "takeWhile is_digit text = text" by simp
    show ?thesis
      using True by (auto simp: parse_limit_def from_chars_def max tw Let_def not_le)
  next
    case False
    with all show ?thesis
      by (auto simp: parse_limit_def from_chars_def Let_def split: if_splits)
  qed
qed

section \<open>The run loop ends, where the instruction set says\<close>

definition exit_of :: "u64 \<Rightarrow> 'h arch \<Rightarrow> run_exit \<Rightarrow> bool" where
  "exit_of limit s how \<longleftrightarrow>
     (case how of
        Limit_exceeded \<Rightarrow> a_status s = Running \<and> a_retired s \<ge> limit
      | Cpu_halted \<Rightarrow> a_status s = Halted
      | Loop_exit \<Rightarrow> (\<exists>f. a_status s = Faulted f))"

lemma status_of_boundary:
  "a_status (arch_of cpu) = Running \<longleftrightarrow> \<not> CpuCore_halted cpu \<and> \<not> CpuCore_faulted cpu"
  "a_status (arch_of cpu) = Halted \<longleftrightarrow> CpuCore_halted cpu"
  "(\<exists>f. a_status (arch_of cpu) = Faulted f) \<longleftrightarrow> CpuCore_faulted cpu"
  by (auto simp: arch_of_def status_of_def CpuCore_halted_def CpuCore_faulted_def)

lemma unat_Suc_less: "x < y \<Longrightarrow> unat (x + 1 :: u64) = unat x + 1"
  using unsigned_less [of y, where ?'a = nat] by (simp add: word_less_nat_alt unat_word_ariths)

text \<open>The loop, started in \<open>cpu\<close>, ends after \<open>n\<close> instructions of the ISA in \<open>cpu'\<close>, by the exit \<open>how\<close>.\<close>

definition loop_ends :: "u64 \<Rightarrow> 'h CpuCore \<Rightarrow> nat \<Rightarrow> run_exit \<Rightarrow> 'h CpuCore \<Rightarrow> bool" where
  "loop_ends limit cpu n how cpu' \<longleftrightarrow>
     run_loop limit cpu = Some (Inr (how, cpu')) \<and> CpuCore_wf cpu' \<and> at_boundary cpu' \<and>
     arch_of cpu' = isa_run n (arch_of cpu) \<and> runs_for n (arch_of cpu) \<and>
     n \<le> unat limit - unat (retired_instructions cpu) \<and> exit_of limit (arch_of cpu') how"

lemma loop_ends_at_once:
  assumes "CpuCore_wf cpu" "at_boundary cpu" "\<not> CpuCore_halted cpu"
    and "CpuCore_faulted cpu \<or> retired_instructions cpu \<ge> limit"
  shows "\<exists>how. loop_ends limit cpu 0 how cpu"
proof -
  have "\<exists>how. run_loop limit cpu = Some (Inr (how, cpu)) \<and> exit_of limit (arch_of cpu) how"
    using assms(3,4) status_of_boundary [of cpu]
    by (subst run_loop.simps) (auto simp: exit_of_def arch_of_def)
  with assms(1,2) show ?thesis by (auto simp: loop_ends_def runs_for_def)
qed

text \<open>One iteration that executes an instruction.\<close>

definition loop_iterates :: "u64 \<Rightarrow> 'h CpuCore \<Rightarrow> 'h CpuCore \<Rightarrow> bool" where
  "loop_iterates limit cpu cpu1 \<longleftrightarrow>
     a_status (arch_of cpu) = Running \<and> retired_instructions cpu < limit \<and>
     CpuCore_wf cpu1 \<and> at_boundary cpu1 \<and> arch_of cpu1 = isa_step (arch_of cpu) \<and>
     run_loop limit cpu =
       (if CpuCore_halted cpu1 then Some (Inr (Cpu_halted, cpu1)) else run_loop limit cpu1)"

lemma loop_iterates_exists:
  assumes "CpuCore_wf cpu" "at_boundary cpu" "\<not> CpuCore_halted cpu"
    and "\<not> (CpuCore_faulted cpu \<or> retired_instructions cpu \<ge> limit)"
  shows "\<exists>cpu1. loop_iterates limit cpu cpu1"
proof -
  obtain cpu1 where cpu1: "CpuCore_step cpu = Some (Inr (step_result cpu1, cpu1))" "CpuCore_wf cpu1"
      "at_boundary cpu1" "arch_of cpu1 = isa_step (arch_of cpu)"
    using step_reaches [OF assms(1,2)] by blast
  have "run_loop limit cpu =
      (if CpuCore_halted cpu1 then Some (Inr (Cpu_halted, cpu1)) else run_loop limit cpu1)"
    using assms(3,4) cpu1(1)
    by (subst run_loop.simps) (auto simp: step_result_def CpuCore_halted_def CpuCore_faulted_def)
  with cpu1 assms(3,4) show ?thesis
    unfolding loop_iterates_def status_of_boundary(1) by (metis not_le)
qed

lemma loop_iterates_lt:
  "loop_iterates limit cpu cpu1 \<Longrightarrow> unat (retired_instructions cpu) < unat limit"
  by (simp add: loop_iterates_def word_less_nat_alt)

lemma loop_ends_after_one:
  assumes "loop_iterates limit cpu cpu1" and "CpuCore_halted cpu1 \<or> CpuCore_faulted cpu1"
  shows "\<exists>how. loop_ends limit cpu 1 how cpu1"
proof -
  have "run_loop limit cpu1 = Some (Inr (Loop_exit, cpu1))" if "CpuCore_faulted cpu1"
    using that by (subst run_loop.simps) simp
  moreover have "1 \<le> unat limit - unat (retired_instructions cpu)"
    using loop_iterates_lt [OF assms(1)] by linarith
  ultimately show ?thesis
    using assms status_of_boundary(2,3) [of cpu1]
    by (cases "CpuCore_halted cpu1")
      (auto simp: loop_ends_def loop_iterates_def runs_for_def exit_of_def
        intro: exI [of _ Cpu_halted] exI [of _ Loop_exit])
qed

lemma loop_iterates_retired:
  assumes "loop_iterates limit cpu cpu1" and "\<not> (CpuCore_halted cpu1 \<or> CpuCore_faulted cpu1)"
  shows "unat (retired_instructions cpu1) = unat (retired_instructions cpu) + 1"
proof -
  have "a_retired (arch_of cpu1) = a_retired (arch_of cpu) + 1"
    using isa_step_cases [of "arch_of cpu"] assms status_of_boundary(1) [of cpu1]
    by (auto simp: loop_iterates_def faults_def retires_def)
  then show ?thesis
    using assms(1) unat_Suc_less [of "retired_instructions cpu" limit]
    by (simp add: loop_iterates_def arch_of_simps)
qed

lemma loop_ends_Suc:
  assumes "loop_iterates limit cpu cpu1" and "\<not> (CpuCore_halted cpu1 \<or> CpuCore_faulted cpu1)"
    and "loop_ends limit cpu1 n how cpu'"
  shows "loop_ends limit cpu (Suc n) how cpu'"
  using assms loop_iterates_lt [OF assms(1)] loop_iterates_retired [OF assms(1,2)]
  by (auto simp: loop_ends_def loop_iterates_def runs_for_Suc funpow_swap1)

lemma run_loop_spec:
  assumes "CpuCore_wf cpu" "at_boundary cpu" "\<not> CpuCore_halted cpu"
  shows "\<exists>n how cpu'. loop_ends limit cpu n how cpu'"
  using assms
proof (induction "unat limit - unat (retired_instructions cpu)" arbitrary: cpu rule: less_induct)
  case less
  show ?case
  proof (cases "CpuCore_faulted cpu \<or> retired_instructions cpu \<ge> limit")
    case True
    then show ?thesis using loop_ends_at_once [OF less.prems] by blast
  next
    case False
    then obtain cpu1 where cpu1: "loop_iterates limit cpu cpu1"
      using loop_iterates_exists [OF less.prems] by blast
    show ?thesis
    proof (cases "CpuCore_halted cpu1 \<or> CpuCore_faulted cpu1")
      case True
      then show ?thesis using loop_ends_after_one [OF cpu1] by blast
    next
      case run: False
      have "unat limit - unat (retired_instructions cpu1) < unat limit - unat (retired_instructions cpu)"
        using loop_iterates_retired [OF cpu1 run] loop_iterates_lt [OF cpu1] by linarith
      then have "\<exists>n how cpu'. loop_ends limit cpu1 n how cpu'"
        using less.hyps [of cpu1] cpu1 run by (simp add: loop_iterates_def)
      with loop_ends_Suc [OF cpu1 run] show ?thesis by blast
    qed
  qed
qed

section \<open>The state main boots\<close>

text \<open>The program words of an image, zero past its end.\<close>

definition image_words :: "u8 list \<Rightarrow> 14 word \<Rightarrow> u32" where
  "image_words img i =
     (let byte = \<lambda>k. if k < length img then img ! k else 0; k = 4 * unat i in
      le_join (byte k) (byte (k + 1)) (byte (k + 2)) (byte (k + 3)))"

definition isa_boot :: "u8 list \<Rightarrow> u8 list arch" where
  "isa_boot img =
     \<lparr>a_gpr = \<lambda>_. 0, a_pc = 0,
      a_sys = \<lparr>sys_rom = image_words img, sys_ram = \<lambda>_. 0,
               sys_uart = Uart_new (Some put_stdout) [], sys_debug = DebugDevice_new,
               sys_timer = Timer_new, sys_gpio = Gpio_new\<rparr>,
      a_retired = 0, a_status = Running\<rparr>"

lemma zero_word [simp]: "le_join 0 0 0 0 = 0"
  by (simp add: le_join_def)

lemma Ram_words_new: "Ram_words Ram_new = (\<lambda>_. 0)"
proof
  fix i :: "14 word"
  show "Ram_words Ram_new i = 0"
    using word_index_lt [of i] by (simp add: Ram_words_def bytes_word_def Ram_new_def Ram_kSizeBytes_def)
qed

lemma Rom_words_loaded:
  assumes "length img \<le> 65536"
  shows "bytes_word (img @ drop (length img) (replicate 65536 0)) = image_words img"
proof
  fix i :: "14 word"
  show "bytes_word (img @ drop (length img) (replicate 65536 0)) i = image_words img i"
    using assms word_index_lt [of i]
    by (simp add: bytes_word_def image_words_def nth_append Let_def)
qed

lemma boot_spec:
  assumes "length img \<le> Rom_kSizeBytes"
  shows "\<exists>cpu. boot img = Inr cpu \<and> CpuCore_wf cpu \<and> at_boundary cpu \<and> arch_of cpu = isa_boot img"
proof -
  let ?rom = "Rom_new\<lparr>rom_bytes := img @ drop (length img) (rom_bytes Rom_new)\<rparr>"
  let ?cpu = "CpuCore_new (Bus_new ?rom Ram_new (Uart_new (Some put_stdout) []) DebugDevice_new
    Timer_new Gpio_new)"
  have "boot img = Inr ?cpu"
    using Rom_load_bytes_ok [OF Rom_wf_new assms] by (simp add: boot_def)
  moreover have "Rom_wf ?rom"
    using assms by (simp add: Rom_wf_def Rom_new_def)
  moreover have "Rom_words ?rom = image_words img"
    using assms Rom_words_loaded [of img]
    by (simp add: Rom_words_def Rom_new_def Rom_kSizeBytes_def fun_eq_iff)
  ultimately show ?thesis
    by (simp add: CpuCore_new_def CpuCore_reset_def RegisterFile_reset_wf state_defs Bus_wf_new
        isa_boot_def sys_of_bus_def Bus_new_def Ram_words_new Bus_wf_def fun_eq_iff)
qed

section \<open>Properties of the program\<close>

text \<open>What main reports of the state in which the run ended.\<close>

fun isa_outcome :: "u8 list arch \<Rightarrow> outcome" where
  "isa_outcome s =
     (let out = tx_host (sys_uart (a_sys s)); n = dec_string (unat (a_retired s)) in
      case a_status s of
        Running \<Rightarrow> \<lparr>exit_code = 1, out_bytes = out,
          err_text = ''instruction limit exceeded after '' @ n @ '' instructions'' @ newline\<rparr>
      | Halted \<Rightarrow> \<lparr>exit_code = 0, out_bytes = out,
          err_text = ''CPU halted after '' @ n @ '' instructions'' @ newline\<rparr>
      | Faulted f \<Rightarrow> \<lparr>exit_code = 1, out_bytes = out, err_text = fault_report f\<rparr>)"

lemma run_report_isa:
  assumes "exit_of limit (arch_of cpu) how"
  shows "run_report (how, cpu) = isa_outcome (arch_of cpu)"
  using assms
  by (auto simp: exit_of_def run_report_def arch_of_def status_of_def sys_of_bus_def Let_def
      split: run_exit.splits if_splits)

lemma run_image_spec:
  assumes "length img \<le> Rom_kSizeBytes"
  shows "\<exists>n \<le> unat limit. run_image limit img = Some (Inr (isa_outcome (isa_run n (isa_boot img)))) \<and>
    runs_for n (isa_boot img) \<and> (a_status (isa_run n (isa_boot img)) = Running \<longrightarrow> n = unat limit)"
proof -
  obtain cpu where cpu: "boot img = Inr cpu" "CpuCore_wf cpu" "at_boundary cpu"
      "arch_of cpu = isa_boot img"
    using boot_spec [OF assms] by blast
  have start: "\<not> CpuCore_halted cpu" "retired_instructions cpu = 0"
    using status_of_boundary(2) [of cpu] arch_of_simps(4) [of cpu] cpu(4)
    by (simp_all add: isa_boot_def)
  obtain n how cpu' where run: "run_loop limit cpu = Some (Inr (how, cpu'))"
      "arch_of cpu' = isa_run n (isa_boot img)" "runs_for n (isa_boot img)" "n \<le> unat limit"
      "exit_of limit (arch_of cpu') how"
    using run_loop_spec [OF cpu(2,3) start(1), of limit] start(2) cpu(4) by (auto simp: loop_ends_def)
  have "n = unat limit" if "a_status (isa_run n (isa_boot img)) = Running"
  proof -
    have "a_retired (isa_run n (isa_boot img)) = of_nat n"
      using isa_run_retired [OF run(3)] that by (simp add: isa_boot_def)
    moreover have "limit \<le> a_retired (isa_run n (isa_boot img))"
      using run(2,5) that by (auto simp: exit_of_def split: run_exit.splits)
    ultimately have "unat limit \<le> unat (of_nat n :: u64)"
      by (simp add: word_le_nat_alt)
    also have "\<dots> \<le> n"
      by (simp add: unsigned_of_nat)
    finally show ?thesis using run(4) by simp
  qed
  with run cpu(1) run_report_isa [OF run(5)] show ?thesis
    by (intro exI [of _ n]) (simp add: run_image_def)
qed

lemma load_rom_image_iff:
  "load_rom_image fs path = Inr img \<longleftrightarrow>
     (\<exists>f. fs path = Some f \<and> 0 \<le> file_tellg f \<and> file_tellg f \<le> 65536 \<and> 4 dvd file_tellg f \<and>
          nat (file_tellg f) \<le> length (file_bytes f) \<and> img = take (nat (file_tellg f)) (file_bytes f))"
  by (auto simp: load_rom_image_def read_exactly_def Rom_kSizeBytes_def Let_def dvd_eq_mod_eq_0
      split: option.splits if_splits)

text \<open>A one-word image: the instruction HALT. It stops after one instruction.\<close>

lemma halt_image_halts:
  "a_status (isa_boot [0, 0, 0, 0x5C]) = Running"
  "a_status (isa_step (isa_boot [0, 0, 0, 0x5C])) = Halted"
  by (simp_all add: isa_boot_def isa_step_def sys_fetch_def region_of_def image_words_def le_join_def
      isa_decode_def field_defs)

lemma halt_image_stops:
  assumes "runs_for n (isa_boot [0, 0, 0, 0x5C])"
    and "a_status (isa_run n (isa_boot [0, 0, 0, 0x5C])) = Running \<longrightarrow> n = 7"
  shows "n = 1"
proof -
  have "\<not> 1 < n"
    using assms(1) halt_image_halts(2) unfolding runs_for_def by fastforce
  moreover have "n \<noteq> 0"
    using assms(2) halt_image_halts(1) by (cases n) simp_all
  ultimately show ?thesis by simp
qed

text \<open>The guest's output is what the stores of the run sent to the UART.\<close>

lemma transmit_all:
  assumes "tx_callback u = Some put_stdout"
  shows "tx_host (foldl Uart_transmit u bytes) = tx_host u @ bytes"
  using assms by (induction bytes arbitrary: u) (simp_all add: Uart_transmit_def put_stdout_def)

lemma boot_uart:
  "tx_host (sys_uart (a_sys (isa_run n (isa_boot img)))) = concat (map transmitted (isa_stores n (isa_boot img)))"
  unfolding isa_run_uart by (simp add: isa_boot_def Uart_new_def transmit_all)

text \<open>
  An image of four instructions that sends one byte: LUI r1, 0x2000; ADDI r2, r0, 0x41;
  SW r2, 0(r1); HALT.
\<close>

definition hello_image :: "u8 list" where
  "hello_image = [0x00, 0x20, 0x20, 0x34, 0x41, 0x00, 0x40, 0x24, 0x00, 0x00, 0x41, 0x3C, 0, 0, 0, 0x5C]"

lemma hello_image_words:
  "image_words hello_image 0 = 0x34202000" "image_words hello_image 1 = 0x24400041"
  "image_words hello_image 2 = 0x3C410000" "image_words hello_image 3 = 0x5C000000"
  by (simp_all add: image_words_def hello_image_def le_join_def)

lemma hello_image_decode:
  "isa_decode 0x34202000 = Some (LUI 1 0x2000)" "isa_decode 0x24400041 = Some (ADDI 2 0 0x41)"
  "isa_decode 0x3C410000 = Some (SW 2 1 0)" "isa_decode 0x5C000000 = Some HALT"
  by (simp_all add: isa_decode_def field_defs i_type_def)

lemma hello_regions:
  "region_of 0 = Region_Rom 0" "region_of 4 = Region_Rom 1" "region_of 8 = Region_Rom 2"
  "region_of 12 = Region_Rom 3" "region_of 0x20000000 = Region_Uart 0"
  by (simp_all add: region_of_def)

lemma hello_step:
  assumes "a_status s = Running" "sys_rom (a_sys s) = image_words hello_image"
  shows "a_pc s = 0 \<Longrightarrow> isa_step s = write_and_retire 1 0x20000000 s"
    and "a_pc s = 4 \<Longrightarrow> isa_step s = write_and_retire 2 (a_gpr s 0 + 0x41) s"
    and "a_pc s = 8 \<Longrightarrow> a_gpr s 1 = 0x20000000 \<Longrightarrow> isa_step s =
      retire 12 (s\<lparr>a_sys := (a_sys s)\<lparr>sys_uart := Uart_store 0 (a_gpr s 2) (sys_uart (a_sys s))\<rparr>\<rparr>)"
    and "a_pc s = 12 \<Longrightarrow> isa_step s = (retire 16 s)\<lparr>a_status := Halted\<rparr>"
  using assms
  by (simp_all add: isa_step_def sys_fetch_def hello_regions hello_image_words hello_image_decode sys_write_def)

lemma hello_store:
  assumes "a_status s = Running" "sys_rom (a_sys s) = image_words hello_image"
  shows "a_pc s \<in> {0, 4, 12} \<Longrightarrow> isa_store s = None"
    and "a_pc s = 8 \<Longrightarrow> a_gpr s 1 = 0x20000000 \<Longrightarrow> isa_store s = Some (Region_Uart 0, a_gpr s 2)"
  using assms
  by (auto simp: isa_store_def sys_fetch_def hello_regions hello_image_words hello_image_decode sys_write_def)

text \<open>The four states of its run, told by what the next instruction depends on.\<close>

definition hello_at :: "u32 \<Rightarrow> u32 \<Rightarrow> u32 \<Rightarrow> u8 list arch \<Rightarrow> bool" where
  "hello_at pc r1 r2 s \<longleftrightarrow>
     a_status s = Running \<and> sys_rom (a_sys s) = image_words hello_image \<and> a_pc s = pc \<and>
     a_gpr s 0 = 0 \<and> a_gpr s 1 = r1 \<and> a_gpr s 2 = r2"

lemma hello_image_run:
  "hello_at 0 0 0 (isa_run 0 (isa_boot hello_image))"
  "hello_at 4 0x20000000 0 (isa_run 1 (isa_boot hello_image))"
  "hello_at 8 0x20000000 0x41 (isa_run 2 (isa_boot hello_image))"
  "hello_at 12 0x20000000 0x41 (isa_run 3 (isa_boot hello_image))"
  "a_status (isa_run 4 (isa_boot hello_image)) = Halted"
proof -
  have run: "isa_run 1 s = isa_step s" "isa_run 2 s = isa_step (isa_run 1 s)"
    "isa_run 3 s = isa_step (isa_run 2 s)" "isa_run 4 s = isa_step (isa_run 3 s)" for s :: "u8 list arch"
    by (simp_all add: eval_nat_numeral)
  show s0: "hello_at 0 0 0 (isa_run 0 (isa_boot hello_image))"
    by (simp add: hello_at_def isa_boot_def)
  then show s1: "hello_at 4 0x20000000 0 (isa_run 1 (isa_boot hello_image))"
    unfolding run by (simp add: hello_at_def hello_step effect_defs sys_tick_def)
  then show s2: "hello_at 8 0x20000000 0x41 (isa_run 2 (isa_boot hello_image))"
    unfolding run(2) by (simp add: hello_at_def hello_step effect_defs sys_tick_def)
  then show s3: "hello_at 12 0x20000000 0x41 (isa_run 3 (isa_boot hello_image))"
    unfolding run(3) by (simp add: hello_at_def hello_step effect_defs sys_tick_def)
  then show "a_status (isa_run 4 (isa_boot hello_image)) = Halted"
    unfolding run(4) by (simp add: hello_at_def hello_step)
qed

lemma hello_image_stores:
  "isa_stores 4 (isa_boot hello_image) = [None, None, Some (Region_Uart 0, 0x41), None]"
proof -
  have "[0..<4] = [0, 1, 2, 3]"
    by (simp add: upt_rec)
  then show ?thesis
    using hello_image_run by (simp add: isa_stores_def hello_at_def hello_store)
qed

lemma hello_image_stops:
  assumes "runs_for n (isa_boot hello_image)"
    and "a_status (isa_run n (isa_boot hello_image)) = Running \<longrightarrow> n = 9"
  shows "n = 4"
proof -
  have "\<not> 4 < n"
    using assms(1) hello_image_run(5) unfolding runs_for_def by fastforce
  moreover have "a_status (isa_run n (isa_boot hello_image)) = Running" if "n \<in> {0, 1, 2, 3}"
    using that hello_image_run(1-4) unfolding hello_at_def by (elim insertE emptyE; simp only: simp_thms)
  then have "n \<notin> {0, 1, 2, 3}"
    using assms(2) by fastforce
  ultimately show ?thesis by simp
qed

text \<open>
  C4: a run of the simulator on any ROM image that fits returns after finitely many instructions, at most the
  limit: the exit code, the guest's UART output and the report are those of the state the ISA
  reaches by running the image from reset until it halts, faults or has retired exactly as many
  instructions as the limit allows. Every state before that one is running.
\<close>

theorem run_image_implements_isa:
  assumes "length img \<le> Rom_kSizeBytes"
  shows "\<exists>n \<le> unat limit. run_image limit img = Some (Inr (isa_outcome (isa_run n (isa_boot img)))) \<and>
    runs_for n (isa_boot img) \<and> (a_status (isa_run n (isa_boot img)) = Running \<longrightarrow> n = unat limit)"
  by (rule run_image_spec [OF assms])

lemma run_image_implements_isa_witness:
  "\<exists>r. run_image 7 [0, 0, 0, 0x5C] = Some (Inr r) \<and> exit_code r = 0"
proof -
  obtain n where n: "run_image 7 [0, 0, 0, 0x5C] =
      Some (Inr (isa_outcome (isa_run n (isa_boot [0, 0, 0, 0x5C]))))"
      "runs_for n (isa_boot [0, 0, 0, 0x5C])"
      "a_status (isa_run n (isa_boot [0, 0, 0, 0x5C])) = Running \<longrightarrow> n = 7"
    using run_image_implements_isa [of "[0, 0, 0, 0x5C]" 7] by (auto simp: Rom_kSizeBytes_def)
  then show ?thesis
    using halt_image_stops [OF n(2,3)] halt_image_halts(2) by (simp add: Let_def)
qed

text \<open>
  C38: a program that halts within the limit is not affected by raising it: every larger limit gives the same exit
  code, the same output and the same report.
\<close>

theorem larger_limit_same_outcome:
  assumes "length img \<le> Rom_kSizeBytes" and "limit \<le> limit'"
    and "run_image limit img = Some (Inr r)" and "exit_code r = 0"
  shows "run_image limit' img = Some (Inr r)"
proof -
  obtain n where n: "n \<le> unat limit" "r = isa_outcome (isa_run n (isa_boot img))" "runs_for n (isa_boot img)"
    using run_image_spec [OF assms(1), of limit] assms(3) by auto
  then have stop: "a_status (isa_run n (isa_boot img)) \<noteq> Running"
    using assms(4) by (auto simp: Let_def)
  obtain m where m: "m \<le> unat limit'" "runs_for m (isa_boot img)"
      "run_image limit' img = Some (Inr (isa_outcome (isa_run m (isa_boot img))))"
      "a_status (isa_run m (isa_boot img)) = Running \<longrightarrow> m = unat limit'"
    using run_image_spec [OF assms(1), of limit'] by blast
  have "\<not> n < m"
    using m(2) stop by (auto simp: runs_for_def)
  moreover have "\<not> m < n"
    using n(1,3) m(4) assms(2) by (auto simp: runs_for_def word_le_nat_alt)
  ultimately have "n = m" by simp
  with m(3) n(2) show ?thesis by simp
qed

lemma larger_limit_same_outcome_witness:
  "\<exists>r. run_image 7 [0, 0, 0, 0x5C] = Some (Inr r) \<and> run_image 1000 [0, 0, 0, 0x5C] = Some (Inr r)"
proof -
  obtain n where n: "run_image 7 [0, 0, 0, 0x5C] =
      Some (Inr (isa_outcome (isa_run n (isa_boot [0, 0, 0, 0x5C]))))"
      "runs_for n (isa_boot [0, 0, 0, 0x5C])"
      "a_status (isa_run n (isa_boot [0, 0, 0, 0x5C])) = Running \<longrightarrow> n = 7"
    using run_image_spec [of "[0, 0, 0, 0x5C]" 7] by (auto simp: Rom_kSizeBytes_def)
  have "exit_code (isa_outcome (isa_run n (isa_boot [0, 0, 0, 0x5C]))) = 0"
    using halt_image_stops [OF n(2,3)] halt_image_halts(2) by (simp add: Let_def)
  then show ?thesis
    using larger_limit_same_outcome [OF _ _ n(1), of 1000] n(1) by (simp add: Rom_kSizeBytes_def)
qed

text \<open>
  C11: the simulator program ends for every argument vector with at least a program name and for every file
  system, without an exception and without undefined behaviour, and its exit code is 0, 1 or 2; it
  is 2 exactly when the arguments or the ROM image are rejected, and then nothing was executed or
  printed on the standard output. On the empty vector, which an operating system may pass, it
  reaches undefined behaviour: \<^verbatim>\<open>print_usage\<close> prints \<^verbatim>\<open>argv[0]\<close>, a null pointer.
\<close>

theorem simulator_main_returns:
  "if argv = [] then simulator_main fs argv = Some (Inl Undefined_null_string)
   else \<exists>r. simulator_main fs argv = Some (Inr r) \<and> exit_code r \<in> {0, 1, 2} \<and>
    (exit_code r = 2 \<longleftrightarrow>
       (\<exists>usage. parse_arguments argv = Inr (Inl usage)) \<or>
       (\<exists>path limit message. parse_arguments argv = Inr (Inr (path, limit)) \<and>
          load_rom_image fs path = Inl message)) \<and>
    (exit_code r = 2 \<longrightarrow> out_bytes r = [])"
proof (cases "argv = []")
  case True
  then show ?thesis by (simp add: simulator_main_def parse_arguments_def argv_at_def)
next
  case False
  then have args: "\<exists>p. parse_arguments argv = Inr p"
    by (auto simp: parse_arguments_def argv_at_def split: option.split)
  have run: "\<exists>r. run_image limit img = Some (Inr r) \<and> exit_code r \<in> {0, 1}"
    if "load_rom_image fs path = Inr img" for path img limit
  proof -
    have "length img \<le> Rom_kSizeBytes"
      using that by (auto simp: load_rom_image_iff Rom_kSizeBytes_def)
    then show ?thesis
      using run_image_spec [of img limit] by (auto simp: Let_def split: status.split)
  qed
  have "\<exists>r. simulator_main fs argv = Some (Inr r) \<and> exit_code r \<in> {0, 1, 2} \<and>
    (exit_code r = 2 \<longleftrightarrow>
       (\<exists>usage. parse_arguments argv = Inr (Inl usage)) \<or>
       (\<exists>path limit message. parse_arguments argv = Inr (Inr (path, limit)) \<and>
          load_rom_image fs path = Inl message)) \<and>
    (exit_code r = 2 \<longrightarrow> out_bytes r = [])"
    using args run
    by (fastforce simp: simulator_main_def rejected_def split: sum.split prod.split)
  with False show ?thesis by simp
qed

lemma simulator_main_returns_witness:
  "\<exists>r. simulator_main (\<lambda>_. None) [''simulator'', ''missing.bin''] = Some (Inr r) \<and> exit_code r = 2 \<and>
     out_bytes r = []"
proof -
  have "parse_arguments [''simulator'', ''missing.bin''] =
      Inr (Inr (''missing.bin'', kDefaultInstructionLimit))"
    by (simp add: parse_arguments_def argv_at_def)
  then show ?thesis
    using simulator_main_returns [of "[''simulator'', ''missing.bin'']" "\<lambda>_. None"]
    by (auto simp: load_rom_image_def)
qed

text \<open>
  C29: an image is accepted exactly when the file can be opened, its size is a multiple of four between 0 and
  65536 bytes and that many bytes can be read; the image is then those bytes.
\<close>

theorem load_rom_image_accepts:
  "load_rom_image fs path = Inr img \<longleftrightarrow>
     (\<exists>f. fs path = Some f \<and> 0 \<le> file_tellg f \<and> file_tellg f \<le> 65536 \<and> 4 dvd file_tellg f \<and>
          nat (file_tellg f) \<le> length (file_bytes f) \<and> img = take (nat (file_tellg f)) (file_bytes f))"
  by (rule load_rom_image_iff)

text \<open>
  C30: an instruction limit is accepted exactly when it is a non-empty string of decimal digits whose value
  fits in 64 bits, and it is then that value: no sign, no space, no trailing text, no wrap-around.
\<close>

theorem parse_limit_accepts:
  "parse_limit limit_text = Some v \<longleftrightarrow>
     limit_text \<noteq> [] \<and> list_all is_digit limit_text \<and> radix_value 10 limit_text < 2 ^ 64 \<and>
     v = of_nat (radix_value 10 limit_text)"
  by (simp only: parse_limit_iff list_all_iff)

text \<open>
  C31: every 64-bit instruction limit can be given: the decimal numeral that the programs print for a count is
  parsed back to the same count.
\<close>

theorem parse_limit_round_trip: "parse_limit (dec_string (unat limit)) = Some limit"
  using radix_string_digits [of "unat limit"] unsigned_less [of limit, where ?'a = nat]
  by (auto simp: parse_limit_iff radix_value_string)

end
