(* ===== verification/Ref_Trace.thy ===== *)
theory Ref_Trace
  imports Simulator
begin

text \<open>
  The reference trace generator, \<^verbatim>\<open>simulator/app/ref_trace.cpp\<close>: it runs the same machine as the simulator
  and prints one JSON record per retired instruction and a final record. Its standard output is text.
\<close>

section \<open>Text\<close>

definition trace_kDefaultInstructionLimit :: u64 where
  "trace_kDefaultInstructionLimit = 1000000"

definition trace_usage :: "string \<Rightarrow> string" where
  "trace_usage executable =
     ''Usage: '' @ executable @ '' <rom-image> [--max-instructions N]'' @ newline"

definition trace_parse_limit :: "string \<Rightarrow> u64 option" where
  "trace_parse_limit text =
     (case from_chars text 0 of (consumed, error, parsed) \<Rightarrow>
        if error \<noteq> Errc_ok \<or> consumed \<noteq> length text \<or> parsed > - 1 then None else Some parsed)"

definition hex32 :: "u32 \<Rightarrow> string" where
  "hex32 value = zero_fill 8 (radix_string 16 (unat value))"

definition hex_bytes :: "u8 list \<Rightarrow> string" where
  "hex_bytes bytes = concat (map (\<lambda>byte. zero_fill 2 (radix_string 16 (unat byte))) bytes)"

fun trace_fault_name :: "CpuFault \<Rightarrow> string" where
  "trace_fault_name CpuFault_None = ''None''"
| "trace_fault_name CpuFault_MisalignedInstructionFetch = ''MisalignedInstructionFetch''"
| "trace_fault_name CpuFault_UnmappedInstructionFetch = ''UnmappedInstructionFetch''"
| "trace_fault_name CpuFault_NonExecutableInstructionFetch = ''NonExecutableInstructionFetch''"
| "trace_fault_name CpuFault_IllegalInstruction = ''IllegalInstruction''"
| "trace_fault_name CpuFault_MalformedInstruction = ''MalformedInstruction''"
| "trace_fault_name CpuFault_UnsupportedInstruction = ''UnsupportedInstruction''"
| "trace_fault_name CpuFault_MisalignedLoad = ''MisalignedLoad''"
| "trace_fault_name CpuFault_UnmappedLoad = ''UnmappedLoad''"
| "trace_fault_name CpuFault_MisalignedStore = ''MisalignedStore''"
| "trace_fault_name CpuFault_UnmappedStore = ''UnmappedStore''"
| "trace_fault_name CpuFault_ReadOnlyStore = ''ReadOnlyStore''"

text \<open>A JSON member: its name, a colon and its value.\<close>

definition json_member :: "string \<Rightarrow> string \<Rightarrow> string" where
  "json_member name value = quoted name @ '':'' @ value"

definition json_bool :: "bool \<Rightarrow> string" where
  "json_bool b = (if b then ''true'' else ''false'')"

section \<open>Loading\<close>

definition load_image :: "file_system \<Rightarrow> string \<Rightarrow> u8 list option" where
  "load_image fs filename =
     (case fs filename of
        None \<Rightarrow> None
      | Some input \<Rightarrow>
          let size = file_tellg input in
          if size < 0 \<or> size > int Rom_kSizeBytes \<or> size mod 4 \<noteq> 0 then None
          else if size = 0 then Some []
          else read_exactly input (nat size))"

section \<open>Records\<close>

definition emit_retire ::
  "u64 \<Rightarrow> u32 \<Rightarrow> u32 \<Rightarrow> u32 \<Rightarrow> u8 option \<Rightarrow> u32 \<Rightarrow> bool \<Rightarrow> u32 \<Rightarrow> u32 \<Rightarrow> string" where
  "emit_retire index pc instruction target_pc register_write register_value memory_write
     memory_address memory_value =
     ''{'' @ json_member ''type'' (quoted ''retire'') @ '','' @
     json_member ''index'' (dec_string (unat index)) @ '','' @
     json_member ''pc'' (quoted (hex32 pc)) @ '','' @
     json_member ''instruction'' (quoted (hex32 instruction)) @ '','' @
     json_member ''next_pc'' (quoted (hex32 target_pc)) @ '','' @
     json_member ''reg_write'' (json_bool (register_write \<noteq> None)) @ '','' @
     json_member ''rd'' (dec_string (case register_write of Some r \<Rightarrow> unat r | None \<Rightarrow> 0)) @ '','' @
     json_member ''reg_value'' (quoted (hex32 register_value)) @ '','' @
     json_member ''mem_write'' (json_bool memory_write) @ '','' @
     json_member ''mem_addr'' (quoted (hex32 memory_address)) @ '','' @
     json_member ''mem_value'' (quoted (hex32 memory_value)) @ ''}'' @ newline"

text \<open>The final record; \<open>uart_bytes\<close> is the host state of the UART's callback.\<close>

definition emit_final :: "u8 list CpuCore \<Rightarrow> string" where
  "emit_final cpu =
     (let bus = core_bus cpu; fault = fault_info cpu in
      ''{'' @ json_member ''type'' (quoted ''final'') @ '','' @
      json_member ''status'' (quoted (if CpuCore_halted cpu then ''halted'' else ''faulted'')) @ '','' @
      json_member ''pc'' (quoted (hex32 (cpu_pc cpu))) @ '','' @
      json_member ''retired'' (dec_string (unat (retired_instructions cpu))) @ '','' @
      json_member ''uart_tx'' (quoted (hex_bytes (tx_host (bus_uart bus)))) @ '','' @
      json_member ''debug_value'' (quoted (hex32 (debug_value (bus_debug bus)))) @ '','' @
      json_member ''gpio_output'' (quoted (hex32 (gpio_output (bus_gpio bus)))) @ '','' @
      json_member ''gpio_direction'' (quoted (hex32 (gpio_direction (bus_gpio bus)))) @ '','' @
      json_member ''timer_counter'' (quoted (hex32 (timer_counter (bus_timer bus)))) @ '','' @
      json_member ''timer_compare'' (quoted (hex32 (timer_compare (bus_timer bus)))) @ '','' @
      json_member ''timer_control'' (quoted (hex32 (if timer_enabled (bus_timer bus) then 1 else 0))) @
      (if CpuCore_faulted cpu then
         '','' @ json_member ''fault'' (quoted (trace_fault_name (fault_code fault))) @ '','' @
         json_member ''fault_pc'' (quoted (hex32 (fault_pc fault))) @ '','' @
         json_member ''fault_instruction'' (quoted (hex32 (fault_instruction fault))) @ '','' @
         json_member ''fault_address_valid'' (json_bool (fault_data_address fault \<noteq> None)) @ '','' @
         json_member ''fault_address''
           (quoted (hex32 (case fault_data_address fault of Some a \<Rightarrow> a | None \<Rightarrow> 0)))
       else []) @ ''}'' @ newline)"

section \<open>One instruction of the trace loop\<close>

definition register_indices :: "u8 list" where
  "register_indices = map of_nat [0..<unat kRegisterCount]"

definition read_registers :: "'h CpuCore \<Rightarrow> u32 list result" where
  "read_registers cpu = mapE (RegisterFile_read (cpu_registers cpu)) register_indices"

text \<open>
  The scan for the register the instruction changed: \<open>None\<close> is the early return of main when a second
  one differs.
\<close>

fun scan_changed ::
  "'h CpuCore \<Rightarrow> u32 list \<Rightarrow> u8 list \<Rightarrow> u8 option \<times> u32 \<Rightarrow> (u8 option \<times> u32) option result" where
  "scan_changed cpu before [] found = Inr (Some found)"
| "scan_changed cpu before (index # rest) found =
     bindE (RegisterFile_read (cpu_registers cpu) index) (\<lambda>after.
     bindE (array_get before (unat index)) (\<lambda>old.
     if after = old then scan_changed cpu before rest found
     else if fst found \<noteq> None then Inr None
     else scan_changed cpu before rest (Some index, after)))"

definition memory_effect :: "u32 \<Rightarrow> u32 list \<Rightarrow> (bool \<times> u32 \<times> u32) result" where
  "memory_effect instruction before =
     (let decoded = Decoder_decode instruction in
      if DecodeResult_ok decoded then
        bindE (deref (dr_instruction decoded)) (\<lambda>d.
        if di_opcode d = Opcode_Sw then
          bindE (array_get before (unat (di_rs1 d))) (\<lambda>rs1_value.
          bindE (array_get before (unat (di_rs2 d))) (\<lambda>rs2_value.
          Inr (True, rs1_value + Decoder_immediate_value ImmediateKind_Signed16 (di_imm16 d), rs2_value)))
        else Inr (False, 0, 0))
      else Inr (False, 0, 0))"

text \<open>The text of the iteration and the CPU after it; \<open>None\<close> is the early return.\<close>

definition trace_iteration :: "'h CpuCore \<Rightarrow> (string \<times> 'h CpuCore) option result option" where
  "trace_iteration cpu =
     (let pc = cpu_pc cpu in
      case bindE (Bus_fetch32 (core_bus cpu) pc) (\<lambda>fetch_result.
           bindE (read_registers cpu) (\<lambda>before. Inr (fetch_result, before))) of
        Inl e \<Rightarrow> Some (Inl e)
      | Inr (fetch_result, before) \<Rightarrow>
          let instruction = (if BusReadResult_ok fetch_result then bus_data fetch_result else 0);
              retired_before = retired_instructions cpu in
          (case CpuCore_step cpu of
             None \<Rightarrow> None
           | Some (Inl e) \<Rightarrow> Some (Inl e)
           | Some (Inr (result, cpu')) \<Rightarrow>
               if retired_instructions cpu' = retired_before then Some (Inr (Some ([], cpu')))
               else Some
                 (bindE (scan_changed cpu' before register_indices (None, 0)) (\<lambda>scan.
                  case scan of
                    None \<Rightarrow> Inr None
                  | Some (changed_register, register_value) \<Rightarrow>
                      bindE (memory_effect instruction before) (\<lambda>(memory_write, address, value).
                      Inr (Some (emit_retire retired_before pc instruction (cpu_pc cpu')
                        changed_register register_value memory_write address value, cpu')))))))"

section \<open>The trace loop\<close>

datatype 'h trace_end = Multiple_registers string | Trace_end string "'h CpuCore"

function trace_loop :: "u64 \<Rightarrow> u64 \<Rightarrow> string \<Rightarrow> 'h CpuCore \<Rightarrow> 'h trace_end result option" where
  "trace_loop limit step out cpu =
     (if step < limit \<and> \<not> CpuCore_halted cpu \<and> \<not> CpuCore_faulted cpu then
        (case trace_iteration cpu of
           None \<Rightarrow> None
         | Some (Inl e) \<Rightarrow> Some (Inl e)
         | Some (Inr None) \<Rightarrow> Some (Inr (Multiple_registers out))
         | Some (Inr (Some (record_text, cpu'))) \<Rightarrow>
             trace_loop limit (step + 1) (out @ record_text) cpu')
      else Some (Inr (Trace_end out cpu)))"
  by pat_completeness auto

termination
  by (relation "measure (\<lambda>(limit, step, out, cpu). unat limit - unat step)")
    (auto simp: unat_Suc_less word_less_nat_alt)

declare trace_loop.simps [simp del]

section \<open>main\<close>

record trace_outcome =
  trace_exit_code :: int
  trace_out :: string
  trace_err :: string

definition trace_report :: "u8 list trace_end \<Rightarrow> trace_outcome" where
  "trace_report e =
     (case e of
        Multiple_registers out \<Rightarrow> \<lparr>trace_exit_code = 3, trace_out = out,
          trace_err = ''reference trace error: one instruction changed multiple registers'' @ newline\<rparr>
      | Trace_end out cpu \<Rightarrow>
          if \<not> CpuCore_halted cpu \<and> \<not> CpuCore_faulted cpu
          then \<lparr>trace_exit_code = 3, trace_out = out,
                trace_err = ''reference trace instruction limit reached'' @ newline\<rparr>
          else \<lparr>trace_exit_code = 0, trace_out = out @ emit_final cpu, trace_err = []\<rparr>)"

text \<open>The callback of main's UART, \<^verbatim>\<open>uart_bytes.push_back\<close>, and the machine main builds.\<close>

definition push_back :: "u8 \<Rightarrow> u8 list \<Rightarrow> u8 list" where
  "push_back byte uart_bytes = uart_bytes @ [byte]"

definition trace_boot :: "u8 list \<Rightarrow> u8 list CpuCore result" where
  "trace_boot img =
     bindE (Rom_load_bytes Rom_new 0 img) (\<lambda>rom.
     Inr (CpuCore_new (Bus_new rom Ram_new (Uart_new (Some push_back) []) DebugDevice_new
       Timer_new Gpio_new)))"

definition trace_image :: "u64 \<Rightarrow> u8 list \<Rightarrow> trace_outcome result option" where
  "trace_image limit img =
     (case trace_boot img of
        Inl e \<Rightarrow> Some (Inl e)
      | Inr cpu \<Rightarrow>
          (case trace_loop limit 0 [] cpu of
             None \<Rightarrow> None
           | Some (Inl e) \<Rightarrow> Some (Inl e)
           | Some (Inr r) \<Rightarrow> Some (Inr (trace_report r))))"

definition trace_reject :: "string \<Rightarrow> trace_outcome" where
  "trace_reject message = \<lparr>trace_exit_code = 2, trace_out = [], trace_err = message\<rparr>"

definition trace_usage_exit :: "string list \<Rightarrow> trace_outcome result option" where
  "trace_usage_exit argv =
     Some (bindE (argv_at argv 0) (\<lambda>exe. Inr (trace_reject (trace_usage exe))))"

definition trace_file :: "file_system \<Rightarrow> string list \<Rightarrow> u64 \<Rightarrow> trace_outcome result option" where
  "trace_file fs argv limit =
     (case argv_at argv 1 of
        Inl e \<Rightarrow> Some (Inl e)
      | Inr path \<Rightarrow>
          (case load_image fs path of
             None \<Rightarrow> Some (Inr (trace_reject
               (''ROM image must exist, be <= 65536 bytes, and contain whole words'' @ newline)))
           | Some img \<Rightarrow> trace_image limit img))"

definition trace_main :: "file_system \<Rightarrow> string list \<Rightarrow> trace_outcome result option" where
  "trace_main fs argv =
     (if length argv \<noteq> 2 \<and> length argv \<noteq> 4 then trace_usage_exit argv
      else if length argv = 4 then
        (case (if argv ! 2 \<noteq> ''--max-instructions'' then None else trace_parse_limit (argv ! 3)) of
           None \<Rightarrow> trace_usage_exit argv
         | Some limit \<Rightarrow> trace_file fs argv limit)
      else trace_file fs argv trace_kDefaultInstructionLimit)"

section \<open>The record the instruction set gives\<close>

definition isa_changed :: "instr \<Rightarrow> 'h arch \<Rightarrow> 'h arch \<Rightarrow> u8 option \<times> u32" where
  "isa_changed i s s' =
     (case instr_dest i of
        None \<Rightarrow> (None, 0)
      | Some r \<Rightarrow> if a_gpr s' r = a_gpr s r then (None, 0) else (Some (ucast r), a_gpr s' r))"

fun isa_memory :: "instr \<Rightarrow> 'h arch \<Rightarrow> bool \<times> u32 \<times> u32" where
  "isa_memory (SW rs2 rs1 imm) s = (True, a_gpr s rs1 + scast imm, a_gpr s rs2)"
| "isa_memory _ s = (False, 0, 0)"

text \<open>The text for the instruction about to execute; a faulting one has no record.\<close>

definition isa_record :: "'h arch \<Rightarrow> string" where
  "isa_record s =
     (let s' = isa_step s in
      if a_retired s' = a_retired s then []
      else case sys_fetch (a_sys s) (a_pc s) of
             Inl f \<Rightarrow> []
           | Inr w \<Rightarrow>
               (case isa_decode w of
                  None \<Rightarrow> []
                | Some i \<Rightarrow>
                    (case (isa_changed i s s', isa_memory i s) of ((rd, v), (wr, address, value)) \<Rightarrow>
                       emit_retire (a_retired s) (a_pc s) w (a_pc s') rd v wr address value)))"

definition isa_trace :: "nat \<Rightarrow> 'h arch \<Rightarrow> string" where
  "isa_trace n s = concat (map (\<lambda>k. isa_record (isa_run k s)) [0..<n])"

lemma isa_trace_Suc: "isa_trace (Suc n) s = isa_record s @ isa_trace n (isa_step s)"
  by (simp add: isa_trace_def upt_0_Suc comp_def funpow_swap1 del: upt_Suc)

section \<open>One iteration prints that record\<close>

lemma register_index_of_nat:
  assumes "i < 32"
  shows "(of_nat i :: u8) < 32" "unat (of_nat i :: u8) = i" "(ucast (of_nat i :: u8) :: reg) = of_nat i"
proof -
  show u: "unat (of_nat i :: u8) = i"
    using assms by (simp add: unsigned_of_nat take_bit_nat_eq_self)
  then show "(of_nat i :: u8) < 32"
    using assms by (simp add: word_less_nat_alt)
  show "(ucast (of_nat i :: u8) :: reg) = of_nat i"
    using assms by (simp add: word_unat_eq_iff unsigned_ucast_eq u unsigned_of_nat)
qed

lemma register_indices_iff: "index \<in> set register_indices \<longleftrightarrow> (\<exists>r :: reg. index = ucast r)"
proof
  assume "index \<in> set register_indices"
  then obtain i where "i < 32" "index = of_nat i"
    by (auto simp: register_indices_def kRegisterCount_def)
  then have "index = ucast (of_nat i :: reg)"
    by (simp add: word_unat_eq_iff register_index_of_nat reg_index_u8(1) unsigned_of_nat
        take_bit_nat_eq_self)
  then show "\<exists>r :: reg. index = ucast r" ..
next
  assume "\<exists>r :: reg. index = ucast r"
  then obtain r :: reg where "index = ucast r" ..
  then have "index = of_nat (unat r)"
    using register_index_of_nat(2) [OF reg_index_lt [of r]] reg_index_u8(1) [of r]
    by (simp add: word_unat_eq_iff)
  moreover have "unat r \<in> set [0..<unat kRegisterCount]"
    using reg_index_lt [of r] by (simp add: kRegisterCount_def)
  ultimately show "index \<in> set register_indices"
    unfolding register_indices_def set_map by blast
qed

lemma set_register_indices: "set register_indices = range (ucast :: reg \<Rightarrow> u8)"
  using register_indices_iff by auto

definition register_values :: "(reg \<Rightarrow> u32) \<Rightarrow> u32 list" where
  "register_values g = map (g \<circ> ucast) register_indices"

lemma read_registers_ok:
  assumes "RegisterFile_wf (cpu_registers cpu)"
  shows "read_registers cpu = Inr (register_values (gpr (cpu_registers cpu)))"
  unfolding read_registers_def register_values_def
proof (rule mapE_ok)
  fix index
  assume "index \<in> set register_indices"
  then obtain r :: reg where "index = ucast r"
    using register_indices_iff by blast
  with assms show "RegisterFile_read (cpu_registers cpu) index =
      Inr ((gpr (cpu_registers cpu) \<circ> ucast) index)"
    by simp
qed

lemma array_get_register:
  "array_get (register_values g) (unat (ucast (r :: reg) :: u8)) = Inr (g r)"
  using reg_index_lt [of r]
  by (simp add: register_values_def register_indices_def kRegisterCount_def reg_index_u8(1)
      register_index_of_nat)

text \<open>The scan finds the one register that changed.\<close>

lemma scan_changed_step:
  assumes "RegisterFile_wf (cpu_registers cpu)"
  shows "scan_changed cpu (register_values g) (ucast (r :: reg) # rest) found =
    (if gpr (cpu_registers cpu) r = g r then scan_changed cpu (register_values g) rest found
     else if fst found \<noteq> None then Inr None
     else scan_changed cpu (register_values g) rest (Some (ucast r), gpr (cpu_registers cpu) r))"
  using assms by (simp add: array_get_register)

lemma scan_unchanged:
  assumes "RegisterFile_wf (cpu_registers cpu)"
    and "\<And>r. ucast r \<in> set xs \<Longrightarrow> gpr (cpu_registers cpu) r = g r" "set xs \<subseteq> range (ucast :: reg \<Rightarrow> u8)"
  shows "scan_changed cpu (register_values g) (xs @ ys) found =
    scan_changed cpu (register_values g) ys found"
  using assms(2,3)
proof (induction xs)
  case (Cons x xs)
  then obtain r :: reg where "x = ucast r" by auto
  with Cons show ?case by (simp add: scan_changed_step [OF assms(1)] del: scan_changed.simps)
qed simp

lemma scan_registers:
  assumes wf: "RegisterFile_wf (cpu_registers cpu)"
    and others: "\<And>r. dest \<noteq> Some r \<Longrightarrow> gpr (cpu_registers cpu) r = g r"
  shows "scan_changed cpu (register_values g) register_indices (None, 0) =
    Inr (Some (case dest of
        None \<Rightarrow> (None, 0)
      | Some r \<Rightarrow> if gpr (cpu_registers cpu) r = g r then (None, 0)
                 else (Some (ucast r), gpr (cpu_registers cpu) r)))"
proof (cases "\<exists>r. dest = Some r \<and> gpr (cpu_registers cpu) r \<noteq> g r")
  case False
  from False have "gpr (cpu_registers cpu) r = g r" for r
    using others by (cases "dest = Some r") auto
  then show ?thesis
    using scan_unchanged [OF wf, of register_indices g "[]"] set_register_indices
    by (auto split: option.split)
next
  case True
  then obtain d where d: "dest = Some d" "gpr (cpu_registers cpu) d \<noteq> g d" by blast
  have "ucast d \<in> set register_indices"
    using register_indices_iff by blast
  then obtain xs ys where split: "register_indices = xs @ ucast d # ys"
    by (meson split_list)
  have "distinct register_indices"
    by (simp add: register_indices_def kRegisterCount_def upt_rec)
  then have "distinct (xs @ ucast d # ys)"
    by (simp only: split)
  then have fresh: "ucast d \<notin> set xs \<union> set ys" by simp
  have sub: "set xs \<subseteq> range (ucast :: reg \<Rightarrow> u8)" "set ys \<subseteq> range (ucast :: reg \<Rightarrow> u8)"
    using set_register_indices unfolding split by auto
  have same: "gpr (cpu_registers cpu) r = g r" if "ucast r \<in> set xs \<union> set ys" for r :: reg
    using others [of r] d(1) that fresh by auto
  have "scan_changed cpu (register_values g) register_indices (None, 0) =
      scan_changed cpu (register_values g) (ucast d # ys) (None, 0)"
    unfolding split by (rule scan_unchanged [OF wf _ sub(1)]) (use same in blast)
  also have "\<dots> = scan_changed cpu (register_values g) (ys @ []) (Some (ucast d), gpr (cpu_registers cpu) d)"
    using d(2) by (simp add: scan_changed_step [OF wf] del: scan_changed.simps)
  also have "\<dots> = scan_changed cpu (register_values g) [] (Some (ucast d), gpr (cpu_registers cpu) d)"
    by (rule scan_unchanged [OF wf _ sub(2)]) (use same in blast)
  finally show ?thesis
    using d by simp
qed

lemma memory_effect_isa:
  assumes "isa_decode w = Some i"
  shows "memory_effect w (register_values (a_gpr s)) = Inr (isa_memory i s)"
  using assms array_get_register [of "a_gpr s"]
  by (cases i) (simp_all add: memory_effect_def decode_by_table DecodeResult_ok_def di_r_def di_i_def
      di_sb_def di_j_def Let_def)

lemma trace_iteration_isa:
  assumes wf: "CpuCore_wf cpu" and b: "at_boundary cpu" and run: "a_status (arch_of cpu) = Running"
  shows "\<exists>cpu'. trace_iteration cpu = Some (Inr (Some (isa_record (arch_of cpu), cpu'))) \<and>
    CpuCore_wf cpu' \<and> at_boundary cpu' \<and> arch_of cpu' = isa_step (arch_of cpu)"
proof -
  obtain cpu' where cpu': "CpuCore_step cpu = Some (Inr (step_result cpu', cpu'))" "CpuCore_wf cpu'"
      "at_boundary cpu'" "arch_of cpu' = isa_step (arch_of cpu)"
    using step_reaches [OF wf b] by blast
  have pre: "Bus_fetch32 (core_bus cpu) (cpu_pc cpu) =
      Inr (read_result (sys_fetch (a_sys (arch_of cpu)) (a_pc (arch_of cpu))))"
    "read_registers cpu = Inr (register_values (a_gpr (arch_of cpu)))"
    using wf by (simp_all add: Bus_fetch32_sys read_registers_ok CpuCore_wf_def arch_of_simps)
  have "trace_iteration cpu = Some (Inr (Some (isa_record (arch_of cpu), cpu')))"
  proof (rule disjE [OF isa_step_cases [OF run]])
    assume "faults (arch_of cpu) (isa_step (arch_of cpu))"
    then have "a_retired (isa_step (arch_of cpu)) = a_retired (arch_of cpu)"
      by (auto simp: faults_def)
    then show ?thesis
      using cpu'(1) pre arch_of_simps(4) [of cpu'] arch_of_simps(4) [of cpu]
      by (simp add: trace_iteration_def isa_record_def cpu'(4) [symmetric])
  next
    assume "retires (arch_of cpu) (isa_step (arch_of cpu))"
    then obtain i w where i: "sys_fetch (a_sys (arch_of cpu)) (a_pc (arch_of cpu)) = Inr w"
        "isa_decode w = Some i" "a_retired (arch_of cpu') = a_retired (arch_of cpu) + 1"
        "\<And>r. instr_dest i \<noteq> Some r \<Longrightarrow> a_gpr (arch_of cpu') r = a_gpr (arch_of cpu) r"
      unfolding cpu'(4) [symmetric] by (auto simp: retires_def)
    have scan: "scan_changed cpu' (register_values (a_gpr (arch_of cpu))) register_indices (None, 0) =
        Inr (Some (isa_changed i (arch_of cpu) (arch_of cpu')))"
      using scan_registers [of cpu' "instr_dest i" "a_gpr (arch_of cpu)"] i(4) cpu'(2)
      unfolding isa_changed_def arch_of_simps(1) [of cpu', symmetric] CpuCore_wf_def by blast
    show ?thesis
      using i cpu'(1) pre scan memory_effect_isa [OF i(2), of "arch_of cpu"]
      by (simp add: trace_iteration_def isa_record_def cpu'(4) [symmetric] arch_of_simps(2,4)
          split: prod.split)
  qed
  with cpu' show ?thesis by blast
qed

section \<open>The trace of a run\<close>

lemma trace_loop_spec:
  assumes "CpuCore_wf cpu" "at_boundary cpu"
  shows "\<exists>n cpu'. trace_loop limit step out cpu =
      Some (Inr (Trace_end (out @ isa_trace n (arch_of cpu)) cpu')) \<and>
    arch_of cpu' = isa_run n (arch_of cpu) \<and> runs_for n (arch_of cpu) \<and>
    n \<le> unat limit - unat step \<and>
    (a_status (arch_of cpu') = Running \<longrightarrow> n = unat limit - unat step)"
  using assms
proof (induction "unat limit - unat step" arbitrary: step out cpu rule: less_induct)
  case less
  show ?case
  proof (cases "step < limit \<and> a_status (arch_of cpu) = Running")
    case False
    then have "trace_loop limit step out cpu = Some (Inr (Trace_end out cpu))"
      using status_of_boundary(1) [of cpu] by (auto simp: trace_loop.simps [of limit step])
    moreover have "unat limit - unat step = 0" if "a_status (arch_of cpu) = Running"
      using False that by (simp add: word_less_nat_alt)
    ultimately show ?thesis
      by (intro exI [of _ 0] exI [of _ cpu]) (simp add: isa_trace_def runs_for_def)
  next
    case True
    obtain cpu1 where c1: "trace_iteration cpu = Some (Inr (Some (isa_record (arch_of cpu), cpu1)))"
        "CpuCore_wf cpu1" "at_boundary cpu1" "arch_of cpu1 = isa_step (arch_of cpu)"
      using trace_iteration_isa [OF less.prems] True by blast
    have loop: "trace_loop limit step out cpu =
        trace_loop limit (step + 1) (out @ isa_record (arch_of cpu)) cpu1"
      using True c1(1) status_of_boundary(1) [of cpu] by (simp add: trace_loop.simps [of limit step])
    have left: "Suc (unat limit - unat (step + 1)) = unat limit - unat step"
      using True unat_Suc_less [of step limit] by (simp add: word_less_nat_alt Suc_diff_Suc)
    then obtain n cpu' where "trace_loop limit (step + 1) (out @ isa_record (arch_of cpu)) cpu1 =
        Some (Inr (Trace_end ((out @ isa_record (arch_of cpu)) @ isa_trace n (arch_of cpu1)) cpu'))"
        "arch_of cpu' = isa_run n (arch_of cpu1)" "runs_for n (arch_of cpu1)"
        "n \<le> unat limit - unat (step + 1)"
        "a_status (arch_of cpu') = Running \<longrightarrow> n = unat limit - unat (step + 1)"
      using less.hyps [of "step + 1" cpu1] c1(2,3) by (metis lessI)
    with True c1(4) loop left show ?thesis
      by (intro exI [of _ "Suc n"] exI [of _ cpu'])
        (auto simp: isa_trace_Suc runs_for_Suc funpow_swap1)
  qed
qed

text \<open>Both programs build the same machine: their callbacks collect the transmitted bytes.\<close>

lemma trace_boot_is_boot: "trace_boot img = boot img"
proof -
  have "push_back = put_stdout"
    by (simp add: fun_eq_iff push_back_def put_stdout_def)
  then show ?thesis by (simp add: trace_boot_def boot_def)
qed

lemma trace_image_spec:
  assumes "length img \<le> Rom_kSizeBytes"
  shows "\<exists>n \<le> unat limit. \<exists>cpu'. arch_of cpu' = isa_run n (isa_boot img) \<and>
    runs_for n (isa_boot img) \<and> (a_status (arch_of cpu') = Running \<longrightarrow> n = unat limit) \<and>
    trace_image limit img = Some (Inr (trace_report (Trace_end (isa_trace n (isa_boot img)) cpu')))"
proof -
  obtain cpu where cpu: "boot img = Inr cpu" "CpuCore_wf cpu" "at_boundary cpu"
      "arch_of cpu = isa_boot img"
    using boot_spec [OF assms] by blast
  obtain n cpu' where "trace_loop limit 0 [] cpu =
      Some (Inr (Trace_end ([] @ isa_trace n (isa_boot img)) cpu'))"
      "arch_of cpu' = isa_run n (isa_boot img)" "runs_for n (isa_boot img)"
      "n \<le> unat limit - unat (0 :: u64)"
      "a_status (arch_of cpu') = Running \<longrightarrow> n = unat limit - unat (0 :: u64)"
    using trace_loop_spec [OF cpu(2,3), of limit 0 "[]"] unfolding cpu(4) by blast
  then show ?thesis
    using cpu(1) by (intro exI [of _ n] conjI exI [of _ cpu']) (simp_all add: trace_image_def trace_boot_is_boot)
qed

text \<open>
  C5: the reference trace of every image is the trace of the ISA: one record per retired instruction, in
  order, each with the instruction's index, address, word, next address, the destination register
  and value when the register's value changed, and the address and value of a store. It ends
  when the machine halts or faults (then with the final record and exit code 0) or at the limit
  (exit code 3). In particular the error that one instruction changed several registers cannot
  occur.
\<close>

theorem trace_image_implements_isa:
  assumes "length img \<le> Rom_kSizeBytes"
  shows "\<exists>n \<le> unat limit. \<exists>cpu'. arch_of cpu' = isa_run n (isa_boot img) \<and> runs_for n (isa_boot img) \<and>
    trace_image limit img =
      Some (Inr (if a_status (isa_run n (isa_boot img)) = Running
        then \<lparr>trace_exit_code = 3, trace_out = isa_trace n (isa_boot img),
              trace_err = ''reference trace instruction limit reached'' @ newline\<rparr>
        else \<lparr>trace_exit_code = 0, trace_out = isa_trace n (isa_boot img) @ emit_final cpu',
              trace_err = []\<rparr>)) \<and>
    (a_status (isa_run n (isa_boot img)) = Running \<longrightarrow> n = unat limit)"
proof -
  obtain n cpu' where "n \<le> unat limit" "arch_of cpu' = isa_run n (isa_boot img)"
      "runs_for n (isa_boot img)" "a_status (arch_of cpu') = Running \<longrightarrow> n = unat limit"
      "trace_image limit img = Some (Inr (trace_report (Trace_end (isa_trace n (isa_boot img)) cpu')))"
    using trace_image_spec [OF assms] by blast
  then show ?thesis
    using status_of_boundary(1) [of cpu']
    by (intro exI [of _ n]) (auto simp: trace_report_def)
qed

lemma trace_image_implements_isa_witness:
  "\<exists>r. trace_image 7 [0, 0, 0, 0x5C] = Some (Inr r) \<and> trace_exit_code r = 0"
proof -
  obtain n where n: "runs_for n (isa_boot [0, 0, 0, 0x5C])"
      "a_status (isa_run n (isa_boot [0, 0, 0, 0x5C])) = Running \<longrightarrow> n = 7"
      "\<exists>r. trace_image 7 [0, 0, 0, 0x5C] = Some (Inr r) \<and>
        (a_status (isa_run n (isa_boot [0, 0, 0, 0x5C])) \<noteq> Running \<longrightarrow> trace_exit_code r = 0)"
    using trace_image_implements_isa [of "[0, 0, 0, 0x5C]" 7]
    by (auto simp: Rom_kSizeBytes_def split: if_splits)
  then show ?thesis
    using halt_image_stops [OF n(1,2)] halt_image_halts(2) by simp
qed

text \<open>
  C12: the trace generator ends for every argument vector with at least a program name and for every file
  system, without an exception and without undefined behaviour; its exit code is 0, 2 or 3, and
  never the code-3 error about several changed registers. On the empty vector, which an operating
  system may pass, it reaches undefined behaviour: usage prints \<^verbatim>\<open>argv[0]\<close>, a null pointer.
\<close>

theorem trace_main_returns:
  "if argv = [] then trace_main fs argv = Some (Inl Undefined_null_string)
   else \<exists>r. trace_main fs argv = Some (Inr r) \<and> trace_exit_code r \<in> {0, 2, 3} \<and>
    trace_err r \<noteq> ''reference trace error: one instruction changed multiple registers'' @ newline"
proof (cases "argv = []")
  case True
  then show ?thesis by (simp add: trace_main_def trace_usage_exit_def argv_at_def)
next
  case False
  have load: "length img \<le> Rom_kSizeBytes" if "load_image fs path = Some img" for path img
    using that by (auto simp: load_image_def read_exactly_def Let_def split: option.splits if_splits)
  define good where "good x \<longleftrightarrow> (\<exists>r. x = Some (Inr r) \<and> trace_exit_code r \<in> {0, 2, 3} \<and>
    trace_err r \<noteq> ''reference trace error: one instruction changed multiple registers'' @ newline)"
    for x :: "trace_outcome result option"
  have "good (trace_image limit img)" if "load_image fs path = Some img" for path img limit
    using trace_image_spec [OF load [OF that], of limit] by (auto simp: good_def trace_report_def)
  then have "good (trace_file fs argv limit)" if "2 \<le> length argv" for limit
    using that by (auto simp: trace_file_def argv_at_def good_def trace_reject_def split: option.split)
  moreover have "good (trace_usage_exit argv)"
    using False by (simp add: trace_usage_exit_def argv_at_def good_def trace_reject_def trace_usage_def)
  ultimately have "good (trace_main fs argv)"
    by (auto simp: trace_main_def split: option.split)
  with False show ?thesis by (simp add: good_def)
qed

lemma trace_main_returns_witness:
  "\<exists>r. trace_main (\<lambda>_. None) [''ref_trace'', ''missing.bin''] = Some (Inr r) \<and>
     trace_exit_code r \<in> {0, 2, 3}"
  using trace_main_returns [of "[''ref_trace'', ''missing.bin'']" "\<lambda>_. None"] by auto

section \<open>Hexadecimal text\<close>

text \<open>The eight digits of a word and the two of a byte, most significant first.\<close>

definition word_digits :: "u32 \<Rightarrow> string" where
  "word_digits v = map (\<lambda>k. hex_digits ! unat (drop_bit (4 * k) v AND 0xF)) [7, 6, 5, 4, 3, 2, 1, 0]"

definition byte_digits :: "u8 \<Rightarrow> string" where
  "byte_digits b = [hex_digits ! unat (drop_bit 4 b), hex_digits ! unat (b AND 0xF)]"

lemma unat_and_15: "unat (x AND 0xF) = unat x mod 16" for x :: "'a :: len word"
proof -
  have "x AND 0xF = take_bit 4 x"
    by (simp add: take_bit_eq_mask mask_numeral)
  then have "unat (x AND 0xF) = take_bit 4 (unat x)"
    by (simp only: unsigned_take_bit_eq)
  then show ?thesis
    by (simp add: take_bit_eq_mod)
qed

lemma hex32_word_digits: "hex32 v = word_digits v"
proof -
  have "unat (drop_bit (4 * k) v AND 0xF) = unat v div 16 ^ k mod 16" for k
    by (simp add: unat_and_15 unat_drop_bit power_mult)
  moreover have "rev [0..<8] = [7, 6, 5, 4, 3, 2, 1, 0]"
    by (simp add: upt_rec)
  moreover have "unat v < 16 ^ 8"
    using unsigned_less [of v, where ?'a = nat] by simp
  ultimately show ?thesis
    by (simp only: hex32_def word_digits_def zero_fill_digits zero_less_numeral)
qed

lemma hex_byte_digits: "zero_fill 2 (radix_string 16 (unat b)) = byte_digits b" for b :: u8
proof -
  have b: "unat b < 16 ^ 2"
    using unsigned_less [of b, where ?'a = nat] by simp
  have "unat (drop_bit 4 b) = unat b div 16 mod 16"
    using b by (simp add: unat_drop_bit del: drop_bit_numeral_bit0)
  moreover have "rev [0..<2] = [1, 0 :: nat]"
    by (simp add: upt_rec)
  ultimately show ?thesis
    using zero_fill_digits [OF b] by (simp add: byte_digits_def unat_and_15)
qed

lemma hex_bytes_digits: "hex_bytes bs = concat (map byte_digits bs)"
  by (simp add: hex_bytes_def hex_byte_digits)

text \<open>
  C32: a word in the trace is eight lower-case hexadecimal digits, zeros in front included: the digit at position k
  from the right is that of bits 4k to 4k + 3. Read back as a hexadecimal numeral they give the
  word, so two words never share a rendering.
\<close>

theorem hex32_round_trip:
  "hex32 v = map (\<lambda>k. ''0123456789abcdef'' ! unat (drop_bit (4 * k) v AND 0xF)) [7, 6, 5, 4, 3, 2, 1, 0] \<and>
   radix_value 16 (hex32 v) = unat v"
proof
  show "hex32 v = map (\<lambda>k. ''0123456789abcdef'' ! unat (drop_bit (4 * k) v AND 0xF)) [7, 6, 5, 4, 3, 2, 1, 0]"
    unfolding hex32_word_digits word_digits_def hex_digits_def ..
  show "radix_value 16 (hex32 v) = unat v"
    by (simp add: hex32_def radix_value_string)
qed

lemma hex_byte_value: "radix_value 16 (byte_digits b) = unat b"
  unfolding hex_byte_digits [symmetric] by (simp add: radix_value_string)

lemma byte_digits_inject: "byte_digits b = byte_digits c \<longleftrightarrow> b = c"
  by (metis hex_byte_value word_unat_eq_iff)

lemma hex_bytes_inject: "hex_bytes bs = hex_bytes cs \<longleftrightarrow> bs = cs"
proof
  have two: "length (byte_digits b) = 2" for b
    by (simp add: byte_digits_def)
  assume "hex_bytes bs = hex_bytes cs"
  then show "bs = cs"
    unfolding hex_bytes_digits
  proof (induction bs arbitrary: cs)
    case Nil
    then show ?case by (cases cs) (simp_all add: byte_digits_def)
  next
    case (Cons b bs)
    then obtain c cs' where cs: "cs = c # cs'"
      by (cases cs) (simp_all add: byte_digits_def)
    with Cons two show ?case by (simp add: byte_digits_inject)
  qed
qed simp

text \<open>
  C39: the UART transcript of the final record is, byte after byte in the order of transmission, the
  lower-case hexadecimal digit of the high four bits and then that of the low four bits; two
  transcripts are equal only when the transmitted bytes are.
\<close>

theorem hex_bytes_faithful:
  "hex_bytes bs = concat (map (\<lambda>b. [''0123456789abcdef'' ! unat (drop_bit 4 b),
     ''0123456789abcdef'' ! unat (b AND 0xF)]) bs) \<and> (hex_bytes bs = hex_bytes cs \<longleftrightarrow> bs = cs)"
proof
  show "hex_bytes bs = concat (map (\<lambda>b. [''0123456789abcdef'' ! unat (drop_bit 4 b),
     ''0123456789abcdef'' ! unat (b AND 0xF)]) bs)"
    unfolding hex_bytes_digits byte_digits_def hex_digits_def ..
qed (rule hex_bytes_inject)

end
