(* ===== verification/Trace_Reader.thy ===== *)
theory Trace_Reader
  imports Ref_Trace
begin

text \<open>
  A reader for the output of the reference trace generator: one JSON object per line with string,
  number and boolean members. It is written from the format alone, so what it reads from a trace is
  a specification of the text that shares nothing with the code that prints it. The records that
  the instruction set prescribes are lists of members, and the trace of every image reads back as
  them.
\<close>

section \<open>Reading JSON lines\<close>

datatype json = Json_string string | Json_number nat | Json_bool bool

type_synonym members = "(string \<times> json) list"

text \<open>The text up to the closing quotation mark; the trace has no escapes.\<close>

definition read_text :: "string \<Rightarrow> (string \<times> string) option" where
  "read_text s =
     (case dropWhile (\<lambda>c. c \<noteq> CHR 0x22) s of
        [] \<Rightarrow> None
      | quote # rest \<Rightarrow> Some (takeWhile (\<lambda>c. c \<noteq> CHR 0x22) s, rest))"

fun expect :: "string \<Rightarrow> string \<Rightarrow> string option" where
  "expect [] s = Some s"
| "expect (c # cs) [] = None"
| "expect (c # cs) (d # s) = (if c = d then expect cs s else None)"

definition read_string :: "string \<Rightarrow> (string \<times> string) option" where
  "read_string s = (case expect [CHR 0x22] s of None \<Rightarrow> None | Some rest \<Rightarrow> read_text rest)"

definition read_number :: "string \<Rightarrow> (nat \<times> string) option" where
  "read_number s =
     (let digits = takeWhile is_digit s in
      if digits = [] then None else Some (radix_value 10 digits, dropWhile is_digit s))"

definition read_value :: "string \<Rightarrow> (json \<times> string) option" where
  "read_value s =
     (case read_string s of
        Some (t, rest) \<Rightarrow> Some (Json_string t, rest)
      | None \<Rightarrow>
          (case read_number s of
             Some (n, rest) \<Rightarrow> Some (Json_number n, rest)
           | None \<Rightarrow>
               (case expect ''true'' s of
                  Some rest \<Rightarrow> Some (Json_bool True, rest)
                | None \<Rightarrow> map_option (Pair (Json_bool False)) (expect ''false'' s))))"

definition read_member :: "string \<Rightarrow> ((string \<times> json) \<times> string) option" where
  "read_member s =
     (case read_string s of
        None \<Rightarrow> None
      | Some (name, rest) \<Rightarrow>
          (case expect '':'' rest of
             None \<Rightarrow> None
           | Some rest' \<Rightarrow> map_option (\<lambda>(v, r). ((name, v), r)) (read_value rest')))"

lemma expect_length: "expect t s = Some r \<Longrightarrow> length s = length t + length r"
  by (induction t s rule: expect.induct) (auto split: if_splits)

lemma read_text_length: "read_text s = Some (t, r) \<Longrightarrow> length r < length s"
  using length_dropWhile_le [of "\<lambda>c. c \<noteq> CHR 0x22" s] by (auto simp: read_text_def split: list.splits)

lemma read_string_length: "read_string s = Some (t, r) \<Longrightarrow> length r < length s"
  by (auto simp: read_string_def split: option.splits dest!: expect_length read_text_length)

lemma read_number_length: "read_number s = Some (n, r) \<Longrightarrow> length r \<le> length s"
  by (auto simp: read_number_def length_dropWhile_le Let_def split: if_splits)

lemma read_value_length: "read_value s = Some (v, r) \<Longrightarrow> length r \<le> length s"
  by (auto simp: read_value_def split: option.splits
      dest!: expect_length read_string_length read_number_length)

lemma read_member_length: "read_member s = Some (m, r) \<Longrightarrow> length r < length s"
  by (auto simp: read_member_def split: option.splits
      dest!: expect_length read_string_length read_value_length)

function read_members :: "string \<Rightarrow> (members \<times> string) option" where
  "read_members s =
     (case read_member s of
        None \<Rightarrow> None
      | Some (m, rest) \<Rightarrow>
          (case expect '','' rest of
             Some rest' \<Rightarrow> map_option (map_prod (Cons m) id) (read_members rest')
           | None \<Rightarrow> map_option (Pair [m]) (expect (''}'' @ newline) rest)))"
  by pat_completeness auto

termination
  by (relation "measure length") (auto dest!: read_member_length expect_length)

declare read_members.simps [simp del]

definition read_record :: "string \<Rightarrow> (members \<times> string) option" where
  "read_record s = (case expect ''{'' s of None \<Rightarrow> None | Some rest \<Rightarrow> read_members rest)"

lemma read_members_length: "read_members s = Some (ms, r) \<Longrightarrow> length r < length s"
proof (induction s arbitrary: ms r rule: read_members.induct)
  case (1 s)
  then show ?case
    by (subst (asm) (2) read_members.simps)
      (fastforce split: option.splits dest!: read_member_length expect_length)
qed

lemma read_record_length: "read_record s = Some (ms, r) \<Longrightarrow> length r < length s"
  by (auto simp: read_record_def split: option.splits dest!: expect_length read_members_length)

function read_trace :: "string \<Rightarrow> members list option" where
  "read_trace s =
     (if s = [] then Some []
      else case read_record s of
             None \<Rightarrow> None
           | Some (ms, rest) \<Rightarrow> map_option (Cons ms) (read_trace rest))"
  by pat_completeness auto

termination
  by (relation "measure length") (auto dest!: read_record_length)

declare read_trace.simps [simp del]

section \<open>Reading back what is printed\<close>

text \<open>The text of a record, and the strings that need no escape.\<close>

fun value_text :: "json \<Rightarrow> string" where
  "value_text (Json_string t) = quoted t"
| "value_text (Json_number n) = dec_string n"
| "value_text (Json_bool b) = json_bool b"

fun members_text :: "members \<Rightarrow> string" where
  "members_text [] = []"
| "members_text [(name, v)] = json_member name (value_text v) @ ''}'' @ newline"
| "members_text ((name, v) # ms) = json_member name (value_text v) @ '','' @ members_text ms"

definition record_text :: "members \<Rightarrow> string" where
  "record_text ms = ''{'' @ members_text ms"

definition plain :: "string \<Rightarrow> bool" where
  "plain t \<longleftrightarrow> CHR 0x22 \<notin> set t"

fun plain_member :: "string \<times> json \<Rightarrow> bool" where
  "plain_member (name, Json_string t) \<longleftrightarrow> plain name \<and> plain t"
| "plain_member (name, v) \<longleftrightarrow> plain name"

lemma while_stops:
  assumes "\<forall>x \<in> set t. P x" "\<not> P c"
  shows "takeWhile P (t @ c # s) = t" "dropWhile P (t @ c # s) = c # s"
  using assms by (induction t) auto

lemma expect_append [simp]: "expect t (t @ s) = Some s"
  by (induction t) simp_all

lemma read_string_quoted [simp]:
  assumes "plain t"
  shows "read_string (quoted t @ s) = Some (t, s)"
proof -
  have "\<forall>c \<in> set t. c \<noteq> CHR 0x22"
    using assms by (auto simp: plain_def)
  then show ?thesis
    using while_stops [of t "\<lambda>c. c \<noteq> CHR 0x22" "CHR 0x22" s]
    by (simp add: read_string_def read_text_def quoted_def)
qed

lemma read_string_digit: "is_digit c \<Longrightarrow> read_string (c # s) = None"
  by (auto simp: read_string_def is_digit_def)

lemma read_number_dec:
  assumes "s = c # s'" "\<not> is_digit c"
  shows "read_number (dec_string n @ s) = Some (n, s)"
proof -
  have "\<forall>c \<in> set (dec_string n). is_digit c"
    using radix_string_digits [of n] by auto
  then have "takeWhile is_digit (dec_string n @ s) = dec_string n" "dropWhile is_digit (dec_string n @ s) = s"
    using while_stops [of "dec_string n" is_digit c s'] assms by simp_all
  then show ?thesis
    by (simp add: read_number_def radix_value_string)
qed

lemma read_value_print:
  assumes "s = c # s'" "\<not> is_digit c" and "plain_member (name, v)"
  shows "read_value (value_text v @ s) = Some (v, s)"
proof (cases v)
  case (Json_number n)
  obtain d ds where d: "dec_string n = d # ds" "is_digit d"
    using radix_string_digits [of n] radix_string_neq_Nil [of 10 n] by (cases "dec_string n") auto
  then have "read_string (dec_string n @ s) = None"
    by (simp add: read_string_digit)
  with Json_number read_number_dec [OF assms(1,2)] show ?thesis
    by (simp add: read_value_def)
next
  case (Json_bool b)
  have "read_number (json_bool b @ s) = None" "read_string (json_bool b @ s) = None"
    by (simp_all add: json_bool_def read_number_def read_string_def is_digit_def)
  with Json_bool show ?thesis
    by (simp add: read_value_def json_bool_def)
qed (use assms(3) in \<open>simp add: read_value_def\<close>)

lemma read_member_print:
  assumes "s = c # s'" "\<not> is_digit c" and "plain_member (name, v)"
  shows "read_member (json_member name (value_text v) @ s) = Some ((name, v), s)"
proof -
  have "plain name"
    using assms(3) by (cases v) simp_all
  moreover have "expect '':'' ('':'' @ x) = Some x" for x
    by (rule expect_append)
  ultimately show ?thesis
    using read_value_print [OF assms] by (simp add: read_member_def json_member_def)
qed

lemma read_members_print:
  "ms \<noteq> [] \<Longrightarrow> list_all plain_member ms \<Longrightarrow> read_members (members_text ms @ s) = Some (ms, s)"
proof (induction ms rule: members_text.induct)
  case (2 name v)
  have "read_member (json_member name (value_text v) @ ''}'' @ newline @ s) =
      Some ((name, v), ''}'' @ newline @ s)"
    by (rule read_member_print [of _ "CHR ''}''"]) (use 2 in \<open>simp_all add: is_digit_def\<close>)
  then show ?case
    using expect_append [of "''}'' @ newline" s] by (subst read_members.simps) simp
next
  case (3 name v m ms)
  have "read_member (json_member name (value_text v) @ '','' @ members_text (m # ms) @ s) =
      Some ((name, v), '','' @ members_text (m # ms) @ s)"
    by (rule read_member_print [of _ "CHR '',''"]) (use 3 in \<open>simp_all add: is_digit_def\<close>)
  with 3 show ?case
    by (subst read_members.simps) simp
qed simp

lemma read_record_print:
  "ms \<noteq> [] \<Longrightarrow> list_all plain_member ms \<Longrightarrow> read_record (record_text ms @ s) = Some (ms, s)"
  by (simp add: read_record_def record_text_def read_members_print)

lemma read_trace_Cons:
  assumes "ms \<noteq> []" "list_all plain_member ms"
  shows "read_trace (record_text ms @ s) = map_option (Cons ms) (read_trace s)"
  using read_record_print [OF assms, of s]
  by (subst read_trace.simps) (simp add: record_text_def)

lemma read_trace_records:
  "list_all (\<lambda>ms. ms \<noteq> [] \<and> list_all plain_member ms) records \<Longrightarrow>
   read_trace (concat (map record_text records)) = Some records"
  by (induction records) (simp_all add: read_trace_Cons read_trace.simps [of "[]"])

section \<open>The records the instruction set prescribes\<close>

definition json_word :: "u32 \<Rightarrow> json" where
  "json_word v = Json_string (word_digits v)"

text \<open>
  The record of the instruction about to execute, \<open>None\<close> when it faults: its number, address and word,
  the next address, the register whose value it changed and the store it performed.
\<close>

definition retire_members :: "u64 \<Rightarrow> u32 \<Rightarrow> u32 \<Rightarrow> u32 \<Rightarrow> u8 option \<times> u32 \<Rightarrow> bool \<times> u32 \<times> u32 \<Rightarrow> members" where
  "retire_members index pc w target changed memory =
     [(''type'', Json_string ''retire''), (''index'', Json_number (unat index)), (''pc'', json_word pc),
      (''instruction'', json_word w), (''next_pc'', json_word target),
      (''reg_write'', Json_bool (fst changed \<noteq> None)),
      (''rd'', Json_number (case fst changed of Some r \<Rightarrow> unat r | None \<Rightarrow> 0)),
      (''reg_value'', json_word (snd changed)), (''mem_write'', Json_bool (fst memory)),
      (''mem_addr'', json_word (fst (snd memory))), (''mem_value'', json_word (snd (snd memory)))]"

definition isa_members :: "'h arch \<Rightarrow> members option" where
  "isa_members s =
     (let s' = isa_step s in
      if a_retired s' = a_retired s then None
      else case sys_fetch (a_sys s) (a_pc s) of
             Inl f \<Rightarrow> None
           | Inr w \<Rightarrow>
               map_option (\<lambda>i. retire_members (a_retired s) (a_pc s) w (a_pc s') (isa_changed i s s') (isa_memory i s))
                 (isa_decode w))"

definition isa_records :: "nat \<Rightarrow> 'h arch \<Rightarrow> members list" where
  "isa_records n s = List.map_filter (\<lambda>k. isa_members (isa_run k s)) [0..<n]"

text \<open>
  The final record of a stopped machine. Its fault has the name that the simulator program reports.
\<close>

definition final_members :: "u8 list arch \<Rightarrow> members" where
  "final_members s =
     (let sys = a_sys s in
      [(''type'', Json_string ''final''),
       (''status'', Json_string (if a_status s = Halted then ''halted'' else ''faulted'')),
       (''pc'', json_word (a_pc s)), (''retired'', Json_number (unat (a_retired s))),
       (''uart_tx'', Json_string (concat (map byte_digits (tx_host (sys_uart sys))))),
       (''debug_value'', json_word (debug_value (sys_debug sys))),
       (''gpio_output'', json_word (gpio_output (sys_gpio sys))),
       (''gpio_direction'', json_word (gpio_direction (sys_gpio sys))),
       (''timer_counter'', json_word (timer_counter (sys_timer sys))),
       (''timer_compare'', json_word (timer_compare (sys_timer sys))),
       (''timer_control'', json_word (if timer_enabled (sys_timer sys) then 1 else 0))] @
      (case a_status s of
         Faulted f \<Rightarrow>
           [(''fault'', Json_string (fault_name (fault_code f))), (''fault_pc'', json_word (fault_pc f)),
            (''fault_instruction'', json_word (fault_instruction f)),
            (''fault_address_valid'', Json_bool (fault_data_address f \<noteq> None)),
            (''fault_address'', json_word (case fault_data_address f of Some a \<Rightarrow> a | None \<Rightarrow> 0))]
       | _ \<Rightarrow> []))"

section \<open>The generator prints them\<close>

lemma trace_fault_name_eq: "trace_fault_name f = fault_name f"
  by (cases f) simp_all

lemma emit_retire_text:
  "emit_retire index pc w target rd v wr a x = record_text (retire_members index pc w target (rd, v) (wr, a, x))"
  by (simp add: emit_retire_def record_text_def retire_members_def json_word_def hex32_word_digits
      split: option.split)

lemma emit_final_text:
  assumes "CpuCore_halted cpu \<or> CpuCore_faulted cpu"
  shows "emit_final cpu = record_text (final_members (arch_of cpu))"
  using assms
  by (auto simp: emit_final_def record_text_def final_members_def json_word_def hex32_word_digits
      hex_bytes_digits trace_fault_name_eq arch_of_def status_of_def sys_of_bus_def CpuCore_halted_def
      CpuCore_faulted_def Let_def split: option.split)

lemma isa_record_text:
  "isa_record s = (case isa_members s of None \<Rightarrow> [] | Some ms \<Rightarrow> record_text ms)"
  by (simp add: isa_record_def isa_members_def emit_retire_text Let_def split: sum.split option.split prod.split)

lemma isa_trace_text: "isa_trace n s = concat (map record_text (isa_records n s))"
proof -
  have "concat (map (\<lambda>k. isa_record (isa_run k s)) ks) =
      concat (map record_text (List.map_filter (\<lambda>k. isa_members (isa_run k s)) ks))" for ks
    by (induction ks) (simp_all add: isa_record_text map_filter_simps split: option.split)
  then show ?thesis
    by (simp add: isa_trace_def isa_records_def)
qed

text \<open>No member needs an escape.\<close>

lemma plain_hex: "plain (word_digits v)" "plain (concat (map byte_digits bs))"
proof -
  have quote: "CHR 0x22 \<notin> set hex_digits"
    by (simp add: hex_digits_def)
  have "unat v < 16 ^ 8" "unat b < 16 ^ 2" for b :: u8
    using unsigned_less [of v, where ?'a = nat] unsigned_less [of b, where ?'a = nat] by simp_all
  then have "set (hex32 v) \<subseteq> set hex_digits" "set (byte_digits b) \<subseteq> set hex_digits" for b
    unfolding hex32_def hex_byte_digits [symmetric] by (intro zero_fill_hex_digits; simp)+
  with quote show "plain (word_digits v)" "plain (concat (map byte_digits bs))"
    unfolding hex32_word_digits plain_def by auto
qed

lemma plain_fault_name: "plain (fault_name f)"
  by (cases f) (simp_all add: plain_def)

lemma plain_retire: "list_all plain_member (retire_members index pc w target changed memory)"
  using plain_hex(1) by (simp add: retire_members_def json_word_def) (simp add: plain_def)

lemma plain_final: "list_all plain_member (final_members s)"
  using plain_hex plain_fault_name
  by (simp add: final_members_def json_word_def Let_def split: status.split) (simp add: plain_def)

lemma plain_records: "list_all (\<lambda>ms. ms \<noteq> [] \<and> list_all plain_member ms) (isa_records n s)"
proof -
  have "ms \<noteq> [] \<and> list_all plain_member ms" if "isa_members s' = Some ms" for s' :: "'a arch" and ms
    using that plain_retire
    by (auto simp: isa_members_def retire_members_def Let_def split: if_splits sum.splits)
  then show ?thesis
    by (auto simp: isa_records_def list_all_iff map_filter_def)
qed

lemma read_isa_trace:
  "read_trace (isa_trace n s) = Some (isa_records n s)"
  "read_trace (isa_trace n s @ record_text (final_members s')) = Some (isa_records n s @ [final_members s'])"
proof -
  show "read_trace (isa_trace n s) = Some (isa_records n s)"
    unfolding isa_trace_text by (rule read_trace_records [OF plain_records])
  have "final_members s' \<noteq> []"
    by (simp add: final_members_def Let_def)
  then have "list_all (\<lambda>ms. ms \<noteq> [] \<and> list_all plain_member ms) (isa_records n s @ [final_members s'])"
    using plain_records [of n s] plain_final [of s'] by simp
  from read_trace_records [OF this]
  show "read_trace (isa_trace n s @ record_text (final_members s')) = Some (isa_records n s @ [final_members s'])"
    by (simp add: isa_trace_text)
qed

text \<open>
  C13: the simulator and the reference trace generator, given the same image and the same limit, execute the
  same n instructions of the ISA, n being where the program halts or faults or the limit: the
  simulator reports the state after them, and the generator's output, read as JSON lines, is one
  record for each of those n instructions that retired, followed, exactly when that same state has
  halted or faulted, by a record of that state's status, program counter, retirement count, UART
  bytes, debug value, GPIO and timer registers and fault report.
\<close>

theorem trace_agrees_with_simulator:
  assumes "length img \<le> Rom_kSizeBytes"
  shows "\<exists>n \<le> unat limit. \<exists>t. runs_for n (isa_boot img) \<and>
    (a_status (isa_run n (isa_boot img)) = Running \<longrightarrow> n = unat limit) \<and>
    run_image limit img = Some (Inr (isa_outcome (isa_run n (isa_boot img)))) \<and>
    trace_image limit img = Some (Inr t) \<and>
    (if a_status (isa_run n (isa_boot img)) = Running
     then trace_exit_code t = 3 \<and> read_trace (trace_out t) = Some (isa_records n (isa_boot img))
     else trace_exit_code t = 0 \<and> read_trace (trace_out t) =
       Some (isa_records n (isa_boot img) @ [final_members (isa_run n (isa_boot img))]))"
proof -
  obtain n where n: "n \<le> unat limit" "runs_for n (isa_boot img)"
      "run_image limit img = Some (Inr (isa_outcome (isa_run n (isa_boot img))))"
      "a_status (isa_run n (isa_boot img)) = Running \<longrightarrow> n = unat limit"
    using run_image_spec [OF assms] by blast
  obtain m cpu' where m: "m \<le> unat limit" "arch_of cpu' = isa_run m (isa_boot img)"
      "runs_for m (isa_boot img)" "a_status (arch_of cpu') = Running \<longrightarrow> m = unat limit"
      "trace_image limit img = Some (Inr (trace_report (Trace_end (isa_trace m (isa_boot img)) cpu')))"
    using trace_image_spec [OF assms] by blast
  have "\<not> n < m" "\<not> m < n"
    using n m unfolding runs_for_def by (metis leD)+
  then have "n = m" by simp
  with n m show ?thesis
    using status_of_boundary(1) [of cpu'] emit_final_text [of cpu']
    by (intro exI [of _ n]) (auto simp: trace_report_def read_isa_trace)
qed

lemma trace_agrees_with_simulator_witness:
  "\<exists>t. run_image 7 [0, 0, 0, 0x5C] = Some (Inr (isa_outcome (isa_step (isa_boot [0, 0, 0, 0x5C])))) \<and>
     trace_image 7 [0, 0, 0, 0x5C] = Some (Inr t) \<and>
     read_trace (trace_out t) = Some (isa_records 1 (isa_boot [0, 0, 0, 0x5C]) @
       [final_members (isa_step (isa_boot [0, 0, 0, 0x5C]))])"
proof -
  have "length [0, 0, 0, 0x5C :: u8] \<le> Rom_kSizeBytes"
    by (simp add: Rom_kSizeBytes_def)
  from trace_agrees_with_simulator [OF this, of 7]
  obtain n t where n: "runs_for n (isa_boot [0, 0, 0, 0x5C])"
      "a_status (isa_run n (isa_boot [0, 0, 0, 0x5C])) = Running \<longrightarrow> n = 7"
      "run_image 7 [0, 0, 0, 0x5C] = Some (Inr (isa_outcome (isa_run n (isa_boot [0, 0, 0, 0x5C]))))"
      "trace_image 7 [0, 0, 0, 0x5C] = Some (Inr t)"
      "a_status (isa_run n (isa_boot [0, 0, 0, 0x5C])) \<noteq> Running \<longrightarrow> read_trace (trace_out t) =
         Some (isa_records n (isa_boot [0, 0, 0, 0x5C]) @ [final_members (isa_run n (isa_boot [0, 0, 0, 0x5C]))])"
    by (auto simp del: isa_outcome.simps split: if_splits)
  then have "n = 1"
    using halt_image_stops by blast
  with n halt_image_halts(2) show ?thesis
    by (simp del: isa_outcome.simps)
qed

end
