(* ===== verification/Shared_Bus.thy ===== *)
theory Shared_Bus
  imports Memory_Map
begin

text \<open>
  Several buses in one process. A C++ \<^verbatim>\<open>Bus\<close> is six references (\<^verbatim>\<open>bus.hpp\<close>), so two of them can refer to
  one object; the constructor without a timer and a GPIO block always does, since it refers to two
  function-local statics. Here the objects are in a store, one map per class, a bus is the six
  references into it, and an access reads the objects through them and writes them back. Within one
  bus no two references can coincide, as they refer to objects of different classes, so on a single
  bus this is the model of \<open>Bus\<close>.
\<close>

section \<open>Objects and references\<close>

text \<open>A timer or GPIO block is one of the program's own objects or the static one of its class.\<close>

datatype device_ref = Static_object | Object nat

record 'h objects =
  obj_rom :: "nat \<Rightarrow> Rom"
  obj_ram :: "nat \<Rightarrow> Ram"
  obj_uart :: "nat \<Rightarrow> 'h Uart"
  obj_debug :: "nat \<Rightarrow> DebugDevice"
  obj_timer :: "device_ref \<Rightarrow> Timer"
  obj_gpio :: "device_ref \<Rightarrow> Gpio"

record BusRef =
  rom_ref :: nat
  ram_ref :: nat
  uart_ref :: nat
  debug_ref :: nat
  timer_ref :: device_ref
  gpio_ref :: device_ref

definition BusRef_new :: "nat \<Rightarrow> nat \<Rightarrow> nat \<Rightarrow> nat \<Rightarrow> device_ref \<Rightarrow> device_ref \<Rightarrow> BusRef" where
  "BusRef_new rom ram uart debug timer gpio =
     \<lparr>rom_ref = rom, ram_ref = ram, uart_ref = uart, debug_ref = debug, timer_ref = timer, gpio_ref = gpio\<rparr>"

definition Bus_default_timer :: device_ref where
  "Bus_default_timer = Static_object"

definition Bus_default_gpio :: device_ref where
  "Bus_default_gpio = Static_object"

definition BusRef_new_default :: "nat \<Rightarrow> nat \<Rightarrow> nat \<Rightarrow> nat \<Rightarrow> BusRef" where
  "BusRef_new_default rom ram uart debug =
     BusRef_new rom ram uart debug Bus_default_timer Bus_default_gpio"

section \<open>Accesses through the references\<close>

definition Bus_deref :: "'h objects \<Rightarrow> BusRef \<Rightarrow> 'h Bus" where
  "Bus_deref objs b =
     Bus_new (obj_rom objs (rom_ref b)) (obj_ram objs (ram_ref b)) (obj_uart objs (uart_ref b))
       (obj_debug objs (debug_ref b)) (obj_timer objs (timer_ref b)) (obj_gpio objs (gpio_ref b))"

text \<open>The ROM is a reference to a constant.\<close>

definition Bus_assign :: "BusRef \<Rightarrow> 'h Bus \<Rightarrow> 'h objects \<Rightarrow> 'h objects" where
  "Bus_assign b bus objs =
     objs\<lparr>obj_ram := (obj_ram objs)(ram_ref b := bus_ram bus),
          obj_uart := (obj_uart objs)(uart_ref b := bus_uart bus),
          obj_debug := (obj_debug objs)(debug_ref b := bus_debug bus),
          obj_timer := (obj_timer objs)(timer_ref b := bus_timer bus),
          obj_gpio := (obj_gpio objs)(gpio_ref b := bus_gpio bus)\<rparr>"

definition objects_read32 :: "'h objects \<Rightarrow> BusRef \<Rightarrow> u32 \<Rightarrow> BusReadResult result" where
  "objects_read32 objs b address = Bus_read32 (Bus_deref objs b) address"

definition objects_write32 :: "'h objects \<Rightarrow> BusRef \<Rightarrow> u32 \<Rightarrow> u32 \<Rightarrow> (BusWriteResult \<times> 'h objects) result" where
  "objects_write32 objs b address value =
     bindE (Bus_write32 (Bus_deref objs b) address value) (\<lambda>(r, bus). Inr (r, Bus_assign b bus objs))"

definition objects_retire_tick :: "'h objects \<Rightarrow> BusRef \<Rightarrow> 'h objects" where
  "objects_retire_tick objs b = Bus_assign b (Bus_retire_tick (Bus_deref objs b)) objs"

section \<open>Laws of the store\<close>

lemmas deref_defs = Bus_deref_def Bus_assign_def Bus_new_def BusRef_new_default_def BusRef_new_def
  Bus_default_timer_def Bus_default_gpio_def

text \<open>Writing back through the same references and reading again gives the objects written.\<close>

lemma deref_assign: "bus_rom bus = bus_rom (Bus_deref objs b) \<Longrightarrow> Bus_deref (Bus_assign b bus objs) b = bus"
  by (simp add: deref_defs)

text \<open>
  Two buses refer to the same writable object for an address. Then they read the same there, and
  otherwise a bus sees nothing of what the other writes.
\<close>

fun shares_object :: "BusRef \<Rightarrow> BusRef \<Rightarrow> region \<Rightarrow> bool" where
  "shares_object b c (Region_Ram i) \<longleftrightarrow> ram_ref b = ram_ref c"
| "shares_object b c (Region_Uart i) \<longleftrightarrow> uart_ref b = uart_ref c"
| "shares_object b c (Region_Timer i) \<longleftrightarrow> timer_ref b = timer_ref c"
| "shares_object b c (Region_Gpio i) \<longleftrightarrow> gpio_ref b = gpio_ref c"
| "shares_object b c (Region_Debug i) \<longleftrightarrow> debug_ref b = debug_ref c"
| "shares_object b c _ \<longleftrightarrow> False"

lemma sys_of_deref: "sys_of_bus (Bus_deref objs b) =
  \<lparr>sys_rom = Rom_words (obj_rom objs (rom_ref b)), sys_ram = Ram_words (obj_ram objs (ram_ref b)),
   sys_uart = obj_uart objs (uart_ref b), sys_debug = obj_debug objs (debug_ref b),
   sys_timer = obj_timer objs (timer_ref b), sys_gpio = obj_gpio objs (gpio_ref b)\<rparr>"
  by (simp add: sys_of_bus_def deref_defs)

lemma shares_object_read:
  assumes "Bus_wf (Bus_deref objs b)" "Bus_wf (Bus_deref objs c)" "shares_object b c (region_of a)"
  shows "objects_read32 objs c a = objects_read32 objs b a"
  using assms
  by (cases "region_of a") (simp_all add: objects_read32_def Bus_read32_sys sys_read_def sys_of_deref)

lemma assign_frame:
  assumes "Bus_wf (Bus_deref objs c)" "Bus_wf (Bus_deref (Bus_assign b bus objs) c)"
    and "\<not> shares_object b c (region_of a)"
  shows "objects_read32 (Bus_assign b bus objs) c a = objects_read32 objs c a"
  using assms
  by (cases "region_of a") (auto simp: objects_read32_def Bus_read32_sys sys_read_def sys_of_deref Bus_assign_def)

lemma assign_wf:
  assumes "Bus_wf (Bus_deref objs c)" "Ram_wf (bus_ram bus)"
  shows "Bus_wf (Bus_deref (Bus_assign b bus objs) c)"
  using assms by (simp add: Bus_wf_def deref_defs)

lemma objects_write:
  assumes "Bus_wf (Bus_deref objs b)"
  obtains r bus where "Bus_write32 (Bus_deref objs b) a v = Inr (r, bus)" "Bus_wf bus"
    "objects_write32 objs b a v = Inr (r, Bus_assign b bus objs)"
    "Bus_deref (Bus_assign b bus objs) b = bus"
proof -
  obtain r bus where w: "Bus_write32 (Bus_deref objs b) a v = Inr (r, bus)" "Bus_wf bus"
    using assms by (rule system_bus.write_cases [where a = a and v = v]) (use assms that in blast)+
  have "Bus_deref (Bus_assign b bus objs) b = bus"
    using Bus_write32_rom [OF w(1)] by (rule deref_assign)
  with w that show ?thesis
    by (simp add: objects_write32_def)
qed

text \<open>Buses interfere through the objects they share, and only through them.\<close>

lemma write_seen_by_others:
  assumes wf: "Bus_wf (Bus_deref objs b)" "Bus_wf (Bus_deref objs c)"
  shows "\<exists>r objs'. objects_write32 objs b a v = Inr (r, objs') \<and>
    Bus_wf (Bus_deref objs' b) \<and> Bus_wf (Bus_deref objs' c) \<and>
    (\<forall>a'. objects_read32 objs' c a' =
       (if shares_object b c (region_of a') then objects_read32 objs' b a' else objects_read32 objs c a'))"
proof -
  obtain r bus where w: "Bus_wf bus" "objects_write32 objs b a v = Inr (r, Bus_assign b bus objs)"
      "Bus_deref (Bus_assign b bus objs) b = bus"
    using objects_write [OF wf(1), of a v] by metis
  have wf': "Bus_wf (Bus_deref (Bus_assign b bus objs) b)" "Bus_wf (Bus_deref (Bus_assign b bus objs) c)"
    using w(1) wf by (auto intro: assign_wf simp: Bus_wf_def [of bus])
  then show ?thesis
    using w(2) shares_object_read [OF wf'] assign_frame [OF wf(2) wf'(2)] by auto
qed

text \<open>The timer behind a bus: its registers, a write to CONTROL, and a retirement.\<close>

lemma timer_read:
  assumes "Bus_wf (Bus_deref objs c)" "region_of a = Region_Timer i"
  shows "objects_read32 objs c a = Inr (bus_value (Timer_registers (obj_timer objs (timer_ref c)) i))"
  using assms by (simp add: objects_read32_def Bus_read32_sys sys_read_def sys_of_deref)

lemma control_written:
  assumes "Bus_wf (Bus_deref objs b)" "objects_write32 objs b 0x20000108 v = Inr (r, objs')"
  shows "timer_enabled (obj_timer objs' (timer_ref b)) \<longleftrightarrow> odd v"
proof -
  obtain bus where bus: "Bus_write32 (Bus_deref objs b) 0x20000108 v = Inr (r, bus)" "objs' = Bus_assign b bus objs"
    using objects_write [OF assms(1), of "0x20000108" v] assms(2) by auto
  have "region_of 0x20000108 = Region_Timer 2"
    by (simp add: region_of_def)
  then have "sys_timer (sys_of_bus bus) = Timer_store 2 v (obj_timer objs (timer_ref b))"
    using Bus_write32_stored [OF assms(1), of "0x20000108" v] bus(1)
    by (auto simp: sys_write_def sys_of_deref)
  with bus(2) show ?thesis
    by (simp add: Bus_assign_def sys_of_bus_def Timer_store_def)
qed

lemma timer_ticked:
  "obj_timer (objects_retire_tick objs b) (timer_ref b) = Timer_retire_tick (obj_timer objs (timer_ref b))"
  by (simp add: objects_retire_tick_def Bus_retire_tick_def deref_defs)

lemma ticked_wf:
  "Bus_wf (Bus_deref objs b) \<Longrightarrow> Bus_wf (Bus_deref objs c) \<Longrightarrow>
   Bus_wf (Bus_deref (objects_retire_tick objs b) c)"
  unfolding objects_retire_tick_def by (rule assign_wf) (simp_all add: Bus_wf_def Bus_retire_tick_def)

lemma default_refs [simp]:
  "timer_ref (BusRef_new_default rom ram uart debug) = Static_object"
  "gpio_ref (BusRef_new_default rom ram uart debug) = Static_object"
  "ram_ref (BusRef_new_default rom ram uart debug) = ram"
  "uart_ref (BusRef_new_default rom ram uart debug) = uart"
  "debug_ref (BusRef_new_default rom ram uart debug) = debug"
  by (simp_all add: deref_defs)

text \<open>
  C40: any two buses constructed without a timer and a GPIO block have one timer and one GPIO block between
  them, whatever other objects they refer to: after a write through one of them, the other, at once,
  reads in the timer and GPIO windows what the first reads there, and everywhere else (their RAM,
  UART and debug objects being different) what it read before. So timer CONTROL written through one
  bus is the CONTROL of the other, and an instruction retired on one machine is counted by the timer
  of the other.
\<close>

theorem default_buses_share_devices:
  assumes "Bus_wf (Bus_deref objs (BusRef_new_default rom ram uart debug))"
    and "Bus_wf (Bus_deref objs (BusRef_new_default rom' ram' uart' debug'))"
    and "ram \<noteq> ram'" "uart \<noteq> uart'" "debug \<noteq> debug'"
    and "b = BusRef_new_default rom ram uart debug" and "c = BusRef_new_default rom' ram' uart' debug'"
  shows "(\<exists>r objs'. objects_write32 objs b a v = Inr (r, objs') \<and>
      (\<forall>a'. objects_read32 objs' c a' =
         (case region_of a' of
            Region_Timer i \<Rightarrow> objects_read32 objs' b a'
          | Region_Gpio i \<Rightarrow> objects_read32 objs' b a'
          | _ \<Rightarrow> objects_read32 objs c a')) \<and>
      (a = 0x20000108 \<longrightarrow> objects_read32 objs' c a = Inr (bus_value (if odd v then 1 else 0)))) \<and>
    (let timer = obj_timer objs Static_object in
     objects_read32 (objects_retire_tick objs b) c 0x20000100 =
       Inr (bus_value (timer_counter timer + (if timer_enabled timer then 1 else 0))))"
proof
  have wf: "Bus_wf (Bus_deref objs b)" "Bus_wf (Bus_deref objs c)"
    using assms by simp_all
  have shares: "shares_object b c r \<longleftrightarrow> (\<exists>i. r = Region_Timer i \<or> r = Region_Gpio i)" for r
    using assms(3-7) by (cases r) simp_all
  have refs: "timer_ref b = Static_object" "timer_ref c = Static_object"
    using assms(6,7) by simp_all
  have regions: "region_of 0x20000108 = Region_Timer 2" "region_of 0x20000100 = Region_Timer 0"
    by (simp_all add: region_of_def)
  obtain r objs' where objs': "objects_write32 objs b a v = Inr (r, objs')" "Bus_wf (Bus_deref objs' c)"
      "\<And>a'. objects_read32 objs' c a' = (if shares_object b c (region_of a')
         then objects_read32 objs' b a' else objects_read32 objs c a')"
    using write_seen_by_others [OF wf, of a v] by auto
  have "objects_read32 objs' c a = Inr (bus_value (if odd v then 1 else 0))" if "a = 0x20000108"
    using that objs'(1) control_written [OF wf(1), of v r objs'] refs
    by (simp add: timer_read [OF objs'(2) regions(1)] Timer_registers_def)
  with objs' show "\<exists>r objs'. objects_write32 objs b a v = Inr (r, objs') \<and>
      (\<forall>a'. objects_read32 objs' c a' =
         (case region_of a' of
            Region_Timer i \<Rightarrow> objects_read32 objs' b a'
          | Region_Gpio i \<Rightarrow> objects_read32 objs' b a'
          | _ \<Rightarrow> objects_read32 objs c a')) \<and>
      (a = 0x20000108 \<longrightarrow> objects_read32 objs' c a = Inr (bus_value (if odd v then 1 else 0)))"
    by (intro exI [of _ r] exI [of _ objs']) (simp add: shares split: region.split)
  show "let timer = obj_timer objs Static_object in
     objects_read32 (objects_retire_tick objs b) c 0x20000100 =
       Inr (bus_value (timer_counter timer + (if timer_enabled timer then 1 else 0)))"
    using timer_ticked [of objs b] refs
    by (simp add: timer_read [OF ticked_wf [OF wf] regions(2)] Timer_registers_def Timer_retire_tick_def Let_def)
qed

text \<open>Two default buses on new objects: the timer enabled through one is enabled for the other.\<close>

definition demo_objects :: "unit objects" where
  "demo_objects =
     \<lparr>obj_rom = \<lambda>_. Rom_new, obj_ram = \<lambda>_. Ram_new, obj_uart = \<lambda>_. Uart_new None (),
      obj_debug = \<lambda>_. DebugDevice_new, obj_timer = \<lambda>_. Timer_new, obj_gpio = \<lambda>_. Gpio_new\<rparr>"

lemma default_buses_share_devices_witness:
  "objects_read32 demo_objects (BusRef_new_default 0 1 1 1) 0x20000108 = Inr (bus_value 0) \<and>
   (\<exists>r objs'. objects_write32 demo_objects (BusRef_new_default 0 0 0 0) 0x20000108 1 = Inr (r, objs') \<and>
     objects_read32 objs' (BusRef_new_default 0 1 1 1) 0x20000108 = Inr (bus_value 1))"
proof -
  have wf: "Bus_wf (Bus_deref demo_objects b)" for b
    by (simp add: Bus_deref_def Bus_wf_new demo_objects_def)
  have "region_of 0x20000108 = Region_Timer 2"
    by (simp add: region_of_def)
  from timer_read [OF wf this]
  have "objects_read32 demo_objects (BusRef_new_default 0 1 1 1) 0x20000108 = Inr (bus_value 0)"
    by (simp add: demo_objects_def Timer_registers_def Timer_new_def)
  moreover have "(0 :: nat) \<noteq> 1" by simp
  ultimately show ?thesis
    using default_buses_share_devices [OF wf wf, of 0 1 0 1 0 1] by fastforce
qed

end
