(* ===== verification/Program_Runs.thy ===== *)
theory Program_Runs
  imports Cpu_Safety Isa_Run Encoding
begin

text \<open>
  Sequences of calls of \<^verbatim>\<open>CpuCore::step\<close> and the state the ISA reaches with them, and small concrete
  machines on which the properties are applied.
\<close>

section \<open>Running a CPU\<close>

lemma isa_step_encoded:
  assumes "a_status s = Running" and "sys_fetch (a_sys s) (a_pc s) = Inr (encode i)"
  shows "isa_step s = isa_exec (encode i) i s"
  using assms by (simp add: isa_step_def isa_decode_encode del: encode.simps)

text \<open>The halves of a word put together by LUI and ORI.\<close>

lemma half_words:
  "ucast (drop_bit 16 (push_bit 16 (ucast hi) OR ucast lo :: u32)) = (hi :: imm16)"
  "ucast (push_bit 16 (ucast hi) OR ucast lo :: u32) = (lo :: imm16)"
  by (rule bit_word_eqI; auto simp: bit_simps dest: bit_imp_le_length)+

text \<open>A number of calls of step in a row.\<close>

primrec step_many :: "nat \<Rightarrow> 'h CpuCore \<Rightarrow> 'h CpuCore result option" where
  "step_many 0 cpu = Some (Inr cpu)"
| "step_many (Suc n) cpu =
     (case CpuCore_step cpu of
        None \<Rightarrow> None
      | Some (Inl e) \<Rightarrow> Some (Inl e)
      | Some (Inr (result, cpu')) \<Rightarrow> step_many n cpu')"

lemma step_many_isa:
  assumes "CpuCore_wf cpu" and "at_boundary cpu"
  shows "\<exists>cpu'. step_many n cpu = Some (Inr cpu') \<and> CpuCore_wf cpu' \<and> at_boundary cpu' \<and>
    arch_of cpu' = isa_run n (arch_of cpu)"
  using assms
proof (induction n arbitrary: cpu)
  case (Suc n)
  obtain cpu1 where cpu1: "CpuCore_step cpu = Some (Inr (step_result cpu1, cpu1))" "CpuCore_wf cpu1"
      "at_boundary cpu1" "arch_of cpu1 = isa_step (arch_of cpu)"
    using step_reaches [OF Suc.prems] by blast
  with Suc.IH [OF cpu1(2,3)] show ?case by (auto simp: funpow_swap1)
qed simp

lemma CpuCore_new_boundary:
  "Bus_wf bus \<Longrightarrow> CpuCore_wf (CpuCore_new bus)" "at_boundary (CpuCore_new bus)"
  by (simp_all add: CpuCore_new_def CpuCore_reset_def RegisterFile_reset_wf state_defs)

lemma CpuCore_new_arch: "arch_of (CpuCore_new bus) = isa_reset (sys_of_bus bus)"
  by (simp add: CpuCore_new_def CpuCore_reset_def RegisterFile_reset_wf arch_of_def status_of_def
      isa_reset_def fun_eq_iff)

lemma new_step_many:
  assumes "Bus_wf bus"
  shows "\<exists>cpu'. step_many n (CpuCore_new bus) = Some (Inr cpu') \<and> CpuCore_wf cpu' \<and>
    arch_of cpu' = isa_run n (isa_reset (sys_of_bus bus))"
  using step_many_isa [OF CpuCore_new_boundary(1) [OF assms] CpuCore_new_boundary(2), of n]
  by (auto simp: CpuCore_new_arch)

section \<open>A machine for the witnesses\<close>

text \<open>A freshly reset CPU whose ROM holds one word at address 0 and zeros elsewhere.\<close>

definition demo_bus :: "u32 \<Rightarrow> unit Bus" where
  "demo_bus w =
     Bus_new (Rom_new\<lparr>rom_bytes := bytes_update (rom_bytes Rom_new) 0 w\<rparr>) Ram_new
       (Uart_new None ()) DebugDevice_new Timer_new Gpio_new"

definition demo_cpu :: "u32 \<Rightarrow> unit CpuCore" where
  "demo_cpu w = CpuCore_new (demo_bus w)"

lemma demo_bus_wf [simp]: "Bus_wf (demo_bus w)"
  by (simp add: demo_bus_def Bus_wf_new Rom_wf_def Rom_new_def)

lemma demo_cpu_boundary [simp]: "CpuCore_wf (demo_cpu w)" "at_boundary (demo_cpu w)"
  by (simp_all add: demo_cpu_def CpuCore_new_def CpuCore_reset_def RegisterFile_reset_wf state_defs)

lemma demo_rom_word [simp]: "sys_rom (sys_of_bus (demo_bus w)) 0 = w"
  using bytes_word_update [of "rom_bytes Rom_new" 0 w]
  by (simp add: demo_bus_def Bus_new_def sys_of_bus_def Rom_words_def Rom_new_def Rom_kSizeBytes_def)

lemma demo_cpu_arch [simp]:
  "arch_of (demo_cpu w) =
     \<lparr>a_gpr = \<lambda>_. 0, a_pc = 0, a_sys = sys_of_bus (demo_bus w), a_retired = 0, a_status = Running\<rparr>"
  by (simp add: demo_cpu_def CpuCore_new_def CpuCore_reset_def RegisterFile_reset_wf arch_of_def
      status_of_def fun_eq_iff)

lemma demo_fetch [simp]: "sys_fetch (sys_of_bus (demo_bus w)) 0 = Inr w"
  by (simp add: sys_fetch_def region_of_def)

lemma demo_decode [simp]:
  "isa_decode 0x24200005 = Some (ADDI 1 0 5)"
  "isa_decode 0x5C000000 = Some HALT"
  "isa_decode 0xFFFFFFFF = None"
  by (simp_all add: isa_decode_def field_defs i_type_def)

text \<open>A demo machine whose timer runs, and one about to store 1 to the timer's CONTROL register.\<close>

definition demo_timer_cpu :: "unit CpuCore" where
  "demo_timer_cpu =
     CpuCore_new ((demo_bus 0x24200005)\<lparr>bus_timer := \<lparr>timer_counter = 5, timer_compare = 0, timer_enabled = True\<rparr>\<rparr>)"

definition demo_store_cpu :: "unit CpuCore" where
  "demo_store_cpu =
     (demo_cpu 0x3C410000)\<lparr>cpu_registers := \<lparr>register_array = (replicate 32 0)[1 := 0x20000108, 2 := 1]\<rparr>\<rparr>"

lemma demo_timer_sys:
  "sys_of_bus ((demo_bus w)\<lparr>bus_timer := timer\<rparr>) = (sys_of_bus (demo_bus w))\<lparr>sys_timer := timer\<rparr>"
  by (simp add: sys_of_bus_def)

lemma demo_timer_arch: "arch_of demo_timer_cpu = isa_reset ((sys_of_bus (demo_bus 0x24200005))
    \<lparr>sys_timer := \<lparr>timer_counter = 5, timer_compare = 0, timer_enabled = True\<rparr>\<rparr>)"
  unfolding demo_timer_cpu_def CpuCore_new_arch demo_timer_sys ..

text \<open>Two-word programs: a call whose target, two words on, returns; and the two halves of a constant.\<close>

definition two_word_bus :: "14 word \<Rightarrow> u32 \<Rightarrow> u32 \<Rightarrow> unit Bus" where
  "two_word_bus i w v =
     (demo_bus w)\<lparr>bus_rom := (bus_rom (demo_bus w))\<lparr>rom_bytes := bytes_update (rom_bytes (bus_rom (demo_bus w))) i v\<rparr>\<rparr>"

lemma two_word_bus_wf [simp]: "Bus_wf (two_word_bus i w v)"
  using demo_bus_wf [of w] by (simp add: two_word_bus_def Bus_wf_def Rom_wf_def)

lemma two_word_rom: "sys_rom (sys_of_bus (two_word_bus i w v)) = (sys_rom (sys_of_bus (demo_bus w)))(i := v)"
proof -
  have "length (rom_bytes (bus_rom (demo_bus w))) = 65536"
    using demo_bus_wf [of w] by (simp add: Bus_wf_def Rom_wf_def Rom_kSizeBytes_def)
  then show ?thesis
    by (simp add: two_word_bus_def sys_of_bus_def Rom_words_def bytes_word_update fun_eq_iff)
qed

definition demo_call_cpu :: "unit CpuCore" where
  "demo_call_cpu = CpuCore_new (two_word_bus 2 (encode (JAL 1)) (encode (JR 31)))"

definition demo_constant_cpu :: "unit CpuCore" where
  "demo_constant_cpu = CpuCore_new (two_word_bus 1 (encode (LUI 3 0x2000)) (encode (ORI 3 3 0x0108)))"

lemma demo_call_wf: "CpuCore_wf demo_call_cpu"
  by (simp add: demo_call_cpu_def CpuCore_new_boundary del: encode.simps)

lemma demo_constant_wf: "CpuCore_wf demo_constant_cpu"
  by (simp add: demo_constant_cpu_def CpuCore_new_boundary del: encode.simps)

lemma demo_call_fetch:
  "sys_fetch (sys_of_bus (core_bus demo_call_cpu)) 0 = Inr (encode (JAL 1))"
  "sys_fetch (sys_of_bus (core_bus demo_call_cpu)) 8 = Inr (encode (JR 31))"
  by (simp_all add: demo_call_cpu_def CpuCore_new_def CpuCore_reset_def sys_fetch_def region_of_def
      two_word_rom del: encode.simps)

lemma demo_constant_fetch:
  "sys_fetch (sys_of_bus (core_bus demo_constant_cpu)) 0 = Inr (encode (LUI 3 0x2000))"
  "sys_fetch (sys_of_bus (core_bus demo_constant_cpu)) 4 = Inr (encode (ORI 3 3 0x0108))"
  by (simp_all add: demo_constant_cpu_def CpuCore_new_def CpuCore_reset_def sys_fetch_def region_of_def
      two_word_rom del: encode.simps)

end
