(* ===== verification/Spec2Isabelle.thy ===== *)
theory Spec2Isabelle
  imports Encoding Trace_Reader Shared_Bus Program_Runs
begin

text \<open>
  Mini32 is a small 32-bit computer: a multi-cycle CPU, ROM, RAM and four memory-mapped devices on
  one bus, with a C++ simulator that is the golden reference of the system. This development models
  the whole simulator under \<^verbatim>\<open>src/simulator\<close> and proves that it implements the documented
  instruction set and memory map, that it never fails, and that its two programs report what the
  machine did.

  \<^bold>\<open>The program and its model.\<close> \<^verbatim>\<open>CpuCore\<close> fetches, loads and stores through \<^verbatim>\<open>Bus\<close>, which routes to
  \<^verbatim>\<open>Rom\<close>, \<^verbatim>\<open>Ram\<close>, \<^verbatim>\<open>Uart\<close>, \<^verbatim>\<open>Timer\<close>, \<^verbatim>\<open>Gpio\<close> and \<^verbatim>\<open>DebugDevice\<close>; \<^verbatim>\<open>Decoder\<close>, \<^verbatim>\<open>Alu\<close> and \<^verbatim>\<open>RegisterFile\<close> are
  its datapath; \<^verbatim>\<open>main.cpp\<close> and \<^verbatim>\<open>ref_trace.cpp\<close> load an image and run it. Every struct and class is a
  record, every enum a datatype, \<^verbatim>\<open>std::uintN_t\<close> an N-bit word, every method a definition named
  \<^verbatim>\<open>Class_method\<close> that returns the updated object. A function that can throw, index past an array or
  dereference an empty optional returns an error value; a loop with no evident bound is a partial
  function whose value \<open>None\<close> is non-termination. In both programs one bus owns the objects it refers
  to, and its record holds them; buses that share objects through their references, as all do that
  are constructed without a timer and a GPIO block, are modelled with an explicit store of objects.

  \<^item> \<open>Mini32_Prelude\<close>: words, results, byte order, and the locales \<open>safe_machine\<close> and \<open>stopping_machine\<close>.
  \<^item> \<open>Isa\<close>, \<open>Alu\<close>, \<open>Register_File\<close>, \<open>Decoder\<close>: \<^verbatim>\<open>isa.hpp\<close>, \<^verbatim>\<open>alu.cpp\<close>, \<^verbatim>\<open>register_file.cpp\<close>, \<^verbatim>\<open>decoder.cpp\<close>.
  \<^item> \<open>Memory_Interface\<close> (locale \<open>word_memory\<close>), \<open>Rom\<close>, \<open>Ram\<close>: the memories, each an interpretation of it.
  \<^item> \<open>Mmio\<close> (locale \<open>mmio_device\<close>), \<open>Uart\<close>, \<open>Timer\<close>, \<open>Gpio\<close>, \<open>Debug_Device\<close>: the devices, each an
    interpretation. The UART's callback is an arbitrary function on an arbitrary host state.
  \<^item> \<open>Bus\<close>: \<^verbatim>\<open>bus.cpp\<close>. \<open>Memory_Map\<close>: the map of \<^verbatim>\<open>docs/memory-map.md\<close> as a specification by high address
    bits, and the locale \<open>cpu_bus\<close>, what the CPU relies on, interpreted on the bus. \<open>Shared_Bus\<close>: several
    buses on one store of objects, and the static default devices.
  \<^item> \<open>Instruction_Set\<close>, \<open>Encoding\<close>: the instructions and encodings of \<^verbatim>\<open>docs/isa.md\<close> and the encoders of
    \<^verbatim>\<open>tests/instruction_encoding.hpp\<close>. \<open>Isa_Semantics\<close>: one atomic transition per instruction, the
    abstract specification of the CPU, and the causes of its faults. \<open>Isa_Run\<close>: runs of it, and what
    their stores leave behind.
  \<^item> \<open>Cpu_Core\<close>: \<^verbatim>\<open>cpu_core.cpp\<close>, one definition per control state of \<^verbatim>\<open>tick\<close>, and \<^verbatim>\<open>step\<close>.
    \<open>Cpu_Refinement\<close>: from EXECUTE to retirement by class of control signals, and one step as one
    instruction. \<open>Cpu_Safety\<close>: the invariant of the latches, reachability, the rank of the control
    states.
  \<^item> \<open>Host_Io\<close>: the parts of the standard library the programs use. \<open>Simulator\<close>: \<^verbatim>\<open>main.cpp\<close>.
    \<open>Ref_Trace\<close>: \<^verbatim>\<open>ref_trace.cpp\<close>. \<open>Trace_Reader\<close>: a reader of its JSON lines, written from the format, and
    the records the ISA prescribes. \<open>Program_Runs\<close>: sequences of steps and the concrete machines on which
    the properties are applied.

  \<^bold>\<open>What is shown.\<close> \<^verbatim>\<open>step\<close> refines the instruction set, for one instruction and for whole programs
  (\<open>step_implements_isa\<close>, \<open>program_implements_isa\<close>), in exactly the number of ticks of the multi-cycle
  control, which is the documented one except that JAL takes four; every reachable state, under any
  interleaving of ticks, steps, resets and host actions, is free of exceptions and undefined
  behaviour; faults are precise, and a fault is reported exactly when its cause holds, with the
  instruction and address concerned; ROM is immutable, RAM and the devices hold the program's last
  stores, UART output is the program's bytes in order, the timer counts retired instructions, the
  host is invisible to the guest. Decoder, encoders, ALU, bus,
  memories and register file meet their specifications on all inputs. The simulator and the trace
  generator end on every input with at least a program name (on an empty argument vector both print a
  null pointer), execute the same instructions, and print what the ISA prescribes: the trace reads
  back as the records of the instructions and of the state that the simulator reports. Buses
  without devices of their own share the static ones, live.

  \<^bold>\<open>Bounds.\<close> No fuel is used. \<open>step_loop\<close> and \<open>run_loop\<close> are partial functions proved total on every
  state the programs can produce: by the rank of the control state (at most five ticks) and by the
  instruction limit. \<open>trace_loop\<close> ends by the measure limit minus step. \<^verbatim>\<open>size_t\<close> and
  \<^verbatim>\<open>unsigned long long\<close> are 64 bits wide.

  \<^bold>\<open>Not modelled.\<close> The Windows-only \<^verbatim>\<open>_setmode\<close> call; a UART callback that throws; failures of the
  standard output; the unit tests; the RTL, the FPGA files, the Python assembler and differential
  scripts, which are other programs in other languages.
\<close>

section \<open>The CPU implements the instruction set\<close>

text \<open>
  C1: one call of step from an instruction boundary always returns, and what it does to the registers, the
  program counter, memory and devices, the retirement count and the run status is exactly one
  instruction of the ISA: fetch through the memory map, decode, execute, or the fault the ISA
  prescribes. The CPU is again at an instruction boundary.
\<close>

theorem step_implements_isa:
  assumes "CpuCore_wf cpu" and "at_boundary cpu"
  shows "\<exists>cpu'. CpuCore_step cpu = Some (Inr (step_result cpu', cpu')) \<and>
    CpuCore_wf cpu' \<and> at_boundary cpu' \<and> arch_of cpu' = isa_step (arch_of cpu)"
  using step_reaches [OF assms] by blast

theorem step_implements_isa_witness:
  "\<exists>cpu'. CpuCore_step (demo_cpu 0x24200005) = Some (Inr (step_result cpu', cpu')) \<and>
     CpuCore_wf cpu' \<and> at_boundary cpu' \<and> a_gpr (arch_of cpu') 1 = 5 \<and> a_pc (arch_of cpu') = 4"
  using step_implements_isa [of "demo_cpu 0x24200005"]
  by (auto simp: isa_step_def write_and_retire_def retire_def set_gpr_def)

text \<open>
  C2: whole programs: any number of calls of step on a freshly constructed CPU returns, and leaves exactly the
  state the ISA reaches by that many instructions from reset (program counter 0, all registers
  zero, nothing retired) on the memory and devices of the bus.
\<close>

theorem program_implements_isa:
  assumes "Bus_wf bus"
  shows "\<exists>cpu'. step_many n (CpuCore_new bus) = Some (Inr cpu') \<and>
    arch_of cpu' = isa_run n (isa_reset (sys_of_bus bus))"
  using new_step_many [OF assms] by blast

theorem program_implements_isa_witness:
  "\<exists>cpu'. step_many 2 (demo_cpu 0x5C000000) = Some (Inr cpu') \<and> a_status (arch_of cpu') = Halted \<and>
     a_retired (arch_of cpu') = 1"
  using program_implements_isa [OF demo_bus_wf, of 2 "0x5C000000"]
  by (auto simp: demo_cpu_def isa_reset_def numeral_2_eq_2 isa_step_def retire_def)

section \<open>Safety and termination\<close>

text \<open>
  C3: in every state that a CPU on a well-formed bus can reach by any interleaving of tick, step and reset, with
  a host that changes memory and devices at will in between, both tick and step return normally:
  no register index is out of range, no array is accessed past its end, no empty optional is
  dereferenced, and the loop of step ends.
\<close>

theorem reachable_never_fails:
  assumes "Bus_wf bus" and "cpu_reachable bus cpu"
  shows "(\<exists>cpu'. CpuCore_tick cpu = Inr cpu') \<and> (\<exists>result cpu'. CpuCore_step cpu = Some (Inr (result, cpu')))"
  using tick_keeps_inv [OF reachable_inv [OF assms(2,1)]] step_keeps_inv [OF reachable_inv [OF assms(2,1)]]
  by blast

theorem reachable_never_fails_witness:
  "cpu_reachable (demo_bus 0) (CpuCore_reset (demo_cpu 0)) \<and>
   (\<exists>cpu'. CpuCore_tick (CpuCore_reset (demo_cpu 0)) = Inr cpu')"
proof -
  have "cpu_reachable (demo_bus 0) (CpuCore_reset (demo_cpu 0))"
    unfolding demo_cpu_def by (intro cpu_reachable.reset cpu_reachable.new)
  then show ?thesis
    using reachable_never_fails [OF demo_bus_wf] by blast
qed

text \<open>
  C9: step takes exactly the number of ticks of the multi-cycle control for the instruction at the program
  counter: one for a failed fetch, two for an undecodable word, three for a branch, J and JR, five
  for a load that succeeds, four otherwise (JAL, HALT, stores and faulting loads and stores
  included), and none when the CPU has stopped; never more than five. After that many ticks the CPU
  has halted, faulted or retired one more instruction, and after any smaller number it has not.
\<close>

theorem step_tick_count:
  assumes "CpuCore_wf cpu" and "at_boundary cpu"
  shows "\<exists>result cpu'. CpuCore_step cpu = Some (Inr (result, cpu')) \<and>
    iterateE CpuCore_tick (isa_cycles (arch_of cpu)) cpu = Inr cpu' \<and>
    (CpuCore_halted cpu' \<or> CpuCore_faulted cpu' \<or> retired_instructions cpu' \<noteq> retired_instructions cpu) \<and>
    (\<forall>k < isa_cycles (arch_of cpu). \<exists>c. iterateE CpuCore_tick k cpu = Inr c \<and>
       \<not> CpuCore_halted c \<and> \<not> CpuCore_faulted c \<and> retired_instructions c = retired_instructions cpu) \<and>
    isa_cycles (arch_of cpu) \<le> 5"
proof -
  have "instr_cycles i s \<le> 5" for i and s :: "'a arch"
    by (cases i) (simp_all split: sum.split)
  then have "isa_cycles (arch_of cpu) \<le> 5"
    by (simp add: isa_cycles_def split: sum.split option.split)
  with step_reaches [OF assms] show ?thesis
    unfolding still_running_def step_stops_def de_Morgan_disj not_not by blast
qed

theorem step_tick_count_witness:
  "\<exists>cpu' c. CpuCore_step (demo_cpu 0x5C000000) = Some (Inr (StepResult_Halted, cpu')) \<and>
    iterateE CpuCore_tick 4 (demo_cpu 0x5C000000) = Inr cpu' \<and>
    iterateE CpuCore_tick 3 (demo_cpu 0x5C000000) = Inr c \<and> \<not> CpuCore_halted c"
proof -
  have four: "isa_cycles (arch_of (demo_cpu 0x5C000000)) = 4"
    by (simp add: isa_cycles_def)
  obtain cpu' where c: "CpuCore_step (demo_cpu 0x5C000000) = Some (Inr (step_result cpu', cpu'))"
      "a_status (arch_of cpu') = Halted"
    using step_reaches [OF demo_cpu_boundary, of "0x5C000000"] by (auto simp: isa_step_def)
  then have "step_result cpu' = StepResult_Halted"
    by (simp add: status_of_boundary(2) step_result_def CpuCore_halted_def CpuCore_faulted_def)
  note halts = c(1) [unfolded this]
  obtain result cpu'' where t: "CpuCore_step (demo_cpu 0x5C000000) = Some (Inr (result, cpu''))"
      "iterateE CpuCore_tick 4 (demo_cpu 0x5C000000) = Inr cpu''"
      "\<forall>k < 4. \<exists>c. iterateE CpuCore_tick k (demo_cpu 0x5C000000) = Inr c \<and> \<not> CpuCore_halted c"
    using step_tick_count [OF demo_cpu_boundary, of "0x5C000000"] unfolding four by blast
  have "(3 :: nat) < 4" by simp
  with t(3) obtain c where "iterateE CpuCore_tick 3 (demo_cpu 0x5C000000) = Inr c" "\<not> CpuCore_halted c"
    by blast
  moreover have "cpu'' = cpu'"
    using halts t(1) by (simp only: option.inject sum.inject prod.inject)
  ultimately show ?thesis
    using halts t(2) by blast
qed

text \<open>
  C10: step ends within five ticks from every reachable state, also when it is called in the middle of an
  instruction: after at most as many ticks as the current control state still allows, the CPU has
  halted, faulted or retired an instruction.
\<close>

theorem step_loop_bounded:
  assumes "Bus_wf bus" and "cpu_reachable bus cpu"
  shows "\<exists>n \<le> microstate_rank (microstate cpu). \<exists>cpu'. iterateE CpuCore_tick n cpu = Inr cpu' \<and>
    (CpuCore_halted cpu' \<or> CpuCore_faulted cpu' \<or> retired_instructions cpu' \<noteq> retired_instructions cpu) \<and>
    microstate_rank (microstate cpu) \<le> 5"
proof -
  have "microstate_rank (microstate cpu) \<le> 5"
    by (cases "microstate cpu") simp_all
  with step_machine.loop_ends [OF reachable_inv [OF assms(2,1)], of "retired_instructions cpu"]
  show ?thesis by (auto simp: step_stops_def)
qed

theorem step_loop_bounded_witness:
  "\<exists>n \<le> 5. \<exists>cpu'. iterateE CpuCore_tick n (demo_cpu 0) = Inr cpu' \<and>
    (CpuCore_halted cpu' \<or> CpuCore_faulted cpu' \<or>
     retired_instructions cpu' \<noteq> retired_instructions (demo_cpu 0))"
proof -
  have r: "cpu_reachable (demo_bus 0) (demo_cpu 0)"
    unfolding demo_cpu_def by (rule cpu_reachable.new)
  have "microstate (demo_cpu 0) = Microstate_Fetch"
    by (simp add: demo_cpu_def CpuCore_new_def CpuCore_reset_def)
  then show ?thesis
    using step_loop_bounded [OF demo_bus_wf r] by auto
qed

section \<open>Faults and stopping\<close>

text \<open>
  C14: faults are precise: when step reports a fault, no register, no memory word, no device (the timer
  included), not the program counter and not the retirement count has changed; the only effect is
  the fault report.
\<close>

theorem faults_are_precise:
  assumes "CpuCore_wf cpu" and "microstate cpu = Microstate_Fetch"
    and "CpuCore_step cpu = Some (Inr (StepResult_Faulted, cpu'))"
  shows "arch_of cpu' = (arch_of cpu)\<lparr>a_status := Faulted (fault_info cpu')\<rparr>"
proof -
  have "at_boundary cpu" and run: "a_status (arch_of cpu) = Running"
    using assms(2) by (simp_all add: at_boundary_def arch_of_def status_of_def)
  then have arch: "arch_of cpu' = isa_step (arch_of cpu)" and res: "step_result cpu' = StepResult_Faulted"
    using step_reaches [OF assms(1)] assms(3) by auto
  have st: "a_status (arch_of cpu') = Faulted (fault_info cpu')"
    using res by (auto simp: step_result_def arch_of_def status_of_def CpuCore_faulted_def CpuCore_halted_def
        split: if_splits)
  with isa_step_cases [OF run] show ?thesis
    unfolding arch [symmetric] by (auto simp: faults_def retires_def)
qed

theorem faults_are_precise_witness:
  "\<exists>cpu'. CpuCore_step (demo_cpu 0xFFFFFFFF) = Some (Inr (StepResult_Faulted, cpu')) \<and>
     arch_of cpu' = (arch_of (demo_cpu 0xFFFFFFFF))\<lparr>a_status := Faulted (fault_info cpu')\<rparr>"
proof -
  have m: "microstate (demo_cpu 0xFFFFFFFF) = Microstate_Fetch"
    by (simp add: demo_cpu_def CpuCore_new_def CpuCore_reset_def)
  obtain cpu' where c: "CpuCore_step (demo_cpu 0xFFFFFFFF) = Some (Inr (step_result cpu', cpu'))"
      "arch_of cpu' = isa_step (arch_of (demo_cpu 0xFFFFFFFF))"
    using step_reaches [OF demo_cpu_boundary] by blast
  have "CpuCore_faulted cpu'"
    using c(2) status_of_boundary(3) [of cpu'] by (simp add: isa_step_def raise_fault_def)
  with c(1) have "CpuCore_step (demo_cpu 0xFFFFFFFF) = Some (Inr (StepResult_Faulted, cpu'))"
    by (simp add: step_result_def)
  with faults_are_precise [OF demo_cpu_boundary(1) m] show ?thesis by blast
qed

text \<open>
  C15: the fault report is true. In every reachable state it is empty unless the CPU has faulted, and then it has a
  cause other than None and UnsupportedInstruction, the program counter, the latched instruction
  word, and an effective address exactly for the load and store faults. And when step executes the
  instruction at the program counter, the CPU ends up faulted with a report if and only if that
  report is the one whose cause holds: the program counter is misaligned, unmapped or outside ROM
  (reported without a word); the word there has an unallocated opcode, or an allocated one and no
  decoding; it is a load or store, with its base register and immediate giving the reported address,
  and that address is misaligned, unmapped, or for a store in ROM.
\<close>

theorem fault_report_correct:
  assumes "Bus_wf bus" and "cpu_reachable bus cpu"
  shows "(if CpuCore_faulted cpu
    then fault_code (fault_info cpu) \<notin> {CpuFault_None, CpuFault_UnsupportedInstruction} \<and>
      fault_pc (fault_info cpu) = cpu_pc cpu \<and>
      fault_instruction (fault_info cpu) = instruction_register cpu \<and>
      (fault_data_address (fault_info cpu) \<noteq> None \<longleftrightarrow> data_fault (fault_code (fault_info cpu)))
    else fault_info cpu = FaultInfo_default) \<and>
    (microstate cpu = Microstate_Fetch \<longrightarrow>
      (\<exists>result cpu'. CpuCore_step cpu = Some (Inr (result, cpu')) \<and>
        (\<forall>report. CpuCore_faulted cpu' \<and> fault_info cpu' = report \<longleftrightarrow> fault_cause (arch_of cpu) report)))"
proof (intro conjI impI)
  have inv: "CpuCore_inv cpu"
    using assms(2,1) by (rule reachable_inv)
  then show "if CpuCore_faulted cpu
    then fault_code (fault_info cpu) \<notin> {CpuFault_None, CpuFault_UnsupportedInstruction} \<and>
      fault_pc (fault_info cpu) = cpu_pc cpu \<and>
      fault_instruction (fault_info cpu) = instruction_register cpu \<and>
      (fault_data_address (fault_info cpu) \<noteq> None \<longleftrightarrow> data_fault (fault_code (fault_info cpu)))
    else fault_info cpu = FaultInfo_default"
    unfolding CpuCore_inv_def fault_reported_def Let_def by (elim conjE)
  assume "microstate cpu = Microstate_Fetch"
  with inv show "\<exists>result cpu'. CpuCore_step cpu = Some (Inr (result, cpu')) \<and>
        (\<forall>report. CpuCore_faulted cpu' \<and> fault_info cpu' = report \<longleftrightarrow> fault_cause (arch_of cpu) report)"
    unfolding CpuCore_inv_def by (intro step_fault_cause) (elim conjE)
qed

text \<open>A load from the misaligned address 2.\<close>

theorem fault_report_correct_witness:
  "\<exists>result cpu'. CpuCore_step (demo_cpu 0x38200002) = Some (Inr (result, cpu')) \<and> CpuCore_faulted cpu' \<and>
     fault_info cpu' = \<lparr>fault_code = CpuFault_MisalignedLoad, fault_pc = 0,
       fault_instruction = 0x38200002, fault_data_address = Some 2\<rparr>"
proof -
  have r: "cpu_reachable (demo_bus 0x38200002) (demo_cpu 0x38200002)"
    unfolding demo_cpu_def by (rule cpu_reachable.new)
  have m: "microstate (demo_cpu 0x38200002) = Microstate_Fetch"
    by (simp add: demo_cpu_def CpuCore_new_def CpuCore_reset_def)
  have "isa_decode 0x38200002 = Some (LW 1 0 2)"
    by (simp add: isa_decode_def field_defs i_type_def)
  then have "loads_from (arch_of (demo_cpu 0x38200002)) 0x38200002 2"
    by (simp add: loads_from_def program_word_def region_of_def)
  moreover have "region_of 2 = Region_Misaligned"
    by (simp add: region_of_def)
  ultimately have "fault_cause (arch_of (demo_cpu 0x38200002)) (fault_at (arch_of (demo_cpu 0x38200002))
      CpuFault_MisalignedLoad 0x38200002 (Some 2))"
    by (rule fault_cause.misaligned_load)
  moreover obtain result cpu' where "CpuCore_step (demo_cpu 0x38200002) = Some (Inr (result, cpu'))"
      "\<And>report. fault_cause (arch_of (demo_cpu 0x38200002)) report \<Longrightarrow>
        CpuCore_faulted cpu' \<and> fault_info cpu' = report"
    using fault_report_correct [OF demo_bus_wf r] m by blast
  ultimately show ?thesis
    unfolding fault_at_def by fastforce
qed

text \<open>
  C16: halting and faulting are final: however often a stopped CPU is ticked or stepped, nothing of it changes,
  and step keeps reporting the same result.
\<close>

theorem stopped_is_final:
  assumes "CpuCore_halted cpu \<or> CpuCore_faulted cpu"
  shows "iterateE CpuCore_tick n cpu = Inr cpu \<and>
    CpuCore_step cpu = Some (Inr (if CpuCore_halted cpu then StepResult_Halted else StepResult_Faulted, cpu))"
proof -
  have "CpuCore_tick cpu = Inr cpu"
    using assms by (auto simp: CpuCore_tick_def CpuCore_halted_def CpuCore_faulted_def)
  then have "iterateE CpuCore_tick n cpu = Inr cpu"
    by (induction n) simp_all
  with assms show ?thesis by (auto simp: CpuCore_step_def)
qed

theorem stopped_is_final_witness:
  "iterateE CpuCore_tick 9 ((demo_cpu 0)\<lparr>microstate := Microstate_Halted\<rparr>) =
     Inr ((demo_cpu 0)\<lparr>microstate := Microstate_Halted\<rparr>)"
  using stopped_is_final [of "(demo_cpu 0)\<lparr>microstate := Microstate_Halted\<rparr>" 9]
  by (simp add: CpuCore_halted_def)

text \<open>
  C17: reset brings a CPU from any reachable state back to exactly the state of a new CPU on the same bus; memory
  and devices keep their contents.
\<close>

theorem reset_is_new:
  assumes "Bus_wf bus" and "cpu_reachable bus cpu"
  shows "CpuCore_reset cpu = CpuCore_new (core_bus cpu)"
proof -
  have "RegisterFile_wf (cpu_registers cpu)"
    using reachable_inv [OF assms(2,1)] by (simp add: CpuCore_inv_def CpuCore_wf_def)
  then show ?thesis
    by (cases cpu) (simp add: CpuCore_new_def CpuCore_reset_def RegisterFile_reset_wf)
qed

theorem reset_is_new_witness:
  "CpuCore_reset (CpuCore_reset (demo_cpu 0)) = CpuCore_new (core_bus (CpuCore_reset (demo_cpu 0)))"
proof -
  have "cpu_reachable (demo_bus 0) (CpuCore_reset (demo_cpu 0))"
    unfolding demo_cpu_def by (intro cpu_reachable.reset cpu_reachable.new)
  then show ?thesis
    by (rule reset_is_new [OF demo_bus_wf])
qed

section \<open>Memory and devices over whole programs\<close>

text \<open>
  C18: the program cannot be changed by the guest: no number of ticks, from any state whatever, alters a byte of
  the ROM.
\<close>

theorem program_immutable:
  assumes "iterateE CpuCore_tick n cpu = Inr cpu'"
  shows "bus_rom (core_bus cpu') = bus_rom (core_bus cpu)"
  using assms by (rule ticks_rom)

theorem program_immutable_witness:
  "\<exists>cpu'. iterateE CpuCore_tick 3 (demo_cpu 7) = Inr cpu' \<and>
     bus_rom (core_bus cpu') = bus_rom (core_bus (demo_cpu 7))"
proof -
  have "CpuCore_inv (demo_cpu 7)"
    unfolding demo_cpu_def by (rule CpuCore_new_inv) simp
  then obtain cpu' where "iterateE CpuCore_tick 3 (demo_cpu 7) = Inr cpu'"
    using step_machine.iterate_safe by blast
  with program_immutable show ?thesis by blast
qed

text \<open>
  C19: RAM after any number of instructions holds, in every word, the value of the last store the program
  executed to it, or its initial value: loads, branches, faulting stores and all device accesses
  leave it alone.
\<close>

theorem ram_holds_last_store:
  assumes "Bus_wf bus"
  shows "\<exists>cpu'. step_many n (CpuCore_new bus) = Some (Inr cpu') \<and>
    Ram_words (bus_ram (core_bus cpu')) =
      foldl ram_store (Ram_words (bus_ram bus)) (isa_stores n (isa_reset (sys_of_bus bus)))"
proof -
  obtain cpu' where cpu': "step_many n (CpuCore_new bus) = Some (Inr cpu')"
      "arch_of cpu' = isa_run n (isa_reset (sys_of_bus bus))"
    using new_step_many [OF assms] by blast
  have "sys_ram (a_sys (arch_of cpu')) =
      foldl ram_store (Ram_words (bus_ram bus)) (isa_stores n (isa_reset (sys_of_bus bus)))"
    unfolding cpu'(2) isa_run_ram by (simp add: isa_reset_def sys_of_bus_def)
  with cpu'(1) show ?thesis
    by (auto simp: arch_of_simps sys_of_bus_def)
qed

theorem ram_holds_last_store_witness:
  "\<exists>cpu'. step_many 3 (CpuCore_new (demo_bus 0)) = Some (Inr cpu') \<and>
    Ram_words (bus_ram (core_bus cpu')) = foldl ram_store (Ram_words (bus_ram (demo_bus 0)))
      (isa_stores 3 (isa_reset (sys_of_bus (demo_bus 0))))"
  by (rule ram_holds_last_store [OF demo_bus_wf])

text \<open>
  C20: what the simulator prints is what the guest sent. The run executes n instructions, until the program
  halts or faults or has retired as many as the limit allows (every state before is running, and the
  last one is running only at the limit), and the standard output is the list of the low bytes of
  the values those n instructions stored to the UART DATA register, each exactly once and in program
  order.
\<close>

theorem uart_output_in_order:
  assumes "length img \<le> Rom_kSizeBytes"
  shows "\<exists>n \<le> unat limit. \<exists>r. run_image limit img = Some (Inr r) \<and> runs_for n (isa_boot img) \<and>
    (a_status (isa_run n (isa_boot img)) = Running \<longrightarrow> n = unat limit) \<and>
    out_bytes r = concat (map transmitted (isa_stores n (isa_boot img)))"
proof -
  obtain n where n: "n \<le> unat limit" "runs_for n (isa_boot img)"
      "a_status (isa_run n (isa_boot img)) = Running \<longrightarrow> n = unat limit"
      "run_image limit img = Some (Inr (isa_outcome (isa_run n (isa_boot img))))"
    using run_image_spec [OF assms] by blast
  have "out_bytes (isa_outcome (isa_run n (isa_boot img))) =
      concat (map transmitted (isa_stores n (isa_boot img)))"
    using boot_uart [of n img] by (simp add: Let_def split: status.split)
  with n show ?thesis by blast
qed

text \<open>The program of four instructions that prints the byte 0x41.\<close>

theorem uart_output_in_order_witness:
  "\<exists>r. run_image 9 hello_image = Some (Inr r) \<and> out_bytes r = [0x41]"
proof -
  have "length hello_image \<le> Rom_kSizeBytes"
    by (simp add: hello_image_def Rom_kSizeBytes_def)
  from uart_output_in_order [OF this, of 9]
  obtain n r where n: "run_image 9 hello_image = Some (Inr r)" "runs_for n (isa_boot hello_image)"
      "a_status (isa_run n (isa_boot hello_image)) = Running \<longrightarrow> n = 9"
      "out_bytes r = concat (map transmitted (isa_stores n (isa_boot hello_image)))"
    by auto
  then have "n = 4"
    using hello_image_stops by blast
  with n hello_image_stores show ?thesis by simp
qed

text \<open>
  C21: the timer counts retired instructions, not clock ticks: over any run of n instructions that retire, none of
  which stores to the timer, an enabled counter advances by exactly n (modulo 2^32) and a disabled
  timer keeps its value; compare value and enable bit stay.
\<close>

theorem timer_counts_instructions:
  assumes "CpuCore_wf cpu" and "at_boundary cpu" and "runs_for n (arch_of cpu)"
    and "step_many n cpu = Some (Inr cpu')" and "\<not> CpuCore_faulted cpu'"
    and "list_all (Not \<circ> stores_to_timer) (isa_stores n (arch_of cpu))"
  shows "bus_timer (core_bus cpu') =
    (let timer = bus_timer (core_bus cpu) in
     if timer_enabled timer then timer\<lparr>timer_counter := timer_counter timer + of_nat n\<rparr> else timer)"
proof -
  have arch: "arch_of cpu' = isa_run n (arch_of cpu)"
    using step_many_isa [OF assms(1,2), of n] assms(4) by auto
  then have "a_status (isa_run n (arch_of cpu)) \<noteq> Faulted f" for f
    using status_of_boundary(3) [of cpu'] assms(5) by metis
  then have "sys_timer (a_sys (arch_of cpu')) = (Timer_retire_tick ^^ n) (sys_timer (a_sys (arch_of cpu)))"
    using isa_run_timer [OF assms(3) _ assms(6)] arch by simp
  then show ?thesis
    by (simp add: arch_of_simps sys_of_bus_def Timer_retire_ticks Let_def)
qed

theorem timer_counts_instructions_witness:
  "\<exists>cpu'. step_many 1 demo_timer_cpu = Some (Inr cpu') \<and> timer_counter (bus_timer (core_bus cpu')) = 6"
proof -
  have "Bus_wf ((demo_bus w)\<lparr>bus_timer := timer\<rparr>)" for w timer
    using demo_bus_wf [of w] by (simp add: Bus_wf_def)
  then have wf: "CpuCore_wf demo_timer_cpu" "at_boundary demo_timer_cpu"
    by (simp_all add: demo_timer_cpu_def CpuCore_new_boundary)
  let ?s = "arch_of demo_timer_cpu"
  have fetch: "sys_fetch (a_sys ?s) (a_pc ?s) = Inr 0x24200005" "a_status ?s = Running"
    using demo_fetch [of "0x24200005"]
    by (simp_all add: demo_timer_arch isa_reset_def sys_fetch_def region_of_def)
  then have no_store: "isa_store ?s = None" and run: "runs_for 1 ?s"
    by (simp_all add: isa_store_def runs_for_def)
  have status: "a_status (isa_step ?s) = Running"
    using fetch by (simp add: isa_step_def write_and_retire_def retire_def)
  obtain cpu' where cpu': "step_many 1 demo_timer_cpu = Some (Inr cpu')" "arch_of cpu' = isa_run 1 ?s"
    using step_many_isa [OF wf, of 1] by blast
  have "\<not> CpuCore_faulted cpu'"
    using status_of_boundary(1) [of cpu'] status cpu'(2) by simp
  then have "timer_counter (bus_timer (core_bus cpu')) = 6"
    using timer_counts_instructions [OF wf run cpu'(1)] no_store
    by (simp add: isa_stores_def demo_timer_cpu_def CpuCore_new_def CpuCore_reset_def)
  with cpu'(1) show ?thesis by blast
qed

text \<open>
  C22: the instruction that enables the timer is itself counted: a store of 1 to CONTROL leaves the timer
  enabled and the counter already one higher.
\<close>

theorem timer_tick_after_enable:
  assumes "CpuCore_wf cpu" and "microstate cpu = Microstate_Fetch"
    and "isa_store (arch_of cpu) = Some (Region_Timer 2, 1)"
  shows "\<exists>result cpu'. CpuCore_step cpu = Some (Inr (result, cpu')) \<and>
    bus_timer (core_bus cpu') =
      (bus_timer (core_bus cpu))\<lparr>timer_enabled := True,
         timer_counter := timer_counter (bus_timer (core_bus cpu)) + 1\<rparr>"
proof -
  have b: "at_boundary cpu" and run: "a_status (arch_of cpu) = Running"
    using assms(2) by (simp_all add: at_boundary_def arch_of_def status_of_def)
  obtain cpu' where cpu': "CpuCore_step cpu = Some (Inr (step_result cpu', cpu'))"
      "arch_of cpu' = isa_step (arch_of cpu)"
    using step_reaches [OF assms(1) b] by blast
  have "a_retired (isa_step (arch_of cpu)) \<noteq> a_retired (arch_of cpu)"
    using faulting_no_store [of "arch_of cpu"] assms(3) by auto
  then have "a_sys (arch_of cpu') = sys_tick (store_effect (Some (Region_Timer 2, 1)) (a_sys (arch_of cpu)))"
    using isa_step_sys [OF run] assms(3) cpu'(2) by simp
  then have "bus_timer (core_bus cpu') =
      (bus_timer (core_bus cpu))\<lparr>timer_enabled := True,
         timer_counter := timer_counter (bus_timer (core_bus cpu)) + 1\<rparr>"
    by (simp add: arch_of_simps sys_of_bus_def store_effect_def sys_tick_def Timer_store_def
        Timer_retire_tick_def)
  with cpu'(1) show ?thesis by blast
qed

theorem timer_tick_after_enable_witness:
  "\<exists>result cpu'. CpuCore_step demo_store_cpu = Some (Inr (result, cpu')) \<and>
     bus_timer (core_bus cpu') = \<lparr>timer_counter = 1, timer_compare = 0, timer_enabled = True\<rparr>"
proof -
  have wf: "CpuCore_wf demo_store_cpu"
    using demo_cpu_boundary(1) by (simp add: demo_store_cpu_def CpuCore_wf_def RegisterFile_wf_def)
  have m: "microstate demo_store_cpu = Microstate_Fetch"
    by (simp add: demo_store_cpu_def demo_cpu_def CpuCore_new_def CpuCore_reset_def)
  have arch: "a_gpr (arch_of demo_store_cpu) 1 = 0x20000108" "a_gpr (arch_of demo_store_cpu) 2 = 1"
      "a_pc (arch_of demo_store_cpu) = 0" "a_status (arch_of demo_store_cpu) = Running"
      "a_sys (arch_of demo_store_cpu) = sys_of_bus (demo_bus 0x3C410000)"
    by (simp_all add: demo_store_cpu_def demo_cpu_def CpuCore_new_def CpuCore_reset_def arch_of_def
        status_of_def gpr_def)
  have decode: "isa_decode 0x3C410000 = Some (SW 2 1 0)"
    by (simp add: isa_decode_def field_defs i_type_def)
  have "isa_store (arch_of demo_store_cpu) = Some (Region_Timer 2, 1)"
    by (simp add: isa_store_def arch decode sys_write_def region_of_def)
  then show ?thesis
    using timer_tick_after_enable [OF wf m]
    by (simp add: demo_store_cpu_def demo_cpu_def CpuCore_new_def CpuCore_reset_def demo_bus_def
        Bus_new_def Timer_new_def)
qed

text \<open>
  C34: the GPIO latches and the debug value hold the program's last store to them, and no program can change the
  GPIO input pins.
\<close>

theorem devices_hold_last_store:
  assumes "Bus_wf bus"
  shows "\<exists>cpu'. step_many n (CpuCore_new bus) = Some (Inr cpu') \<and>
    bus_gpio (core_bus cpu') = foldl gpio_effect (bus_gpio bus) (isa_stores n (isa_reset (sys_of_bus bus))) \<and>
    gpio_input (bus_gpio (core_bus cpu')) = gpio_input (bus_gpio bus) \<and>
    bus_debug (core_bus cpu') = foldl debug_effect (bus_debug bus) (isa_stores n (isa_reset (sys_of_bus bus)))"
proof -
  let ?s = "isa_reset (sys_of_bus bus)"
  obtain cpu' where cpu': "step_many n (CpuCore_new bus) = Some (Inr cpu')" "arch_of cpu' = isa_run n ?s"
    using new_step_many [OF assms] by blast
  have "sys_gpio (a_sys (arch_of cpu')) = foldl gpio_effect (bus_gpio bus) (isa_stores n ?s)"
    "sys_debug (a_sys (arch_of cpu')) = foldl debug_effect (bus_debug bus) (isa_stores n ?s)"
    unfolding cpu'(2) isa_run_gpio isa_run_debug by (simp_all add: isa_reset_def sys_of_bus_def)
  with cpu'(1) show ?thesis
    by (auto simp: arch_of_simps sys_of_bus_def gpio_input_effect)
qed

theorem devices_hold_last_store_witness:
  "\<exists>cpu'. step_many 2 (CpuCore_new (demo_bus 0)) = Some (Inr cpu') \<and>
     gpio_input (bus_gpio (core_bus cpu')) = gpio_input (bus_gpio (demo_bus 0))"
  using devices_hold_last_store [OF demo_bus_wf, of 2 0] by blast

text \<open>
  C35: the host cannot influence the guest through the UART: two machines that differ only in the UART callback and
  the host's state go, step by step, through states with the same registers, program counter, memory,
  devices, retirement count and status.
\<close>

theorem uart_host_invisible:
  assumes "Bus_wf bus" and "Bus_wf bus2" and "sys_erase (sys_of_bus bus) = sys_erase (sys_of_bus bus2)"
  shows "\<exists>cpu cpu2. step_many n (CpuCore_new bus) = Some (Inr cpu) \<and>
    step_many n (CpuCore_new bus2) = Some (Inr cpu2) \<and> arch_erase (arch_of cpu) = arch_erase (arch_of cpu2)"
proof -
  have "arch_erase (isa_reset (sys_of_bus bus)) = arch_erase (isa_reset (sys_of_bus bus2))"
    using assms(3) by (simp add: isa_reset_def arch_erase_def)
  then have "arch_erase (isa_run n (isa_reset (sys_of_bus bus))) =
      arch_erase (isa_run n (isa_reset (sys_of_bus bus2)))"
    by (metis isa_run_erase)
  with new_step_many [OF assms(1), of n] new_step_many [OF assms(2), of n] show ?thesis by metis
qed

theorem uart_host_invisible_witness:
  "\<exists>cpu cpu2. step_many 4 (CpuCore_new (demo_bus 0)) = Some (Inr cpu) \<and>
    step_many 4 (CpuCore_new ((demo_bus 0)\<lparr>bus_uart := Uart_new (Some (\<lambda>byte host. ())) ()\<rparr>)) = Some (Inr cpu2) \<and>
    arch_erase (arch_of cpu) = arch_erase (arch_of cpu2)"
proof (rule uart_host_invisible)
  show "Bus_wf ((demo_bus 0)\<lparr>bus_uart := Uart_new (Some (\<lambda>byte host. ())) ()\<rparr>)"
    using demo_bus_wf [of 0] by (simp add: Bus_wf_def)
qed (simp_all add: sys_erase_def sys_of_bus_def)

text \<open>
  C36: a call returns: JAL followed, at its target, by JR r31 continues at the instruction after the call, with its
  address in r31 and no other register changed.
\<close>

theorem call_returns:
  assumes "CpuCore_wf cpu" and "microstate cpu = Microstate_Fetch"
    and "sys_fetch (sys_of_bus (core_bus cpu)) (cpu_pc cpu) = Inr (encode (JAL imm))"
    and "sys_fetch (sys_of_bus (core_bus cpu)) (cpu_pc cpu + 4 + scast imm * 4) = Inr (encode (JR 31))"
  shows "\<exists>cpu'. step_many 2 cpu = Some (Inr cpu') \<and> cpu_pc cpu' = cpu_pc cpu + 4 \<and>
    gpr (cpu_registers cpu') = (gpr (cpu_registers cpu))(31 := cpu_pc cpu + 4)"
proof -
  have "at_boundary cpu" and run: "a_status (arch_of cpu) = Running"
    using assms(2) by (simp_all add: at_boundary_def arch_of_def status_of_def)
  then obtain cpu' where cpu': "step_many 2 cpu = Some (Inr cpu')" "arch_of cpu' = isa_run 2 (arch_of cpu)"
    using step_many_isa [OF assms(1), of 2] by blast
  let ?s = "isa_exec (encode (JAL imm)) (JAL imm) (arch_of cpu)"
  have "isa_step (arch_of cpu) = ?s"
    by (rule isa_step_encoded [OF run]) (simp only: arch_of_simps assms(3))
  moreover have "isa_step ?s = isa_exec (encode (JR 31)) (JR 31) ?s"
    by (rule isa_step_encoded)
      (use run assms(4) in \<open>simp_all add: retire_def arch_of_simps del: encode.simps\<close>)
  ultimately have "arch_of cpu' = isa_exec (encode (JR 31)) (JR 31) ?s"
    unfolding cpu'(2) isa_run_2 by (simp only:)
  then have "a_pc (arch_of cpu') = a_pc (arch_of cpu) + 4"
    "a_gpr (arch_of cpu') = (a_gpr (arch_of cpu))(31 := a_pc (arch_of cpu) + 4)"
    by (simp_all add: retire_def set_gpr_def del: encode.simps)
  with cpu'(1) show ?thesis by (auto simp: arch_of_simps)
qed

theorem call_returns_witness:
  "\<exists>cpu'. step_many 2 demo_call_cpu = Some (Inr cpu') \<and> cpu_pc cpu' = 4 \<and>
     gpr (cpu_registers cpu') = (gpr (cpu_registers demo_call_cpu))(31 := 4)"
proof -
  have m: "microstate demo_call_cpu = Microstate_Fetch" and pc: "cpu_pc demo_call_cpu = 0"
    by (simp_all add: demo_call_cpu_def CpuCore_new_def CpuCore_reset_def)
  show ?thesis
    using call_returns [OF demo_call_wf m, of 1] demo_call_fetch unfolding pc by (simp del: encode.simps)
qed

text \<open>
  C37: a full 32-bit constant, such as a device address, is formed by LUI and ORI: the two instructions leave the
  upper and the lower immediate in the halves of the destination register, whatever it held before.
\<close>

theorem constant_idiom:
  assumes "CpuCore_wf cpu" and "microstate cpu = Microstate_Fetch" and "rd \<noteq> 0"
    and "sys_fetch (sys_of_bus (core_bus cpu)) (cpu_pc cpu) = Inr (encode (LUI rd hi))"
    and "sys_fetch (sys_of_bus (core_bus cpu)) (cpu_pc cpu + 4) = Inr (encode (ORI rd rd lo))"
  shows "\<exists>cpu' v. step_many 2 cpu = Some (Inr cpu') \<and> RegisterFile_read (cpu_registers cpu') (ucast rd) = Inr v \<and>
    ucast (drop_bit 16 v) = hi \<and> ucast v = lo"
proof -
  have "at_boundary cpu" and run: "a_status (arch_of cpu) = Running"
    using assms(2) by (simp_all add: at_boundary_def arch_of_def status_of_def)
  then obtain cpu' where cpu': "step_many 2 cpu = Some (Inr cpu')" "CpuCore_wf cpu'"
      "arch_of cpu' = isa_run 2 (arch_of cpu)"
    using step_many_isa [OF assms(1), of 2] by blast
  let ?s = "isa_exec (encode (LUI rd hi)) (LUI rd hi) (arch_of cpu)"
  have "isa_step (arch_of cpu) = ?s"
    by (rule isa_step_encoded [OF run]) (simp only: arch_of_simps assms(4))
  moreover have "isa_step ?s = isa_exec (encode (ORI rd rd lo)) (ORI rd rd lo) ?s"
    by (rule isa_step_encoded)
      (use run assms(5) in \<open>simp_all add: write_and_retire_def retire_def arch_of_simps del: encode.simps\<close>)
  ultimately have "arch_of cpu' = isa_exec (encode (ORI rd rd lo)) (ORI rd rd lo) ?s"
    unfolding cpu'(3) isa_run_2 by (simp only:)
  then have "a_gpr (arch_of cpu') rd = push_bit 16 (ucast hi) OR ucast lo"
    using assms(3) by (simp add: write_and_retire_def retire_def set_gpr_def del: encode.simps)
  then have "RegisterFile_read (cpu_registers cpu') (ucast rd) = Inr (push_bit 16 (ucast hi) OR ucast lo)"
    using cpu'(2) by (simp add: arch_of_simps CpuCore_wf_def)
  with cpu'(1) half_words show ?thesis by blast
qed

theorem constant_idiom_witness:
  "\<exists>cpu' v. step_many 2 demo_constant_cpu = Some (Inr cpu') \<and>
     RegisterFile_read (cpu_registers cpu') (ucast (3 :: reg)) = Inr v \<and>
     ucast (drop_bit 16 v) = (0x2000 :: imm16) \<and> ucast v = (0x0108 :: imm16)"
proof -
  have m: "microstate demo_constant_cpu = Microstate_Fetch" and pc: "cpu_pc demo_constant_cpu = 0"
    by (simp_all add: demo_constant_cpu_def CpuCore_new_def CpuCore_reset_def)
  show ?thesis
    using constant_idiom [OF demo_constant_wf m, of 3 "0x2000" "0x0108"] demo_constant_fetch unfolding pc
    by (simp del: encode.simps)
qed

section \<open>Components\<close>

text \<open>
  C24: an instruction changes at most one general register: after a step, all registers but one read as before.
\<close>

theorem step_changes_one_register:
  assumes "CpuCore_wf cpu" and "at_boundary cpu" and "CpuCore_step cpu = Some (Inr (result, cpu'))"
  shows "\<exists>d. \<forall>r. r \<noteq> d \<longrightarrow>
    RegisterFile_read (cpu_registers cpu') (ucast r) = RegisterFile_read (cpu_registers cpu) (ucast (r :: reg))"
proof -
  have arch: "arch_of cpu' = isa_step (arch_of cpu)" and wf: "CpuCore_wf cpu'"
    using step_reaches [OF assms(1,2)] assms(3) by auto
  have "\<exists>d. \<forall>r. r \<noteq> d \<longrightarrow> a_gpr (arch_of cpu') r = a_gpr (arch_of cpu) r"
  proof (cases "a_status (arch_of cpu) = Running")
    case True
    from isa_step_cases [OF this] show ?thesis
      unfolding arch
    proof
      assume "faults (arch_of cpu) (isa_step (arch_of cpu))"
      then show "\<exists>d. \<forall>r. r \<noteq> d \<longrightarrow> a_gpr (isa_step (arch_of cpu)) r = a_gpr (arch_of cpu) r"
        by (auto simp: faults_def)
    next
      assume "retires (arch_of cpu) (isa_step (arch_of cpu))"
      then show "\<exists>d. \<forall>r. r \<noteq> d \<longrightarrow> a_gpr (isa_step (arch_of cpu)) r = a_gpr (arch_of cpu) r"
        unfolding retires_def by (metis option.inject)
    qed
  qed (simp add: arch isa_step_stopped)
  with wf assms(1) show ?thesis
    by (simp add: CpuCore_wf_def arch_of_simps)
qed

theorem step_changes_one_register_witness:
  "\<exists>cpu'. CpuCore_step (demo_cpu 0x24200005) = Some (Inr (step_result cpu', cpu')) \<and>
    (\<exists>d. \<forall>r. r \<noteq> d \<longrightarrow> RegisterFile_read (cpu_registers cpu') (ucast r) =
       RegisterFile_read (cpu_registers (demo_cpu 0x24200005)) (ucast (r :: reg)))"
  using step_reaches [OF demo_cpu_boundary, of "0x24200005"]
    step_changes_one_register [OF demo_cpu_boundary] by blast

text \<open>
  C8: the bus implements the memory map for every 32-bit address: a read, a fetch and a write give exactly the
  data, the fault or the new state that the map's regions prescribe; a refused write changes
  nothing, and no access runs into undefined behaviour.
\<close>

theorem bus_implements_memory_map:
  assumes "Bus_wf bus"
  shows "Bus_read32 bus a = Inr (read_result (sys_read (sys_of_bus bus) a)) \<and>
    Bus_fetch32 bus a = Inr (read_result (sys_fetch (sys_of_bus bus) a)) \<and>
    (case sys_write (sys_of_bus bus) a v of
       Inl f \<Rightarrow> Bus_write32 bus a v = Inr (\<lparr>bus_write_fault = f\<rparr>, bus)
     | Inr sys' \<Rightarrow> \<exists>bus'. Bus_write32 bus a v = Inr (\<lparr>bus_write_fault = BusFault_None\<rparr>, bus') \<and>
         Bus_wf bus' \<and> sys_of_bus bus' = sys')"
  using system_bus.read_spec [OF assms] system_bus.fetch_spec [OF assms]
    system_bus.write_fails [OF assms, of a v] system_bus.write_succeeds [OF assms, of a v]
  by (auto split: sum.split)

theorem bus_implements_memory_map_witness:
  "Bus_read32 (demo_bus 0xCAFE) 0 = Inr (bus_value 0xCAFE) \<and>
   Bus_fetch32 (demo_bus 0xCAFE) 2 = Inr (bus_read_failure BusFault_Misaligned) \<and>
   Bus_write32 (demo_bus 0xCAFE) 0 1 = Inr (\<lparr>bus_write_fault = BusFault_ReadOnly\<rparr>, demo_bus 0xCAFE)"
  using bus_implements_memory_map [OF demo_bus_wf, of "0xCAFE" 0 1]
    bus_implements_memory_map [OF demo_bus_wf, of "0xCAFE" 2 1]
  by (simp add: sys_read_def sys_fetch_def sys_write_def region_of_def)

text \<open>
  C25: a store to a RAM address is read back through the bus, and no other address reads differently: the access
  never reaches a neighbouring word, the ROM or a device.
\<close>

theorem ram_store_is_local:
  assumes "Bus_wf bus" and "region_of a = Region_Ram i"
  shows "\<exists>bus'. Bus_write32 bus a v = Inr (\<lparr>bus_write_fault = BusFault_None\<rparr>, bus') \<and>
    (\<forall>a'. Bus_read32 bus' a' =
       (if region_of a' = Region_Ram i then Inr (bus_value v) else Bus_read32 bus a'))"
  using system_bus.ram_read_after_write [OF assms] by blast

theorem ram_store_is_local_witness:
  "\<exists>bus'. Bus_write32 (demo_bus 0) 0x10000008 77 = Inr (\<lparr>bus_write_fault = BusFault_None\<rparr>, bus') \<and>
     Bus_read32 bus' 0x10000008 = Inr (bus_value 77) \<and> Bus_read32 bus' 0x1000000C = Bus_read32 (demo_bus 0) 0x1000000C"
  using ram_store_is_local [OF demo_bus_wf, of "0x10000008" 2 0 77]
  by (auto simp: region_of_def)

text \<open>
  C27: loading an image: an image of at most 65536 bytes is accepted at address 0 and every instruction fetch then
  returns the little-endian word of the image at that address, zero past its end; a longer image is
  refused with out_of_range.
\<close>

theorem rom_image_fetched:
  "if length img \<le> 65536
   then \<exists>rom. Rom_load_bytes Rom_new 0 img = Inr rom \<and>
     Bus_fetch32 (Bus_new rom Ram_new uart debug timer gpio) (word_address Rom_kBaseAddress i) =
       Inr (bus_value (image_words img i))
   else Rom_load_bytes Rom_new 0 img =
     Inl (Throw_out_of_range ''ROM image does not fit in the Mini32 ROM region'')"
proof (cases "length img \<le> 65536")
  case True
  let ?rom = "Rom_new\<lparr>rom_bytes := img @ drop (length img) (rom_bytes Rom_new)\<rparr>"
  have load: "Rom_load_bytes Rom_new 0 img = Inr ?rom"
    using True by (intro Rom_load_bytes_ok) (simp_all add: Rom_kSizeBytes_def)
  then have "Rom_wf ?rom"
    by (rule Rom_load_bytes_wf [OF Rom_wf_new])
  then have "Bus_wf (Bus_new ?rom Ram_new uart debug timer gpio)"
    by (simp add: Bus_wf_new)
  moreover have "Rom_words ?rom = image_words img"
    using True Rom_words_loaded [of img]
    by (simp add: Rom_words_def Rom_new_def Rom_kSizeBytes_def fun_eq_iff)
  moreover have "region_of (word_address Rom_kBaseAddress i) = Region_Rom i"
    by (rule region_of_rom)
  ultimately show ?thesis
    using True load by (simp add: Bus_fetch32_sys sys_fetch_def sys_of_bus_def Bus_new_def)
next
  case False
  then show ?thesis
    by (simp add: Rom_load_bytes_def Rom_kSizeBytes_def)
qed

text \<open>
  C28: the register file: r0 reads zero whatever is written to it, every other register reads the value last
  written, and an index of 32 or more is refused with out_of_range by both operations.
\<close>

theorem register_file_contract:
  assumes "RegisterFile_wf rf"
  shows "(if index < 32
     then \<exists>rf'. RegisterFile_write rf index v = Inr rf' \<and> RegisterFile_wf rf' \<and>
       RegisterFile_read rf' 0 = Inr 0 \<and>
       RegisterFile_read rf' index = Inr (if index = 0 then 0 else v) \<and>
       (other \<noteq> index \<longrightarrow> RegisterFile_read rf' other = RegisterFile_read rf other)
     else RegisterFile_write rf index v =
         Inl (Throw_out_of_range ''Mini32 register index is outside r0-r31'') \<and>
       RegisterFile_read rf index =
         Inl (Throw_out_of_range ''Mini32 register index is outside r0-r31''))"
  using assms
  by (auto simp: RegisterFile_write_def RegisterFile_read_def RegisterFile_validate_index_def
      RegisterFile_wf_def kRegisterCount_def word_less_nat_alt word_le_nat_alt word_unat_eq_iff
      nth_list_update array_get_def)

theorem register_file_contract_witness:
  "\<exists>rf'. RegisterFile_write RegisterFile_new 31 9 = Inr rf' \<and> RegisterFile_read rf' 31 = Inr 9"
  using register_file_contract [of RegisterFile_new 31 9 0]
  by (auto simp: RegisterFile_wf_def RegisterFile_new_def kRegisterCount_def)

end
